(* ===== verification/NT_Prelude.thy ===== *)
theory NT_Prelude
  imports Complex_Main
begin

text \<open>
  Shared vocabulary of the development: results of operations that may throw, insertion-ordered
  objects (the \<open>Record<string, T>\<close> and \<open>Map\<close> of the TypeScript sources), and the generic lemmas
  on them that every component uses.  A throwing operation returns \<open>Inl error\<close>, a successful one
  \<open>Inr value\<close>; a mutating operation takes and returns its state.
\<close>

section \<open>Fact collections\<close>

named_theorems lifecycle_tables "edge lists and transition tables of the state machines"
named_theorems decision_defs "guard cascades of the decision procedures"
named_theorems address_defs "address predicates of the network components"
named_theorems store_defs "the store operations of the gatekeeper"

section \<open>Results\<close>

type_synonym ('e, 'a) result = "'e + 'a"

fun bind_result :: "('e, 'a) result \<Rightarrow> ('a \<Rightarrow> ('e, 'b) result) \<Rightarrow> ('e, 'b) result" where
  "bind_result (Inl e) f = Inl e"
| "bind_result (Inr a) f = f a"

lemma bind_result_Inr_iff [simp]:
  "bind_result r f = Inr b \<longleftrightarrow> (\<exists>a. r = Inr a \<and> f a = Inr b)"
  by (cases r) auto

lemma bind_result_Inl_iff [simp]:
  "bind_result r f = Inl e \<longleftrightarrow> r = Inl e \<or> (\<exists>a. r = Inr a \<and> f a = Inl e)"
  by (cases r) auto

text \<open>\<open>for (const x of xs) \<dots> throw\<close>: the first error a check reports, in list order.\<close>

fun first_error :: "('a \<Rightarrow> 'e option) \<Rightarrow> 'a list \<Rightarrow> 'e option" where
  "first_error f [] = None"
| "first_error f (x # xs) = (case f x of Some e \<Rightarrow> Some e | None \<Rightarrow> first_error f xs)"

lemma first_error_None_iff [simp]: "first_error f xs = None \<longleftrightarrow> (\<forall>x\<in>set xs. f x = None)"
  by (induction xs) (auto split: option.splits)

lemma first_error_SomeD:
  assumes "first_error f xs = Some e"
  obtains ys x zs where "xs = ys @ x # zs" and "f x = Some e" and "\<forall>y\<in>set ys. f y = None"
proof -
  from assms have "\<exists>ys x zs. xs = ys @ x # zs \<and> f x = Some e \<and> (\<forall>y\<in>set ys. f y = None)"
  proof (induction xs)
    case Nil
    then show ?case by simp
  next
    case (Cons a xs)
    show ?case
    proof (cases "f a")
      case None
      with Cons obtain ys x zs
        where "xs = ys @ x # zs" "f x = Some e" "\<forall>y\<in>set ys. f y = None" by auto
      with None have "a # xs = (a # ys) @ x # zs \<and> f x = Some e \<and> (\<forall>y\<in>set (a # ys). f y = None)"
        by simp
      then show ?thesis by blast
    next
      case (Some e')
      with Cons.prems show ?thesis by (intro exI[of _ "[]"]) auto
    qed
  qed
  with that show thesis by blast
qed

section \<open>Insertion-ordered objects\<close>

text \<open>
  A JavaScript \<open>Map\<close> (and an object's own string-keyed properties) keeps its keys in insertion
  order and overwrites in place: \<open>obj_set\<close> is \<open>m.set(k, v)\<close>, \<open>obj_delete\<close> is \<open>m.delete(k)\<close>,
  \<open>map_of\<close> is \<open>m.get(k)\<close>.
\<close>

fun obj_set :: "'k \<Rightarrow> 'v \<Rightarrow> ('k \<times> 'v) list \<Rightarrow> ('k \<times> 'v) list" where
  "obj_set k v [] = [(k, v)]"
| "obj_set k v ((k', v') # m) = (if k' = k then (k, v) # m else (k', v') # obj_set k v m)"

definition obj_delete :: "'k \<Rightarrow> ('k \<times> 'v) list \<Rightarrow> ('k \<times> 'v) list" where
  "obj_delete k m = filter (\<lambda>p. fst p \<noteq> k) m"

lemma map_of_obj_set [simp]: "map_of (obj_set k v m) = (map_of m)(k \<mapsto> v)"
  by (induction m) (auto simp: fun_eq_iff)

lemma map_of_obj_delete [simp]: "map_of (obj_delete k m) = (map_of m)(k := None)"
  by (induction m) (auto simp: obj_delete_def fun_eq_iff)

lemma set_keys_obj_set [simp]: "fst ` set (obj_set k v m) = insert k (fst ` set m)"
proof (induction m)
  case Nil
  then show ?case by simp
next
  case (Cons p m)
  then show ?case by (cases p) (simp add: insert_commute)
qed

lemma distinct_keys_obj_set [simp]:
  "distinct (map fst m) \<Longrightarrow> distinct (map fst (obj_set k v m))"
proof (induction m)
  case Nil
  then show ?case by simp
next
  case (Cons p m)
  then show ?case using set_keys_obj_set[of k v m] by (cases p) auto
qed

lemma distinct_keys_obj_delete [simp]:
  "distinct (map fst m) \<Longrightarrow> distinct (map fst (obj_delete k m))"
  by (induction m) (auto simp: obj_delete_def)

section \<open>Lists\<close>

text \<open>\<open>[...new Set(xs)]\<close>: the first occurrence of each element, in order.\<close>

definition js_set :: "'a list \<Rightarrow> 'a list" where
  "js_set xs = rev (remdups (rev xs))"

lemma set_js_set [simp]: "set (js_set xs) = set xs"
  by (simp add: js_set_def)

lemma distinct_js_set [simp]: "distinct (js_set xs)"
  by (simp add: js_set_def)

lemma find_first:
  assumes "distinct (map f xs)" and "x \<in> set xs"
  shows "find (\<lambda>y. f y = f x) xs = Some x"
  using assms
proof (induction xs)
  case Nil
  then show ?case by simp
next
  case (Cons a xs)
  then show ?case by (metis (mono_tags, lifting) distinct.simps(2) find.simps(2)
        image_eqI list.set_map list.simps(9) set_ConsD)
qed

lemma find_SomeD: "find P xs = Some x \<Longrightarrow> x \<in> set xs \<and> P x"
  by (induction xs) (auto split: if_splits)

lemma find_unique:
  assumes "x \<in> set xs" and "P x" and "\<And>y. y \<in> set xs \<Longrightarrow> P y \<Longrightarrow> y = x"
  shows "find P xs = Some x"
proof (cases "find P xs")
  case None
  with assms(1,2) show ?thesis by (simp add: find_None_iff)
next
  case (Some y)
  then have "y \<in> set xs" and "P y" by (auto simp: find_Some_iff)
  with assms(3) Some show ?thesis by blast
qed

lemma sum_list_indicator: "(\<Sum>x\<leftarrow>xs. if x = a then 1 else (0::int)) = int (count_list xs a)"
  by (induction xs) auto

lemma set_map_filter_iff: "y \<in> set (List.map_filter f xs) \<longleftrightarrow> (\<exists>x\<in>set xs. f x = Some y)"
  by (induction xs) (auto split: option.splits)

end
