(* ===== verification/Transition_Tables.thy ===== *)
theory Transition_Tables
  imports NT_Prelude
begin

text \<open>
  The transition-table engine of \<open>packages/shared/src/transitions.ts\<close>: edges, tables,
  \<open>IllegalTransition\<close>, \<open>transition\<close> and \<open>canTransition\<close>, together with the interfaces
  (\<open>lifecycle\<close> and its extensions) under which the individual machines are studied in
  \<open>Lifecycles\<close>.  The side conditions of the interfaces are executable, so each
  machine's table discharges them by evaluation.
\<close>

section \<open>Tables and the transition function\<close>

record ('s, 'e) state_transition =
  edge_from :: 's
  edge_event :: 'e
  edge_to :: 's

record ('s, 'e) transition_table =
  machine :: string
  edges :: "('s, 'e) state_transition list"

abbreviation edge :: "'s \<Rightarrow> 'e \<Rightarrow> 's \<Rightarrow> ('s, 'e) state_transition" where
  "edge s e t \<equiv> \<lparr>edge_from = s, edge_event = e, edge_to = t\<rparr>"

text \<open>The error carries the machine's name, the state and the event.\<close>

datatype ('s, 'e) illegal_transition = IllegalTransition string 's 'e

definition transition ::
  "('s, 'e) transition_table \<Rightarrow> 's \<Rightarrow> 'e \<Rightarrow> (('s, 'e) illegal_transition, 's) result" where
  "transition table s e =
     (case find (\<lambda>c. edge_from c = s \<and> edge_event c = e) (edges table) of
        None \<Rightarrow> Inl (IllegalTransition (machine table) s e)
      | Some c \<Rightarrow> Inr (edge_to c))"

definition canTransition :: "('s, 'e) transition_table \<Rightarrow> 's \<Rightarrow> 'e \<Rightarrow> bool" where
  "canTransition table s e =
     list_ex (\<lambda>c. edge_from c = s \<and> edge_event c = e) (edges table)"

text \<open>A history applies its events in order and stops at the first illegal one.\<close>

fun run_history ::
  "('s, 'e) transition_table \<Rightarrow> 's \<Rightarrow> 'e list \<Rightarrow> (('s, 'e) illegal_transition, 's) result" where
  "run_history table s [] = Inr s"
| "run_history table s (e # es) =
     bind_result (transition table s e) (\<lambda>s'. run_history table s' es)"

lemma canTransition_iff_edge:
  "canTransition table s e \<longleftrightarrow> (\<exists>t. edge s e t \<in> set (edges table))"
  unfolding canTransition_def list_ex_iff
  by (metis (full_types) old.unit.exhaust state_transition.surjective state_transition.select_convs(1,2))

lemma transition_Inr_edge:
  assumes "transition table s e = Inr t"
  shows "edge s e t \<in> set (edges table)"
proof -
  from assms obtain c
    where c: "find (\<lambda>c. edge_from c = s \<and> edge_event c = e) (edges table) = Some c" "edge_to c = t"
    by (auto simp: transition_def split: option.splits)
  then have "c \<in> set (edges table)" "edge_from c = s" "edge_event c = e"
    by (auto simp: find_Some_iff)
  with c(2) show ?thesis by (cases c) auto
qed

lemma transition_Inl_iff:
  "transition table s e = Inl x \<longleftrightarrow>
     x = IllegalTransition (machine table) s e \<and> \<not> canTransition table s e"
  unfolding transition_def canTransition_def list_ex_iff
  by (auto split: option.splits simp: find_None_iff find_Some_iff)

lemma canTransition_iff_transition:
  "canTransition table s e \<longleftrightarrow> (\<exists>t. transition table s e = Inr t)"
  by (metis sum.exhaust transition_Inl_iff Inr_Inl_False)

lemma run_history_append:
  "run_history table s (es @ fs) =
     bind_result (run_history table s es) (\<lambda>t. run_history table t fs)"
proof (induction es arbitrary: s)
  case Nil
  then show ?case by simp
next
  case (Cons e es)
  then show ?case by (cases "transition table s e") auto
qed

section \<open>Interfaces\<close>

definition edge_key :: "('s, 'e) state_transition \<Rightarrow> 's \<times> 'e" where
  "edge_key c = (edge_from c, edge_event c)"

text \<open>
  What every machine promises: at most one edge per state and event, and no edge out of a state
  it declares final.
\<close>

locale lifecycle =
  fixes table :: "('s, 'e) transition_table"
    and final :: "'s \<Rightarrow> bool"
  assumes keys_distinct: "distinct (map edge_key (edges table))"
    and final_edges: "list_all (\<lambda>c. \<not> final (edge_from c)) (edges table)"
begin

lemma transition_iff_edge: "transition table s e = Inr t \<longleftrightarrow> edge s e t \<in> set (edges table)"
proof
  assume "edge s e t \<in> set (edges table)"
  from find_first[OF keys_distinct this] have
    "find (\<lambda>c. edge_from c = s \<and> edge_event c = e) (edges table) = Some (edge s e t)"
    by (simp add: edge_key_def)
  then show "transition table s e = Inr t" by (simp add: transition_def)
qed (rule transition_Inr_edge)

lemma final_stuck: "final s \<Longrightarrow> transition table s e = Inl (IllegalTransition (machine table) s e)"
  using final_edges
  by (force simp: transition_Inl_iff canTransition_iff_edge list_all_iff)

lemma final_history: "final s \<Longrightarrow> run_history table s es = Inr t \<Longrightarrow> es = [] \<and> t = s"
  by (cases es) (auto simp: final_stuck)

end

text \<open>A machine without cycles: a rank that every edge lowers bounds every history.\<close>

locale ranked_lifecycle = lifecycle +
  fixes rank :: "'s \<Rightarrow> nat"
  assumes rank_decreases: "list_all (\<lambda>c. rank (edge_to c) < rank (edge_from c)) (edges table)"
begin

lemma history_bounded: "run_history table s es = Inr t \<Longrightarrow> length es + rank t \<le> rank s"
proof (induction es arbitrary: s)
  case Nil
  then show ?case by simp
next
  case (Cons e es)
  then obtain u where u: "transition table s e = Inr u" "run_history table u es = Inr t"
    by auto
  from rank_decreases u(1) have "rank u < rank s"
    by (auto simp: list_all_iff dest!: transition_Inr_edge)
  with Cons.IH[OF u(2)] show ?case by simp
qed

end

text \<open>A region that is left only on one of the gate events.\<close>

locale gated_lifecycle = lifecycle +
  fixes inside :: "'s \<Rightarrow> bool"
    and gate :: "'e \<Rightarrow> bool"
  assumes exits_gated:
    "list_all (\<lambda>c. inside (edge_from c) \<and> \<not> inside (edge_to c) \<longrightarrow> gate (edge_event c)) (edges table)"
begin

lemma leaves_through_gate:
  "run_history table s es = Inr t \<Longrightarrow> inside s \<Longrightarrow> \<not> inside t \<Longrightarrow> \<exists>e\<in>set es. gate e"
proof (induction es arbitrary: s)
  case Nil
  then show ?case by simp
next
  case (Cons e es)
  then obtain u where u: "transition table s e = Inr u" "run_history table u es = Inr t"
    by auto
  show ?case
  proof (cases "inside u")
    case True
    with Cons.IH[OF u(2)] Cons.prems show ?thesis by auto
  next
    case False
    with exits_gated u(1) Cons.prems(2) show ?thesis
      by (auto simp: list_all_iff dest!: transition_Inr_edge)
  qed
qed

end

text \<open>A potential that grows at least as fast as the weighted count of the events.\<close>

locale metered_lifecycle = lifecycle +
  fixes weight :: "'e \<Rightarrow> int"
    and potential :: "'s \<Rightarrow> int"
  assumes metered:
    "list_all (\<lambda>c. potential (edge_from c) + weight (edge_event c) \<le> potential (edge_to c)) (edges table)"
begin

lemma weighted_count: "run_history table s es = Inr t \<Longrightarrow> (\<Sum>e\<leftarrow>es. weight e) \<le> potential t - potential s"
proof (induction es arbitrary: s)
  case Nil
  then show ?case by simp
next
  case (Cons e es)
  then obtain u where u: "transition table s e = Inr u" "run_history table u es = Inr t"
    by auto
  from metered u(1) have "potential s + weight e \<le> potential u"
    by (auto simp: list_all_iff dest!: transition_Inr_edge)
  with Cons.IH[OF u(2)] show ?case by simp
qed

end

end
