(* ===== verification/Lifecycles.thy ===== *)
theory Lifecycles
  imports Transition_Tables
begin

text \<open>
  The state machines of \<open>packages/shared/src/transitions.ts\<close> over the status vocabularies of
  \<open>packages/shared/src/enums.ts\<close>: one status type, one event type, one edge list and one
  transition table per machine, in the source's order.  A status or event keeps the source's
  spelling behind its machine's prefix, because several machines share words such as
  \<open>running\<close> or \<open>failed\<close>.  Every table interprets \<open>lifecycle\<close>, the acyclic ones
  \<open>ranked_lifecycle\<close>, and the approval, goal and step machines the gated and metered
  interfaces their guarantees rest on.
\<close>

section \<open>The machines\<close>

subsection \<open>FactLifecycle\<close>

datatype fact_lifecycle_status =
    Fact_recorded | Fact_superseded | Fact_invalidated

datatype fact_lifecycle_event =
    FactE_supersede | FactE_invalidate

definition FACT_LIFECYCLE_EDGES :: "(fact_lifecycle_status, fact_lifecycle_event) state_transition list" where
  "FACT_LIFECYCLE_EDGES =
     [edge Fact_recorded FactE_supersede Fact_superseded,
      edge Fact_recorded FactE_invalidate Fact_invalidated]"

definition FACT_LIFECYCLE_TRANSITIONS :: "(fact_lifecycle_status, fact_lifecycle_event) transition_table" where
  "FACT_LIFECYCLE_TRANSITIONS = \<lparr>machine = ''FactLifecycle'', edges = FACT_LIFECYCLE_EDGES\<rparr>"

subsection \<open>EpistemicPromotion\<close>

datatype epistemic_status =
    Epi_observed | Epi_extracted | Epi_inferred | Epi_asserted | Epi_verified
    | Epi_contradicted

datatype epistemic_event =
    EpiE_verify | EpiE_contradict

definition EPISTEMIC_SOURCES_FOR_VERIFY :: "epistemic_status list" where
  "EPISTEMIC_SOURCES_FOR_VERIFY = [Epi_observed, Epi_extracted, Epi_inferred, Epi_asserted]"

definition EPISTEMIC_SOURCES_FOR_CONTRADICT :: "epistemic_status list" where
  "EPISTEMIC_SOURCES_FOR_CONTRADICT =
     [Epi_observed, Epi_extracted, Epi_inferred, Epi_asserted, Epi_verified]"

definition EPISTEMIC_PROMOTION_EDGES ::
  "(epistemic_status, epistemic_event) state_transition list" where
  "EPISTEMIC_PROMOTION_EDGES =
     map (\<lambda>s. edge s EpiE_verify Epi_verified) EPISTEMIC_SOURCES_FOR_VERIFY
     @ map (\<lambda>s. edge s EpiE_contradict Epi_contradicted) EPISTEMIC_SOURCES_FOR_CONTRADICT"

definition EPISTEMIC_PROMOTION_TRANSITIONS :: "(epistemic_status, epistemic_event) transition_table" where
  "EPISTEMIC_PROMOTION_TRANSITIONS = \<lparr>machine = ''EpistemicPromotion'', edges = EPISTEMIC_PROMOTION_EDGES\<rparr>"

subsection \<open>Conflict\<close>

datatype conflict_status =
    Conf_open | Conf_resolved | Conf_accepted_both | Conf_dismissed

datatype conflict_event =
    ConfE_resolve | ConfE_accept_both | ConfE_dismiss

definition CONFLICT_EDGES :: "(conflict_status, conflict_event) state_transition list" where
  "CONFLICT_EDGES =
     [edge Conf_open ConfE_resolve Conf_resolved,
      edge Conf_open ConfE_accept_both Conf_accepted_both,
      edge Conf_open ConfE_dismiss Conf_dismissed]"

definition CONFLICT_TRANSITIONS :: "(conflict_status, conflict_event) transition_table" where
  "CONFLICT_TRANSITIONS = \<lparr>machine = ''Conflict'', edges = CONFLICT_EDGES\<rparr>"

subsection \<open>Decision\<close>

datatype decision_status =
    Dec_proposed | Dec_approved | Dec_rejected | Dec_executed | Dec_verified | Dec_failed
    | Dec_superseded | Dec_archived

datatype decision_event =
    DecE_approve | DecE_reject | DecE_execute | DecE_verify | DecE_fail | DecE_supersede
    | DecE_archive

definition DECISION_EDGES :: "(decision_status, decision_event) state_transition list" where
  "DECISION_EDGES =
     [edge Dec_proposed DecE_approve Dec_approved,
      edge Dec_proposed DecE_reject Dec_rejected,
      edge Dec_approved DecE_execute Dec_executed,
      edge Dec_executed DecE_verify Dec_verified,
      edge Dec_executed DecE_fail Dec_failed,
      edge Dec_verified DecE_supersede Dec_superseded,
      edge Dec_verified DecE_archive Dec_archived,
      edge Dec_failed DecE_supersede Dec_superseded,
      edge Dec_failed DecE_archive Dec_archived]"

definition DECISION_TRANSITIONS :: "(decision_status, decision_event) transition_table" where
  "DECISION_TRANSITIONS = \<lparr>machine = ''Decision'', edges = DECISION_EDGES\<rparr>"

subsection \<open>ActionRequest\<close>

datatype action_request_status =
    AR_proposed | AR_policy_evaluated | AR_auto_approved | AR_pending_approval | AR_approved
    | AR_rejected | AR_expired | AR_denied | AR_executing | AR_executed | AR_failed
    | AR_verified | AR_compensated | AR_withdrawn

datatype action_request_event =
    ARE_evaluate_policy | ARE_auto_approve | ARE_require_approval | ARE_deny | ARE_approve
    | ARE_reject | ARE_expire | ARE_start_execution | ARE_complete | ARE_fail | ARE_verify
    | ARE_compensate | ARE_withdraw

definition ACTION_REQUEST_EDGES :: "(action_request_status, action_request_event) state_transition list" where
  "ACTION_REQUEST_EDGES =
     [edge AR_proposed ARE_evaluate_policy AR_policy_evaluated,
      edge AR_policy_evaluated ARE_auto_approve AR_auto_approved,
      edge AR_policy_evaluated ARE_require_approval AR_pending_approval,
      edge AR_policy_evaluated ARE_deny AR_denied,
      edge AR_pending_approval ARE_approve AR_approved,
      edge AR_pending_approval ARE_reject AR_rejected,
      edge AR_pending_approval ARE_expire AR_expired,
      edge AR_auto_approved ARE_start_execution AR_executing,
      edge AR_approved ARE_start_execution AR_executing,
      edge AR_executing ARE_complete AR_executed,
      edge AR_executing ARE_fail AR_failed,
      edge AR_executed ARE_verify AR_verified,
      edge AR_failed ARE_compensate AR_compensated,
      edge AR_pending_approval ARE_withdraw AR_withdrawn,
      edge AR_approved ARE_withdraw AR_withdrawn,
      edge AR_auto_approved ARE_withdraw AR_withdrawn]"

definition ACTION_REQUEST_TRANSITIONS :: "(action_request_status, action_request_event) transition_table" where
  "ACTION_REQUEST_TRANSITIONS = \<lparr>machine = ''ActionRequest'', edges = ACTION_REQUEST_EDGES\<rparr>"

subsection \<open>Task\<close>

datatype task_status =
    Task_created | Task_queued | Task_running | Task_waiting_approval | Task_completed
    | Task_failed | Task_cancelled

datatype task_event =
    TaskE_queue | TaskE_start | TaskE_await_approval | TaskE_resume | TaskE_complete
    | TaskE_fail | TaskE_cancel

definition TASK_EDGES :: "(task_status, task_event) state_transition list" where
  "TASK_EDGES =
     [edge Task_created TaskE_queue Task_queued,
      edge Task_queued TaskE_start Task_running,
      edge Task_running TaskE_await_approval Task_waiting_approval,
      edge Task_waiting_approval TaskE_resume Task_running,
      edge Task_running TaskE_complete Task_completed,
      edge Task_running TaskE_fail Task_failed,
      edge Task_running TaskE_cancel Task_cancelled,
      edge Task_waiting_approval TaskE_fail Task_failed]"

definition TASK_TRANSITIONS :: "(task_status, task_event) transition_table" where
  "TASK_TRANSITIONS = \<lparr>machine = ''Task'', edges = TASK_EDGES\<rparr>"

subsection \<open>WorkerRun\<close>

datatype worker_run_status =
    WR_provisioning | WR_running | WR_suspended | WR_terminated

datatype worker_run_event =
    WRE_start | WRE_suspend | WRE_resume | WRE_terminate

definition WORKER_RUN_EDGES :: "(worker_run_status, worker_run_event) state_transition list" where
  "WORKER_RUN_EDGES =
     [edge WR_provisioning WRE_start WR_running,
      edge WR_provisioning WRE_terminate WR_terminated,
      edge WR_running WRE_suspend WR_suspended,
      edge WR_suspended WRE_resume WR_running,
      edge WR_running WRE_terminate WR_terminated,
      edge WR_suspended WRE_terminate WR_terminated]"

definition WORKER_RUN_TRANSITIONS :: "(worker_run_status, worker_run_event) transition_table" where
  "WORKER_RUN_TRANSITIONS = \<lparr>machine = ''WorkerRun'', edges = WORKER_RUN_EDGES\<rparr>"

subsection \<open>Turn\<close>

datatype turn_status =
    Turn_running | Turn_completed | Turn_interrupted | Turn_failed

datatype turn_event =
    TurnE_complete | TurnE_interrupt | TurnE_fail

definition TURN_EDGES :: "(turn_status, turn_event) state_transition list" where
  "TURN_EDGES =
     [edge Turn_running TurnE_complete Turn_completed,
      edge Turn_running TurnE_interrupt Turn_interrupted,
      edge Turn_running TurnE_fail Turn_failed]"

definition TURN_TRANSITIONS :: "(turn_status, turn_event) transition_table" where
  "TURN_TRANSITIONS = \<lparr>machine = ''Turn'', edges = TURN_EDGES\<rparr>"

subsection \<open>Publishable\<close>

datatype publishable_status =
    Pub_draft | Pub_published | Pub_deprecated

datatype publishable_event =
    PubE_publish | PubE_deprecate

definition PUBLISHABLE_EDGES :: "(publishable_status, publishable_event) state_transition list" where
  "PUBLISHABLE_EDGES =
     [edge Pub_draft PubE_publish Pub_published,
      edge Pub_published PubE_deprecate Pub_deprecated]"

definition PUBLISHABLE_TRANSITIONS :: "(publishable_status, publishable_event) transition_table" where
  "PUBLISHABLE_TRANSITIONS = \<lparr>machine = ''Publishable'', edges = PUBLISHABLE_EDGES\<rparr>"

subsection \<open>Operation\<close>

datatype operation_status = Op_publishable publishable_status | Op_discarded

datatype operation_event = OpE_publishable publishable_event | OpE_discard

definition publishable_as_operation ::
  "(publishable_status, publishable_event) state_transition
    \<Rightarrow> (operation_status, operation_event) state_transition" where
  "publishable_as_operation e =
     edge (Op_publishable (edge_from e)) (OpE_publishable (edge_event e))
          (Op_publishable (edge_to e))"

definition OPERATION_EDGES :: "(operation_status, operation_event) state_transition list" where
  "OPERATION_EDGES =
     map publishable_as_operation PUBLISHABLE_EDGES
     @ [edge (Op_publishable Pub_draft) OpE_discard Op_discarded]"

definition OPERATION_TRANSITIONS :: "(operation_status, operation_event) transition_table" where
  "OPERATION_TRANSITIONS = \<lparr>machine = ''Operation'', edges = OPERATION_EDGES\<rparr>"

subsection \<open>Grant\<close>

datatype grant_status =
    Grant_active | Grant_revoked | Grant_expired

datatype grant_event =
    GrantE_revoke | GrantE_expire

definition GRANT_EDGES :: "(grant_status, grant_event) state_transition list" where
  "GRANT_EDGES =
     [edge Grant_active GrantE_revoke Grant_revoked,
      edge Grant_active GrantE_expire Grant_expired]"

definition GRANT_TRANSITIONS :: "(grant_status, grant_event) transition_table" where
  "GRANT_TRANSITIONS = \<lparr>machine = ''Grant'', edges = GRANT_EDGES\<rparr>"

subsection \<open>ConnectionRequest\<close>

datatype connection_request_status =
    CR_requested | CR_completed | CR_cancelled

datatype connection_request_event =
    CRE_complete | CRE_cancel

definition CONNECTION_REQUEST_EDGES :: "(connection_request_status, connection_request_event) state_transition list" where
  "CONNECTION_REQUEST_EDGES =
     [edge CR_requested CRE_complete CR_completed,
      edge CR_requested CRE_cancel CR_cancelled]"

definition CONNECTION_REQUEST_TRANSITIONS :: "(connection_request_status, connection_request_event) transition_table" where
  "CONNECTION_REQUEST_TRANSITIONS = \<lparr>machine = ''ConnectionRequest'', edges = CONNECTION_REQUEST_EDGES\<rparr>"

subsection \<open>GoalRun\<close>

datatype goal_run_status =
    GR_proposed | GR_running | GR_paused | GR_verifying | GR_completed | GR_cancelling
    | GR_cancelled | GR_failed

datatype goal_run_event =
    GRE_confirm | GRE_reject | GRE_pause | GRE_resume | GRE_verify | GRE_complete
    | GRE_cancel | GRE_finish_cancel | GRE_fail

definition GOAL_RUN_EDGES :: "(goal_run_status, goal_run_event) state_transition list" where
  "GOAL_RUN_EDGES =
     [edge GR_proposed GRE_confirm GR_running,
      edge GR_proposed GRE_reject GR_cancelled,
      edge GR_running GRE_pause GR_paused,
      edge GR_verifying GRE_pause GR_paused,
      edge GR_paused GRE_resume GR_running,
      edge GR_running GRE_verify GR_verifying,
      edge GR_verifying GRE_complete GR_completed,
      edge GR_paused GRE_complete GR_completed,
      edge GR_running GRE_cancel GR_cancelling,
      edge GR_paused GRE_cancel GR_cancelling,
      edge GR_verifying GRE_cancel GR_cancelling,
      edge GR_cancelling GRE_finish_cancel GR_cancelled,
      edge GR_proposed GRE_fail GR_failed,
      edge GR_running GRE_fail GR_failed,
      edge GR_paused GRE_fail GR_failed,
      edge GR_verifying GRE_fail GR_failed,
      edge GR_cancelling GRE_fail GR_failed]"

definition GOAL_RUN_TRANSITIONS :: "(goal_run_status, goal_run_event) transition_table" where
  "GOAL_RUN_TRANSITIONS = \<lparr>machine = ''GoalRun'', edges = GOAL_RUN_EDGES\<rparr>"

subsection \<open>PlanRevision\<close>

datatype plan_revision_status =
    PR_proposed | PR_accepted | PR_rejected

datatype plan_revision_event =
    PRE_accept | PRE_reject

definition PLAN_REVISION_EDGES :: "(plan_revision_status, plan_revision_event) state_transition list" where
  "PLAN_REVISION_EDGES =
     [edge PR_proposed PRE_accept PR_accepted,
      edge PR_proposed PRE_reject PR_rejected]"

definition PLAN_REVISION_TRANSITIONS :: "(plan_revision_status, plan_revision_event) transition_table" where
  "PLAN_REVISION_TRANSITIONS = \<lparr>machine = ''PlanRevision'', edges = PLAN_REVISION_EDGES\<rparr>"

subsection \<open>StepRun\<close>

datatype step_run_status =
    SR_pending | SR_ready | SR_running | SR_waiting | SR_succeeded | SR_failed
    | SR_superseded | SR_cancelled | SR_skipped

datatype step_run_event =
    SRE_unblock | SRE_start | SRE_wait | SRE_resume | SRE_succeed | SRE_fail | SRE_retry
    | SRE_supersede | SRE_cancel | SRE_skip

definition STEP_RUN_EDGES :: "(step_run_status, step_run_event) state_transition list" where
  "STEP_RUN_EDGES =
     [edge SR_pending SRE_unblock SR_ready,
      edge SR_ready SRE_start SR_running,
      edge SR_running SRE_wait SR_waiting,
      edge SR_waiting SRE_resume SR_running,
      edge SR_running SRE_succeed SR_succeeded,
      edge SR_waiting SRE_succeed SR_succeeded,
      edge SR_running SRE_fail SR_failed,
      edge SR_waiting SRE_fail SR_failed,
      edge SR_failed SRE_retry SR_ready,
      edge SR_pending SRE_supersede SR_superseded,
      edge SR_ready SRE_supersede SR_superseded,
      edge SR_running SRE_supersede SR_superseded,
      edge SR_waiting SRE_supersede SR_superseded,
      edge SR_failed SRE_supersede SR_superseded,
      edge SR_pending SRE_cancel SR_cancelled,
      edge SR_ready SRE_cancel SR_cancelled,
      edge SR_running SRE_cancel SR_cancelled,
      edge SR_waiting SRE_cancel SR_cancelled,
      edge SR_failed SRE_cancel SR_cancelled,
      edge SR_pending SRE_skip SR_skipped,
      edge SR_ready SRE_skip SR_skipped]"

definition STEP_RUN_TRANSITIONS :: "(step_run_status, step_run_event) transition_table" where
  "STEP_RUN_TRANSITIONS = \<lparr>machine = ''StepRun'', edges = STEP_RUN_EDGES\<rparr>"

subsection \<open>ChangeSegment\<close>

datatype change_segment_status =
    CS_applied | CS_verified | CS_verification_failed | CS_rolled_back

datatype change_segment_event =
    CSE_verify_pass | CSE_verify_fail | CSE_roll_back

definition CHANGE_SEGMENT_EDGES :: "(change_segment_status, change_segment_event) state_transition list" where
  "CHANGE_SEGMENT_EDGES =
     [edge CS_applied CSE_verify_pass CS_verified,
      edge CS_applied CSE_verify_fail CS_verification_failed,
      edge CS_verified CSE_verify_fail CS_verification_failed,
      edge CS_verification_failed CSE_verify_pass CS_verified,
      edge CS_applied CSE_roll_back CS_rolled_back,
      edge CS_verified CSE_roll_back CS_rolled_back,
      edge CS_verification_failed CSE_roll_back CS_rolled_back]"

definition CHANGE_SEGMENT_TRANSITIONS :: "(change_segment_status, change_segment_event) transition_table" where
  "CHANGE_SEGMENT_TRANSITIONS = \<lparr>machine = ''ChangeSegment'', edges = CHANGE_SEGMENT_EDGES\<rparr>"

subsection \<open>AdminProposalSegment\<close>

datatype admin_proposal_segment_status =
    APS_proposed | APS_applied | APS_rejected | APS_withdrawn | APS_rolled_back

datatype admin_proposal_segment_event =
    APSE_apply | APSE_reject | APSE_withdraw | APSE_roll_back

definition ADMIN_PROPOSAL_SEGMENT_EDGES :: "(admin_proposal_segment_status, admin_proposal_segment_event) state_transition list" where
  "ADMIN_PROPOSAL_SEGMENT_EDGES =
     [edge APS_proposed APSE_apply APS_applied,
      edge APS_proposed APSE_reject APS_rejected,
      edge APS_proposed APSE_withdraw APS_withdrawn,
      edge APS_applied APSE_roll_back APS_rolled_back]"

definition ADMIN_PROPOSAL_SEGMENT_TRANSITIONS :: "(admin_proposal_segment_status, admin_proposal_segment_event) transition_table" where
  "ADMIN_PROPOSAL_SEGMENT_TRANSITIONS = \<lparr>machine = ''AdminProposalSegment'', edges = ADMIN_PROPOSAL_SEGMENT_EDGES\<rparr>"
section \<open>Interpretations\<close>

lemmas all_tables =
  FACT_LIFECYCLE_TRANSITIONS_def FACT_LIFECYCLE_EDGES_def
  EPISTEMIC_PROMOTION_TRANSITIONS_def EPISTEMIC_PROMOTION_EDGES_def
  EPISTEMIC_SOURCES_FOR_VERIFY_def EPISTEMIC_SOURCES_FOR_CONTRADICT_def
  CONFLICT_TRANSITIONS_def CONFLICT_EDGES_def
  DECISION_TRANSITIONS_def DECISION_EDGES_def
  ACTION_REQUEST_TRANSITIONS_def ACTION_REQUEST_EDGES_def
  TASK_TRANSITIONS_def TASK_EDGES_def
  WORKER_RUN_TRANSITIONS_def WORKER_RUN_EDGES_def
  TURN_TRANSITIONS_def TURN_EDGES_def
  PUBLISHABLE_TRANSITIONS_def PUBLISHABLE_EDGES_def
  OPERATION_TRANSITIONS_def OPERATION_EDGES_def publishable_as_operation_def
  GRANT_TRANSITIONS_def GRANT_EDGES_def
  CONNECTION_REQUEST_TRANSITIONS_def CONNECTION_REQUEST_EDGES_def
  GOAL_RUN_TRANSITIONS_def GOAL_RUN_EDGES_def
  PLAN_REVISION_TRANSITIONS_def PLAN_REVISION_EDGES_def
  STEP_RUN_TRANSITIONS_def STEP_RUN_EDGES_def
  CHANGE_SEGMENT_TRANSITIONS_def CHANGE_SEGMENT_EDGES_def
  ADMIN_PROPOSAL_SEGMENT_TRANSITIONS_def ADMIN_PROPOSAL_SEGMENT_EDGES_def

declare all_tables [lifecycle_tables]

lemmas table_eval = lifecycle_tables edge_key_def

fun action_request_rank :: "action_request_status \<Rightarrow> nat" where
  "action_request_rank AR_proposed = 6"
| "action_request_rank AR_policy_evaluated = 5"
| "action_request_rank AR_pending_approval = 4"
| "action_request_rank AR_approved = 3"
| "action_request_rank AR_auto_approved = 3"
| "action_request_rank AR_executing = 2"
| "action_request_rank AR_executed = 1"
| "action_request_rank AR_failed = 1"
| "action_request_rank _ = 0"

fun decision_rank :: "decision_status \<Rightarrow> nat" where
  "decision_rank Dec_proposed = 4"
| "decision_rank Dec_approved = 3"
| "decision_rank Dec_executed = 2"
| "decision_rank Dec_verified = 1"
| "decision_rank Dec_failed = 1"
| "decision_rank _ = 0"

fun admin_segment_rank :: "admin_proposal_segment_status \<Rightarrow> nat" where
  "admin_segment_rank APS_proposed = 2"
| "admin_segment_rank APS_applied = 1"
| "admin_segment_rank _ = 0"

fun publishable_rank :: "publishable_status \<Rightarrow> nat" where
  "publishable_rank Pub_draft = 2"
| "publishable_rank Pub_published = 1"
| "publishable_rank Pub_deprecated = 0"

fun operation_rank :: "operation_status \<Rightarrow> nat" where
  "operation_rank (Op_publishable p) = publishable_rank p"
| "operation_rank Op_discarded = 0"

text \<open>The statuses no edge leaves.\<close>

definition fact_final :: "fact_lifecycle_status \<Rightarrow> bool" where
  "fact_final s = (s \<noteq> Fact_recorded)"

definition conflict_final :: "conflict_status \<Rightarrow> bool" where
  "conflict_final s = (s \<noteq> Conf_open)"

definition decision_final :: "decision_status \<Rightarrow> bool" where
  "decision_final s = (s \<in> {Dec_rejected, Dec_superseded, Dec_archived})"

definition action_request_final :: "action_request_status \<Rightarrow> bool" where
  "action_request_final s =
     (s \<in> {AR_rejected, AR_expired, AR_denied, AR_verified, AR_compensated, AR_withdrawn})"

definition task_final :: "task_status \<Rightarrow> bool" where
  "task_final s = (s \<in> {Task_completed, Task_failed, Task_cancelled})"

definition goal_run_final :: "goal_run_status \<Rightarrow> bool" where
  "goal_run_final s = (s \<in> {GR_completed, GR_cancelled, GR_failed})"

definition step_run_final :: "step_run_status \<Rightarrow> bool" where
  "step_run_final s = (s \<in> {SR_succeeded, SR_superseded, SR_cancelled, SR_skipped})"

definition admin_segment_final :: "admin_proposal_segment_status \<Rightarrow> bool" where
  "admin_segment_final s = (s \<in> {APS_rejected, APS_withdrawn, APS_rolled_back})"

lemmas final_defs =
  fact_final_def conflict_final_def decision_final_def action_request_final_def task_final_def
  goal_run_final_def step_run_final_def admin_segment_final_def

interpretation fact_lc: ranked_lifecycle FACT_LIFECYCLE_TRANSITIONS fact_final
    "\<lambda>s. if s = Fact_recorded then 1 else 0"
  by unfold_locales (simp_all add: table_eval final_defs)

interpretation epistemic_lc: ranked_lifecycle EPISTEMIC_PROMOTION_TRANSITIONS
    "\<lambda>s. s = Epi_contradicted"
    "\<lambda>s. if s = Epi_contradicted then 0 else if s = Epi_verified then 1 else 2"
  by unfold_locales (simp_all add: table_eval)

interpretation conflict_lc: ranked_lifecycle CONFLICT_TRANSITIONS conflict_final
    "\<lambda>s. if s = Conf_open then 1 else 0"
  by unfold_locales (simp_all add: table_eval final_defs)

interpretation decision_lc: ranked_lifecycle DECISION_TRANSITIONS decision_final decision_rank
  by unfold_locales (simp_all add: table_eval final_defs)

interpretation action_request_lc:
    ranked_lifecycle ACTION_REQUEST_TRANSITIONS action_request_final action_request_rank
  by unfold_locales (simp_all add: table_eval final_defs)

interpretation task_lc: lifecycle TASK_TRANSITIONS task_final
  by unfold_locales (simp_all add: table_eval final_defs)

interpretation worker_run_lc: lifecycle WORKER_RUN_TRANSITIONS "\<lambda>s. s = WR_terminated"
  by unfold_locales (simp_all add: table_eval)

interpretation turn_lc: ranked_lifecycle TURN_TRANSITIONS "\<lambda>s. s \<noteq> Turn_running"
    "\<lambda>s. if s = Turn_running then 1 else 0"
  by unfold_locales (simp_all add: table_eval)

interpretation publishable_lc: ranked_lifecycle PUBLISHABLE_TRANSITIONS
    "\<lambda>s. s = Pub_deprecated" publishable_rank
  by unfold_locales (simp_all add: table_eval)

interpretation operation_lc: ranked_lifecycle OPERATION_TRANSITIONS
    "\<lambda>s. s = Op_discarded \<or> s = Op_publishable Pub_deprecated" operation_rank
  by unfold_locales (simp_all add: table_eval)

interpretation grant_lc: ranked_lifecycle GRANT_TRANSITIONS "\<lambda>s. s \<noteq> Grant_active"
    "\<lambda>s. if s = Grant_active then 1 else 0"
  by unfold_locales (simp_all add: table_eval)

interpretation connection_request_lc: ranked_lifecycle CONNECTION_REQUEST_TRANSITIONS
    "\<lambda>s. s \<noteq> CR_requested" "\<lambda>s. if s = CR_requested then 1 else 0"
  by unfold_locales (simp_all add: table_eval)

interpretation goal_run_lc: lifecycle GOAL_RUN_TRANSITIONS goal_run_final
  by unfold_locales (simp_all add: table_eval final_defs)

interpretation plan_revision_lc: ranked_lifecycle PLAN_REVISION_TRANSITIONS
    "\<lambda>s. s \<noteq> PR_proposed" "\<lambda>s. if s = PR_proposed then 1 else 0"
  by unfold_locales (simp_all add: table_eval)

interpretation step_run_lc: lifecycle STEP_RUN_TRANSITIONS step_run_final
  by unfold_locales (simp_all add: table_eval final_defs)

interpretation change_segment_lc: lifecycle CHANGE_SEGMENT_TRANSITIONS "\<lambda>s. s = CS_rolled_back"
  by unfold_locales (simp_all add: table_eval)

interpretation admin_segment_lc: ranked_lifecycle ADMIN_PROPOSAL_SEGMENT_TRANSITIONS
    admin_segment_final admin_segment_rank
  by unfold_locales (simp_all add: table_eval final_defs)

section \<open>Approval before execution\<close>

text \<open>The statuses of a request the policy or a person has not consented to (or no longer).\<close>

definition before_consent :: "action_request_status \<Rightarrow> bool" where
  "before_consent s =
     (s \<in> {AR_proposed, AR_policy_evaluated, AR_pending_approval, AR_rejected, AR_expired, AR_denied,
            AR_withdrawn})"

definition execution_started :: "action_request_status \<Rightarrow> bool" where
  "execution_started s =
     (s \<in> {AR_executing, AR_executed, AR_failed, AR_verified, AR_compensated})"

interpretation policy_gate: gated_lifecycle ACTION_REQUEST_TRANSITIONS action_request_final
    "\<lambda>s. s = AR_proposed" "\<lambda>e. e = ARE_evaluate_policy"
  by unfold_locales (simp_all add: table_eval final_defs)

interpretation consent_gate: gated_lifecycle ACTION_REQUEST_TRANSITIONS action_request_final
    before_consent "\<lambda>e. e = ARE_approve \<or> e = ARE_auto_approve"
  by unfold_locales (simp_all add: table_eval final_defs before_consent_def)

interpretation start_gate: gated_lifecycle ACTION_REQUEST_TRANSITIONS action_request_final
    "\<lambda>s. \<not> execution_started s" "\<lambda>e. e = ARE_start_execution"
  by unfold_locales (simp_all add: table_eval final_defs execution_started_def)

interpretation execution_meter: metered_lifecycle ACTION_REQUEST_TRANSITIONS action_request_final
    "\<lambda>e. if e = ARE_start_execution then 1 else 0" "\<lambda>s. if execution_started s then 1 else 0"
  by unfold_locales (simp_all add: table_eval final_defs execution_started_def)

lemma start_count_le:
  assumes "run_history ACTION_REQUEST_TRANSITIONS AR_proposed es = Inr s"
  shows "count_list es ARE_start_execution \<le> (if execution_started s then 1 else 0)"
  using execution_meter.weighted_count[OF assms]
  by (cases "execution_started s") (simp_all add: sum_list_indicator execution_started_def)

text \<open>
  C21: a request that reached execution (or any status after it) was evaluated by the policy, was
  approved by a person or auto-approved by the policy, and started execution exactly once.
\<close>

theorem execution_needs_consent:
  assumes "run_history ACTION_REQUEST_TRANSITIONS AR_proposed es = Inr s"
    and "execution_started s"
  shows "ARE_evaluate_policy \<in> set es \<and> (ARE_approve \<in> set es \<or> ARE_auto_approve \<in> set es)
         \<and> count_list es ARE_start_execution = 1"
proof -
  have "ARE_evaluate_policy \<in> set es"
    using policy_gate.leaves_through_gate[OF assms(1)] assms(2) by (auto simp: execution_started_def)
  moreover have "ARE_approve \<in> set es \<or> ARE_auto_approve \<in> set es"
    using consent_gate.leaves_through_gate[OF assms(1)] assms(2)
    by (auto simp: execution_started_def before_consent_def)
  moreover have "ARE_start_execution \<in> set es"
    using start_gate.leaves_through_gate[OF assms(1)] assms(2) by (auto simp: execution_started_def)
  then have "count_list es ARE_start_execution \<noteq> 0" by (simp add: count_list_0_iff)
  ultimately show ?thesis using start_count_le[OF assms(1)] assms(2) by auto
qed

theorem execution_needs_consent_witness:
  "run_history ACTION_REQUEST_TRANSITIONS AR_proposed
     [ARE_evaluate_policy, ARE_require_approval, ARE_approve, ARE_start_execution, ARE_complete]
     = Inr AR_executed
   \<and> count_list [ARE_evaluate_policy, ARE_require_approval, ARE_approve, ARE_start_execution,
       ARE_complete] ARE_start_execution = 1"
proof -
  have h: "run_history ACTION_REQUEST_TRANSITIONS AR_proposed
     [ARE_evaluate_policy, ARE_require_approval, ARE_approve, ARE_start_execution, ARE_complete]
     = Inr AR_executed"
    by (simp add: transition_def table_eval)
  show ?thesis using h execution_needs_consent[OF h] by (simp add: execution_started_def)
qed

text \<open>
  C22: a request that was rejected, denied, withdrawn or has expired never started execution, and
  whatever events follow none is accepted: it stays as it is and never starts.  No history of a
  request is longer than six events.
\<close>

theorem withdrawn_never_executed:
  assumes "run_history ACTION_REQUEST_TRANSITIONS AR_proposed es = Inr s"
  shows "length es \<le> 6
    \<and> (s \<in> {AR_rejected, AR_denied, AR_expired, AR_withdrawn} \<longrightarrow>
         ARE_start_execution \<notin> set es
         \<and> (\<forall>fs t. run_history ACTION_REQUEST_TRANSITIONS AR_proposed (es @ fs) = Inr t \<longrightarrow> fs = [] \<and> t = s)
         \<and> (\<forall>e. transition ACTION_REQUEST_TRANSITIONS s e
              = Inl (IllegalTransition (machine ACTION_REQUEST_TRANSITIONS) s e)))"
proof -
  have dead: "action_request_final s \<and> \<not> execution_started s"
    if "s \<in> {AR_rejected, AR_denied, AR_expired, AR_withdrawn}"
    using that by (auto simp: action_request_final_def execution_started_def)
  then show ?thesis
    using action_request_lc.history_bounded[OF assms] start_count_le[OF assms]
      action_request_lc.final_history[of s] action_request_lc.final_stuck[of s]
    by (auto simp: run_history_append assms count_list_0_iff)
qed

theorem withdrawn_never_executed_witness:
  "run_history ACTION_REQUEST_TRANSITIONS AR_proposed
     [ARE_evaluate_policy, ARE_auto_approve, ARE_withdraw] = Inr AR_withdrawn
   \<and> ARE_start_execution \<notin> set [ARE_evaluate_policy, ARE_auto_approve, ARE_withdraw]
   \<and> transition ACTION_REQUEST_TRANSITIONS AR_withdrawn ARE_start_execution
     = Inl (IllegalTransition ''ActionRequest'' AR_withdrawn ARE_start_execution)"
proof -
  have h: "run_history ACTION_REQUEST_TRANSITIONS AR_proposed
     [ARE_evaluate_policy, ARE_auto_approve, ARE_withdraw] = Inr AR_withdrawn"
    by (simp add: transition_def table_eval)
  have "machine ACTION_REQUEST_TRANSITIONS = ''ActionRequest''" by (simp add: ACTION_REQUEST_TRANSITIONS_def)
  with h withdrawn_never_executed[OF h] show ?thesis by simp
qed

text \<open>A history that leads from the proposal to each status.\<close>

fun history_to :: "action_request_status \<Rightarrow> action_request_event list" where
  "history_to AR_proposed = []"
| "history_to AR_policy_evaluated = [ARE_evaluate_policy]"
| "history_to AR_auto_approved = [ARE_evaluate_policy, ARE_auto_approve]"
| "history_to AR_pending_approval = [ARE_evaluate_policy, ARE_require_approval]"
| "history_to AR_approved = [ARE_evaluate_policy, ARE_require_approval, ARE_approve]"
| "history_to AR_rejected = [ARE_evaluate_policy, ARE_require_approval, ARE_reject]"
| "history_to AR_expired = [ARE_evaluate_policy, ARE_require_approval, ARE_expire]"
| "history_to AR_denied = [ARE_evaluate_policy, ARE_deny]"
| "history_to AR_executing = [ARE_evaluate_policy, ARE_auto_approve, ARE_start_execution]"
| "history_to AR_executed =
     [ARE_evaluate_policy, ARE_auto_approve, ARE_start_execution, ARE_complete]"
| "history_to AR_failed = [ARE_evaluate_policy, ARE_auto_approve, ARE_start_execution, ARE_fail]"
| "history_to AR_verified =
     [ARE_evaluate_policy, ARE_auto_approve, ARE_start_execution, ARE_complete, ARE_verify]"
| "history_to AR_compensated =
     [ARE_evaluate_policy, ARE_auto_approve, ARE_start_execution, ARE_fail, ARE_compensate]"
| "history_to AR_withdrawn = [ARE_evaluate_policy, ARE_auto_approve, ARE_withdraw]"

text \<open>
  Every status of a request is reachable from its proposal, and the statuses without a legal
  next event are exactly the declared final ones (no status is a dead end by accident).
\<close>

theorem action_request_live:
  "run_history ACTION_REQUEST_TRANSITIONS AR_proposed (history_to s) = Inr s
   \<and> ((\<exists>e. canTransition ACTION_REQUEST_TRANSITIONS s e) \<longleftrightarrow> \<not> action_request_final s)"
  by (cases s)
    (simp_all add: transition_def canTransition_iff_edge table_eval final_defs,
     (metis | blast)+)

section \<open>Goal runs and step runs\<close>

interpretation confirm_gate: gated_lifecycle GOAL_RUN_TRANSITIONS goal_run_final
    "\<lambda>s. s \<in> {GR_proposed, GR_cancelled, GR_failed}" "\<lambda>e. e = GRE_confirm"
  by unfold_locales (simp_all add: table_eval final_defs)

interpretation cancelling_region: gated_lifecycle GOAL_RUN_TRANSITIONS goal_run_final
    "\<lambda>s. s \<in> {GR_cancelling, GR_cancelled, GR_failed}" "\<lambda>e. False"
  by unfold_locales (simp_all add: table_eval final_defs)

interpretation completion_gate: gated_lifecycle GOAL_RUN_TRANSITIONS goal_run_final
    "\<lambda>s. s \<noteq> GR_completed" "\<lambda>e. e = GRE_complete"
  by unfold_locales (simp_all add: table_eval final_defs)

interpretation leaves_running_gate: gated_lifecycle GOAL_RUN_TRANSITIONS goal_run_final
    "\<lambda>s. s \<in> {GR_proposed, GR_running, GR_cancelling, GR_cancelled, GR_failed}"
    "\<lambda>e. e = GRE_verify \<or> e = GRE_pause"
  by unfold_locales (simp_all add: table_eval final_defs)

interpretation cancel_gate: gated_lifecycle GOAL_RUN_TRANSITIONS goal_run_final
    "\<lambda>s. s \<notin> {GR_cancelling, GR_cancelled}" "\<lambda>e. e = GRE_reject \<or> e = GRE_cancel"
  by unfold_locales (simp_all add: table_eval final_defs)

interpretation cancelled_gate: gated_lifecycle GOAL_RUN_TRANSITIONS goal_run_final
    "\<lambda>s. s \<noteq> GR_cancelled" "\<lambda>e. e = GRE_reject \<or> e = GRE_finish_cancel"
  by unfold_locales (simp_all add: table_eval final_defs)

text \<open>
  C23: a goal run completes only after its requester confirmed it and only out of verification or a
  pause, never straight from running.  It is cancelled only by a rejection of the proposal or by a
  cancel that was then finished; and once it is cancelling it ends cancelled or failed, whatever
  happens.
\<close>

theorem goal_run_completion:
  assumes "run_history GOAL_RUN_TRANSITIONS GR_proposed es = Inr s"
  shows "(s = GR_completed \<longrightarrow>
            GRE_confirm \<in> set es \<and> (GRE_verify \<in> set es \<or> GRE_pause \<in> set es)
            \<and> GRE_complete \<in> set es)
         \<and> (s = GR_cancelled \<longrightarrow>
            GRE_reject \<in> set es \<or> GRE_cancel \<in> set es \<and> GRE_finish_cancel \<in> set es)
         \<and> (\<forall>fs t. s = GR_cancelling \<longrightarrow> run_history GOAL_RUN_TRANSITIONS s fs = Inr t \<longrightarrow>
              t \<in> {GR_cancelling, GR_cancelled, GR_failed})"
  using confirm_gate.leaves_through_gate[OF assms] leaves_running_gate.leaves_through_gate[OF assms]
    completion_gate.leaves_through_gate[OF assms] cancelling_region.leaves_through_gate
    cancel_gate.leaves_through_gate[OF assms] cancelled_gate.leaves_through_gate[OF assms]
  by auto

theorem goal_run_completion_witness:
  "run_history GOAL_RUN_TRANSITIONS GR_proposed [GRE_confirm, GRE_verify, GRE_complete]
     = Inr GR_completed
   \<and> GRE_confirm \<in> set [GRE_confirm, GRE_verify, GRE_complete]"
proof -
  have h: "run_history GOAL_RUN_TRANSITIONS GR_proposed [GRE_confirm, GRE_verify, GRE_complete]
      = Inr GR_completed"
    by (simp add: transition_def table_eval)
  show ?thesis using h goal_run_completion[OF h] by blast
qed

definition attempt_open :: "step_run_status \<Rightarrow> bool" where
  "attempt_open s = (s \<notin> {SR_pending, SR_ready, SR_skipped})"

interpretation attempt_meter: metered_lifecycle STEP_RUN_TRANSITIONS step_run_final
    "\<lambda>e. if e = SRE_start then 1 else if e = SRE_retry then -1 else 0"
    "\<lambda>s. if attempt_open s then 1 else 0"
  by unfold_locales (simp_all add: table_eval final_defs attempt_open_def)

interpretation success_gate: gated_lifecycle STEP_RUN_TRANSITIONS step_run_final
    "\<lambda>s. s \<in> {SR_pending, SR_ready, SR_superseded, SR_cancelled, SR_skipped}" "\<lambda>e. e = SRE_start"
  by unfold_locales (simp_all add: table_eval final_defs)

interpretation unblock_gate: gated_lifecycle STEP_RUN_TRANSITIONS step_run_final
    "\<lambda>s. s \<in> {SR_pending, SR_superseded, SR_cancelled, SR_skipped}" "\<lambda>e. e = SRE_unblock"
  by unfold_locales (simp_all add: table_eval final_defs)

lemma attempt_weight_sum:
  "(\<Sum>e\<leftarrow>es. if e = SRE_start then 1 else if e = SRE_retry then -1 else 0)
     = int (count_list es SRE_start) - int (count_list es SRE_retry)"
  by (induction es) auto

text \<open>
  C24: a step run starts at most once more than it was retried (attempts open only through a retry
  of a failed one), not even that while it stands pending, ready or skipped, and a step succeeds
  only after it was unblocked and started.
\<close>

theorem step_attempts_metered:
  assumes "run_history STEP_RUN_TRANSITIONS SR_pending es = Inr s"
  shows "count_list es SRE_start \<le> count_list es SRE_retry + (if attempt_open s then 1 else 0)
         \<and> (s = SR_succeeded \<longrightarrow> SRE_unblock \<in> set es \<and> SRE_start \<in> set es)"
  using attempt_meter.weighted_count[OF assms] success_gate.leaves_through_gate[OF assms]
    unblock_gate.leaves_through_gate[OF assms]
  by (auto simp: attempt_weight_sum attempt_open_def split: if_splits)

theorem step_attempts_metered_witness:
  "run_history STEP_RUN_TRANSITIONS SR_pending
     [SRE_unblock, SRE_start, SRE_fail, SRE_retry, SRE_start, SRE_wait, SRE_succeed]
     = Inr SR_succeeded
   \<and> count_list [SRE_unblock, SRE_start, SRE_fail, SRE_retry, SRE_start, SRE_wait, SRE_succeed]
       SRE_start \<le> 2"
proof -
  let ?es = "[SRE_unblock, SRE_start, SRE_fail, SRE_retry, SRE_start, SRE_wait, SRE_succeed]"
  have h: "run_history STEP_RUN_TRANSITIONS SR_pending ?es = Inr SR_succeeded"
    by (simp add: transition_def table_eval)
  have "count_list ?es SRE_start \<le> count_list ?es SRE_retry + 1"
    using step_attempts_metered[OF h] by (simp add: attempt_open_def)
  with h show ?thesis by simp
qed

section \<open>Final statuses\<close>

text \<open>
  A final status is never overwritten: no history leaves a rejected, expired, verified or
  withdrawn request, an ended task, Worker run, turn, goal run or step run, a resolved conflict or
  a terminal decision - a late \<open>complete\<close> on an interrupted turn is an error, not an update.
\<close>

theorem final_statuses_absorb:
  "(action_request_final a \<longrightarrow> run_history ACTION_REQUEST_TRANSITIONS a es1 = Inr a' \<longrightarrow> a' = a)
   \<and> (task_final t \<longrightarrow> run_history TASK_TRANSITIONS t es2 = Inr t' \<longrightarrow> t' = t)
   \<and> (run_history WORKER_RUN_TRANSITIONS WR_terminated es3 = Inr w \<longrightarrow> w = WR_terminated)
   \<and> (u \<noteq> Turn_running \<longrightarrow> run_history TURN_TRANSITIONS u es4 = Inr u' \<longrightarrow> u' = u)
   \<and> (goal_run_final g \<longrightarrow> run_history GOAL_RUN_TRANSITIONS g es5 = Inr g' \<longrightarrow> g' = g)
   \<and> (step_run_final s \<longrightarrow> run_history STEP_RUN_TRANSITIONS s es6 = Inr s' \<longrightarrow> s' = s)
   \<and> (conflict_final c \<longrightarrow> run_history CONFLICT_TRANSITIONS c es7 = Inr c' \<longrightarrow> c' = c)
   \<and> (decision_final d \<longrightarrow> run_history DECISION_TRANSITIONS d es8 = Inr d' \<longrightarrow> d' = d)"
  by (intro conjI impI)
    (blast dest: action_request_lc.final_history task_lc.final_history
       worker_run_lc.final_history[OF refl] turn_lc.final_history goal_run_lc.final_history
       step_run_lc.final_history conflict_lc.final_history decision_lc.final_history)+

theorem final_statuses_absorb_witness:
  "run_history TURN_TRANSITIONS Turn_running [TurnE_interrupt] = Inr Turn_interrupted
   \<and> run_history TURN_TRANSITIONS Turn_interrupted [TurnE_complete] \<noteq> Inr Turn_completed"
proof (intro conjI notI)
  show "run_history TURN_TRANSITIONS Turn_running [TurnE_interrupt] = Inr Turn_interrupted"
    by (simp add: transition_def table_eval)
  assume "run_history TURN_TRANSITIONS Turn_interrupted [TurnE_complete] = Inr Turn_completed"
  then have "Turn_completed = Turn_interrupted"
    by (rule final_statuses_absorb[THEN conjunct2, THEN conjunct2, THEN conjunct2, THEN conjunct1,
          rule_format, rotated]) simp
  then show False by simp
qed

end
