(* ===== verification/Js_Text.thy ===== *)
theory Js_Text
  imports NT_Prelude
begin

text \<open>
  The string operations of JavaScript's standard library that the modelled sources call:
  \<open>split\<close>, \<open>trim\<close>, \<open>toLowerCase\<close>, \<open>endsWith\<close>, \<open>startsWith\<close>, \<open>join\<close>, \<open>Number.parseInt\<close>
  and decimal rendering.  A JavaScript string is a list of characters whose code is below 256
  (Latin-1), on which UTF-16 code units and code points coincide; the addresses, host names and
  keys the components read are ASCII, and every pattern they test rejects other characters.
\<close>

section \<open>Character classes\<close>

definition char_code :: "char \<Rightarrow> nat" where
  "char_code c = of_char c"

definition digit_value :: "char \<Rightarrow> nat option" where
  "digit_value c = (let n = char_code c in if 48 \<le> n \<and> n \<le> 57 then Some (n - 48) else None)"

definition hex_value :: "char \<Rightarrow> nat option" where
  "hex_value c =
     (let n = char_code c in
      if 48 \<le> n \<and> n \<le> 57 then Some (n - 48)
      else if 97 \<le> n \<and> n \<le> 102 then Some (n - 87)
      else if 65 \<le> n \<and> n \<le> 70 then Some (n - 55)
      else None)"

definition is_digit :: "char \<Rightarrow> bool" where
  "is_digit c = (digit_value c \<noteq> None)"

definition is_octal :: "char \<Rightarrow> bool" where
  "is_octal c = (let n = char_code c in 48 \<le> n \<and> n \<le> 55)"

definition is_hex :: "char \<Rightarrow> bool" where
  "is_hex c = (hex_value c \<noteq> None)"

definition is_space :: "char \<Rightarrow> bool" where
  "is_space c = (let n = char_code c in (9 \<le> n \<and> n \<le> 13) \<or> n = 32 \<or> n = 160)"

text \<open>\<open>parseInt(digits, radix)\<close> on a string of digits; a digit outside the radix ends it.\<close>

definition hex_digit :: "char \<Rightarrow> nat" where
  "hex_digit c = (case hex_value c of None \<Rightarrow> 0 | Some v \<Rightarrow> v)"

definition digits_to_nat :: "nat \<Rightarrow> string \<Rightarrow> nat" where
  "digits_to_nat radix s = foldl (\<lambda>acc c. acc * radix + hex_digit c) 0 s"

definition lower_char :: "char \<Rightarrow> char" where
  "lower_char c =
     (let n = char_code c in
      if (65 \<le> n \<and> n \<le> 90) \<or> (192 \<le> n \<and> n \<le> 222 \<and> n \<noteq> 215) then char_of (n + 32) else c)"

definition toLowerCase :: "string \<Rightarrow> string" where
  "toLowerCase s = map lower_char s"

definition trim :: "string \<Rightarrow> string" where
  "trim s = rev (dropWhile is_space (rev (dropWhile is_space s)))"

definition startsWith :: "string \<Rightarrow> string \<Rightarrow> bool" where
  "startsWith s p = (take (length p) s = p)"

definition endsWith :: "string \<Rightarrow> string \<Rightarrow> bool" where
  "endsWith s p = (length p \<le> length s \<and> drop (length s - length p) s = p)"

text \<open>\<open>s.split(c)\<close> for a one-character separator, and \<open>s.split('::')\<close>.\<close>

fun split_on :: "char \<Rightarrow> string \<Rightarrow> string list" where
  "split_on c [] = [[]]"
| "split_on c (x # xs) =
     (if x = c then [] # split_on c xs
      else (case split_on c xs of [] \<Rightarrow> [[x]] | p # ps \<Rightarrow> (x # p) # ps))"

fun split_double_colon :: "string \<Rightarrow> string list" where
  "split_double_colon [] = [[]]"
| "split_double_colon [x] = [[x]]"
| "split_double_colon (x # y # xs) =
     (if x = CHR '':'' \<and> y = CHR '':'' then [] # split_double_colon xs
      else (case split_double_colon (y # xs) of [] \<Rightarrow> [[x]] | p # ps \<Rightarrow> (x # p) # ps))"

fun join :: "string \<Rightarrow> string list \<Rightarrow> string" where
  "join sep [] = []"
| "join sep [x] = x"
| "join sep (x # y # xs) = x @ sep @ join sep (y # xs)"

fun decimal :: "nat \<Rightarrow> string" where
  "decimal n =
     (if n < 10 then [char_of (48 + n)] else decimal (n div 10) @ [char_of (48 + n mod 10)])"

declare decimal.simps [simp del]

text \<open>
  \<open>Number.parseInt(s, 10)\<close>: leading white space, an optional sign, then the longest run of
  digits; \<open>None\<close> is \<open>NaN\<close>.
\<close>

definition parse_int :: "string \<Rightarrow> int option" where
  "parse_int s =
     (let t = dropWhile is_space s;
          signed = (startsWith t ''-'' \<or> startsWith t ''+'');
          ds = takeWhile is_digit (if signed then tl t else t)
      in if ds = [] then None
         else Some (if startsWith t ''-'' then - int (digits_to_nat 10 ds)
                    else int (digits_to_nat 10 ds)))"

section \<open>Lemmas\<close>

lemma split_on_nonempty [simp]: "split_on c s \<noteq> []"
  by (induction s) (auto split: list.splits)

lemma split_on_no_sep: "c \<notin> set s \<Longrightarrow> split_on c s = [s]"
  by (induction s) auto

lemma split_on_append:
  "c \<notin> set s \<Longrightarrow> split_on c (s @ c # t) = s # split_on c t"
  by (induction s) auto

lemma split_on_join:
  assumes "xs \<noteq> []" and "\<forall>x\<in>set xs. c \<notin> set x"
  shows "split_on c (join [c] xs) = xs"
  using assms
  by (induction "[c]" xs rule: join.induct) (auto simp: split_on_append split_on_no_sep)

lemma split_on_pieces: "p \<in> set (split_on c s) \<Longrightarrow> c \<notin> set p"
  by (induction s arbitrary: p) (auto split: if_splits list.splits)

lemma in_set_split: "p \<in> set (split_on c s) \<Longrightarrow> set p \<subseteq> set s"
  by (induction s arbitrary: p) (fastforce split: if_splits list.splits)+

lemma split_on_append_gen: "split_on c (s @ c # t) = split_on c s @ split_on c t"
  by (induction s) (auto split: list.splits)

lemma join_Cons: "xs \<noteq> [] \<Longrightarrow> join sep (x # xs) = x @ sep @ join sep xs"
  by (cases xs) auto

lemma join_append:
  "xs \<noteq> [] \<Longrightarrow> ys \<noteq> [] \<Longrightarrow> join sep (xs @ ys) = join sep xs @ sep @ join sep ys"
proof (induction xs)
  case (Cons x xs)
  then show ?case by (cases "xs = []") (simp_all add: join_Cons)
qed simp

lemma join_split_on: "join [c] (split_on c s) = s"
proof (induction s)
  case Nil
  then show ?case by simp
next
  case (Cons x xs)
  then obtain p ps where "split_on c xs = p # ps" by (cases "split_on c xs") auto
  with Cons show ?case by (cases ps) (auto simp: join_Cons)
qed

lemma startsWith_append [simp]: "startsWith (p @ s) p"
  by (simp add: startsWith_def)

lemma endsWith_iff: "endsWith s p \<longleftrightarrow> (\<exists>q. s = q @ p)"
  by (auto simp: endsWith_def) (metis append_take_drop_id)

lemma endsWith_append: "endsWith s p \<Longrightarrow> endsWith (q @ s) p"
  by (auto simp: endsWith_iff)

lemma digit_char:
  assumes "n < 10"
  shows "digit_value (char_of (48 + n)) = Some n" and "hex_value (char_of (48 + n)) = Some n"
    and "char_of (48 + n) \<noteq> CHR ''.''"
proof -
  have "char_code (char_of (48 + n)) = 48 + n" using assms by (simp add: char_code_def)
  then show "digit_value (char_of (48 + n)) = Some n" "hex_value (char_of (48 + n)) = Some n"
    using assms by (simp_all add: digit_value_def hex_value_def)
  have "char_code (CHR ''.'') = 46" by (simp add: char_code_def)
  with \<open>char_code (char_of (48 + n)) = 48 + n\<close> show "char_of (48 + n) \<noteq> CHR ''.''" by auto
qed

lemma hex_value_bound: "hex_value c = Some v \<Longrightarrow> v < 16"
  by (auto simp: hex_value_def Let_def split: if_splits)

lemma digit_value_hex: "digit_value c = Some v \<Longrightarrow> hex_value c = Some v \<and> v < 10"
  by (auto simp: hex_value_def digit_value_def Let_def split: if_splits)

lemma digits_to_nat_snoc [simp]:
  "digits_to_nat r (s @ [c]) = digits_to_nat r s * r + hex_digit c"
  by (simp add: digits_to_nat_def)

lemma digits_to_nat_bound:
  assumes "\<forall>c\<in>set s. \<exists>v. hex_value c = Some v \<and> v < r"
  shows "digits_to_nat r s < r ^ length s"
  using assms
proof (induction s rule: rev_induct)
  case Nil
  then show ?case by (simp add: digits_to_nat_def)
next
  case (snoc c s)
  then obtain v where "hex_value c = Some v" "v < r" by auto
  moreover from snoc have "Suc (digits_to_nat r s) * r \<le> r ^ length s * r"
    by (intro mult_le_mono1) auto
  ultimately show ?case by (simp add: hex_digit_def mult.commute)
qed

lemma decimal_digits:
  "decimal n \<noteq> [] \<and> (\<forall>c\<in>set (decimal n). is_digit c \<and> c \<noteq> CHR ''.'') \<and> digits_to_nat 10 (decimal n) = n"
proof (induction n rule: decimal.induct)
  case (1 n)
  show ?case
  proof (cases "n < 10")
    case True
    then show ?thesis
      by (subst (1 2 3) decimal.simps) (simp add: digit_char is_digit_def digits_to_nat_def hex_digit_def)
  next
    case False
    with 1 show ?thesis
      by (subst (1 2 3) decimal.simps) (auto simp: digit_char is_digit_def hex_digit_def)
  qed
qed

lemma decimal_length: "n < 10 ^ Suc k \<Longrightarrow> length (decimal n) \<le> Suc k"
proof (induction k arbitrary: n)
  case 0
  then show ?case by (subst decimal.simps) simp
next
  case (Suc k)
  show ?case
  proof (cases "n < 10")
    case True
    then show ?thesis by (subst decimal.simps) simp
  next
    case False
    from Suc.prems have "n div 10 < 10 ^ Suc k" by (simp add: less_mult_imp_div_less)
    from Suc.IH[OF this] False show ?thesis by (subst decimal.simps) simp
  qed
qed

text \<open>Equations that evaluate the text operations on literals.\<close>

lemmas text_eval =
  Let_def char_code_def digit_value_def hex_value_def is_digit_def is_hex_def is_octal_def
  is_space_def hex_digit_def digits_to_nat_def lower_char_def toLowerCase_def trim_def
  startsWith_def endsWith_def parse_int_def decimal.simps

lemma replicate_pred: "replicate (numeral k) x = x # replicate (pred_numeral k) x"
  by (simp add: numeral_eq_Suc)

end
