(* ===== verification/Net_Address.thy ===== *)
theory Net_Address
  imports Js_Text
begin

unbundle bit_operations_syntax

text \<open>
  \<open>packages/shared/src/net-address.ts\<close>: parsing of IPv4 literals (strict dotted-decimal and the
  \<open>inet_aton\<close> forms), of IPv6, of CIDR blocks, the normalisation of IPv4-mapped addresses, the
  classification of an address, and host-name suffix matching.  An IPv4 address is a quadruple of
  octets, an IPv6 address the list of its eight 16-bit groups; both are natural numbers with the
  source's shifts and masks (its \<open>bigint\<close> values never wrap).
\<close>

section \<open>IPv4 literals\<close>

type_synonym octets = "nat \<times> nat \<times> nat \<times> nat"

fun octet_list :: "octets \<Rightarrow> nat list" where
  "octet_list (a, b, c, d) = [a, b, c, d]"

definition valid_octets :: "octets \<Rightarrow> bool" where
  "valid_octets v = list_all (\<lambda>n. n < 256) (octet_list v)"

text \<open>\<open>v.join('.')\<close>\<close>

definition dotted :: "octets \<Rightarrow> string" where
  "dotted v = join ''.'' (map decimal (octet_list v))"

text \<open>\<open>/^\d{1,3}$/\<close> and the value test of one part.\<close>

definition dec_octet :: "string \<Rightarrow> nat option" where
  "dec_octet part =
     (if list_all is_digit part \<and> 1 \<le> length part \<and> length part \<le> 3 then
        let value = digits_to_nat 10 part in if value > 255 then None else Some value
      else None)"

definition parseIPv4 :: "string \<Rightarrow> octets option" where
  "parseIPv4 input =
     (case map dec_octet (split_on (CHR ''.'') input) of
        [Some a, Some b, Some c, Some d] \<Rightarrow> Some (a, b, c, d)
      | _ \<Rightarrow> None)"

text \<open>One part of an \<open>inet_aton\<close> literal: hexadecimal, octal or decimal.\<close>

definition parseAtonPart :: "string \<Rightarrow> nat option" where
  "parseAtonPart part =
     (if (startsWith part ''0x'' \<or> startsWith part ''0X'')
           \<and> drop 2 part \<noteq> [] \<and> list_all is_hex (drop 2 part)
      then Some (digits_to_nat 16 (drop 2 part))
      else if startsWith part ''0'' \<and> tl part \<noteq> [] \<and> list_all is_octal (tl part)
      then Some (digits_to_nat 8 part)
      else if part = ''0'' \<or> (part \<noteq> [] \<and> hd part \<noteq> CHR ''0'' \<and> list_all is_digit part)
      then Some (digits_to_nat 10 part)
      else None)"

fun all_parts :: "nat option list \<Rightarrow> nat list option" where
  "all_parts [] = Some []"
| "all_parts (None # ps) = None"
| "all_parts (Some p # ps) = map_option ((#) p) (all_parts ps)"

definition total_to_octets :: "nat \<Rightarrow> octets" where
  "total_to_octets n =
     (n div 16777216 mod 256, n div 65536 mod 256, n div 256 mod 256, n mod 256)"

text \<open>The weight \<open>2 ** (8 * (4 - 1 - i))\<close> of every part but the last, from part \<open>i\<close> on.\<close>

fun aton_leading :: "nat \<Rightarrow> nat list \<Rightarrow> nat" where
  "aton_leading i [] = 0"
| "aton_leading i (v # vs) = v * 2 ^ (8 * (3 - i)) + aton_leading (Suc i) vs"

definition parseIPv4Literal :: "string \<Rightarrow> octets option" where
  "parseIPv4Literal input =
     (case parseIPv4 input of
        Some strict \<Rightarrow> Some strict
      | None \<Rightarrow>
          (let parts = split_on (CHR ''.'') input in
           if input = [] \<or> length parts > 4 then None
           else case all_parts (map parseAtonPart parts) of
             None \<Rightarrow> None
           | Some values \<Rightarrow>
               (let n = length values; lastMax = 2 ^ (8 * (4 - (n - 1))) - 1;
                    whole = last values + aton_leading 0 (butlast values)
                in if list_ex (\<lambda>v. v > 255) (butlast values) then None
                   else if last values > lastMax then None
                   else if whole > 4294967295 then None
                   else Some (total_to_octets whole))))"

section \<open>IPv6\<close>

definition is_quad_shape :: "string \<Rightarrow> bool" where
  "is_quad_shape s =
     (let ps = split_on (CHR ''.'') s
      in length ps = 4 \<and> list_all (\<lambda>p. list_all is_digit p \<and> 1 \<le> length p \<and> length p \<le> 3) ps)"

text \<open>\<open>/(\d{1,3}\.\d{1,3}\.\d{1,3}\.\d{1,3})$/.exec\<close>: the leftmost matching suffix.\<close>

fun embedded_quad :: "string \<Rightarrow> string option" where
  "embedded_quad [] = None"
| "embedded_quad (c # cs) = (if is_quad_shape (c # cs) then Some (c # cs) else embedded_quad cs)"

definition hex_group :: "string \<Rightarrow> nat option" where
  "hex_group g =
     (if list_all is_hex g \<and> 1 \<le> length g \<and> length g \<le> 4 then Some (digits_to_nat 16 g) else None)"

definition parseGroups :: "string \<Rightarrow> nat list option" where
  "parseGroups s = (if s = [] then Some [] else all_parts (map hex_group (split_on (CHR '':'') s)))"

fun v4_groups :: "octets \<Rightarrow> nat list" where
  "v4_groups (a, b, c, d) = [push_bit 8 a OR b, push_bit 8 c OR d]"

definition strip_single_colon :: "string \<Rightarrow> string" where
  "strip_single_colon h = (if endsWith h '':'' \<and> \<not> endsWith h ''::'' then butlast h else h)"

definition groups_of :: "string \<Rightarrow> nat list \<Rightarrow> nat list option" where
  "groups_of head v4Tail =
     (case split_double_colon head of
        [side] \<Rightarrow>
          (case parseGroups side of
             None \<Rightarrow> None
           | Some groups \<Rightarrow> (if length (groups @ v4Tail) = 8 then Some (groups @ v4Tail) else None))
      | [side0, side1] \<Rightarrow>
          (case (parseGroups side0, parseGroups side1) of
             (Some headGroups, Some tailGroups) \<Rightarrow>
               (let combinedTail = tailGroups @ v4Tail;
                    present = length headGroups + length combinedTail
                in if present > 8 then None
                   else Some (headGroups @ replicate (8 - present) 0 @ combinedTail))
           | _ \<Rightarrow> None)
      | _ \<Rightarrow> None)"

definition parseIPv6 :: "string \<Rightarrow> nat list option" where
  "parseIPv6 input =
     (let withoutZone = hd (split_on (CHR ''%'') input) in
      case embedded_quad withoutZone of
        None \<Rightarrow> groups_of withoutZone []
      | Some quad \<Rightarrow>
          (case parseIPv4 quad of
             None \<Rightarrow> None
           | Some v4 \<Rightarrow>
               groups_of
                 (strip_single_colon (take (length withoutZone - length quad) withoutZone))
                 (v4_groups v4)))"

definition isIpLiteral :: "string \<Rightarrow> bool" where
  "isIpLiteral input = (parseIPv4Literal input \<noteq> None \<or> parseIPv6 input \<noteq> None)"

definition canonicalizeIpLiteral :: "string \<Rightarrow> string option" where
  "canonicalizeIpLiteral input =
     (case parseIPv4Literal input of
        Some v4 \<Rightarrow> Some (dotted v4)
      | None \<Rightarrow> (if parseIPv6 input \<noteq> None then Some input else None))"

text \<open>The last two groups of an address as four octets.\<close>

definition low_octets :: "nat list \<Rightarrow> octets" where
  "low_octets groups =
     (let g6 = groups ! 6; g7 = groups ! 7
      in (drop_bit 8 g6, g6 AND 255, drop_bit 8 g7, g7 AND 255))"

definition is_mapped :: "nat list \<Rightarrow> bool" where
  "is_mapped v6 = (take 6 v6 = [0, 0, 0, 0, 0, 65535])"

definition normalizeAddress :: "string \<Rightarrow> string" where
  "normalizeAddress input =
     (let trimmed = trim input in
      case parseIPv6 trimmed of
        Some v6 \<Rightarrow> (if is_mapped v6 then dotted (low_octets v6) else trimmed)
      | None \<Rightarrow> trimmed)"

section \<open>Address predicates\<close>

fun isRfc1918V4 :: "octets \<Rightarrow> bool" where
  "isRfc1918V4 (a, b, _, _) =
     (a = 10 \<or> (a = 172 \<and> 16 \<le> b \<and> b \<le> 31) \<or> (a = 192 \<and> b = 168))"

fun isLoopbackV4 :: "octets \<Rightarrow> bool" where
  "isLoopbackV4 (a, _, _, _) = (a = 127)"

fun isLinkLocalV4 :: "octets \<Rightarrow> bool" where
  "isLinkLocalV4 (a, b, _, _) = (a = 169 \<and> b = 254)"

fun isCgnatV4 :: "octets \<Rightarrow> bool" where
  "isCgnatV4 (a, b, _, _) = (a = 100 \<and> 64 \<le> b \<and> b \<le> 127)"

definition isLoopbackV6 :: "nat list \<Rightarrow> bool" where
  "isLoopbackV6 groups = (list_all (\<lambda>g. g = 0) (take 7 groups) \<and> groups ! 7 = 1)"

definition isLinkLocalV6 :: "nat list \<Rightarrow> bool" where
  "isLinkLocalV6 groups = (drop_bit 6 (groups ! 0) = 1018)"

definition isUniqueLocalV6 :: "nat list \<Rightarrow> bool" where
  "isUniqueLocalV6 groups = (drop_bit 9 (groups ! 0) = 126)"

definition NAT64_WELL_KNOWN_PREFIX :: "nat list" where
  "NAT64_WELL_KNOWN_PREFIX = [100, 65435, 0, 0, 0, 0]"

definition nat64EmbeddedV4 :: "nat list \<Rightarrow> octets option" where
  "nat64EmbeddedV4 groups =
     (if take 6 groups = NAT64_WELL_KNOWN_PREFIX then Some (low_octets groups) else None)"

section \<open>CIDR blocks\<close>

datatype address_family = V4 | V6

record cidr_range =
  family :: address_family
  network :: nat
  prefixLen :: nat

datatype cidr_error =
    MissingPrefixLength string | InvalidIPv4PrefixLength string
  | InvalidIPv6PrefixLength string | InvalidCidrAddress string

definition ipv4ToBigInt :: "octets \<Rightarrow> nat" where
  "ipv4ToBigInt v = foldl (\<lambda>acc n. push_bit 8 acc OR n) 0 (octet_list v)"

definition ipv6ToBigInt :: "nat list \<Rightarrow> nat" where
  "ipv6ToBigInt groups = foldl (\<lambda>acc g. push_bit 16 acc OR g) 0 groups"

text \<open>\<open>lastIndexOf('/')\<close> splits a CIDR into its address and its prefix length.\<close>

definition split_last_slash :: "string \<Rightarrow> (string \<times> string) option" where
  "split_last_slash s =
     (if CHR ''/'' \<in> set s then
        let suffix = rev (takeWhile (\<lambda>c. c \<noteq> CHR ''/'') (rev s))
        in Some (take (length s - length suffix - 1) s, suffix)
      else None)"

definition prefix_in_range :: "int option \<Rightarrow> int \<Rightarrow> bool" where
  "prefix_in_range p width = (case p of None \<Rightarrow> False | Some n \<Rightarrow> 0 \<le> n \<and> n \<le> width)"

definition parseCidr :: "string \<Rightarrow> (cidr_error, cidr_range) result" where
  "parseCidr cidr =
     (case split_last_slash cidr of
        None \<Rightarrow> Inl (MissingPrefixLength cidr)
      | Some (address, len_text) \<Rightarrow>
          (let len = parse_int len_text in
           case parseIPv4 address of
             Some v4 \<Rightarrow>
               (if \<not> prefix_in_range len 32 then Inl (InvalidIPv4PrefixLength cidr)
                else Inr \<lparr>family = V4, network = ipv4ToBigInt v4, prefixLen = nat (the len)\<rparr>)
           | None \<Rightarrow>
               (case parseIPv6 address of
                  Some v6 \<Rightarrow>
                    (if \<not> prefix_in_range len 128 then Inl (InvalidIPv6PrefixLength cidr)
                     else Inr \<lparr>family = V6, network = ipv6ToBigInt v6, prefixLen = nat (the len)\<rparr>)
                | None \<Rightarrow> Inl (InvalidCidrAddress cidr))))"

text \<open>\<open>value >> shift\<close> on \<open>bigint\<close>: a negative count shifts left.\<close>

definition bigint_shr :: "nat \<Rightarrow> int \<Rightarrow> nat" where
  "bigint_shr value shift =
     (if 0 \<le> shift then drop_bit (nat shift) value else push_bit (nat (- shift)) value)"

definition isInCidr :: "string \<Rightarrow> cidr_range \<Rightarrow> bool" where
  "isInCidr ip block =
     (let width = (if family block = V4 then 32 else 128);
          shift = width - int (prefixLen block);
          same = (\<lambda>value. prefixLen block = 0 \<or>
                   bigint_shr value shift = bigint_shr (network block) shift)
      in case family block of
           V4 \<Rightarrow> (case parseIPv4 ip of None \<Rightarrow> False | Some v4 \<Rightarrow> same (ipv4ToBigInt v4))
         | V6 \<Rightarrow> (case parseIPv6 ip of None \<Rightarrow> False | Some v6 \<Rightarrow> same (ipv6ToBigInt v6)))"

section \<open>Classification\<close>

datatype address_class =
    Public | Loopback | LinkLocal | Rfc1918 | Cgnat | UniqueLocalV6 | PlatformSubnet | Invalid

definition classify_v4 :: "octets \<Rightarrow> address_class" where
  "classify_v4 v4 =
     (if isLoopbackV4 v4 then Loopback
      else if isLinkLocalV4 v4 then LinkLocal
      else if isRfc1918V4 v4 then Rfc1918
      else if isCgnatV4 v4 then Cgnat
      else Public)"

definition classifyAddress :: "string \<Rightarrow> cidr_range list \<Rightarrow> address_class" where
  "classifyAddress rawIp platformSubnets =
     (let ip = normalizeAddress rawIp in
      if list_ex (isInCidr ip) platformSubnets then PlatformSubnet
      else case parseIPv4 ip of
        Some v4 \<Rightarrow> classify_v4 v4
      | None \<Rightarrow>
          (case parseIPv6 ip of
             Some v6 \<Rightarrow>
               (if isLoopbackV6 v6 then Loopback
                else if isLinkLocalV6 v6 then LinkLocal
                else if isUniqueLocalV6 v6 then UniqueLocalV6
                else case nat64EmbeddedV4 v6 of
                  Some v4 \<Rightarrow>
                    (if list_ex (\<lambda>subnet. family subnet = V4 \<and> isInCidr (dotted v4) subnet)
                          platformSubnets
                     then PlatformSubnet else classify_v4 v4)
                | None \<Rightarrow> Public)
           | None \<Rightarrow> Invalid))"

definition isUnspecifiedAddress :: "string \<Rightarrow> bool" where
  "isUnspecifiedAddress rawIp =
     (let ip = normalizeAddress rawIp in
      case parseIPv4 ip of
        Some (a, _, _, _) \<Rightarrow> a = 0
      | None \<Rightarrow> (case parseIPv6 ip of Some v6 \<Rightarrow> list_all (\<lambda>g. g = 0) v6 | None \<Rightarrow> False))"

section \<open>Host names\<close>

definition normalizeHostname :: "string \<Rightarrow> string" where
  "normalizeHostname hostname =
     (let lower = toLowerCase (trim hostname)
      in if endsWith lower ''.'' then butlast lower else lower)"

text \<open>One pattern of \<open>matchesSuffix\<close> against an already normalized host.\<close>

definition pattern_matches :: "string \<Rightarrow> string \<Rightarrow> bool" where
  "pattern_matches host raw =
     (let pat = normalizeHostname raw
      in pat \<noteq> [] \<and> (host = pat \<or> endsWith host (''.'' @ pat)))"

definition matchesSuffix :: "string \<Rightarrow> string list option \<Rightarrow> bool" where
  "matchesSuffix hostname patterns =
     (case patterns of
        None \<Rightarrow> False
      | Some ps \<Rightarrow> list_ex (pattern_matches (normalizeHostname hostname)) ps)"

definition normalizeDenyHostPattern :: "string \<Rightarrow> string" where
  "normalizeDenyHostPattern raw =
     (let pat = normalizeHostname raw
      in if startsWith pat ''*.'' then drop 2 pat
         else if startsWith pat ''.'' then drop 1 pat
         else pat)"

definition matchesDenySuffix :: "string \<Rightarrow> string list option \<Rightarrow> bool" where
  "matchesDenySuffix hostname patterns =
     matchesSuffix hostname (map_option (map normalizeDenyHostPattern) patterns)"

text \<open>\<open>HOST_PATTERN\<close>: non-empty labels over \<open>[a-z0-9_-]\<close> joined by single dots.\<close>

definition is_host_char :: "char \<Rightarrow> bool" where
  "is_host_char c =
     (let n = char_code c
      in (97 \<le> n \<and> n \<le> 122) \<or> (48 \<le> n \<and> n \<le> 57) \<or> n = 95 \<or> n = 45)"

definition matches_HOST_PATTERN :: "string \<Rightarrow> bool" where
  "matches_HOST_PATTERN s =
     list_all (\<lambda>label. label \<noteq> [] \<and> list_all is_host_char label) (split_on (CHR ''.'') s)"

datatype pattern_problem =
    PatternEmpty | PatternStartsWith string string | PatternWildcard | PatternNotHostName

definition hostPatternProblem :: "string \<Rightarrow> pattern_problem option" where
  "hostPatternProblem raw =
     (let pat = normalizeHostname raw in
      if pat = [] then Some PatternEmpty
      else if isIpLiteral pat then None
      else if startsWith pat ''*.'' \<or> startsWith pat ''.'' then
        Some (PatternStartsWith (if startsWith pat ''*.'' then ''*.'' else ''.'')
                (normalizeDenyHostPattern pat))
      else if CHR ''*'' \<in> set pat then Some PatternWildcard
      else if \<not> matches_HOST_PATTERN pat then Some PatternNotHostName
      else None)"

definition isBareHostname :: "string \<Rightarrow> bool" where
  "isBareHostname hostname = (CHR ''.'' \<notin> set (normalizeHostname hostname))"

section \<open>Evaluation\<close>

declare text_eval [address_defs] replicate_pred [address_defs]
  dotted_def [address_defs] valid_octets_def [address_defs] dec_octet_def [address_defs]
  parseIPv4_def [address_defs] parseAtonPart_def [address_defs] total_to_octets_def [address_defs]
  parseIPv4Literal_def [address_defs] is_quad_shape_def [address_defs] hex_group_def [address_defs]
  parseGroups_def [address_defs] strip_single_colon_def [address_defs] groups_of_def [address_defs]
  parseIPv6_def [address_defs] isIpLiteral_def [address_defs]
  canonicalizeIpLiteral_def [address_defs] low_octets_def [address_defs]
  is_mapped_def [address_defs] normalizeAddress_def [address_defs]
  isLoopbackV6_def [address_defs] isLinkLocalV6_def [address_defs]
  isUniqueLocalV6_def [address_defs] NAT64_WELL_KNOWN_PREFIX_def [address_defs]
  nat64EmbeddedV4_def [address_defs] ipv4ToBigInt_def [address_defs]
  ipv6ToBigInt_def [address_defs] split_last_slash_def [address_defs]
  prefix_in_range_def [address_defs] parseCidr_def [address_defs] bigint_shr_def [address_defs]
  isInCidr_def [address_defs] classify_v4_def [address_defs] classifyAddress_def [address_defs]
  isUnspecifiedAddress_def [address_defs] normalizeHostname_def [address_defs]
  pattern_matches_def [address_defs] matchesSuffix_def [address_defs]
  normalizeDenyHostPattern_def [address_defs] matchesDenySuffix_def [address_defs]
  isBareHostname_def [address_defs]

end
