(* ===== verification/Address_Laws.thy ===== *)
theory Address_Laws
  imports Net_Address
begin

text \<open>
  What the address component promises its clients: parsed values are in range, rendering and
  parsing are inverse, an IPv4-mapped spelling is judged as the IPv4 address it stands for, CIDR
  membership is an interval test, and suffix patterns match at label boundaries only.
\<close>

section \<open>Shifts and masks\<close>

lemma push_or_add:
  fixes a b :: nat
  assumes "b < 2 ^ n"
  shows "push_bit n a OR b = a * 2 ^ n + b"
proof -
  from assms have "take_bit n b = b" by (rule take_bit_nat_eq_self)
  then have "\<not> bit b k" if "n \<le> k" for k
    using that by (metis bit_take_bit_iff linorder_not_less)
  then have "push_bit n a AND b = 0"
    by (intro bit_eqI) (auto simp: bit_simps)
  then show ?thesis by (simp add: push_bit_eq_mult flip: disjunctive_add_eq_or)
qed

lemma and_255: "(x::nat) AND 255 = x mod 256"
proof -
  have "(255::nat) = mask 8" by (simp add: mask_eq_exp_minus_1)
  then have "x AND 255 = take_bit 8 x" by (simp only: take_bit_eq_mask)
  then show ?thesis by (simp add: take_bit_eq_mod)
qed

section \<open>IPv4\<close>

lemma dec_octet_bound: "dec_octet p = Some n \<Longrightarrow> n < 256"
  by (auto simp: dec_octet_def Let_def split: if_splits)

lemma dec_octet_decimal: "n < 256 \<Longrightarrow> dec_octet (decimal n) = Some n"
  using decimal_digits[of n] decimal_length[of n 2]
  by (auto simp: dec_octet_def list_all_iff Suc_le_eq)

lemma parseIPv4_Some_iff:
  "parseIPv4 s = Some (a, b, c, d) \<longleftrightarrow>
     map dec_octet (split_on (CHR ''.'') s) = [Some a, Some b, Some c, Some d]"
  unfolding parseIPv4_def by (auto split: list.splits option.splits)

lemma parseIPv4_valid: "parseIPv4 s = Some v \<Longrightarrow> valid_octets v"
proof -
  assume h: "parseIPv4 s = Some v"
  obtain a b c d where v: "v = (a, b, c, d)" by (cases v) auto
  from h have "map dec_octet (split_on (CHR ''.'') s) = [Some a, Some b, Some c, Some d]"
    by (simp add: v parseIPv4_Some_iff)
  then show ?thesis
    by (auto simp: v valid_octets_def map_eq_Cons_conv dest!: dec_octet_bound)
qed

lemma split_dotted: "split_on (CHR ''.'') (dotted v) = map decimal (octet_list v)"
  unfolding dotted_def using decimal_digits
  by (intro split_on_join) (cases v; auto)+

lemma parseIPv4_dotted: "valid_octets v \<Longrightarrow> parseIPv4 (dotted v) = Some v"
  by (cases v) (simp add: parseIPv4_Some_iff split_dotted valid_octets_def dec_octet_decimal)

lemma total_to_octets_valid: "valid_octets (total_to_octets n)"
  by (simp add: total_to_octets_def valid_octets_def)

lemma parseIPv4Literal_valid: "parseIPv4Literal s = Some v \<Longrightarrow> valid_octets v"
  by (auto simp: parseIPv4Literal_def Let_def total_to_octets_valid parseIPv4_valid
      split: option.splits if_splits)

lemma parseIPv4Literal_strict: "parseIPv4 s = Some v \<Longrightarrow> parseIPv4Literal s = Some v"
  by (simp add: parseIPv4Literal_def)

text \<open>
  A literal syntax: a parser whose values are valid, and whose rendering parses back.
  The canonical text of a literal is then a normal form that decides equality of addresses.
\<close>

locale literal_syntax =
  fixes parse :: "string \<Rightarrow> 'a option"
    and render :: "'a \<Rightarrow> string"
    and valid :: "'a \<Rightarrow> bool"
  assumes parse_valid: "parse s = Some v \<Longrightarrow> valid v"
    and parse_render: "valid v \<Longrightarrow> parse (render v) = Some v"
begin

lemma canonical_fixpoint: "parse s = Some v \<Longrightarrow> parse (render v) = Some v"
  by (blast intro: parse_render parse_valid)

lemma canonical_decides_equality:
  "parse s = Some v \<Longrightarrow> parse t = Some w \<Longrightarrow> render v = render w \<longleftrightarrow> v = w"
  by (metis canonical_fixpoint option.inject)

end

interpretation strict_v4: literal_syntax parseIPv4 dotted valid_octets
  by unfold_locales (auto intro: parseIPv4_valid parseIPv4_dotted)

interpretation aton_v4: literal_syntax parseIPv4Literal dotted valid_octets
  by unfold_locales (auto intro: parseIPv4Literal_valid parseIPv4_dotted parseIPv4Literal_strict)

section \<open>IPv6\<close>

lemma all_parts_Some_iff: "all_parts ps = Some xs \<longleftrightarrow> ps = map Some xs"
proof (induction ps arbitrary: xs rule: all_parts.induct)
  case (3 p ps)
  then show ?case by (cases xs) auto
qed auto

lemma hex_group_bound: "hex_group g = Some n \<Longrightarrow> n < 65536"
proof -
  assume "hex_group g = Some n"
  then have g: "list_all is_hex g" "length g \<le> 4" "n = digits_to_nat 16 g"
    by (auto simp: hex_group_def split: if_splits)
  then have "\<forall>c\<in>set g. \<exists>v. hex_value c = Some v \<and> v < 16"
    by (force simp: list_all_iff is_hex_def dest: hex_value_bound)
  then have "n < 16 ^ length g" using g(3) digits_to_nat_bound by simp
  also have "\<dots> \<le> 16 ^ 4" using g(2) by (intro power_increasing) auto
  finally show ?thesis by simp
qed

definition valid_groups :: "nat list \<Rightarrow> bool" where
  "valid_groups gs = (length gs = 8 \<and> list_all (\<lambda>g. g < 65536) gs)"

lemma parseGroups_bound:
  assumes "parseGroups s = Some gs"
  shows "list_all (\<lambda>g. g < 65536) gs"
proof (cases "s = []")
  case True
  with assms show ?thesis by (simp add: parseGroups_def)
next
  case False
  with assms have "map hex_group (split_on (CHR '':'') s) = map Some gs"
    by (simp add: parseGroups_def all_parts_Some_iff)
  then have "\<forall>g\<in>set gs. \<exists>p. hex_group p = Some g"
    by (metis (no_types, lifting) image_iff list.set_map)
  then show ?thesis by (auto simp: list_all_iff dest: hex_group_bound)
qed

lemma v4_groups_eq: "valid_octets (a, b, c, d) \<Longrightarrow> v4_groups (a, b, c, d) = [a * 256 + b, c * 256 + d]"
  using push_or_add[of b 8 a] push_or_add[of d 8 c] by (simp add: valid_octets_def)

lemma v4_groups_bound: "valid_octets v \<Longrightarrow> list_all (\<lambda>g. g < 65536) (v4_groups v)"
  by (cases v) (simp del: v4_groups.simps add: v4_groups_eq, simp add: valid_octets_def)

lemma groups_of_valid:
  assumes "groups_of h t = Some gs" and "list_all (\<lambda>g. g < 65536) t"
  shows "valid_groups gs"
  using assms
  by (auto simp: groups_of_def valid_groups_def Let_def list_all_iff[of _ "replicate _ _"]
      split: list.splits option.splits if_splits dest!: parseGroups_bound)

lemma parseIPv6_valid: "parseIPv6 s = Some gs \<Longrightarrow> valid_groups gs"
  by (auto simp: parseIPv6_def Let_def split: option.splits
      elim!: groups_of_valid intro: v4_groups_bound parseIPv4_valid)

lemma low_octets_valid: "valid_groups gs \<Longrightarrow> valid_octets (low_octets gs)"
proof -
  assume "valid_groups gs"
  then have "gs ! 6 < 65536" "gs ! 7 < 65536" by (auto simp: valid_groups_def list_all_length)
  then show ?thesis
    by (auto simp: low_octets_def Let_def valid_octets_def and_255 drop_bit_eq_div)
qed

text \<open>The octets of a group pair put back together.\<close>

lemma v4_groups_low_octets:
  assumes "valid_groups gs"
  shows "v4_groups (low_octets gs) = [gs ! 6, gs ! 7]"
proof -
  have "(gs ! i) div 256 * 256 + (gs ! i) mod 256 = gs ! i" for i by simp
  with low_octets_valid[OF assms] show ?thesis
    by (simp add: low_octets_def Let_def v4_groups_eq and_255 drop_bit_eq_div del: v4_groups.simps)
qed

section \<open>Normal form of an address text\<close>

lemma dotted_chars: "c \<in> set (dotted v) \<Longrightarrow> is_digit c \<or> c = CHR ''.''"
proof (cases v)
  case (fields a b c' d)
  assume "c \<in> set (dotted v)"
  with fields show ?thesis using decimal_digits by (auto simp: dotted_def)
qed

lemma dotted_no_special:
  assumes "c \<in> set (dotted v)"
  shows "\<not> is_space c" and "c \<noteq> CHR ''%''" and "c \<noteq> CHR '':''"
  using dotted_chars[OF assms]
  by (auto simp: is_digit_def digit_value_def is_space_def char_code_def Let_def split: if_splits)

lemma dropWhile_nothing: "(\<forall>c\<in>set s. \<not> P c) \<Longrightarrow> dropWhile P s = s"
  by (cases s) auto

lemma trim_id: "(\<forall>c\<in>set s. \<not> is_space c) \<Longrightarrow> trim s = s"
  by (simp add: trim_def dropWhile_nothing)

lemma trim_dotted [simp]: "trim (dotted v) = dotted v"
  by (rule trim_id) (blast dest: dotted_no_special)

lemma is_quad_shape_dotted: "valid_octets v \<Longrightarrow> is_quad_shape (dotted v)"
  using decimal_digits decimal_length[of _ 2]
  by (cases v) (auto simp: is_quad_shape_def Let_def split_dotted valid_octets_def list_all_iff Suc_le_eq)

lemma dotted_nonempty: "dotted v \<noteq> []"
  using decimal_digits by (cases v) (auto simp: dotted_def)

lemma parseIPv6_dotted:
  assumes "valid_octets v"
  shows "parseIPv6 (dotted v) = None"
proof -
  have "embedded_quad (dotted v) = Some (dotted v)"
    using is_quad_shape_dotted[OF assms] dotted_nonempty[of v] by (cases "dotted v") auto
  moreover have "CHR ''%'' \<notin> set (dotted v)" using dotted_no_special(2)[of _ v] by auto
  moreover have "length (v4_groups v) = 2" by (cases v) simp
  ultimately show ?thesis
    by (simp add: parseIPv6_def split_on_no_sep parseIPv4_dotted[OF assms] strip_single_colon_def
        endsWith_def groups_of_def parseGroups_def)
qed

lemma normalize_dotted: "valid_octets v \<Longrightarrow> normalizeAddress (dotted v) = dotted v"
  by (simp add: normalizeAddress_def parseIPv6_dotted)

lemma normalize_mapped:
  assumes "parseIPv6 (trim s) = Some gs" and "is_mapped gs"
  shows "normalizeAddress s = dotted (low_octets gs)"
  using assms by (simp add: normalizeAddress_def)

section \<open>Classification\<close>

lemma classify_dotted:
  "valid_octets v \<Longrightarrow> \<not> list_ex (isInCidr (dotted v)) P \<Longrightarrow> classifyAddress (dotted v) P = classify_v4 v"
  by (simp add: classifyAddress_def normalize_dotted parseIPv4_dotted)

lemma classify_dotted_subnet:
  "valid_octets v \<Longrightarrow> list_ex (isInCidr (dotted v)) P \<Longrightarrow> classifyAddress (dotted v) P = PlatformSubnet"
  by (simp add: classifyAddress_def normalize_dotted)

text \<open>
  C25: every spelling of an IPv4-mapped IPv6 address (compressed, uppercase, with its IPv4 tail
  dotted or in hexadecimal, with a zone, surrounded by blanks) normalises to the dotted text of the
  IPv4 address it stands for, its last two groups.  It is classified as that address is: in the
  platform's subnets if that address is in one of them, and otherwise by its octets; and it is
  unspecified exactly when that address is.  No spelling of an internal address passes as a public
  IPv6 one.  (\<open>isInCidr\<close> itself takes a text as it is; \<open>classifyAddress\<close> hands it the normal form.)
\<close>

theorem mapped_address_as_v4:
  assumes "parseIPv6 (trim s) = Some gs" and "is_mapped gs"
  shows "normalizeAddress s = dotted (low_octets gs)
         \<and> v4_groups (low_octets gs) = [gs ! 6, gs ! 7]
         \<and> classifyAddress s P = classifyAddress (dotted (low_octets gs)) P
         \<and> classifyAddress s P
           = (if \<exists>r\<in>set P. isInCidr (dotted (low_octets gs)) r then PlatformSubnet else classify_v4 (low_octets gs))
         \<and> isUnspecifiedAddress s = isUnspecifiedAddress (dotted (low_octets gs))"
proof -
  from parseIPv6_valid[OF assms(1)] have v: "valid_groups gs" .
  note o = low_octets_valid[OF v]
  have "normalizeAddress s = normalizeAddress (dotted (low_octets gs))"
    using normalize_mapped[OF assms] normalize_dotted[OF o] by simp
  then have "classifyAddress s P = classifyAddress (dotted (low_octets gs)) P"
    by (simp add: classifyAddress_def)
  with \<open>normalizeAddress s = normalizeAddress (dotted (low_octets gs))\<close> v4_groups_low_octets[OF v]
    classify_dotted[OF o, of P] classify_dotted_subnet[OF o, of P] normalize_dotted[OF o] show ?thesis
    by (simp add: isUnspecifiedAddress_def list_ex_iff)
qed

theorem mapped_address_as_v4_witness:
  "parseIPv6 (trim '' ::FFFF:7f00:1'') = Some [0, 0, 0, 0, 0, 65535, 32512, 1]
   \<and> normalizeAddress '' ::FFFF:7f00:1'' = dotted (127, 0, 0, 1)
   \<and> classifyAddress '' ::FFFF:7f00:1'' [] = classifyAddress (dotted (127, 0, 0, 1)) []"
proof -
  have h: "parseIPv6 (trim '' ::FFFF:7f00:1'') = Some [0, 0, 0, 0, 0, 65535, 32512, 1]"
    by (simp add: address_defs)
  have m: "is_mapped [0, 0, 0, 0, 0, 65535, 32512, 1]" by (simp add: is_mapped_def)
  have o: "low_octets [0, 0, 0, 0, 0, 65535, 32512, 1] = (127, 0, 0, 1)" by (simp add: address_defs)
  from mapped_address_as_v4[OF h m, of "[]", unfolded o] h show ?thesis by blast
qed

text \<open>The private IPv4 blocks and the local IPv6 ones, spelled out.\<close>

definition private_v4 :: "octets \<Rightarrow> bool" where
  "private_v4 v \<longleftrightarrow> (\<exists>b c d. v = (127, b, c, d) \<or> v = (10, b, c, d)
     \<or> v = (172, b, c, d) \<and> b \<in> {16..31} \<or> v = (100, b, c, d) \<and> b \<in> {64..127}
     \<or> v = (192, 168, c, d) \<or> v = (169, 254, c, d))"

definition private_v6 :: "nat list \<Rightarrow> bool" where
  "private_v6 gs \<longleftrightarrow> gs = [0, 0, 0, 0, 0, 0, 0, 1] \<or> gs ! 0 \<in> {0xfe80..0xfebf} \<or> gs ! 0 \<in> {0xfc00..0xfdff}"

lemma classify_v4_public: "classify_v4 v = Public \<longleftrightarrow> \<not> private_v4 v"
  by (cases v) (auto simp: classify_v4_def private_v4_def)

lemma private_v6_checks: "private_v6 gs \<Longrightarrow> isLoopbackV6 gs \<or> isLinkLocalV6 gs \<or> isUniqueLocalV6 gs"
  by (auto simp: private_v6_def isLoopbackV6_def isLinkLocalV6_def isUniqueLocalV6_def drop_bit_eq_div)

text \<open>
  C26: an address classified public is parseable and lies in no platform subnet.  An IPv4 address, or
  the NAT64 or mapped form of one, is outside \<open>127.0.0.0/8\<close>, \<open>169.254.0.0/16\<close>, the three RFC 1918
  blocks and the carrier-grade NAT block \<open>100.64.0.0/10\<close>, and the NAT64 form of one stands for no
  address of an IPv4 platform subnet; an IPv6 address is not the loopback \<open>::1\<close> and is outside the
  link-local block \<open>fe80::/10\<close> and the unique-local block \<open>fc00::/7\<close>.
\<close>

theorem public_is_outside_private_ranges:
  assumes "classifyAddress s P = Public"
  shows "\<not> list_ex (isInCidr (normalizeAddress s)) P
         \<and> (parseIPv4 (normalizeAddress s) \<noteq> None \<or> parseIPv6 (normalizeAddress s) \<noteq> None)
         \<and> (\<forall>v. parseIPv4 (normalizeAddress s) = Some v \<longrightarrow> \<not> private_v4 v)
         \<and> (\<forall>gs. parseIPv4 (normalizeAddress s) = None \<and> parseIPv6 (normalizeAddress s) = Some gs \<longrightarrow>
              \<not> private_v6 gs
              \<and> (\<forall>v. nat64EmbeddedV4 gs = Some v \<longrightarrow>
                   \<not> private_v4 v \<and> (\<forall>r\<in>set P. family r = V4 \<longrightarrow> \<not> isInCidr (dotted v) r)))"
  using assms private_v6_checks
  by (auto simp: classifyAddress_def classify_v4_public Let_def list_ex_iff split: if_splits option.splits)

theorem public_is_outside_private_ranges_witness:
  "classifyAddress ''64:ff9b::808:808'' [] = Public \<and> \<not> private_v4 (8, 8, 8, 8)"
proof -
  have p6: "parseIPv6 ''64:ff9b::808:808'' = Some [100, 65435, 0, 0, 0, 0, 2056, 2056]"
    by (simp add: address_defs)
  have "trim ''64:ff9b::808:808'' = ''64:ff9b::808:808''" by (simp add: text_eval)
  then have nz: "normalizeAddress ''64:ff9b::808:808'' = ''64:ff9b::808:808''"
    by (simp add: normalizeAddress_def p6 is_mapped_def)
  have n: "parseIPv4 (normalizeAddress ''64:ff9b::808:808'') = None"
    "parseIPv6 (normalizeAddress ''64:ff9b::808:808'') = Some [100, 65435, 0, 0, 0, 0, 2056, 2056]"
    unfolding nz by (simp add: parseIPv4_def dec_octet_def text_eval) (rule p6)
  have e: "nat64EmbeddedV4 [100, 65435, 0, 0, 0, 0, 2056, 2056] = Some (8, 8, 8, 8)"
    by (simp add: nat64EmbeddedV4_def NAT64_WELL_KNOWN_PREFIX_def low_octets_def Let_def)
  have h: "classifyAddress ''64:ff9b::808:808'' [] = Public"
    by (simp add: classifyAddress_def n e Let_def classify_v4_def isLoopbackV6_def isLinkLocalV6_def
        isUniqueLocalV6_def)
  from public_is_outside_private_ranges[OF h] n e have "\<not> private_v4 (8, 8, 8, 8)" by blast
  with h show ?thesis by (rule conjI)
qed

section \<open>CIDR membership\<close>

lemma ipv4_value: "valid_octets (a, b, c, d) \<Longrightarrow>
    ipv4ToBigInt (a, b, c, d) = ((a * 256 + b) * 256 + c) * 256 + d"
  using push_or_add[of b 8 a] push_or_add[of c 8 "a * 256 + b"]
    push_or_add[of d 8 "(a * 256 + b) * 256 + c"] push_or_add[of a 8 0]
  by (simp add: ipv4ToBigInt_def valid_octets_def)

lemma foldl_groups_bound:
  fixes gs :: "nat list"
  shows "list_all (\<lambda>g. g < 65536) gs \<Longrightarrow> foldl (\<lambda>acc g. push_bit 16 acc OR g) 0 gs < 2 ^ (16 * length gs)"
proof (induction gs rule: rev_induct)
  case Nil
  then show ?case by simp
next
  case (snoc g gs)
  let ?v = "foldl (\<lambda>acc g. push_bit 16 acc OR g) 0 gs"
  from snoc have "?v < 2 ^ (16 * length gs)" "g < 65536" by simp_all
  moreover from this(1) have "Suc ?v * 65536 \<le> 2 ^ (16 * length gs) * 65536"
    by (intro mult_le_mono1) simp
  ultimately show ?case
    using push_or_add[of g 16 ?v] by (simp add: power_add)
qed

definition width_of :: "address_family \<Rightarrow> nat" where
  "width_of f = (case f of V4 \<Rightarrow> 32 | V6 \<Rightarrow> 128)"

definition address_value :: "address_family \<Rightarrow> string \<Rightarrow> nat option" where
  "address_value f ip =
     (case f of V4 \<Rightarrow> map_option ipv4ToBigInt (parseIPv4 ip)
      | V6 \<Rightarrow> map_option ipv6ToBigInt (parseIPv6 ip))"

lemma address_value_bound:
  assumes "address_value f ip = Some v"
  shows "v < 2 ^ width_of f"
proof (cases f)
  case V4
  with assms obtain a b c d where p: "parseIPv4 ip = Some (a, b, c, d)"
      "v = ipv4ToBigInt (a, b, c, d)"
    by (auto simp: address_value_def)
  with parseIPv4_valid[OF p(1)] V4 show ?thesis
    by (simp add: ipv4_value width_of_def) (simp add: valid_octets_def)
next
  case V6
  with assms obtain gs where p: "parseIPv6 ip = Some gs" "v = ipv6ToBigInt gs"
    by (auto simp: address_value_def)
  from parseIPv6_valid[OF p(1)] foldl_groups_bound[of gs] p(2) V6 show ?thesis
    by (simp add: ipv6ToBigInt_def width_of_def valid_groups_def)
qed

lemma parseCidr_bounds:
  assumes "parseCidr c = Inr r"
  shows "prefixLen r \<le> width_of (family r) \<and> network r < 2 ^ width_of (family r)"
proof -
  from assms obtain addr where
    "prefixLen r \<le> width_of (family r) \<and> address_value (family r) addr = Some (network r)"
    by (fastforce simp: parseCidr_def address_value_def width_of_def prefix_in_range_def Let_def
        split: option.splits if_splits)
  with address_value_bound show ?thesis by blast
qed

text \<open>The block a range denotes: its first address and its number of addresses.\<close>

definition cidr_size :: "cidr_range \<Rightarrow> nat" where
  "cidr_size r = 2 ^ (width_of (family r) - prefixLen r)"

definition cidr_first :: "cidr_range \<Rightarrow> nat" where
  "cidr_first r = network r div cidr_size r * cidr_size r"

lemma same_block_iff:
  fixes v n k :: nat
  assumes "0 < k"
  shows "v div k = n div k \<longleftrightarrow> n div k * k \<le> v \<and> v < n div k * k + k"
proof
  assume "v div k = n div k"
  then show "n div k * k \<le> v \<and> v < n div k * k + k"
    using div_times_less_eq_dividend[of v k] dividend_less_div_times[OF assms, of v]
    by (simp add: add.commute)
next
  assume "n div k * k \<le> v \<and> v < n div k * k + k"
  then show "v div k = n div k"
    by (intro div_nat_eqI) (auto simp: mult.commute)
qed

lemma isInCidr_iff:
  assumes "prefixLen r \<le> width_of (family r)" and "network r < 2 ^ width_of (family r)"
  shows "isInCidr ip r \<longleftrightarrow>
     (\<exists>v. address_value (family r) ip = Some v \<and> v div cidr_size r = network r div cidr_size r)"
proof -
  define w where "w = width_of (family r)"
  have shift: "bigint_shr v (int w - int (prefixLen r)) = v div cidr_size r" for v
    using assms(1) by (simp add: bigint_shr_def cidr_size_def w_def drop_bit_eq_div nat_diff_distrib')
  have all: "v div cidr_size r = network r div cidr_size r"
    if "prefixLen r = 0" "address_value (family r) ip = Some v" for v
    using that assms(2) address_value_bound[OF that(2)] by (simp add: cidr_size_def)
  show ?thesis
    using shift all
    by (cases "family r")
      (auto simp: isInCidr_def Let_def w_def width_of_def address_value_def split: option.splits)
qed

text \<open>
  C27: membership in a parsed CIDR block is an interval test on the address read as a number of
  its family: the block starts at the network with its host bits cleared and holds
  \<open>2 ^ (width - prefix)\<close> addresses; text of the other family, or no address at all, is outside.
\<close>

theorem cidr_is_interval:
  assumes "parseCidr c = Inr r"
  shows "isInCidr ip r \<longleftrightarrow>
     (\<exists>v. address_value (family r) ip = Some v \<and> cidr_first r \<le> v \<and> v < cidr_first r + cidr_size r)"
proof -
  have "0 < cidr_size r" by (simp add: cidr_size_def)
  with isInCidr_iff[of r ip] parseCidr_bounds[OF assms] show ?thesis
    by (simp add: same_block_iff cidr_first_def)
qed

theorem cidr_is_interval_witness:
  "parseCidr ''10.1.2.3/8'' = Inr \<lparr>family = V4, network = 167838211, prefixLen = 8\<rparr>
   \<and> isInCidr ''10.255.0.1'' \<lparr>family = V4, network = 167838211, prefixLen = 8\<rparr>"
proof -
  have h: "parseCidr ''10.1.2.3/8'' = Inr \<lparr>family = V4, network = 167838211, prefixLen = 8\<rparr>"
    by (simp add: address_defs)
  have v: "address_value V4 ''10.255.0.1'' = Some 184483841"
    by (simp add: address_value_def address_defs)
  from h cidr_is_interval[OF h, of "''10.255.0.1''"] v show ?thesis
    by (simp add: cidr_first_def cidr_size_def width_of_def)
qed

section \<open>Host-name suffixes\<close>

abbreviation labels :: "string \<Rightarrow> string list" where
  "labels h \<equiv> split_on (CHR ''.'') h"

lemma endsWith_dot_labels:
  "(h = p \<or> endsWith h (''.'' @ p)) \<longleftrightarrow> (\<exists>ls. labels h = ls @ labels p)"
proof
  assume "h = p \<or> endsWith h (''.'' @ p)"
  then show "\<exists>ls. labels h = ls @ labels p"
    by (auto simp: endsWith_iff split_on_append_gen)
next
  assume "\<exists>ls. labels h = ls @ labels p"
  then obtain ls where ls: "labels h = ls @ labels p" by blast
  show "h = p \<or> endsWith h (''.'' @ p)"
  proof (cases "ls = []")
    case True
    with ls show ?thesis by (metis append_Nil join_split_on)
  next
    case False
    from ls have "h = join ''.'' (ls @ labels p)" using join_split_on[of "CHR ''.''" h] by simp
    with False have "h = join ''.'' ls @ ''.'' @ p"
      by (simp add: join_append join_split_on)
    then show ?thesis by (auto simp: endsWith_iff)
  qed
qed

text \<open>
  C28: a host matches an allow or deny pattern exactly when the pattern's dot-separated labels are
  the last labels of the host (both normalized: trimmed, lower case, no trailing dot): the pattern
  itself and every subdomain match, a name that merely ends in the same letters never does.
\<close>

theorem suffix_match_is_label_suffix:
  "matchesSuffix h (Some ps) \<longleftrightarrow>
     (\<exists>raw\<in>set ps. normalizeHostname raw \<noteq> []
        \<and> (\<exists>ls. labels (normalizeHostname h) = ls @ labels (normalizeHostname raw)))"
  using endsWith_dot_labels
  by (auto simp: matchesSuffix_def pattern_matches_def list_ex_iff Let_def)

lemma trim_id_parts:
  assumes "trim n = n"
  shows "dropWhile is_space n = n" and "dropWhile is_space (rev n) = rev n"
proof -
  have full: "dropWhile P xs = xs" if "length xs \<le> length (dropWhile P xs)" for P and xs :: string
  proof -
    have "length xs = length (takeWhile P xs) + length (dropWhile P xs)"
      by (metis length_append takeWhile_dropWhile_id)
    with that have "takeWhile P xs = []" by simp
    then show ?thesis by (metis append_Nil takeWhile_dropWhile_id)
  qed
  have "length n = length (dropWhile is_space (rev (dropWhile is_space n)))"
    using assms by (metis length_rev trim_def)
  also have "\<dots> \<le> length (dropWhile is_space n)"
    using length_dropWhile_le[of is_space "rev (dropWhile is_space n)"] by simp
  finally show d: "dropWhile is_space n = n" by (rule full)
  have "rev (dropWhile is_space (rev n)) = n" using assms by (simp add: trim_def d)
  then have "rev (rev (dropWhile is_space (rev n))) = rev n" by (rule arg_cong)
  then show "dropWhile is_space (rev n) = rev n" by simp
qed

lemma length_trim_le: "length (trim n) \<le> length n"
  by (metis length_dropWhile_le length_rev order.trans trim_def)

lemma normalizeHostname_char:
  assumes "normalizeHostname n = n" and "n \<noteq> []"
  shows "trim n = n" and "toLowerCase n = n" and "\<not> endsWith n ''.''"
proof -
  have "length (normalizeHostname n) \<le> length (trim n)"
    by (simp add: normalizeHostname_def Let_def toLowerCase_def)
  with length_trim_le[of n] assms(1) have eq: "length (trim n) = length n" by simp
  have "length (normalizeHostname n) < length n" if "endsWith (toLowerCase (trim n)) ''.''"
    using that assms(2) eq by (simp add: normalizeHostname_def Let_def toLowerCase_def)
  with assms(1) have nd: "\<not> endsWith (toLowerCase (trim n)) ''.''" by auto
  with assms(1) have low: "toLowerCase (trim n) = n" by (simp add: normalizeHostname_def Let_def)
  have drop: "dropWhile P xs = xs" if "length (dropWhile P xs) = length xs" for P and xs :: string
    using that by (metis append_Nil append_eq_append_conv takeWhile_dropWhile_id)
  have "trim n = n"
  proof -
    have l: "length (dropWhile is_space (rev (dropWhile is_space n))) = length n"
      using eq by (simp add: trim_def)
    have "length (dropWhile is_space n) = length n"
      using length_dropWhile_le[of is_space "rev (dropWhile is_space n)"]
        length_dropWhile_le[of is_space n] l by simp
    then have d: "dropWhile is_space n = n" by (rule drop)
    with l have "length (dropWhile is_space (rev n)) = length (rev n)" by simp
    then have "dropWhile is_space (rev n) = rev n" by (rule drop)
    with d show ?thesis by (simp add: trim_def)
  qed
  with low nd show "trim n = n" "toLowerCase n = n" "\<not> endsWith n ''.''" by simp_all
qed

lemma normalizeHostname_prefixed:
  assumes n: "normalizeHostname n = n" "n \<noteq> []"
    and p: "list_all (\<lambda>c. \<not> is_space c \<and> lower_char c = c) p"
  shows "normalizeHostname (p @ n) = p @ n"
proof -
  note f = normalizeHostname_char[OF n]
  note parts = trim_id_parts[OF f(1)]
  have last: "\<not> is_space (hd (rev n))"
    using n(2) parts(2) by (metis hd_dropWhile rev_is_Nil_conv)
  have d: "dropWhile is_space (p @ n) = p @ n"
    using p parts(1) by (cases p) simp_all
  have "dropWhile is_space (rev (p @ n)) = rev (p @ n)"
    using last n(2) by (cases "rev n") auto
  with d have t: "trim (p @ n) = p @ n" by (simp add: trim_def)
  have l: "toLowerCase (p @ n) = p @ n"
    using p f(2) by (simp add: toLowerCase_def list_all_iff map_idI)
  have "\<not> endsWith (p @ n) ''.''"
    using f(3) n(2) by (auto simp: endsWith_iff) (metis append_butlast_last_id append_is_Nil_conv
        last_appendR last_snoc)
  with t l show ?thesis by (simp add: normalizeHostname_def)
qed

text \<open>
  A deny entry written as a bare domain, with a leading dot or as a \<open>*.\<close> wildcard denies
  the same hosts: the domain and all of its subdomains.
\<close>

theorem deny_forms_agree:
  assumes "normalizeHostname n = n" and "n \<noteq> []"
    and "\<not> startsWith n ''.''" and "\<not> startsWith n ''*.''"
  shows "matchesDenySuffix h (Some [''*.'' @ n]) = matchesSuffix h (Some [n])
         \<and> matchesDenySuffix h (Some [''.'' @ n]) = matchesSuffix h (Some [n])
         \<and> matchesDenySuffix h (Some [n]) = matchesSuffix h (Some [n])"
proof -
  have "normalizeHostname (''*.'' @ n) = ''*.'' @ n"
    by (rule normalizeHostname_prefixed[OF assms(1,2)]) (simp add: text_eval)
  moreover have "normalizeHostname (''.'' @ n) = ''.'' @ n"
    by (rule normalizeHostname_prefixed[OF assms(1,2)]) (simp add: text_eval)
  ultimately have "normalizeDenyHostPattern (''*.'' @ n) = n"
    "normalizeDenyHostPattern (''.'' @ n) = n" "normalizeDenyHostPattern n = n"
    using assms by (simp_all add: normalizeDenyHostPattern_def startsWith_def)
  then show ?thesis by (simp add: matchesDenySuffix_def)
qed

theorem deny_forms_agree_witness:
  "matchesDenySuffix ''API.Example.com.'' (Some [''*.'' @ ''example.com''])
   \<and> \<not> matchesDenySuffix ''badexample.com'' (Some [''*.'' @ ''example.com''])"
proof -
  have h: "normalizeHostname ''example.com'' = ''example.com''"
    by (simp add: normalizeHostname_def text_eval)
  have d: "matchesDenySuffix x (Some [''*.'' @ ''example.com''])
      = matchesSuffix x (Some [''example.com''])" for x
    using deny_forms_agree[OF h, of x] by (simp add: startsWith_def)
  have "normalizeHostname ''API.Example.com.'' = ''api.example.com''"
    "normalizeHostname ''badexample.com'' = ''badexample.com''"
    by (simp_all add: normalizeHostname_def text_eval char_of_def bit_Suc_0_iff)
  then show ?thesis
    unfolding d by (simp add: matchesSuffix_def pattern_matches_def h Let_def endsWith_def)
qed

end
