(* ===== verification/Egress.thy ===== *)
theory Egress
  imports Address_Laws
begin

text \<open>
  The two network decisions of the platform.  \<open>packages/egress-proxy/src/policy.ts\<close> decides where
  a Worker container may connect (public addresses only); \<open>packages/shared/src/outbound-target.ts\<close>
  decides which owner-supplied URLs the kernel itself may fetch (anything but the platform's own
  networks and the local host).  \<open>packages/egress-proxy/src/source-map.ts\<close> reports the pattern
  entries of a source that can never match.

  The resolver and the WHATWG URL parser are parameters: a resolver returns \<open>None\<close> where the
  injected callback rejects, a URL parser \<open>None\<close> where \<open>new URL\<close> throws, and the protocol and
  host name otherwise.
\<close>

type_synonym resolver = "string \<Rightarrow> string list option"
type_synonym url_parser = "string \<Rightarrow> (string \<times> string) option"

text \<open>An optional flag counts only when it is present and true.\<close>

abbreviation truthy :: "bool option \<Rightarrow> bool" where
  "truthy flag \<equiv> flag = Some True"

section \<open>Worker egress\<close>

record source_policy =
  sourceId :: string
  allow :: "string list option"
  deny :: "string list option"
  denyAll :: "bool option"
  correlationId :: "string option"

record policy_config =
  denyHosts :: "string list"
  platformSubnets :: "cidr_range list"
  trustedResolvedCidrs :: "cidr_range list option"
  allowLoopbackForTests :: "bool option"
  denyUnknownSource :: "bool option"

datatype policy_deny_reason =
    UnknownSource | SourceDenyAll | SourceDeny | DenyHost | BareHostname | NotInAllowList
  | DnsError | PrivateAddress

record policy_decision =
  allowed :: bool
  reason :: "policy_deny_reason option"
  address :: "string option"

definition connect_to :: "string \<Rightarrow> policy_decision" where
  "connect_to a = \<lparr>allowed = True, reason = None, address = Some a\<rparr>"

definition deny_for :: "policy_deny_reason \<Rightarrow> policy_decision" where
  "deny_for r = \<lparr>allowed = False, reason = Some r, address = None\<rparr>"

definition isInTrustedResolvedCidr :: "string \<Rightarrow> cidr_range list option \<Rightarrow> bool" where
  "isInTrustedResolvedCidr addr ranges =
     (case ranges of None \<Rightarrow> False | Some rs \<Rightarrow> rs \<noteq> [] \<and> list_ex (isInCidr addr) rs)"

text \<open>The loop over the resolved addresses.\<close>

fun choose_address :: "policy_config \<Rightarrow> bool \<Rightarrow> string list \<Rightarrow> policy_decision" where
  "choose_address config targetIsLiteral [] = deny_for PrivateAddress"
| "choose_address config targetIsLiteral (addr # rest) =
     (if isUnspecifiedAddress addr then choose_address config targetIsLiteral rest
      else let addressClass = classifyAddress addr (platformSubnets config) in
        if addressClass = Public then connect_to addr
        else if addressClass = Loopback \<and> truthy (allowLoopbackForTests config) then connect_to addr
        else if \<not> targetIsLiteral \<and> addressClass \<noteq> PlatformSubnet \<and> addressClass \<noteq> Invalid
             \<and> isInTrustedResolvedCidr addr (trustedResolvedCidrs config) then connect_to addr
        else choose_address config targetIsLiteral rest)"

definition decideEgress ::
  "string \<Rightarrow> source_policy option \<Rightarrow> policy_config \<Rightarrow> resolver \<Rightarrow> policy_decision" where
  "decideEgress rawHostname src config resolve =
     (let hostname = normalizeHostname rawHostname in
      if src = None \<and> truthy (denyUnknownSource config) then deny_for UnknownSource
      else if Option.bind src denyAll = Some True then deny_for SourceDenyAll
      else if matchesDenySuffix hostname (Option.bind src deny) then deny_for SourceDeny
      else if matchesDenySuffix hostname (Some (denyHosts config)) then deny_for DenyHost
      else if isBareHostname hostname \<and> \<not> matchesSuffix hostname (Option.bind src allow)
        then deny_for BareHostname
      else if (case Option.bind src allow of None \<Rightarrow> False
               | Some ps \<Rightarrow> ps \<noteq> [] \<and> \<not> matchesSuffix hostname (Some ps))
        then deny_for NotInAllowList
      else case resolve hostname of
        None \<Rightarrow> deny_for DnsError
      | Some addresses \<Rightarrow>
          (if addresses = [] then deny_for DnsError
           else choose_address config (isIpLiteral hostname) addresses))"

section \<open>Unmatchable entries of a source map\<close>





section \<open>Owner-supplied URLs\<close>

datatype outbound_refusal_reason =
    InvalidUrl | BareHost | DnsFailure | LoopbackTarget | LinkLocalTarget | UnspecifiedTarget
  | PlatformSubnetTarget

datatype outbound_decision = Fetch | Refuse outbound_refusal_reason string

record outbound_policy =
  targetSubnets :: "cidr_range list"
  allowHosts :: "string list option"

definition isAllowedHost :: "string \<Rightarrow> string list option \<Rightarrow> bool" where
  "isAllowedHost host hosts =
     (case hosts of
        None \<Rightarrow> False
      | Some hs \<Rightarrow>
          (if hs = [] then False
           else if isIpLiteral host then
             list_ex (\<lambda>entry. canonicalizeIpLiteral (trim entry) = canonicalizeIpLiteral host) hs
           else matchesSuffix host (Some (filter (\<lambda>entry. \<not> isIpLiteral (trim entry)) hs))))"

definition unbracket :: "string \<Rightarrow> string" where
  "unbracket h = (if startsWith h ''['' \<and> endsWith h '']'' then butlast (tl h) else h)"

fun judge_addresses :: "cidr_range list \<Rightarrow> string \<Rightarrow> string list \<Rightarrow> outbound_decision" where
  "judge_addresses subnets host [] = Fetch"
| "judge_addresses subnets host (addr # rest) =
     (if isUnspecifiedAddress addr then Refuse UnspecifiedTarget host
      else let addressClass = classifyAddress addr subnets in
        if addressClass = PlatformSubnet then Refuse PlatformSubnetTarget host
        else if addressClass = Loopback then Refuse LoopbackTarget host
        else if addressClass = LinkLocal then Refuse LinkLocalTarget host
        else if addressClass = Invalid then Refuse DnsFailure host
        else judge_addresses subnets host rest)"

definition judge_host :: "string \<Rightarrow> outbound_policy \<Rightarrow> resolver \<Rightarrow> outbound_decision" where
  "judge_host host policy resolve =
     (if isAllowedHost host (allowHosts policy) then Fetch
      else case canonicalizeIpLiteral host of
        Some literal \<Rightarrow> judge_addresses (targetSubnets policy) host [literal]
      | None \<Rightarrow>
          (if isBareHostname host then Refuse BareHost host
           else case resolve host of
             None \<Rightarrow> Refuse DnsFailure host
           | Some addresses \<Rightarrow>
               (if addresses = [] then Refuse DnsFailure host
                else judge_addresses (targetSubnets policy) host addresses)))"

definition decideOutboundTarget ::
  "url_parser \<Rightarrow> string \<Rightarrow> outbound_policy \<Rightarrow> resolver \<Rightarrow> outbound_decision" where
  "decideOutboundTarget new_url url policy resolve =
     (case new_url url of
        None \<Rightarrow> Refuse InvalidUrl []
      | Some (protocol, bracketed) \<Rightarrow>
          (let host = normalizeHostname (unbracket bracketed) in
           if (protocol \<noteq> ''http:'' \<and> protocol \<noteq> ''https:'') \<or> host = []
           then Refuse InvalidUrl host
           else judge_host host policy resolve))"

section \<open>Which addresses are acceptable\<close>

text \<open>
  The specification of the egress loop: an address the proxy may connect to, given whether the
  request named a literal address.
\<close>

definition connectable :: "policy_config \<Rightarrow> bool \<Rightarrow> string \<Rightarrow> bool" where
  "connectable config targetIsLiteral addr \<longleftrightarrow>
     \<not> isUnspecifiedAddress addr
     \<and> (let c = classifyAddress addr (platformSubnets config) in
        c = Public
        \<or> c = Loopback \<and> truthy (allowLoopbackForTests config)
        \<or> \<not> targetIsLiteral \<and> c \<noteq> PlatformSubnet \<and> c \<noteq> Invalid
            \<and> isInTrustedResolvedCidr addr (trustedResolvedCidrs config))"

lemma connect_to_simps [simp]:
  "connect_to a = connect_to b \<longleftrightarrow> a = b" "connect_to a \<noteq> deny_for r" "deny_for r \<noteq> connect_to a"
  "deny_for r = deny_for q \<longleftrightarrow> r = q"
  "allowed (connect_to a)" "\<not> allowed (deny_for r)" "address (connect_to a) = Some a"
  "reason (deny_for r) = Some r"
  by (simp_all add: connect_to_def deny_for_def)

lemma choose_address_find:
  "choose_address config lit as =
     (case find (connectable config lit) as of None \<Rightarrow> deny_for PrivateAddress | Some a \<Rightarrow> connect_to a)"
  by (induction as) (auto simp: connectable_def Let_def)

lemma classify_subnet:
  "classifyAddress s P \<noteq> PlatformSubnet \<Longrightarrow> \<not> list_ex (isInCidr (normalizeAddress s)) P"
  by (auto simp: classifyAddress_def Let_def)

lemma classify_valid:
  assumes "classifyAddress s P \<noteq> Invalid" and "classifyAddress s P \<noteq> PlatformSubnet"
  shows "parseIPv4 (normalizeAddress s) \<noteq> None \<or> parseIPv6 (normalizeAddress s) \<noteq> None"
  using assms by (auto simp: classifyAddress_def Let_def split: option.splits if_splits)

lemma connectable_parts:
  assumes "connectable config lit a"
  shows "\<not> isUnspecifiedAddress a"
    and "\<not> list_ex (isInCidr (normalizeAddress a)) (platformSubnets config)"
    and "parseIPv4 (normalizeAddress a) \<noteq> None \<or> parseIPv6 (normalizeAddress a) \<noteq> None"
  using assms classify_subnet[of a "platformSubnets config"]
    classify_valid[of a "platformSubnets config"]
  by (auto simp: connectable_def Let_def)

section \<open>The egress decision\<close>

text \<open>The name screens the decision runs before any lookup.\<close>

definition name_refusal ::
  "string \<Rightarrow> source_policy option \<Rightarrow> policy_config \<Rightarrow> policy_deny_reason option" where
  "name_refusal hostname src config =
     (if src = None \<and> truthy (denyUnknownSource config) then Some UnknownSource
      else if Option.bind src denyAll = Some True then Some SourceDenyAll
      else if matchesDenySuffix hostname (Option.bind src deny) then Some SourceDeny
      else if matchesDenySuffix hostname (Some (denyHosts config)) then Some DenyHost
      else if isBareHostname hostname \<and> \<not> matchesSuffix hostname (Option.bind src allow)
        then Some BareHostname
      else if (case Option.bind src allow of None \<Rightarrow> False
               | Some ps \<Rightarrow> ps \<noteq> [] \<and> \<not> matchesSuffix hostname (Some ps))
        then Some NotInAllowList
      else None)"

lemma decideEgress_stages:
  "decideEgress h src config resolve =
     (case name_refusal (normalizeHostname h) src config of
        Some r \<Rightarrow> deny_for r
      | None \<Rightarrow> (case resolve (normalizeHostname h) of
          None \<Rightarrow> deny_for DnsError
        | Some as \<Rightarrow> if as = [] then deny_for DnsError
            else choose_address config (isIpLiteral (normalizeHostname h)) as))"
  by (simp add: decideEgress_def name_refusal_def Let_def)

lemma find_Some_split:
  "find P xs = Some a \<longleftrightarrow> (\<exists>pre post. xs = pre @ a # post \<and> P a \<and> list_all (\<lambda>b. \<not> P b) pre)"
  (is "?l \<longleftrightarrow> ?r")
proof
  show "?l \<Longrightarrow> ?r"
  proof (induction xs)
    case (Cons x xs)
    show ?case
    proof (cases "P x")
      case True
      with Cons.prems have "x # xs = [] @ a # xs \<and> P a \<and> list_all (\<lambda>b. \<not> P b) []" by simp
      then show ?thesis by blast
    next
      case False
      with Cons obtain pre post where "xs = pre @ a # post" "P a" "list_all (\<lambda>b. \<not> P b) pre" by auto
      with False have "x # xs = (x # pre) @ a # post \<and> P a \<and> list_all (\<lambda>b. \<not> P b) (x # pre)"
        by simp
      then show ?thesis by blast
    qed
  qed simp
next
  have "list_all (\<lambda>b. \<not> P b) pre \<Longrightarrow> P a \<Longrightarrow> find P (pre @ a # post) = Some a" for pre post
    by (induction pre) auto
  then show "?r \<Longrightarrow> ?l" by blast
qed

lemma decideEgress_connects:
  "decideEgress h src config resolve = connect_to a \<longleftrightarrow>
     name_refusal (normalizeHostname h) src config = None
     \<and> (\<exists>as. resolve (normalizeHostname h) = Some as
          \<and> find (connectable config (isIpLiteral (normalizeHostname h))) as = Some a)"
  by (auto simp: decideEgress_stages choose_address_find split: option.splits)

lemma decideEgress_allowed:
  "allowed (decideEgress h src config resolve) \<longleftrightarrow>
     (\<exists>a. decideEgress h src config resolve = connect_to a)"
  by (auto simp: decideEgress_stages choose_address_find split: option.splits)


lemma matchesSuffix_mono:
  "set ps \<subseteq> set qs \<Longrightarrow> matchesSuffix h (Some ps) \<Longrightarrow> matchesSuffix h (Some qs)"
  by (auto simp: matchesSuffix_def list_ex_iff)

lemma matchesDenySuffix_mono:
  assumes "set ps \<subseteq> set qs" and "matchesDenySuffix h (Some ps)"
  shows "matchesDenySuffix h (Some qs)"
proof -
  have "set (map normalizeDenyHostPattern ps) \<subseteq> set (map normalizeDenyHostPattern qs)"
    using assms(1) by auto
  then show ?thesis
    using assms(2) unfolding matchesDenySuffix_def option.map(2) by (rule matchesSuffix_mono)
qed

subsection \<open>A sample source\<close>

definition sample_config :: policy_config where
  "sample_config = \<lparr>denyHosts = [''.internal''], platformSubnets = [], trustedResolvedCidrs = None,
     allowLoopbackForTests = None, denyUnknownSource = Some True\<rparr>"

definition sample_source :: source_policy where
  "sample_source = \<lparr>sourceId = ''task'', allow = Some [''example.com''], deny = None, denyAll = None,
     correlationId = None\<rparr>"

definition sample_resolver :: resolver where
  "sample_resolver h = (if h = ''api.example.com'' then Some [''10.0.0.5'', ''8.8.8.8''] else None)"

lemmas sample_defs = sample_config_def sample_source_def sample_resolver_def

lemma sample_addresses:
  "\<not> connectable sample_config False ''10.0.0.5''" "connectable sample_config False ''8.8.8.8''"
proof -
  have d: "''10.0.0.5'' = dotted (10, 0, 0, 5)" "''8.8.8.8'' = dotted (8, 8, 8, 8)"
    by (simp_all add: address_defs char_of_def bit_Suc_0_iff)
  have v: "valid_octets (10, 0, 0, 5)" "valid_octets (8, 8, 8, 8)" by (simp_all add: valid_octets_def)
  show "\<not> connectable sample_config False ''10.0.0.5''" "connectable sample_config False ''8.8.8.8''"
    unfolding d by (simp_all add: connectable_def sample_config_def v classify_dotted classify_v4_def
        isUnspecifiedAddress_def normalize_dotted parseIPv4_dotted isInTrustedResolvedCidr_def)
qed

lemma sample_name:
  "normalizeHostname ''API.example.com'' = ''api.example.com''"
  "\<not> isIpLiteral ''api.example.com''"
  by (simp_all add: address_defs char_of_def bit_Suc_0_iff)

lemma sample_screens: "name_refusal ''api.example.com'' (Some sample_source) sample_config = None"
proof -
  have n: "normalizeHostname ''api.example.com'' = ''api.example.com''"
    "normalizeHostname ''example.com'' = ''example.com''" "normalizeHostname ''internal'' = ''internal''"
    "normalizeHostname ''.internal'' = ''.internal''"
    by (simp_all add: normalizeHostname_def text_eval)
  show ?thesis
    by (simp add: name_refusal_def sample_defs matchesDenySuffix_def matchesSuffix_def pattern_matches_def
        normalizeDenyHostPattern_def isBareHostname_def n startsWith_def endsWith_def)
qed

lemma sample_connects:
  "decideEgress ''API.example.com'' (Some sample_source) sample_config sample_resolver
   = connect_to ''8.8.8.8''"
  by (simp add: decideEgress_connects sample_name sample_screens sample_addresses)
     (simp add: sample_resolver_def sample_addresses)

text \<open>
  C12: whatever a name resolves to and whatever the test and fake-IP settings say, an address the
  proxy agrees to connect to was in the resolver's one answer for the normalized name, parses, is
  not an unspecified address and lies in no platform subnet.  It is a public address but for the two
  declared exemptions: the loopback while the test setting is on, and an address inside one of the
  configured trusted ranges, which a request that named a literal address never uses.
\<close>

theorem egress_address_is_safe:
  assumes "allowed (decideEgress h src config resolve)"
  shows "\<exists>a as. decideEgress h src config resolve = connect_to a
           \<and> resolve (normalizeHostname h) = Some as \<and> a \<in> set as
           \<and> \<not> isUnspecifiedAddress a
           \<and> \<not> list_ex (isInCidr (normalizeAddress a)) (platformSubnets config)
           \<and> (parseIPv4 (normalizeAddress a) \<noteq> None \<or> parseIPv6 (normalizeAddress a) \<noteq> None)
           \<and> (classifyAddress a (platformSubnets config) = Public
              \<or> classifyAddress a (platformSubnets config) = Loopback \<and> allowLoopbackForTests config = Some True
              \<or> \<not> isIpLiteral (normalizeHostname h)
                 \<and> (\<exists>ranges r. trustedResolvedCidrs config = Some ranges \<and> r \<in> set ranges \<and> isInCidr a r))"
proof -
  obtain a where a: "decideEgress h src config resolve = connect_to a"
    using assms decideEgress_allowed by blast
  then obtain as where as: "resolve (normalizeHostname h) = Some as"
    and f: "find (connectable config (isIpLiteral (normalizeHostname h))) as = Some a"
    using decideEgress_connects by blast
  from f have m: "a \<in> set as" and c: "connectable config (isIpLiteral (normalizeHostname h)) a"
    using find_SomeD[OF f] by simp_all
  have "classifyAddress a (platformSubnets config) = Public
      \<or> classifyAddress a (platformSubnets config) = Loopback \<and> allowLoopbackForTests config = Some True
      \<or> \<not> isIpLiteral (normalizeHostname h)
         \<and> (\<exists>ranges r. trustedResolvedCidrs config = Some ranges \<and> r \<in> set ranges \<and> isInCidr a r)"
    using c by (auto simp: connectable_def Let_def isInTrustedResolvedCidr_def list_ex_iff split: option.splits)
  with a as m connectable_parts[OF c] show ?thesis by blast
qed

theorem egress_address_is_safe_witness:
  "\<exists>a as. decideEgress ''API.example.com'' (Some sample_source) sample_config sample_resolver
            = connect_to a
     \<and> sample_resolver (normalizeHostname ''API.example.com'') = Some as \<and> a \<in> set as
     \<and> \<not> isUnspecifiedAddress a \<and> classifyAddress a [] = Public"
proof -
  have "allowed (decideEgress ''API.example.com'' (Some sample_source) sample_config sample_resolver)"
    by (simp add: sample_connects)
  from egress_address_is_safe[OF this] show ?thesis by (auto simp: sample_config_def)
qed

text \<open>
  C19: for a registered source, the proxy connects exactly when the source is not deny-all, no
  deny pattern of the source or the platform covers the name, the name is covered by the source's
  allow list or - with no allow list - has a dot, and the chosen address is the first connectable
  one of the resolver's answer.  A bare name needs an allow entry even when the list is otherwise
  unrestricted.
\<close>

theorem egress_connects_exactly:
  "decideEgress h (Some s) config resolve = connect_to a \<longleftrightarrow>
     (let host = normalizeHostname h in
        denyAll s \<noteq> Some True
        \<and> \<not> matchesDenySuffix host (deny s)
        \<and> \<not> matchesDenySuffix host (Some (denyHosts config))
        \<and> (matchesSuffix host (allow s)
            \<or> (allow s = None \<or> allow s = Some []) \<and> \<not> isBareHostname host)
        \<and> (\<exists>pre post. resolve host = Some (pre @ a # post)
            \<and> connectable config (isIpLiteral host) a
            \<and> list_all (\<lambda>b. \<not> connectable config (isIpLiteral host) b) pre))"
proof -
  have none: "\<not> matchesSuffix x None" "\<not> matchesSuffix x (Some [])" for x
    by (simp_all add: matchesSuffix_def)
  have "name_refusal x (Some s) config = None \<longleftrightarrow>
      denyAll s \<noteq> Some True \<and> \<not> matchesDenySuffix x (deny s)
      \<and> \<not> matchesDenySuffix x (Some (denyHosts config))
      \<and> (matchesSuffix x (allow s)
          \<or> (allow s = None \<or> allow s = Some []) \<and> \<not> isBareHostname x)" for x
    by (cases "allow s") (auto simp: name_refusal_def none)
  then show ?thesis
    by (auto simp: decideEgress_connects Let_def find_Some_split)
qed

theorem egress_connects_exactly_witness:
  "sample_resolver (normalizeHostname ''API.example.com'') = Some [''10.0.0.5'', ''8.8.8.8'']
   \<and> \<not> matchesDenySuffix (normalizeHostname ''API.example.com'') (Some (denyHosts sample_config))"
  using sample_connects[unfolded egress_connects_exactly[of _ sample_source]]
  by (simp add: sample_name sample_resolver_def Let_def)

text \<open>
  C29: adding deny patterns, to the source or to the platform's list, never widens egress: the
  decision is the same as before or a refusal by name.
\<close>

theorem more_denies_never_widen:
  assumes "set ds \<subseteq> set ds'" and "set (denyHosts config) \<subseteq> set hosts'"
  shows "decideEgress h (Some (s\<lparr>deny := Some ds'\<rparr>)) (config\<lparr>denyHosts := hosts'\<rparr>) resolve
           \<in> {decideEgress h (Some (s\<lparr>deny := Some ds\<rparr>)) config resolve,
              deny_for SourceDeny, deny_for DenyHost}"
proof -
  have "connectable (config\<lparr>denyHosts := hosts'\<rparr>) = connectable config"
    by (simp add: fun_eq_iff connectable_def)
  then show ?thesis
    using matchesDenySuffix_mono[OF assms(1)] matchesDenySuffix_mono[OF assms(2)]
    by (auto simp: decideEgress_stages choose_address_find name_refusal_def split: option.splits)
qed

theorem more_denies_never_widen_witness:
  "decideEgress ''API.example.com'' (Some (sample_source\<lparr>deny := Some [''example.com'']\<rparr>))
       (sample_config\<lparr>denyHosts := [''.internal'']\<rparr>) sample_resolver
     \<in> {decideEgress ''API.example.com'' (Some (sample_source\<lparr>deny := Some []\<rparr>)) sample_config
           sample_resolver, deny_for SourceDeny, deny_for DenyHost}"
  by (rule more_denies_never_widen) (simp_all add: sample_config_def)

section \<open>Kernel fetches of owner-supplied URLs\<close>

text \<open>An address the kernel may contact: the owner's own network included, the platform's not.\<close>

definition reachable_target :: "cidr_range list \<Rightarrow> string \<Rightarrow> bool" where
  "reachable_target subnets addr \<longleftrightarrow>
     \<not> isUnspecifiedAddress addr
     \<and> classifyAddress addr subnets \<in> {Public, Rfc1918, Cgnat, UniqueLocalV6}"

lemma judge_addresses_Fetch:
  "judge_addresses subnets host as = Fetch \<longleftrightarrow> list_all (reachable_target subnets) as"
proof (induction as)
  case (Cons a as)
  then show ?case
    by (cases "classifyAddress a subnets") (auto simp: reachable_target_def Let_def)
qed simp

text \<open>The addresses a host stands for: the literal itself, or the resolver's answer.\<close>

definition addresses_of :: "resolver \<Rightarrow> string \<Rightarrow> string list option" where
  "addresses_of resolve host =
     (case canonicalizeIpLiteral host of
        Some literal \<Rightarrow> Some [literal]
      | None \<Rightarrow> if isBareHostname host then None else resolve host)"

lemma judge_host_Fetch:
  "judge_host host policy resolve = Fetch \<longleftrightarrow>
     isAllowedHost host (allowHosts policy)
     \<or> (\<exists>as. addresses_of resolve host = Some as \<and> as \<noteq> []
          \<and> list_all (reachable_target (targetSubnets policy)) as)"
  unfolding judge_host_def addresses_of_def
  by (auto simp: judge_addresses_Fetch simp del: judge_addresses.simps split: option.splits)

text \<open>
  C20: the kernel fetches an owner-supplied URL exactly when it is http or https with a host that
  the operator listed, or that stands for at least one address of which every one is outside the
  platform's subnets, the loopback and link-local ranges and the unspecified addresses; one bad
  answer among many refuses the fetch, and private LAN addresses are not bad.
\<close>

theorem outbound_fetches_exactly:
  "decideOutboundTarget new_url url policy resolve = Fetch \<longleftrightarrow>
     (\<exists>protocol bracketed. new_url url = Some (protocol, bracketed)
        \<and> (protocol = ''http:'' \<or> protocol = ''https:'')
        \<and> (let host = normalizeHostname (unbracket bracketed) in host \<noteq> []
             \<and> (isAllowedHost host (allowHosts policy)
                 \<or> (\<exists>as. addresses_of resolve host = Some as \<and> as \<noteq> []
                      \<and> list_all (reachable_target (targetSubnets policy)) as))))"
  by (auto simp: decideOutboundTarget_def judge_host_Fetch Let_def split: option.splits)

lemma isIpLiteral_canonical: "isIpLiteral h \<longleftrightarrow> canonicalizeIpLiteral h \<noteq> None"
  by (simp add: isIpLiteral_def canonicalizeIpLiteral_def split: option.splits)






section \<open>The source map report\<close>














end
