(* ===== verification/Capability_Scope.thy ===== *)
theory Capability_Scope
  imports NT_Prelude
begin

text \<open>
  The vocabulary the authorization modules share: the scope of a capability handle
  (\<open>packages/shared/src/handle-token.ts\<close>), principals, roles, sessions and blast radii
  (\<open>packages/shared/src/enums.ts\<close>).  A \<open>Record<string, string[]>\<close> is an association list whose
  first entry for a key is its value.
\<close>

record capability_scope =
  capabilities :: "string list"
  resources :: "(string \<times> string list) list"

datatype principal_kind = Human | Agent | Service

datatype role = Owner | Builder | Operator | Member | Auditor

datatype session_kind =
    SK_web | SK_entry | SK_worker_run | SK_mcp_session | SK_service | SK_admin_agent

datatype blast_radius = Low | Medium | High

datatype verdict = Allow | RequireApproval | Deny

fun BLAST_RADIUS_RANK :: "blast_radius \<Rightarrow> nat" where
  "BLAST_RADIUS_RANK Low = 0"
| "BLAST_RADIUS_RANK Medium = 1"
| "BLAST_RADIUS_RANK High = 2"

text \<open>\<open>scope.resources[key] ?? []\<close>.\<close>

definition resource_values :: "capability_scope \<Rightarrow> string \<Rightarrow> string list" where
  "resource_values scope key = (case map_of (resources scope) key of None \<Rightarrow> [] | Some vs \<Rightarrow> vs)"

instantiation blast_radius :: linorder
begin

definition less_eq_blast_radius :: "blast_radius \<Rightarrow> blast_radius \<Rightarrow> bool" where
  "less_eq_blast_radius a b = (BLAST_RADIUS_RANK a \<le> BLAST_RADIUS_RANK b)"

definition less_blast_radius :: "blast_radius \<Rightarrow> blast_radius \<Rightarrow> bool" where
  "less_blast_radius a b = (BLAST_RADIUS_RANK a < BLAST_RADIUS_RANK b)"

instance
proof
  fix a b :: blast_radius
  assume "a \<le> b" and "b \<le> a"
  then show "a = b" by (cases a; cases b) (simp_all add: less_eq_blast_radius_def)
qed (auto simp: less_eq_blast_radius_def less_blast_radius_def)

end

end
