(* ===== verification/Approval_Policy.thy ===== *)
theory Approval_Policy
  imports Capability_Scope
begin

text \<open>
  The approval policy: \<open>governance/policy/engine.ts\<close> decides whether a requested action runs on
  its own, waits for a person or is denied; \<open>governance/policy/policies.ts\<close> keeps the rules it
  reads, in two tables keyed by workspace and action kind (\<open>policies\<close>) and by workspace, gate and
  action kind (\<open>gatekeeper_policies\<close>).  A table is an association list in insertion order, a
  write the upsert of its SQL statement; row ids and the clock are parameters.
\<close>

section \<open>The policy engine\<close>

datatype policy_scope = GatekeeperScope | WorkspaceScope

record workspace_policy_input =
  wpScope :: policy_scope
  wpAutoApprove :: bool
  wpRequesterCanApprove :: "bool option"
  wpAllowsThisDefinition :: "bool option"

record policy_evaluation_input =
  peGatekeeperId :: string
  peBlastRadius :: blast_radius
  peOperationAutoApprovable :: bool
  peMcpTrustBlocked :: "bool option"
  peParamsCarrySuspectedSecrets :: "bool option"
  peWorkspacePolicy :: "workspace_policy_input option"
  peRequesterScope :: capability_scope
  pePrincipalAutoApproveLowEnabled :: "bool option"

datatype policy_evaluation_reason =
    RequesterScopeDoesNotCoverGatekeeper
  | AutoApprovedByOperationAndWorkspacePolicy
  | AutoApprovedByOperationAndLowBlastRadiusDefault
  | BlastRadiusHighRequiresApproval
  | OperationNotAutoApprovable
  | McpGateNotVetted
  | ParamsCarrySuspectedCredentials
  | WorkspacePolicyDisablesAutoApprove
  | NoWorkspacePolicyAndNotLowBlastRadius
  | AutoApproveRuleForAnotherDefinition
  | PrincipalAutoApproveLowDisabled

record policy_evaluation_result =
  erDecision :: verdict
  erReason :: policy_evaluation_reason
  erRequesterCanApprove :: bool

definition GATEKEEPER_RESOURCE_SCOPE_KEY :: string where
  "GATEKEEPER_RESOURCE_SCOPE_KEY = ''gatekeeper''"

definition hasGatekeeperScope :: "capability_scope \<Rightarrow> string \<Rightarrow> bool" where
  "hasGatekeeperScope scope gatekeeper =
     (gatekeeper \<in> set (resource_values scope GATEKEEPER_RESOURCE_SCOPE_KEY))"

definition isOptInForAnotherDefinition :: "workspace_policy_input option \<Rightarrow> bool" where
  "isOptInForAnotherDefinition rule =
     (case rule of None \<Rightarrow> False
      | Some r \<Rightarrow> wpScope r = GatekeeperScope \<and> wpAutoApprove r
                  \<and> wpAllowsThisDefinition r = Some False)"

definition ruleAutoApprove :: "workspace_policy_input option \<Rightarrow> bool option" where
  "ruleAutoApprove rule =
     (case rule of None \<Rightarrow> None
      | Some r \<Rightarrow>
          (if wpScope r = WorkspaceScope \<and> wpAutoApprove r then None
           else if isOptInForAnotherDefinition rule then None
           else Some (wpAutoApprove r)))"

definition resolveRequesterCanApprove ::
  "blast_radius \<Rightarrow> workspace_policy_input option \<Rightarrow> bool" where
  "resolveRequesterCanApprove radius rule =
     (case Option.bind rule wpRequesterCanApprove of Some b \<Rightarrow> b | None \<Rightarrow> radius \<noteq> High)"

definition evaluate :: "policy_evaluation_input \<Rightarrow> policy_evaluation_result" where
  "evaluate inp =
     (let requesterCanApprove = resolveRequesterCanApprove (peBlastRadius inp) (peWorkspacePolicy inp);
          result = (\<lambda>d r. \<lparr>erDecision = d, erReason = r, erRequesterCanApprove = requesterCanApprove\<rparr>)
      in
      if \<not> hasGatekeeperScope (peRequesterScope inp) (peGatekeeperId inp)
        then result Deny RequesterScopeDoesNotCoverGatekeeper
      else if peBlastRadius inp = High
        then result RequireApproval BlastRadiusHighRequiresApproval
      else if peParamsCarrySuspectedSecrets inp = Some True
        then result RequireApproval ParamsCarrySuspectedCredentials
      else if peMcpTrustBlocked inp = Some True then result RequireApproval McpGateNotVetted
      else if \<not> peOperationAutoApprovable inp
        then result RequireApproval OperationNotAutoApprovable
      else
        (let ruleOpinion = ruleAutoApprove (peWorkspacePolicy inp);
             workspaceAutoApprove =
               (case ruleOpinion of Some b \<Rightarrow> b | None \<Rightarrow> peBlastRadius inp = Low)
         in
         if \<not> workspaceAutoApprove then
           result RequireApproval
             (if ruleOpinion = Some False then WorkspacePolicyDisablesAutoApprove
              else if isOptInForAnotherDefinition (peWorkspacePolicy inp)
                then AutoApproveRuleForAnotherDefinition
              else NoWorkspacePolicyAndNotLowBlastRadius)
         else if peBlastRadius inp = Low \<and> pePrincipalAutoApproveLowEnabled inp = Some False
           then result RequireApproval PrincipalAutoApproveLowDisabled
         else result Allow
           (if ruleOpinion = Some True then AutoApprovedByOperationAndWorkspacePolicy
            else AutoApprovedByOperationAndLowBlastRadiusDefault)))"

datatype policy_error =
    HighBlastRadiusAutoApproveError string
  | SetPolicyValidationError string
  | MissingAllowedDefinition string

definition assertPolicyWriteAllowed :: "string \<Rightarrow> blast_radius option \<Rightarrow> bool \<Rightarrow> (policy_error, unit) result" where
  "assertPolicyWriteAllowed kind radius autoApprove =
     (if radius = Some High \<and> autoApprove then Inl (HighBlastRadiusAutoApproveError kind) else Inr ())"

section \<open>The rule tables\<close>

record policy_row =
  prWorkspaceId :: string
  prId :: string
  prGatekeeperId :: "string option"
  prActionKind :: string
  prBlastRadius :: "blast_radius option"
  prAutoApprove :: bool
  prRequesterCanApprove :: "bool option"
  prSetBy :: string
  prCreatedAt :: int
  prUpdatedAt :: int
  prOperationDigest :: "string option"
  prOperationVersion :: "int option"

type_synonym workspace_key = "string \<times> string"
type_synonym gatekeeper_key = "string \<times> string \<times> string"

record policy_tables =
  policies :: "(workspace_key \<times> policy_row) list"
  gatekeeper_policies :: "(gatekeeper_key \<times> policy_row) list"

definition readWorkspacePolicy :: "policy_tables \<Rightarrow> string \<Rightarrow> string \<Rightarrow> policy_row option" where
  "readWorkspacePolicy db ws kind = map_of (policies db) (ws, kind)"

definition readGatekeeperPolicy ::
  "policy_tables \<Rightarrow> string \<Rightarrow> string \<Rightarrow> string \<Rightarrow> policy_row option" where
  "readGatekeeperPolicy db ws gate kind = map_of (gatekeeper_policies db) (ws, gate, kind)"

definition readEffectivePolicy ::
  "policy_tables \<Rightarrow> string \<Rightarrow> string \<Rightarrow> string \<Rightarrow> policy_row option" where
  "readEffectivePolicy db ws gate kind =
     (case readGatekeeperPolicy db ws gate kind of
        Some row \<Rightarrow> Some row
      | None \<Rightarrow> readWorkspacePolicy db ws kind)"

record definition_in_force =
  difOperationDigest :: "string option"
  difBlastRadius :: blast_radius

datatype auto_approve_consent = ConsentCurrent | DefinitionChanged | ConsentNotRecorded

definition autoApproveConsent ::
  "policy_row \<Rightarrow> definition_in_force option \<Rightarrow> auto_approve_consent" where
  "autoApproveConsent row current =
     (if prGatekeeperId row = None \<or> \<not> prAutoApprove row then ConsentCurrent
      else if prOperationDigest row = None then ConsentNotRecorded
      else case current of
        None \<Rightarrow> DefinitionChanged
      | Some cur \<Rightarrow>
          (if difOperationDigest cur \<noteq> prOperationDigest row then DefinitionChanged
           else case prBlastRadius row of
             Some seen \<Rightarrow>
               (if BLAST_RADIUS_RANK (difBlastRadius cur) > BLAST_RADIUS_RANK seen
                then DefinitionChanged else ConsentCurrent)
           | None \<Rightarrow> ConsentCurrent))"

definition toPolicyEvaluationInput ::
  "policy_row \<Rightarrow> definition_in_force \<Rightarrow> workspace_policy_input" where
  "toPolicyEvaluationInput row request =
     \<lparr>wpScope = (if prGatekeeperId row = None then WorkspaceScope else GatekeeperScope),
      wpAutoApprove = prAutoApprove row,
      wpRequesterCanApprove = prRequesterCanApprove row,
      wpAllowsThisDefinition = Some (autoApproveConsent row (Some request) = ConsentCurrent)\<rparr>"

record allowed_definition =
  adOperationDigest :: string
  adOperationVersion :: int

text \<open>\<open>spRequesterCanApprove\<close> is \<open>None\<close> when omitted, \<open>Some None\<close> when given as \<open>null\<close>.\<close>

record set_policy_input =
  spGatekeeperId :: "string option"
  spActionKind :: string
  spBlastRadius :: "blast_radius option"
  spAutoApprove :: bool
  spRequesterCanApprove :: "bool option option"
  spSetBy :: string
  spAllows :: "allowed_definition option"

text \<open>
  The two upserts: a fresh row, or the existing row with its tunable columns replaced.  The
  digest and version columns exist on the gate-scoped table only.
\<close>

definition upserted_row ::
  "string \<Rightarrow> int \<Rightarrow> string \<Rightarrow> set_policy_input \<Rightarrow> allowed_definition option
    \<Rightarrow> policy_row option \<Rightarrow> policy_row" where
  "upserted_row fresh_id now ws inp allows existing =
     (case existing of
        None \<Rightarrow>
          \<lparr>prWorkspaceId = ws, prId = fresh_id, prGatekeeperId = spGatekeeperId inp,
           prActionKind = spActionKind inp, prBlastRadius = spBlastRadius inp,
           prAutoApprove = spAutoApprove inp,
           prRequesterCanApprove = (case spRequesterCanApprove inp of None \<Rightarrow> None | Some v \<Rightarrow> v),
           prSetBy = spSetBy inp, prCreatedAt = now, prUpdatedAt = now,
           prOperationDigest = map_option adOperationDigest allows,
           prOperationVersion = map_option adOperationVersion allows\<rparr>
      | Some row \<Rightarrow>
          row\<lparr>prBlastRadius := spBlastRadius inp, prAutoApprove := spAutoApprove inp,
              prRequesterCanApprove :=
                (case spRequesterCanApprove inp of None \<Rightarrow> prRequesterCanApprove row | Some v \<Rightarrow> v),
              prSetBy := spSetBy inp, prUpdatedAt := now,
              prOperationDigest := map_option adOperationDigest allows,
              prOperationVersion := map_option adOperationVersion allows\<rparr>)"

definition setPolicy ::
  "string \<Rightarrow> int \<Rightarrow> string \<Rightarrow> set_policy_input \<Rightarrow> policy_tables
    \<Rightarrow> (policy_error, policy_row \<times> policy_tables) result" where
  "setPolicy fresh_id now ws inp db =
     bind_result (assertPolicyWriteAllowed (spActionKind inp) (spBlastRadius inp) (spAutoApprove inp))
       (\<lambda>_.
         if spGatekeeperId inp = None \<and> spAutoApprove inp
           then Inl (SetPolicyValidationError (spActionKind inp))
         else if spGatekeeperId inp \<noteq> None \<and> spAutoApprove inp \<and> spAllows inp = None
           then Inl (MissingAllowedDefinition (spActionKind inp))
         else
           (let allows = (if spGatekeeperId inp \<noteq> None \<and> spAutoApprove inp then spAllows inp else None)
            in case spGatekeeperId inp of
                 None \<Rightarrow>
                   (let key = (ws, spActionKind inp);
                        row = upserted_row fresh_id now ws inp None (map_of (policies db) key)
                    in Inr (row, db\<lparr>policies := obj_set key row (policies db)\<rparr>))
               | Some gate \<Rightarrow>
                   (let key = (ws, gate, spActionKind inp);
                        row = upserted_row fresh_id now ws inp allows
                                (map_of (gatekeeper_policies db) key)
                    in Inr (row, db\<lparr>gatekeeper_policies := obj_set key row (gatekeeper_policies db)\<rparr>))))"

record set_auto_approved_input =
  saGatekeeperId :: string
  saActionKind :: string
  saBlastRadius :: blast_radius
  saSetBy :: string
  saAllows :: allowed_definition

definition setAutoApprovedActionKind ::
  "string \<Rightarrow> int \<Rightarrow> string \<Rightarrow> set_auto_approved_input \<Rightarrow> policy_tables
    \<Rightarrow> (policy_error, policy_row \<times> policy_tables) result" where
  "setAutoApprovedActionKind fresh_id now ws inp db =
     (let existing = readEffectivePolicy db ws (saGatekeeperId inp) (saActionKind inp)
      in setPolicy fresh_id now ws
           \<lparr>spGatekeeperId = Some (saGatekeeperId inp), spActionKind = saActionKind inp,
            spBlastRadius = Some (saBlastRadius inp), spAutoApprove = True,
            spRequesterCanApprove =
              (case Option.bind existing prRequesterCanApprove of None \<Rightarrow> None | Some b \<Rightarrow> Some (Some b)),
            spSetBy = saSetBy inp, spAllows = Some (saAllows inp)\<rparr> db)"

text \<open>
  A sequence of writes in one workspace; a refused write leaves the tables as they were, because
  its transaction is rolled back.
\<close>

datatype policy_write =
    SetPolicyWrite set_policy_input
  | SetAutoApprovedWrite set_auto_approved_input

fun perform_write ::
  "string \<times> int \<times> string \<times> policy_write \<Rightarrow> policy_tables \<Rightarrow> policy_tables" where
  "perform_write (fresh_id, now, ws, SetPolicyWrite inp) db =
     (case setPolicy fresh_id now ws inp db of Inr (_, db') \<Rightarrow> db' | Inl _ \<Rightarrow> db)"
| "perform_write (fresh_id, now, ws, SetAutoApprovedWrite inp) db =
     (case setAutoApprovedActionKind fresh_id now ws inp db of Inr (_, db') \<Rightarrow> db' | Inl _ \<Rightarrow> db)"

definition no_policies :: policy_tables where
  "no_policies = \<lparr>policies = [], gatekeeper_policies = []\<rparr>"

section \<open>Keyed tables\<close>

locale keyed_rules =
  fixes read_rule :: "'db \<Rightarrow> 'k \<Rightarrow> 'row option"
    and write_rule :: "'k \<Rightarrow> 'row \<Rightarrow> 'db \<Rightarrow> 'db"
  assumes read_write: "read_rule (write_rule k r db) k' = (if k' = k then Some r else read_rule db k')"
begin

lemma written: "read_rule (write_rule k r db) k = Some r"
  by (simp add: read_write)

lemma untouched: "k' \<noteq> k \<Longrightarrow> read_rule (write_rule k r db) k' = read_rule db k'"
  by (simp add: read_write)

lemma preserves_all:
  assumes "\<And>k' r'. read_rule db k' = Some r' \<Longrightarrow> Q k' r'" and "Q k r"
    and "read_rule (write_rule k r db) k' = Some r'"
  shows "Q k' r'"
  using assms by (auto simp: read_write split: if_splits)

end

interpretation workspace_rules: keyed_rules "\<lambda>db. map_of (policies db)"
    "\<lambda>k r db. db\<lparr>policies := obj_set k r (policies db)\<rparr>"
  by unfold_locales simp

interpretation gatekeeper_rules: keyed_rules "\<lambda>db. map_of (gatekeeper_policies db)"
    "\<lambda>k r db. db\<lparr>gatekeeper_policies := obj_set k r (gatekeeper_policies db)\<rparr>"
  by unfold_locales simp

section \<open>What the engine allows\<close>

lemma ruleAutoApprove_simps [simp]:
  "ruleAutoApprove None = None" "isOptInForAnotherDefinition None = False"
  by (simp_all add: ruleAutoApprove_def isOptInForAnotherDefinition_def)

lemma evaluate_decision:
  "erDecision (evaluate inp) =
     (if \<not> hasGatekeeperScope (peRequesterScope inp) (peGatekeeperId inp) then Deny
      else if peBlastRadius inp \<noteq> High \<and> peParamsCarrySuspectedSecrets inp \<noteq> Some True
           \<and> peMcpTrustBlocked inp \<noteq> Some True \<and> peOperationAutoApprovable inp
           \<and> (case ruleAutoApprove (peWorkspacePolicy inp) of
                Some b \<Rightarrow> b | None \<Rightarrow> peBlastRadius inp = Low)
           \<and> (peBlastRadius inp = Low \<longrightarrow> pePrincipalAutoApproveLowEnabled inp \<noteq> Some False)
      then Allow else RequireApproval)"
  by (simp add: evaluate_def Let_def split: option.splits)

text \<open>
  C11: an action runs without a person only when every signal agrees: the requester's handle
  covers the gate, the blast radius is not high, no suspected credential is in the parameters, the
  gate is vetted, the operation declares itself auto-approvable, and either the action is low risk
  with no rule against it and no narrowing of the requester, or a rule of this very gate, given for
  this very definition, allows it.
\<close>

theorem auto_approval_needs_every_signal:
  "erDecision (evaluate inp) = Allow \<longleftrightarrow>
     hasGatekeeperScope (peRequesterScope inp) (peGatekeeperId inp)
     \<and> peBlastRadius inp \<in> {Low, Medium}
     \<and> peParamsCarrySuspectedSecrets inp \<noteq> Some True
     \<and> peMcpTrustBlocked inp \<noteq> Some True
     \<and> peOperationAutoApprovable inp
     \<and> (let opted_in = (\<exists>r. peWorkspacePolicy inp = Some r \<and> wpScope r = GatekeeperScope
                           \<and> wpAutoApprove r \<and> wpAllowsThisDefinition r \<noteq> Some False);
            opted_out = (\<exists>r. peWorkspacePolicy inp = Some r \<and> \<not> wpAutoApprove r)
        in if peBlastRadius inp = Low
           then \<not> opted_out \<and> pePrincipalAutoApproveLowEnabled inp \<noteq> Some False
           else opted_in)"
proof -
  have rule: "ruleAutoApprove p = Some True \<longleftrightarrow>
      (\<exists>r. p = Some r \<and> wpScope r = GatekeeperScope \<and> wpAutoApprove r
         \<and> wpAllowsThisDefinition r \<noteq> Some False)"
    "ruleAutoApprove p = Some False \<longleftrightarrow> (\<exists>r. p = Some r \<and> \<not> wpAutoApprove r)" for p
    by (cases p; force simp: ruleAutoApprove_def isOptInForAnotherDefinition_def
        intro: policy_scope.exhaust)+
  have ops: "(case x of Some b \<Rightarrow> b | None \<Rightarrow> d) \<longleftrightarrow> x = Some True \<or> x \<noteq> Some False \<and> d" for x d
    by (cases x) auto
  show ?thesis
    unfolding evaluate_decision ops rule
    by (cases "peBlastRadius inp") auto
qed

text \<open>
  C31: a gate's opt-in given for another definition of the operation decides as if the rule did
  not exist; this is the case whenever the published definition differs from the recorded one or
  has a larger blast radius than the one the person saw.
\<close>

theorem lapsed_consent_decides_as_no_rule:
  assumes "prGatekeeperId row \<noteq> None" and "prAutoApprove row"
    and "prOperationDigest row \<noteq> difOperationDigest request \<or> prOperationDigest row = None
         \<or> (\<exists>seen. prBlastRadius row = Some seen \<and> seen < difBlastRadius request)"
  shows "erDecision (evaluate (inp\<lparr>peWorkspacePolicy := Some (toPolicyEvaluationInput row request)\<rparr>))
         = erDecision (evaluate (inp\<lparr>peWorkspacePolicy := None\<rparr>))"
proof -
  have "autoApproveConsent row (Some request) \<noteq> ConsentCurrent"
    using assms by (auto simp: autoApproveConsent_def less_blast_radius_def)
  then have "ruleAutoApprove (Some (toPolicyEvaluationInput row request)) = None"
    using assms(1,2)
    by (simp add: toPolicyEvaluationInput_def ruleAutoApprove_def isOptInForAnotherDefinition_def)
  then show ?thesis by (simp add: evaluate_decision)
qed

definition sample_request :: policy_evaluation_input where
  "sample_request =
     \<lparr>peGatekeeperId = ''gk'', peBlastRadius = Medium, peOperationAutoApprovable = True,
      peMcpTrustBlocked = None, peParamsCarrySuspectedSecrets = Some False, peWorkspacePolicy = None,
      peRequesterScope = \<lparr>capabilities = [''request_action''], resources = [(''gatekeeper'', [''gk''])]\<rparr>,
      pePrincipalAutoApproveLowEnabled = None\<rparr>"

definition sample_rule :: policy_row where
  "sample_rule =
     \<lparr>prWorkspaceId = ''ws'', prId = ''r1'', prGatekeeperId = Some ''gk'', prActionKind = ''restart'',
      prBlastRadius = Some Medium, prAutoApprove = True, prRequesterCanApprove = None,
      prSetBy = ''owner'', prCreatedAt = 0, prUpdatedAt = 0, prOperationDigest = Some ''d1'',
      prOperationVersion = Some 1\<rparr>"

theorem lapsed_consent_decides_as_no_rule_witness:
  "erDecision (evaluate (sample_request\<lparr>peWorkspacePolicy :=
       Some (toPolicyEvaluationInput sample_rule \<lparr>difOperationDigest = Some ''d1'', difBlastRadius = Medium\<rparr>)\<rparr>))
     = Allow
   \<and> erDecision (evaluate (sample_request\<lparr>peWorkspacePolicy :=
       Some (toPolicyEvaluationInput sample_rule \<lparr>difOperationDigest = Some ''d2'', difBlastRadius = Medium\<rparr>)\<rparr>))
     = RequireApproval"
proof (rule conjI)
  show "erDecision (evaluate (sample_request\<lparr>peWorkspacePolicy :=
       Some (toPolicyEvaluationInput sample_rule \<lparr>difOperationDigest = Some ''d1'', difBlastRadius = Medium\<rparr>)\<rparr>))
     = Allow"
    by (simp add: evaluate_decision sample_request_def sample_rule_def toPolicyEvaluationInput_def
        autoApproveConsent_def ruleAutoApprove_def isOptInForAnotherDefinition_def
        hasGatekeeperScope_def resource_values_def GATEKEEPER_RESOURCE_SCOPE_KEY_def)
  have "erDecision (evaluate (sample_request\<lparr>peWorkspacePolicy := None\<rparr>)) = RequireApproval"
    by (simp add: evaluate_decision sample_request_def hasGatekeeperScope_def resource_values_def
        GATEKEEPER_RESOURCE_SCOPE_KEY_def)
  with lapsed_consent_decides_as_no_rule[of sample_rule
      "\<lparr>difOperationDigest = Some ''d2'', difBlastRadius = Medium\<rparr>" sample_request]
  show "erDecision (evaluate (sample_request\<lparr>peWorkspacePolicy :=
       Some (toPolicyEvaluationInput sample_rule \<lparr>difOperationDigest = Some ''d2'', difBlastRadius = Medium\<rparr>)\<rparr>))
     = RequireApproval"
    by (simp add: sample_rule_def)
qed

section \<open>What the tables can hold\<close>

definition sound_workspace_rule :: "workspace_key \<Rightarrow> policy_row \<Rightarrow> bool" where
  "sound_workspace_rule k r \<longleftrightarrow>
     (prWorkspaceId r, prActionKind r) = k \<and> prGatekeeperId r = None \<and> \<not> prAutoApprove r
     \<and> prOperationDigest r = None"

definition sound_gatekeeper_rule :: "gatekeeper_key \<Rightarrow> policy_row \<Rightarrow> bool" where
  "sound_gatekeeper_rule k r \<longleftrightarrow>
     (\<exists>gate. prGatekeeperId r = Some gate \<and> (prWorkspaceId r, gate, prActionKind r) = k)
     \<and> (prAutoApprove r = (prOperationDigest r \<noteq> None))
     \<and> \<not> (prAutoApprove r \<and> prBlastRadius r = Some High)"

definition sound_tables :: "policy_tables \<Rightarrow> bool" where
  "sound_tables db \<longleftrightarrow>
     (\<forall>k r. map_of (policies db) k = Some r \<longrightarrow> sound_workspace_rule k r)
     \<and> (\<forall>k r. map_of (gatekeeper_policies db) k = Some r \<longrightarrow> sound_gatekeeper_rule k r)"

lemma setPolicy_Inr:
  "setPolicy fresh_id now ws inp db = Inr (row, db') \<longleftrightarrow>
     \<not> (spBlastRadius inp = Some High \<and> spAutoApprove inp)
     \<and> (case spGatekeeperId inp of
          None \<Rightarrow> \<not> spAutoApprove inp
            \<and> row = upserted_row fresh_id now ws inp None (map_of (policies db) (ws, spActionKind inp))
            \<and> db' = db\<lparr>policies := obj_set (ws, spActionKind inp) row (policies db)\<rparr>
        | Some gate \<Rightarrow> (spAutoApprove inp \<longrightarrow> spAllows inp \<noteq> None)
            \<and> row = upserted_row fresh_id now ws inp (if spAutoApprove inp then spAllows inp else None)
                      (map_of (gatekeeper_policies db) (ws, gate, spActionKind inp))
            \<and> db' = db\<lparr>gatekeeper_policies :=
                        obj_set (ws, gate, spActionKind inp) row (gatekeeper_policies db)\<rparr>)"
  by (cases "spGatekeeperId inp") (auto simp: setPolicy_def assertPolicyWriteAllowed_def Let_def)

lemma upserted_fields [simp]:
  "prAutoApprove (upserted_row i t ws inp al ex) = spAutoApprove inp"
  "prBlastRadius (upserted_row i t ws inp al ex) = spBlastRadius inp"
  "prOperationDigest (upserted_row i t ws inp al ex) = map_option adOperationDigest al"
  by (simp_all add: upserted_row_def split: option.splits)

lemma sound_setPolicy:
  assumes sound: "sound_tables db" and set: "setPolicy fresh_id now ws inp db = Inr (row, db')"
  shows "sound_tables db'"
proof (cases "spGatekeeperId inp")
  case None
  let ?k = "(ws, spActionKind inp)"
  from set None have auto: "\<not> spAutoApprove inp"
    and row: "row = upserted_row fresh_id now ws inp None (map_of (policies db) ?k)"
    and db': "db' = db\<lparr>policies := obj_set ?k row (policies db)\<rparr>"
    by (simp_all add: setPolicy_Inr)
  have "sound_workspace_rule ?k row"
    using sound auto None unfolding row
    by (auto simp: sound_tables_def sound_workspace_rule_def upserted_row_def split: option.splits)
  with sound db' show ?thesis by (auto simp: sound_tables_def)
next
  case (Some gate)
  let ?k = "(ws, gate, spActionKind inp)"
  from set Some have high: "\<not> (spBlastRadius inp = Some High \<and> spAutoApprove inp)"
    and al: "spAutoApprove inp \<longrightarrow> spAllows inp \<noteq> None"
    and row: "row = upserted_row fresh_id now ws inp (if spAutoApprove inp then spAllows inp else None)
                      (map_of (gatekeeper_policies db) ?k)"
    and db': "db' = db\<lparr>gatekeeper_policies := obj_set ?k row (gatekeeper_policies db)\<rparr>"
    by (simp_all add: setPolicy_Inr)
  have "\<exists>g. prGatekeeperId row = Some g \<and> (prWorkspaceId row, g, prActionKind row) = ?k"
    using sound Some unfolding row
    by (force simp: sound_tables_def sound_gatekeeper_rule_def upserted_row_def split: option.splits)
  with high al have "sound_gatekeeper_rule ?k row"
    unfolding sound_gatekeeper_rule_def row by auto
  with sound db' show ?thesis by (auto simp: sound_tables_def)
qed

lemma sound_perform: "sound_tables db \<Longrightarrow> sound_tables (perform_write w db)"
  by (cases "(w, db)" rule: perform_write.cases)
    (auto simp: setAutoApprovedActionKind_def Let_def intro: sound_setPolicy split: sum.splits)

text \<open>
  C32: no sequence of rule writes, from empty tables, ever stores a workspace-wide opt-in, a rule
  allowing a high-impact action, or an opt-in that does not name the definition it allows.
\<close>

theorem stored_rules_are_sound:
  "let db = fold perform_write ws no_policies in
     (\<forall>k r. map_of (policies db) k = Some r \<longrightarrow> \<not> prAutoApprove r)
     \<and> (\<forall>k r. map_of (gatekeeper_policies db) k = Some r \<longrightarrow> prAutoApprove r \<longrightarrow>
          prBlastRadius r \<noteq> Some High \<and> prOperationDigest r \<noteq> None)"
proof -
  have "sound_tables db \<Longrightarrow> sound_tables (fold perform_write ws db)" for db
    by (induction ws arbitrary: db) (simp_all add: sound_perform)
  moreover have "sound_tables no_policies" by (simp add: sound_tables_def no_policies_def)
  ultimately have "sound_tables (fold perform_write ws no_policies)" by blast
  then show ?thesis
    by (auto simp: Let_def sound_tables_def sound_workspace_rule_def sound_gatekeeper_rule_def)
qed

definition sample_always_allow :: set_auto_approved_input where
  "sample_always_allow =
     \<lparr>saGatekeeperId = ''gk'', saActionKind = ''restart'', saBlastRadius = Medium, saSetBy = ''owner'',
      saAllows = \<lparr>adOperationDigest = ''d1'', adOperationVersion = 1\<rparr>\<rparr>"

lemma sample_write:
  "map_of (gatekeeper_policies
      (fold perform_write [(''r1'', 0, ''ws'', SetAutoApprovedWrite sample_always_allow)] no_policies))
     (''ws'', ''gk'', ''restart'') = Some sample_rule"
  by (simp add: sample_always_allow_def no_policies_def setAutoApprovedActionKind_def setPolicy_def
      assertPolicyWriteAllowed_def readEffectivePolicy_def readGatekeeperPolicy_def
      readWorkspacePolicy_def upserted_row_def sample_rule_def Let_def)

theorem stored_rules_are_sound_witness:
  "map_of (gatekeeper_policies
      (fold perform_write [(''r1'', 0, ''ws'', SetAutoApprovedWrite sample_always_allow)] no_policies))
     (''ws'', ''gk'', ''restart'') = Some sample_rule
   \<and> prBlastRadius sample_rule \<noteq> Some High \<and> prOperationDigest sample_rule \<noteq> None"
proof (rule conjI)
  have "prAutoApprove sample_rule" by (simp add: sample_rule_def)
  with stored_rules_are_sound[of "[(''r1'', 0, ''ws'', SetAutoApprovedWrite sample_always_allow)]",
      unfolded Let_def, THEN conjunct2, rule_format, OF sample_write]
  show "prBlastRadius sample_rule \<noteq> Some High \<and> prOperationDigest sample_rule \<noteq> None" by blast
qed (rule sample_write)

lemma opt_out_not_allowed:
  "\<not> prAutoApprove row \<Longrightarrow>
   erDecision (evaluate (inp\<lparr>peWorkspacePolicy := Some (toPolicyEvaluationInput row request)\<rparr>)) \<noteq> Allow"
  by (simp add: evaluate_decision ruleAutoApprove_def isOptInForAnotherDefinition_def
      toPolicyEvaluationInput_def)

text \<open>
  C33: writing a gate's rule takes effect on that gate and action kind only: the written row is the
  effective one there, every other effective rule of every workspace is unchanged, a setting the
  caller omitted is kept from the old row, and a rule that opts out is never auto-approved,
  whatever the request says and whatever the workspace-wide rule says.
\<close>

theorem gate_rule_takes_effect:
  assumes "setPolicy fresh_id now ws inp db = Inr (row, db')" and "spGatekeeperId inp = Some gate"
  shows "readEffectivePolicy db' ws gate (spActionKind inp) = Some row
         \<and> (\<forall>ws' gate' kind'. (ws', gate', kind') \<noteq> (ws, gate, spActionKind inp) \<longrightarrow>
              readEffectivePolicy db' ws' gate' kind' = readEffectivePolicy db ws' gate' kind')
         \<and> (\<forall>old. readGatekeeperPolicy db ws gate (spActionKind inp) = Some old
              \<and> spRequesterCanApprove inp = None \<longrightarrow>
              prRequesterCanApprove row = prRequesterCanApprove old \<and> prId row = prId old)
         \<and> (\<not> spAutoApprove inp \<longrightarrow> (\<forall>request definition.
              erDecision (evaluate (request\<lparr>peWorkspacePolicy :=
                Some (toPolicyEvaluationInput row definition)\<rparr>)) \<noteq> Allow))"
proof -
  let ?k = "(ws, gate, spActionKind inp)"
  from assms have row: "row = upserted_row fresh_id now ws inp (if spAutoApprove inp then spAllows inp else None)
                          (map_of (gatekeeper_policies db) ?k)"
    and db': "db' = db\<lparr>gatekeeper_policies := obj_set ?k row (gatekeeper_policies db)\<rparr>"
    by (simp_all add: setPolicy_Inr)
  have auto: "prAutoApprove row = spAutoApprove inp" by (simp add: row)
  have read: "readEffectivePolicy db' ws gate (spActionKind inp) = Some row"
    by (simp add: readEffectivePolicy_def readGatekeeperPolicy_def db')
  have other: "readEffectivePolicy db' ws' gate' kind' = readEffectivePolicy db ws' gate' kind'"
    if "(ws', gate', kind') \<noteq> ?k" for ws' gate' kind'
    using gatekeeper_rules.untouched[OF that, of row db]
    by (simp add: readEffectivePolicy_def readGatekeeperPolicy_def readWorkspacePolicy_def db'
        split: option.split)
  have kept: "prRequesterCanApprove row = prRequesterCanApprove old \<and> prId row = prId old"
    if "readGatekeeperPolicy db ws gate (spActionKind inp) = Some old" "spRequesterCanApprove inp = None"
    for old
    using that by (simp add: row upserted_row_def readGatekeeperPolicy_def)
  from read other kept opt_out_not_allowed[of row] auto show ?thesis by blast
qed

theorem gate_rule_takes_effect_witness:
  "let inp = \<lparr>spGatekeeperId = Some ''gk'', spActionKind = ''restart'', spBlastRadius = None,
        spAutoApprove = False, spRequesterCanApprove = None, spSetBy = ''owner'', spAllows = None\<rparr>
   in case setPolicy ''r2'' 5 ''ws'' inp
             \<lparr>policies = [], gatekeeper_policies = [((''ws'', ''gk'', ''restart''), sample_rule)]\<rparr> of
        Inr (row, db') \<Rightarrow> readEffectivePolicy db' ''ws'' ''gk'' ''restart'' = Some row \<and> prId row = ''r1''
      | Inl _ \<Rightarrow> False"
proof -
  let ?inp = "\<lparr>spGatekeeperId = Some ''gk'', spActionKind = ''restart'', spBlastRadius = None,
        spAutoApprove = False, spRequesterCanApprove = None, spSetBy = ''owner'', spAllows = None\<rparr>"
  let ?db = "\<lparr>policies = [], gatekeeper_policies = [((''ws'', ''gk'', ''restart''), sample_rule)]\<rparr>"
  obtain row db' where r: "setPolicy ''r2'' 5 ''ws'' ?inp ?db = Inr (row, db')"
    by (simp add: setPolicy_def assertPolicyWriteAllowed_def Let_def)
  from gate_rule_takes_effect[OF r, of "''gk''"] have
    "readEffectivePolicy db' ''ws'' ''gk'' ''restart'' = Some row" "prId row = ''r1''"
    by (simp_all add: readGatekeeperPolicy_def sample_rule_def)
  with r show ?thesis by simp
qed

end
