(* ===== verification/Json_Value.thy ===== *)
theory Json_Value
  imports Complex_Main Js_Text
begin

text \<open>
  JSON values as the TypeScript code sees them: a number is an exact rational (JSON has neither NaN
  nor infinities), an object keeps its keys in insertion order, first occurrence first.
\<close>

datatype json =
    JNull
  | JBool bool
  | JNum rat
  | JStr string
  | JArr "json list"
  | JObj "(string \<times> json) list"

text \<open>
  Property access on a value known to be an object (\<open>typeof v === 'object'\<close>, not null): an own
  property of an object, an element of an array by its index text.
\<close>

definition js_get :: "json \<Rightarrow> string \<Rightarrow> json option" where
  "js_get v name =
     (case v of
        JObj ps \<Rightarrow> map_of ps name
      | JArr xs \<Rightarrow> map_option (\<lambda>i. xs ! i) (find (\<lambda>i. decimal i = name) [0..<length xs])
      | _ \<Rightarrow> None)"

fun is_json_object :: "json \<Rightarrow> bool" where
  "is_json_object (JObj _) = True"
| "is_json_object (JArr _) = True"
| "is_json_object _ = False"

definition MAX_SAFE_INTEGER :: int where
  "MAX_SAFE_INTEGER = 9007199254740991"

definition isSafeInteger :: "rat \<Rightarrow> bool" where
  "isSafeInteger q = (of_int \<lfloor>q\<rfloor> = q \<and> \<bar>\<lfloor>q\<rfloor>\<bar> \<le> MAX_SAFE_INTEGER)"

text \<open>\<open>String(n)\<close> of an integer.\<close>

definition integer_text :: "int \<Rightarrow> string" where
  "integer_text i = (if i < 0 then CHR ''-'' # decimal (nat (- i)) else decimal (nat i))"

end
