(* ===== verification/Action_Queue.thy ===== *)
theory Action_Queue
  imports Json_Value Lifecycles
begin

text \<open>
  What may run next on one gate: action targets and their conflicts
  (\<open>packages/shared/src/action-description.ts\<close>) and the queue planner the drainer and the waiting
  views share (\<open>governance/approval/queue.ts\<close>).
\<close>

section \<open>Action targets\<close>

type_synonym identity_value = "string + int"

record action_target =
  targetType :: string
  targetParams :: "string list"
  targetIdentity :: "identity_value list"

record operation_target =
  object_type :: string
  target_params :: "string list"

definition paramSchemaType :: "json \<Rightarrow> string \<Rightarrow> string option" where
  "paramSchemaType paramsSchema name =
     (case js_get paramsSchema ''properties'' of
        None \<Rightarrow> None
      | Some properties \<Rightarrow>
          (case js_get properties name of
             None \<Rightarrow> None
           | Some property \<Rightarrow> (case js_get property ''type'' of Some (JStr t) \<Rightarrow> Some t | _ \<Rightarrow> None)))"

text \<open>One declared parameter as an identity value; \<open>None\<close> is the early \<open>return null\<close>.\<close>

definition identity_of :: "json \<Rightarrow> (string \<times> json) list \<Rightarrow> string \<Rightarrow> identity_value option" where
  "identity_of paramsSchema params name =
     (case (paramSchemaType paramsSchema name, map_of params name) of
        (Some t, Some (JStr s)) \<Rightarrow> (if t = ''string'' then Some (Inl s) else None)
      | (Some t, Some (JNum q)) \<Rightarrow>
          (if t = ''integer'' \<and> isSafeInteger q then Some (Inr \<lfloor>q\<rfloor>) else None)
      | _ \<Rightarrow> None)"

fun identities_of :: "json \<Rightarrow> (string \<times> json) list \<Rightarrow> string list \<Rightarrow> identity_value list option" where
  "identities_of paramsSchema params [] = Some []"
| "identities_of paramsSchema params (name # names) =
     (case identity_of paramsSchema params name of
        None \<Rightarrow> None
      | Some v \<Rightarrow> map_option ((#) v) (identities_of paramsSchema params names))"

definition actionTargetOf ::
  "json \<Rightarrow> operation_target option \<Rightarrow> (string \<times> json) list \<Rightarrow> action_target option" where
  "actionTargetOf paramsSchema declared params =
     (case declared of
        None \<Rightarrow> None
      | Some t \<Rightarrow>
          map_option (\<lambda>ids. \<lparr>targetType = object_type t, targetParams = target_params t,
                             targetIdentity = ids\<rparr>)
            (identities_of paramsSchema params (target_params t)))"

definition identity_text :: "identity_value \<Rightarrow> string" where
  "identity_text v = (case v of Inl s \<Rightarrow> s | Inr i \<Rightarrow> integer_text i)"

definition actionTargetsConflict :: "action_target option \<Rightarrow> action_target option \<Rightarrow> bool" where
  "actionTargetsConflict a b =
     (case (a, b) of
        (Some s, Some t) \<Rightarrow>
          (if targetType s \<noteq> targetType t then False
           else if targetParams s \<noteq> targetParams t
                   \<or> length (targetIdentity s) \<noteq> length (targetIdentity t) then True
           else list_all2 (\<lambda>v w. identity_text v = identity_text w)
                  (targetIdentity s) (targetIdentity t))
      | _ \<Rightarrow> True)"

section \<open>The queue planner\<close>

record queue_entry =
  qId :: string
  qStatus :: action_request_status
  qTarget :: "action_target option"

datatype hold_scope = TargetScope | GateScope

record queue_hold =
  rootId :: string
  rootStatus :: action_request_status
  holdScope :: hold_scope

record queue_plan =
  nextEntry :: "queue_entry option"
  holds :: "(string \<times> queue_hold) list"

definition QUEUED :: "action_request_status list" where
  "QUEUED = [AR_auto_approved, AR_approved, AR_pending_approval, AR_executing]"

text \<open>A row nobody needs to start: it waits for a person or is running.\<close>

definition unapproved :: "queue_entry \<Rightarrow> bool" where
  "unapproved row = (qStatus row = AR_pending_approval \<or> qStatus row = AR_executing)"

text \<open>The scan of the earlier rows: the hold of the first conflicting row that has one.\<close>

fun inherited_hold ::
  "(string \<times> queue_hold) list \<Rightarrow> queue_entry \<Rightarrow> queue_entry list \<Rightarrow> queue_hold option" where
  "inherited_hold held row [] = None"
| "inherited_hold held row (earlier # rest) =
     (if \<not> actionTargetsConflict (qTarget earlier) (qTarget row) then inherited_hold held row rest
      else case map_of held (qId earlier) of
        None \<Rightarrow> inherited_hold held row rest
      | Some h \<Rightarrow>
          Some \<lparr>rootId = rootId h, rootStatus = rootStatus h,
                holdScope = (if qTarget row = None \<or> holdScope h = GateScope
                             then GateScope else TargetScope)\<rparr>)"

text \<open>
  One turn of the \<open>forEach\<close>: \<open>before\<close> and \<open>after\<close> are the queued rows around \<open>row\<close>.
\<close>

definition plan_row ::
  "queue_entry list \<Rightarrow> queue_entry list \<Rightarrow> queue_entry \<Rightarrow> queue_plan \<Rightarrow> queue_plan" where
  "plan_row before after row plan =
     (if unapproved row then
        plan\<lparr>holds := obj_set (qId row)
               \<lparr>rootId = qId row, rootStatus = qStatus row,
                holdScope = (if qTarget row = None then GateScope else TargetScope)\<rparr> (holds plan)\<rparr>
      else
        (let conflicts = list_ex (\<lambda>earlier. actionTargetsConflict (qTarget earlier) (qTarget row)) before;
             inherited = inherited_hold (holds plan) row before;
             started = find (\<lambda>other. qStatus other = AR_executing
                                \<and> actionTargetsConflict (qTarget other) (qTarget row)) after;
             hold = (case inherited of
                       Some h \<Rightarrow> Some h
                     | None \<Rightarrow>
                         map_option (\<lambda>s. \<lparr>rootId = qId s, rootStatus = AR_executing,
                           holdScope = (if qTarget row = None \<or> qTarget s = None
                                        then GateScope else TargetScope)\<rparr>) started)
         in case hold of
              Some h \<Rightarrow> plan\<lparr>holds := obj_set (qId row) h (holds plan)\<rparr>
            | None \<Rightarrow> (if \<not> conflicts \<and> nextEntry plan = None then plan\<lparr>nextEntry := Some row\<rparr> else plan)))"

fun plan_rows :: "queue_entry list \<Rightarrow> queue_entry list \<Rightarrow> queue_plan \<Rightarrow> queue_plan" where
  "plan_rows before [] plan = plan"
| "plan_rows before (row # after) plan =
     plan_rows (before @ [row]) after (plan_row before after row plan)"

definition planGatekeeperQueue :: "queue_entry list \<Rightarrow> queue_plan" where
  "planGatekeeperQueue rows =
     (let queued = filter (\<lambda>row. qStatus row \<in> set QUEUED) rows;
          plan = plan_rows [] queued \<lparr>nextEntry = None, holds = []\<rparr>
      in plan\<lparr>holds := fold (\<lambda>row m. if unapproved row then obj_delete (qId row) m else m)
                        queued (holds plan)\<rparr>)"

section \<open>What the planner promises\<close>

abbreviation conflicting :: "queue_entry \<Rightarrow> queue_entry \<Rightarrow> bool" where
  "conflicting a b \<equiv> actionTargetsConflict (qTarget a) (qTarget b)"

abbreviation queued_rows :: "queue_entry list \<Rightarrow> queue_entry list" where
  "queued_rows rows \<equiv> filter (\<lambda>row. qStatus row \<in> set QUEUED) rows"

text \<open>A row that may start: nothing earlier conflicts with it, and nothing running does.\<close>

definition startable :: "queue_entry list \<Rightarrow> queue_entry list \<Rightarrow> queue_entry \<Rightarrow> bool" where
  "startable before after row \<longleftrightarrow>
     \<not> unapproved row
     \<and> list_all (\<lambda>y. \<not> conflicting y row) before
     \<and> list_all (\<lambda>y. qStatus y = AR_executing \<longrightarrow> \<not> conflicting y row) after"

fun first_startable :: "queue_entry list \<Rightarrow> queue_entry list \<Rightarrow> queue_entry option" where
  "first_startable before [] = None"
| "first_startable before (row # after) =
     (if startable before after row then Some row else first_startable (before @ [row]) after)"

lemma inherited_hold_None:
  "list_all (\<lambda>y. \<not> conflicting y row) before \<Longrightarrow> inherited_hold held row before = None"
  by (induction before) auto

lemma plan_row_next:
  "nextEntry (plan_row before after row plan) =
     (if nextEntry plan = None \<and> startable before after row then Some row else nextEntry plan)"
proof (cases "startable before after row")
  case True
  then have "inherited_hold (holds plan) row before = None"
    by (simp add: startable_def inherited_hold_None)
  moreover from True have "find (\<lambda>y. qStatus y = AR_executing \<and> conflicting y row) after = None"
    by (auto simp: startable_def find_None_iff list_all_iff)
  ultimately show ?thesis
    using True by (auto simp: plan_row_def startable_def Let_def list_ex_iff list_all_iff)
next
  case False
  then show ?thesis
    by (auto simp: plan_row_def startable_def Let_def list_ex_iff list_all_iff find_None_iff
        split: option.splits)
qed

lemma plan_rows_next:
  "nextEntry (plan_rows before rest plan) =
     (case nextEntry plan of Some r \<Rightarrow> Some r | None \<Rightarrow> first_startable before rest)"
  by (induction before rest plan rule: plan_rows.induct)
    (auto simp: plan_row_next split: option.splits)

lemma planGatekeeperQueue_next:
  "nextEntry (planGatekeeperQueue rows) = first_startable [] (queued_rows rows)"
  by (simp add: planGatekeeperQueue_def Let_def plan_rows_next)

text \<open>The row at a position of the queue may start.\<close>

definition startable_at :: "queue_entry list \<Rightarrow> nat \<Rightarrow> bool" where
  "startable_at rows i = startable (take i rows) (drop (Suc i) rows) (rows ! i)"

lemma first_startable_at:
  "first_startable before rest = Some row \<longleftrightarrow>
     (\<exists>i<length rest. rest ! i = row \<and> startable (before @ take i rest) (drop (Suc i) rest) row
        \<and> (\<forall>j<i. \<not> startable (before @ take j rest) (drop (Suc j) rest) (rest ! j)))"
proof (induction before rest rule: first_startable.induct)
  case (2 before r after)
  show ?case
  proof (cases "startable before after r")
    case True
    have "(\<exists>i<length (r # after). (r # after) ! i = row
        \<and> startable (before @ take i (r # after)) (drop (Suc i) (r # after)) row
        \<and> (\<forall>j<i. \<not> startable (before @ take j (r # after)) (drop (Suc j) (r # after)) ((r # after) ! j)))
      \<longleftrightarrow> r = row"
      using True by (auto simp: gr0_conv_Suc less_Suc_eq_0_disj)
    with True show ?thesis by simp
  next
    case False
    then show ?thesis
      using 2 by (auto simp: Ex_less_Suc2 All_less_Suc2)
  qed
qed simp

lemma queued_status: "row \<in> set (queued_rows rows) \<Longrightarrow>
    unapproved row \<or> qStatus row \<in> {AR_approved, AR_auto_approved}"
  by (auto simp: QUEUED_def unapproved_def)

text \<open>
  C16: what the queue starts next is the first approved row, in request order, that conflicts with
  no earlier row of its gate still in the queue - approved, awaiting approval or executing - and
  with no executing row wherever it stands.
\<close>

theorem next_is_first_startable:
  "nextEntry (planGatekeeperQueue rows) = Some row \<longleftrightarrow>
     (let q = queued_rows rows in \<exists>i<length q. q ! i = row
        \<and> qStatus row \<in> {AR_approved, AR_auto_approved}
        \<and> list_all (\<lambda>y. \<not> conflicting y row) (take i q)
        \<and> list_all (\<lambda>y. qStatus y = AR_executing \<longrightarrow> \<not> conflicting y row) (drop (Suc i) q)
        \<and> (\<forall>j<i. \<not> startable_at q j))"
proof -
  let ?q = "queued_rows rows"
  have eq: "startable (take i ?q) (drop (Suc i) ?q) row \<longleftrightarrow>
      qStatus row \<in> {AR_approved, AR_auto_approved}
      \<and> list_all (\<lambda>y. \<not> conflicting y row) (take i ?q)
      \<and> list_all (\<lambda>y. qStatus y = AR_executing \<longrightarrow> \<not> conflicting y row) (drop (Suc i) ?q)"
    if "i < length ?q \<and> ?q ! i = row" for i
  proof -
    from that have "row \<in> set ?q" by (metis nth_mem)
    then show ?thesis using queued_status[of row rows] by (auto simp: startable_def unapproved_def)
  qed
  show ?thesis
    unfolding planGatekeeperQueue_next first_startable_at Let_def append_Nil startable_at_def
  proof (rule iff_exI)
    fix i
    show "(i < length ?q \<and> ?q ! i = row \<and> startable (take i ?q) (drop (Suc i) ?q) row
        \<and> (\<forall>j<i. \<not> startable (take j ?q) (drop (Suc j) ?q) (?q ! j)))
      \<longleftrightarrow> (i < length ?q \<and> ?q ! i = row \<and> qStatus row \<in> {AR_approved, AR_auto_approved}
        \<and> list_all (\<lambda>y. \<not> conflicting y row) (take i ?q)
        \<and> list_all (\<lambda>y. qStatus y = AR_executing \<longrightarrow> \<not> conflicting y row) (drop (Suc i) ?q)
        \<and> (\<forall>j<i. \<not> startable (take j ?q) (drop (Suc j) ?q) (?q ! j)))"
    proof (cases "i < length ?q \<and> ?q ! i = row")
      case True
      then show ?thesis unfolding eq[OF True] by blast
    qed blast
  qed
qed

subsection \<open>Who holds whom back\<close>

text \<open>
  A row waits for a holder - a row awaiting approval or executing - when it conflicts with the holder
  itself or with a row that waits for it.
\<close>

inductive waits_for :: "queue_entry list \<Rightarrow> queue_entry \<Rightarrow> queue_entry \<Rightarrow> bool"
  for q :: "queue_entry list" where
  direct: "holder \<in> set q \<Longrightarrow> unapproved holder \<Longrightarrow> conflicting holder row \<Longrightarrow> waits_for q row holder"
| through: "e \<in> set q \<Longrightarrow> conflicting e row \<Longrightarrow> waits_for q e holder \<Longrightarrow> waits_for q row holder"

definition hold_of :: "queue_entry list \<Rightarrow> queue_entry \<Rightarrow> queue_hold \<Rightarrow> bool" where
  "hold_of q row h \<longleftrightarrow>
     (\<exists>holder\<in>set q. unapproved holder \<and> rootId h = qId holder \<and> rootStatus h = qStatus holder
        \<and> (if unapproved row then holder = row else waits_for q row holder))"

text \<open>The state of the scan after \<open>before\<close>: every entry is a genuine hold, every unapproved row has one.\<close>

definition scan_inv :: "queue_entry list \<Rightarrow> queue_entry list \<Rightarrow> queue_plan \<Rightarrow> bool" where
  "scan_inv q before plan \<longleftrightarrow>
     (\<forall>i h. map_of (holds plan) i = Some h \<longrightarrow> (\<exists>row\<in>set before. qId row = i \<and> hold_of q row h))
     \<and> (\<forall>row\<in>set before. unapproved row \<longrightarrow> map_of (holds plan) (qId row) \<noteq> None)
     \<and> (nextEntry plan = None \<longrightarrow> (\<forall>row\<in>set before. map_of (holds plan) (qId row) \<noteq> None))"

lemma inherited_hold_cases:
  "case inherited_hold held row before of
     Some h \<Rightarrow> \<exists>e\<in>set before. conflicting e row \<and>
       (\<exists>g. map_of held (qId e) = Some g \<and> rootId h = rootId g \<and> rootStatus h = rootStatus g)
   | None \<Rightarrow> \<forall>e\<in>set before. conflicting e row \<longrightarrow> map_of held (qId e) = None"
  by (induction before) (auto split: option.splits)

lemma hold_of_through:
  assumes q: "distinct (map qId q)" and sub: "set before \<subseteq> set q"
    and inv: "scan_inv q before plan" and e: "e \<in> set before" "conflicting e row"
    and g: "map_of (holds plan) (qId e) = Some g" and row: "\<not> unapproved row"
    and h: "rootId h = rootId g" "rootStatus h = rootStatus g"
  shows "hold_of q row h"
proof -
  from inv g obtain r where "r \<in> set before" "qId r = qId e" "hold_of q r g"
    unfolding scan_inv_def by blast
  with e(1) sub q have "hold_of q e g" by (metis (full_types) distinct_map inj_onD subsetD)
  then obtain holder where holder: "holder \<in> set q" "unapproved holder" "rootId g = qId holder"
      "rootStatus g = qStatus holder" "if unapproved e then holder = e else waits_for q e holder"
    unfolding hold_of_def by blast
  have "waits_for q row holder"
    using holder e sub waits_for.direct waits_for.through by (metis subsetD)
  with holder h row show ?thesis unfolding hold_of_def by (intro bexI[of _ holder]) auto
qed

lemma scan_step:
  assumes q: "distinct (map qId q)" and split: "q = before @ row # after"
    and inv: "scan_inv q before plan"
  shows "scan_inv q (before @ [row]) (plan_row before after row plan)"
proof -
  have sub: "set before \<subseteq> set q" and mem: "row \<in> set q" and new: "qId row \<notin> qId ` set before"
    using q split by auto
  have extend: "scan_inv q (before @ [row]) (plan\<lparr>holds := obj_set (qId row) h (holds plan)\<rparr>)"
    if "hold_of q row h" for h
    using inv that new by (auto simp: scan_inv_def)
  show ?thesis
  proof (cases "unapproved row")
    case True
    have "hold_of q row \<lparr>rootId = qId row, rootStatus = qStatus row,
        holdScope = (if qTarget row = None then GateScope else TargetScope)\<rparr>"
      using True mem by (auto simp: hold_of_def)
    from extend[OF this] show ?thesis by (simp add: plan_row_def True)
  next
    case False
    let ?inh = "inherited_hold (holds plan) row before"
    let ?st = "find (\<lambda>y. qStatus y = AR_executing \<and> conflicting y row) after"
    show ?thesis
    proof (cases ?inh)
      case (Some h)
      with inherited_hold_cases[where held = "holds plan" and row = row and before = before] obtain e g where
        "e \<in> set before" "conflicting e row" "map_of (holds plan) (qId e) = Some g"
        "rootId h = rootId g" "rootStatus h = rootStatus g" by auto
      with hold_of_through[OF q sub inv] False have "hold_of q row h" by blast
      from extend[OF this] show ?thesis by (simp add: plan_row_def False Some)
    next
      case None
      show ?thesis
      proof (cases ?st)
        case (Some holder)
        then have r: "holder \<in> set after" "qStatus holder = AR_executing" "conflicting holder row"
          by (auto simp: find_Some_iff in_set_conv_nth)
        then have "waits_for q row holder"
          using split by (intro waits_for.direct) (auto simp: unapproved_def)
        then have "hold_of q row \<lparr>rootId = qId holder, rootStatus = AR_executing,
            holdScope = (if qTarget row = None \<or> qTarget holder = None then GateScope else TargetScope)\<rparr>"
          using r split False by (auto simp: hold_of_def unapproved_def)
        from extend[OF this] show ?thesis by (simp add: plan_row_def False None Some)
      next
        case no: None
        have free: "\<forall>e\<in>set before. conflicting e row \<longrightarrow> map_of (holds plan) (qId e) = None"
          using inherited_hold_cases[where held = "holds plan" and row = row and before = before] None by simp
        show ?thesis
          using inv free False
          by (auto simp: plan_row_def None no scan_inv_def list_ex_iff Let_def)
      qed
    qed
  qed
qed

lemma scan_rows:
  assumes "distinct (map qId q)"
  shows "q = before @ rest \<Longrightarrow> scan_inv q before plan \<Longrightarrow> scan_inv q q (plan_rows before rest plan)"
proof (induction before rest plan rule: plan_rows.induct)
  case (2 before row after plan)
  have "scan_inv q (before @ [row]) (plan_row before after row plan)"
    by (rule scan_step[OF assms 2(2,3)])
  then show ?case using 2(1,2) by simp
qed simp

lemma map_of_fold_delete:
  "map_of (fold (\<lambda>row m. if P row then obj_delete (f row) m else m) rows m) k =
     (if \<exists>row\<in>set rows. P row \<and> f row = k then None else map_of m k)"
  by (induction rows arbitrary: m) auto

text \<open>
  C17: the queue never waits for nothing: either some row may start now, or every approved row is
  shown as held back; and a hold always names a real row of the queue, awaiting approval or
  executing, that the held row waits for through conflicts.
\<close>

theorem queue_never_waits_for_nothing:
  assumes "distinct (map qId (queued_rows rows))"
  shows "(nextEntry (planGatekeeperQueue rows) = None \<longrightarrow>
            (\<forall>row\<in>set (queued_rows rows). \<not> unapproved row \<longrightarrow>
               map_of (holds (planGatekeeperQueue rows)) (qId row) \<noteq> None))
         \<and> (\<forall>i h. map_of (holds (planGatekeeperQueue rows)) i = Some h \<longrightarrow>
              (\<exists>row\<in>set (queued_rows rows). \<exists>holder\<in>set (queued_rows rows).
                 qId row = i \<and> \<not> unapproved row \<and> unapproved holder
                 \<and> rootId h = qId holder \<and> rootStatus h = qStatus holder
                 \<and> waits_for (queued_rows rows) row holder))"
proof -
  let ?q = "queued_rows rows"
  let ?p = "plan_rows [] ?q \<lparr>nextEntry = None, holds = []\<rparr>"
  have inv: "scan_inv ?q ?q ?p"
    by (rule scan_rows[OF assms]) (simp_all add: scan_inv_def)
  have m: "map_of (holds (planGatekeeperQueue rows)) i =
      (if \<exists>row\<in>set ?q. unapproved row \<and> qId row = i then None else map_of (holds ?p) i)" for i
    by (simp add: planGatekeeperQueue_def Let_def map_of_fold_delete)
  have n: "nextEntry (planGatekeeperQueue rows) = nextEntry ?p"
    by (simp add: planGatekeeperQueue_def Let_def)
  have uniq: "r = r'" if "r \<in> set ?q" "r' \<in> set ?q" "qId r = qId r'" for r r'
    using that assms by (metis distinct_map inj_onD)
  show ?thesis
  proof (intro conjI impI ballI allI)
    fix row
    assume none: "nextEntry (planGatekeeperQueue rows) = None" and row: "row \<in> set ?q" "\<not> unapproved row"
    from none inv row(1) have "map_of (holds ?p) (qId row) \<noteq> None"
      unfolding n scan_inv_def by blast
    moreover have "\<not> (\<exists>r\<in>set ?q. unapproved r \<and> qId r = qId row)"
      using uniq[OF _ row(1)] row(2) by blast
    ultimately show "map_of (holds (planGatekeeperQueue rows)) (qId row) \<noteq> None"
      unfolding m by simp
  next
    fix i h
    assume "map_of (holds (planGatekeeperQueue rows)) i = Some h"
    then have h: "map_of (holds ?p) i = Some h" and nu: "\<forall>row\<in>set ?q. unapproved row \<longrightarrow> qId row \<noteq> i"
      unfolding m by (auto split: if_splits)
    from inv h obtain row where row: "row \<in> set ?q" "qId row = i" "hold_of ?q row h"
      unfolding scan_inv_def by blast
    with nu have nr: "\<not> unapproved row" by blast
    with row(3) obtain holder where "holder \<in> set ?q" "unapproved holder" "rootId h = qId holder"
        "rootStatus h = qStatus holder" "waits_for ?q row holder"
      unfolding hold_of_def by auto
    with row(1,2) nr show "\<exists>row\<in>set ?q. \<exists>holder\<in>set ?q. qId row = i \<and> \<not> unapproved row
        \<and> unapproved holder \<and> rootId h = qId holder \<and> rootStatus h = qStatus holder
        \<and> waits_for ?q row holder"
      by (intro bexI[of _ row] bexI[of _ holder] conjI)
  qed
qed

definition sample_queue :: "queue_entry list" where
  "sample_queue =
     (let t = (\<lambda>n. Some \<lparr>targetType = ''container'', targetParams = [''name''], targetIdentity = [Inl n]\<rparr>)
      in [\<lparr>qId = ''1'', qStatus = AR_executing, qTarget = t ''web''\<rparr>,
          \<lparr>qId = ''2'', qStatus = AR_approved, qTarget = t ''web''\<rparr>,
          \<lparr>qId = ''3'', qStatus = AR_executed, qTarget = None\<rparr>,
          \<lparr>qId = ''4'', qStatus = AR_auto_approved, qTarget = t ''db''\<rparr>])"

lemmas queue_eval = sample_queue_def QUEUED_def startable_def unapproved_def startable_at_def
  actionTargetsConflict_def identity_text_def

theorem next_is_first_startable_witness:
  "map_option qId (nextEntry (planGatekeeperQueue sample_queue)) = Some ''4''"
proof -
  let ?row = "sample_queue ! 3"
  have q: "queued_rows sample_queue = [sample_queue ! 0, sample_queue ! 1, sample_queue ! 3]"
    by (simp add: queue_eval)
  have "nextEntry (planGatekeeperQueue sample_queue) = Some ?row"
    unfolding next_is_first_startable[of sample_queue ?row] Let_def q
    by (rule exI[of _ 2]) (auto simp: queue_eval numeral_2_eq_2 numeral_3_eq_3 less_Suc_eq)
  then show ?thesis by (simp add: sample_queue_def)
qed

theorem queue_never_waits_for_nothing_witness:
  "map_of (holds (planGatekeeperQueue (take 2 sample_queue))) ''2'' \<noteq> None"
proof -
  have d: "distinct (map qId (queued_rows (take 2 sample_queue)))"
    by (simp add: queue_eval)
  have "nextEntry (planGatekeeperQueue (take 2 sample_queue)) = None"
    unfolding planGatekeeperQueue_next by (simp add: queue_eval)
  moreover have "sample_queue ! 1 \<in> set (queued_rows (take 2 sample_queue))"
    "\<not> unapproved (sample_queue ! 1)" "qId (sample_queue ! 1) = ''2''"
    by (simp_all add: queue_eval)
  ultimately show ?thesis using queue_never_waits_for_nothing[OF d] by metis
qed

end
