(* ===== verification/Call_Authorization.thy ===== *)
theory Call_Authorization
  imports Capability_Scope
begin

text \<open>
  Who may call a capability: the role rules of \<open>packages/shared/src/roles.ts\<close>, the call gate of
  \<open>application/gateway/authorize.ts\<close>, and the grants of \<open>governance/capability/grants.ts\<close>.  A
  capability carries the registry fields these rules read; the entries are in
  \<open>Capability_Registry\<close>.
\<close>

section \<open>Capabilities and callers\<close>

datatype capability_mode = ModeObserve | ModeWrite | ModePropose | ModeExecute

datatype capability_channel = HumanChannel | HandleChannel

datatype capability_scope_kind = WorkspaceKind | PlatformKind

datatype capability_group =
    Grp_chat | Grp_ontology | Grp_graph | Grp_gate | Grp_connection | Grp_meta | Grp_epistemic
  | Grp_governance | Grp_task | Grp_worker | Grp_ingest | Grp_audit | Grp_members
  | Grp_agent_profile | Grp_platform | Grp_modules | Grp_goal | Grp_evaluation
  | Grp_platform_state | Grp_admin_proposal

record capability =
  capName :: string
  capGroup :: capability_group
  capMode :: capability_mode
  capSideEffects :: "bool option"
  capChannel :: capability_channel
  capScopeKind :: "capability_scope_kind option"
  capMinRole :: "role option"
  capActsForPerson :: bool
  capAdminAgentOnly :: bool

definition capabilityHasSideEffects :: "capability \<Rightarrow> bool" where
  "capabilityHasSideEffects c =
     (case capSideEffects c of Some b \<Rightarrow> b | None \<Rightarrow> capMode c \<noteq> ModeObserve)"

record principal_row =
  principalId :: string
  principalKind :: principal_kind
  principalRole :: role

record handle_claims =
  hcWorkspace :: string
  hcSession :: string
  hcOnBehalfOf :: string
  hcScope :: capability_scope
  hcJti :: string
  hcIssuedAt :: int
  hcExpiresAt :: int
  hcParent :: "string option"
  hcContainerHeld :: bool

datatype resolved_caller =
    HumanCaller principal_row
  | HandleCaller handle_claims
  | PlatformCaller string

section \<open>Roles\<close>

definition roleSatisfiesMinRole :: "role \<Rightarrow> role option \<Rightarrow> bool" where
  "roleSatisfiesMinRole r minRole =
     (case minRole of
        None \<Rightarrow> True
      | Some m \<Rightarrow> (if r = Owner then True else if m = Member then True else r = m))"

definition AUDITOR_READ_CAPABILITIES :: "string list" where
  "AUDITOR_READ_CAPABILITIES =
     [''audit_query'', ''export_prov'', ''reconstruct'', ''explain'', ''causal_chain'',
      ''decision_impact'', ''find_precedents'', ''query_decisions'', ''list_conflicts'',
      ''search'', ''list_facts'', ''graph_overview'', ''traverse'', ''get_object'',
      ''state_at'', ''graph_freshness'', ''get_type'', ''list_types'', ''validate'',
      ''list_ontology_versions'', ''get_skill'', ''list_skills'', ''list_procedures'',
      ''list_worker_definitions'', ''get_worker_definition'', ''list_gatekeepers'',
      ''get_gatekeeper'', ''list_operations'', ''get_operation_stats'',
      ''list_available_gate_instances'', ''list_capability_names'', ''list_workspace_modules'',
      ''list_change_segments'', ''get_change_segment'', ''list_packs'', ''list_eval_suites'',
      ''get_eval_suite'', ''get_eval_case'', ''get_eval_run'', ''list_eval_runs'',
      ''get_eval_budget'', ''get_draft_evaluation'', ''list_draft_evaluations'',
      ''list_eval_seal_holds'', ''get_workspace'', ''list_models'', ''resolve_refs'',
      ''get_agent_profile'', ''get_agent_policy'', ''list_tasks'', ''get_task'', ''list_goals'',
      ''get_goal'', ''get_goal_revision'', ''list_goal_unresolved_actions'', ''list_chats'',
      ''get_chat_history'', ''subscribe_chat'', ''list_chat_turns'']"

definition AUDITOR_CONVERSATION_CAPABILITIES :: "string list" where
  "AUDITOR_CONVERSATION_CAPABILITIES =
     [''new_chat'', ''send_chat_message'', ''stop_agent'', ''rename_chat'', ''archive_chat'',
      ''unarchive_chat'', ''get_entry_context'', ''report_turn'']"

definition roleMayUseCapability :: "role \<Rightarrow> capability option \<Rightarrow> bool" where
  "roleMayUseCapability r cap =
     (if r = Auditor then
        (case cap of
           None \<Rightarrow> False
         | Some c \<Rightarrow>
             (if \<not> roleSatisfiesMinRole r (capMinRole c) then False
              else if capName c \<in> set AUDITOR_CONVERSATION_CAPABILITIES then True
              else capName c \<in> set AUDITOR_READ_CAPABILITIES \<and> \<not> capabilityHasSideEffects c))
      else roleSatisfiesMinRole r (Option.bind cap capMinRole))"

section \<open>The call gate\<close>

datatype call_refusal_reason =
    PlatformScope | WorkspaceScopeOnly | HumanChannelOnly | AdminAgentOnly | NotInScope | RoleTooLow
  | AuditorReadOnly | NotForPerson

definition assertActsForPerson ::
  "capability \<Rightarrow> principal_kind option \<Rightarrow> (call_refusal_reason, unit) result" where
  "assertActsForPerson c kind =
     (if \<not> capActsForPerson c \<or> kind = Some Human then Inr () else Inl NotForPerson)"

definition authorizeCapabilityCall ::
  "resolved_caller \<Rightarrow> capability \<Rightarrow> (call_refusal_reason, unit) result" where
  "authorizeCapabilityCall caller c =
     (if capScopeKind c = Some PlatformKind then
        (case caller of PlatformCaller _ \<Rightarrow> Inr () | _ \<Rightarrow> Inl PlatformScope)
      else case caller of
        PlatformCaller _ \<Rightarrow> Inl WorkspaceScopeOnly
      | HandleCaller claims \<Rightarrow>
          (if capChannel c = HumanChannel then Inl HumanChannelOnly
           else if capName c \<notin> set (capabilities (hcScope claims)) then Inl NotInScope
           else Inr ())
      | HumanCaller p \<Rightarrow>
          (if capAdminAgentOnly c then Inl AdminAgentOnly
           else if \<not> roleMayUseCapability (principalRole p) (Some c) then
             Inl (if principalRole p = Auditor \<and> roleSatisfiesMinRole Auditor (capMinRole c)
                  then AuditorReadOnly else RoleTooLow)
           else assertActsForPerson c (Some (principalKind p))))"

section \<open>Grants\<close>

datatype grant_state = GrantActive | GrantRevoked | GrantExpired

record capability_grant =
  cgWorkspaceId :: string
  cgId :: string
  cgPrincipalId :: string
  cgResourceType :: string
  cgResourceId :: "string option"
  cgStatus :: grant_state
  cgGrantedBy :: string
  cgCreatedAt :: int
  cgRevokedAt :: "int option"
  cgExpiresAt :: "int option"

definition GATEKEEPER_GRANT_CAPABILITY :: string where
  "GATEKEEPER_GRANT_CAPABILITY = ''gatekeeper''"

definition unexpired :: "int \<Rightarrow> capability_grant \<Rightarrow> bool" where
  "unexpired now g = (case cgExpiresAt g of None \<Rightarrow> True | Some e \<Rightarrow> e > now)"

text \<open>The \<open>WHERE\<close> clause both readers share.\<close>

definition grant_covers :: "int \<Rightarrow> string \<Rightarrow> string \<Rightarrow> string option \<Rightarrow> capability_grant \<Rightarrow> bool" where
  "grant_covers now ws rtype rid g =
     (cgWorkspaceId g = ws \<and> cgStatus g = GrantActive \<and> unexpired now g
      \<and> (cgResourceType g = rtype \<and> (cgResourceId g = None \<or> (rid \<noteq> None \<and> cgResourceId g = rid))
         \<or> rid \<noteq> None \<and> cgResourceType g = GATEKEEPER_GRANT_CAPABILITY
             \<and> (cgResourceId g = None \<or> cgResourceId g = rid)))"

definition hasActiveGrant ::
  "capability_grant list \<Rightarrow> int \<Rightarrow> string \<Rightarrow> string \<Rightarrow> string \<Rightarrow> string option \<Rightarrow> bool" where
  "hasActiveGrant grants now ws who rtype rid =
     list_ex (\<lambda>g. cgPrincipalId g = who \<and> grant_covers now ws rtype rid g) grants"

definition listGrantHolderPrincipalIds ::
  "capability_grant list \<Rightarrow> int \<Rightarrow> string \<Rightarrow> string \<Rightarrow> string option \<Rightarrow> string list" where
  "listGrantHolderPrincipalIds grants now ws rtype rid =
     remdups (map cgPrincipalId (filter (grant_covers now ws rtype rid) grants))"

section \<open>What a call needs\<close>

text \<open>
  C18: a call passes the gate exactly when its channel may make it: a platform administrator only
  platform capabilities; a handle only capabilities its scope lists, never a human-only or platform
  one; a person only workspace capabilities that are not the admin agent's, at a sufficient role,
  for themselves where the capability acts for a person - and an auditor only conversation
  capabilities and listed reads without side effects.
\<close>

theorem call_gate_exactly:
  "authorizeCapabilityCall caller c = Inr () \<longleftrightarrow>
     (case caller of
        PlatformCaller _ \<Rightarrow> capScopeKind c = Some PlatformKind
      | HandleCaller claims \<Rightarrow>
          capScopeKind c \<noteq> Some PlatformKind \<and> capChannel c = HandleChannel
          \<and> capName c \<in> set (capabilities (hcScope claims))
      | HumanCaller p \<Rightarrow>
          capScopeKind c \<noteq> Some PlatformKind \<and> \<not> capAdminAgentOnly c
          \<and> (principalRole p = Owner \<or> capMinRole c \<in> {None, Some Member, Some (principalRole p)})
          \<and> (if principalRole p = Auditor
             then capName c \<in> set AUDITOR_CONVERSATION_CAPABILITIES
                  \<or> capName c \<in> set AUDITOR_READ_CAPABILITIES \<and> \<not> capabilityHasSideEffects c
             else True)
          \<and> (capActsForPerson c = False \<or> principalKind p = Human))"
proof (cases caller)
  case (HumanCaller p)
  have min: "roleSatisfiesMinRole r m \<longleftrightarrow> r = Owner \<or> m \<in> {None, Some Member, Some r}" for r m
    by (cases m) (auto simp: roleSatisfiesMinRole_def)
  have may: "roleMayUseCapability r (Some c) \<longleftrightarrow> roleSatisfiesMinRole r (capMinRole c)
      \<and> (if r = Auditor then capName c \<in> set AUDITOR_CONVERSATION_CAPABILITIES
             \<or> capName c \<in> set AUDITOR_READ_CAPABILITIES \<and> \<not> capabilityHasSideEffects c else True)" for r
    by (simp add: roleMayUseCapability_def)
  show ?thesis
    unfolding HumanCaller authorizeCapabilityCall_def resolved_caller.case may min assertActsForPerson_def
    by auto
next
  case (HandleCaller claims)
  then show ?thesis by (cases "capChannel c") (auto simp: authorizeCapabilityCall_def)
qed (auto simp: authorizeCapabilityCall_def)

end
