(* ===== verification/Action_Requests.thy ===== *)
theory Action_Requests
  imports Approval_Policy Action_Queue Call_Authorization
    "HOL-Library.List_Lexorder" "HOL-Library.Char_ord" "HOL-Library.Product_Lexorder"
begin

text \<open>
  The approval service, \<open>packages/kernel/src/governance/approval\<close>: requesting an action
  (\<open>request-action.ts\<close>), deciding on it (\<open>decide.ts\<close>), executing, expiring and withdrawing it
  (\<open>execution.ts\<close>), reconciling an unknown outcome (\<open>reconcile.ts\<close>), all over the
  \<open>action_requests\<close> table, whose conditional update is \<open>status-transition.ts\<close> and whose triggers
  are the migrations \<open>governance/0021\<close> and \<open>governance/0031\<close>.

  The state is the database the service writes: the request rows, the decisions, the audit log and
  the outbox.  What it reads and other modules own - principals, grants, published operations, the
  rule tables, the credential scanner, the parameter digest - is the environment.  One operation is
  one transaction: an error leaves the state as it was.  Fresh identifiers and the clock are
  arguments.
\<close>

section \<open>State\<close>

datatype failure_kind = NotDelivered | Refused | OutcomeUnknown

datatype reconciliation = EffectSeen | EffectAbsent

record action_request =
  arWorkspaceId :: string
  arId :: string
  arStatus :: action_request_status
  arGatekeeperId :: string
  arActionKind :: string
  arResourceScope :: "string option"
  arBlastRadius :: blast_radius
  arPolicyDecision :: "verdict option"
  arApprovalDecisionId :: "string option"
  arAwaitDecision :: bool
  arOnBehalfOf :: string
  arParentWorkerRunId :: "string option"
  arActorRuntime :: string
  arIdempotencyKey :: "string option"
  arRequestedAt :: int
  arExecutingAt :: "int option"
  arExecutedAt :: "int option"
  arFailedAt :: "int option"
  arFailureKind :: "failure_kind option"
  arParams :: "(string \<times> json) list"
  arRequesterCanApprove :: "bool option"
  arOperationDigest :: "string option"
  arStepRunId :: "string option"
  arReconciliation :: "reconciliation option"
  arReconciliationDecisionId :: "string option"
  arReexecuteDecisionId :: "string option"
  arTarget :: "action_target option"

datatype decision_subject = ApprovalSubject | RejectionSubject | ReconcileSubject reconciliation | ReexecuteSubject

record decision_row =
  dcWorkspaceId :: string
  dcId :: string
  dcStatus :: decision_status
  dcActionRequestId :: string
  dcSubject :: decision_subject
  dcReason :: "string option"
  dcDecidedBy :: "string option"

record audit_record =
  auWorkspaceId :: string
  auActor :: string
  auAction :: string
  auResourceId :: string
  auResultingStatus :: "action_request_status option"

datatype outbox_event =
    ActionRequestPending string string string string "string option" "string list"
  | ActionRequestUpdated string string action_request_status

record approval_db =
  requests :: "action_request list"
  decisions :: "decision_row list"
  audit :: "audit_record list"
  outbox :: "outbox_event list"

record principal_entry =
  peKind :: principal_kind
  peRole :: role
  peEnabled :: bool

record approval_env =
  envRules :: policy_tables
  envPrincipals :: "string \<Rightarrow> string \<Rightarrow> principal_entry option"
  envGrants :: "capability_grant list"
  envHolders :: "string \<Rightarrow> string \<Rightarrow> string option \<Rightarrow> string list"
  envAutoApprovable :: "string \<Rightarrow> string \<Rightarrow> string \<Rightarrow> bool option"
  envSuspectedSecrets :: "(string \<times> json) list \<Rightarrow> nat"
  envCredentialText :: "string \<Rightarrow> bool"
  envParamsDigest :: "(string \<times> json) list \<Rightarrow> string"

datatype approval_error =
    ActionRequestNotFoundError string string
  | IllegalRequestTransition "(action_request_status, action_request_event) illegal_transition"
  | IllegalDecisionTransition "(decision_status, decision_event) illegal_transition"
  | ConcurrentTransitionError string action_request_status action_request_status
  | ExecutionConflictError string action_request_status
  | ActionInDoubtError string string
  | ApprovalScopeError string string
  | SelfApprovalNotAllowedError string string
  | HumanDecisionRequiredError string string action_request_event
  | ApprovalReasonRequiredError string
  | CredentialsReviewRequiredError string nat
  | ActionReconciliationStateError string action_request_status
  | ActionReconciliationForbiddenError string
  | CredentialTextError
  | ExecutionGuardRaised string
  | StatusGuardRaised string
  | IdempotencyKeyConflict string

section \<open>Reading and writing rows\<close>

definition is_row :: "string \<Rightarrow> string \<Rightarrow> action_request \<Rightarrow> bool" where
  "is_row ws i r = (arWorkspaceId r = ws \<and> arId r = i)"

definition getActionRequest :: "approval_db \<Rightarrow> string \<Rightarrow> string \<Rightarrow> action_request option" where
  "getActionRequest db ws i = find (is_row ws i) (requests db)"

definition getActionRequestForUpdateOrThrow ::
  "approval_db \<Rightarrow> string \<Rightarrow> string \<Rightarrow> (approval_error, action_request) result" where
  "getActionRequestForUpdateOrThrow db ws i =
     (case getActionRequest db ws i of
        Some r \<Rightarrow> Inr r | None \<Rightarrow> Inl (ActionRequestNotFoundError ws i))"

definition replace_row :: "string \<Rightarrow> string \<Rightarrow> action_request \<Rightarrow> approval_db \<Rightarrow> approval_db" where
  "replace_row ws i r db = db\<lparr>requests := map (\<lambda>q. if is_row ws i q then r else q) (requests db)\<rparr>"

definition order_key :: "action_request \<Rightarrow> int \<times> string" where
  "order_key r = (arRequestedAt r, arId r)"

text \<open>\<open>order by requested_at desc, id desc limit 1\<close>.\<close>

definition newest :: "action_request list \<Rightarrow> action_request option" where
  "newest rows = (case rev (sort_key order_key rows) of [] \<Rightarrow> None | r # _ \<Rightarrow> Some r)"

definition recordTransition ::
  "approval_env \<Rightarrow> string \<Rightarrow> string \<Rightarrow> string \<Rightarrow> string \<Rightarrow> action_request_status
    \<Rightarrow> (string \<times> string \<times> string option) option \<Rightarrow> approval_db \<Rightarrow> approval_db" where
  "recordTransition env ws actor action i status fanout db =
     db\<lparr>audit := audit db @ [\<lparr>auWorkspaceId = ws, auActor = actor, auAction = action,
                              auResourceId = i, auResultingStatus = Some status\<rparr>],
        outbox := outbox db @
          [case (status, fanout) of
             (AR_pending_approval, Some (gate, kind, scope)) \<Rightarrow>
               ActionRequestPending ws i gate kind scope (envHolders env ws kind scope)
           | _ \<Rightarrow> ActionRequestUpdated ws i status]\<rparr>"

subsection \<open>The triggers\<close>

text \<open>\<open>action_requests_execution_guard\<close>: a start beside a conflicting running row is refused.\<close>

definition execution_guard :: "approval_db \<Rightarrow> action_request \<Rightarrow> bool" where
  "execution_guard db new =
     list_ex (\<lambda>r. arWorkspaceId r = arWorkspaceId new \<and> arGatekeeperId r = arGatekeeperId new
               \<and> arStatus r = AR_executing \<and> arId r \<noteq> arId new
               \<and> actionTargetsConflict (arTarget r) (arTarget new)) (requests db)"

definition status_guard ::
  "action_request option \<Rightarrow> action_request \<Rightarrow> (approval_error, action_request) result" where
  "status_guard old new =
     (let new' = (if arStatus new \<in> {AR_failed, AR_compensated} \<and> arFailureKind new = None
                  then new\<lparr>arFailureKind := Some OutcomeUnknown\<rparr> else new)
      in case old of
           None \<Rightarrow> (if arStatus new = AR_withdrawn then Inl (StatusGuardRaised (arId new)) else Inr new')
         | Some q \<Rightarrow>
             (if arStatus new = arStatus q then Inr new'
              else if arStatus q = AR_withdrawn then Inl (StatusGuardRaised (arId new))
              else if arStatus new = AR_withdrawn
                   \<and> arStatus q \<notin> {AR_pending_approval, AR_approved, AR_auto_approved}
              then Inl (StatusGuardRaised (arId new))
              else Inr new'))"

subsection \<open>The conditional update\<close>

record status_update =
  suStatus :: action_request_status
  suExpectedStatus :: action_request_status
  suApprovalDecisionId :: "string option"
  suExecutingAt :: "int option"
  suExecutedAt :: "int option"
  suFailedAt :: "int option"
  suFailureKind :: "failure_kind option"

definition plain_update :: "action_request_status \<Rightarrow> action_request_status \<Rightarrow> status_update" where
  "plain_update to from =
     \<lparr>suStatus = to, suExpectedStatus = from, suApprovalDecisionId = None, suExecutingAt = None,
      suExecutedAt = None, suFailedAt = None, suFailureKind = None\<rparr>"

definition coalesce :: "'a option \<Rightarrow> 'a option \<Rightarrow> 'a option" where
  "coalesce new old = (case new of Some v \<Rightarrow> Some v | None \<Rightarrow> old)"

definition updateActionRequestStatusConditional ::
  "string \<Rightarrow> string \<Rightarrow> status_update \<Rightarrow> approval_db
    \<Rightarrow> (approval_error, action_request \<times> approval_db) result" where
  "updateActionRequestStatusConditional ws i nxt db =
     (case getActionRequest db ws i of
        None \<Rightarrow> Inl (ConcurrentTransitionError i (suExpectedStatus nxt) (suStatus nxt))
      | Some old \<Rightarrow>
          (if arStatus old \<noteq> suExpectedStatus nxt
           then Inl (ConcurrentTransitionError i (suExpectedStatus nxt) (suStatus nxt))
           else
             (let new = old\<lparr>arStatus := suStatus nxt,
                   arApprovalDecisionId := coalesce (suApprovalDecisionId nxt) (arApprovalDecisionId old),
                   arExecutingAt := coalesce (suExecutingAt nxt) (arExecutingAt old),
                   arExecutedAt := coalesce (suExecutedAt nxt) (arExecutedAt old),
                   arFailedAt := coalesce (suFailedAt nxt) (arFailedAt old),
                   arFailureKind := coalesce (suFailureKind nxt) (arFailureKind old)\<rparr>
              in if arStatus new = AR_executing \<and> arStatus old \<noteq> AR_executing \<and> execution_guard db new
                 then Inl (ExecutionGuardRaised i)
                 else bind_result (status_guard (Some old) new)
                        (\<lambda>row. Inr (row, replace_row ws i row db)))))"

definition request_transition ::
  "action_request_status \<Rightarrow> action_request_event \<Rightarrow> (approval_error, action_request_status) result" where
  "request_transition from event =
     (case transition ACTION_REQUEST_TRANSITIONS from event of
        Inl e \<Rightarrow> Inl (IllegalRequestTransition e) | Inr to \<Rightarrow> Inr to)"

text \<open>The shape every status operation shares: read under lock, transition, update, record.\<close>

definition move_request ::
  "approval_env \<Rightarrow> string \<Rightarrow> string \<Rightarrow> action_request_event \<Rightarrow> string
    \<Rightarrow> (action_request \<Rightarrow> string) \<Rightarrow> (status_update \<Rightarrow> status_update) \<Rightarrow> approval_db
    \<Rightarrow> (approval_error, action_request \<times> approval_db) result" where
  "move_request env ws i event action actor fill db =
     bind_result (getActionRequestForUpdateOrThrow db ws i) (\<lambda>existing.
     bind_result (request_transition (arStatus existing) event) (\<lambda>to.
     bind_result (updateActionRequestStatusConditional ws i
                    (fill (plain_update to (arStatus existing))) db) (\<lambda>(row, db').
       Inr (row, recordTransition env ws (actor existing) action i to None db'))))"

section \<open>Requesting an action\<close>

record request_action_input =
  raGatekeeperId :: string
  raActionKind :: string
  raResourceScope :: "string option"
  raBlastRadius :: blast_radius
  raOperationAutoApprovable :: bool
  raMcpTrustBlocked :: "bool option"
  raAwaitDecision :: bool
  raOnBehalfOf :: string
  raActorRuntime :: string
  raIdempotencyKey :: "string option"
  raParentWorkerRunId :: "string option"
  raStepRunId :: "string option"
  raOperationDigest :: "string option"
  raParams :: "(string \<times> json) list option"
  raTarget :: "action_target option"
  raRequesterScope :: capability_scope
  raPrincipalAutoApproveLowEnabled :: "bool option"

text \<open>A string option is truthy when present and not empty.\<close>

definition given :: "string option \<Rightarrow> string option" where
  "given t = (case t of Some s \<Rightarrow> (if s = [] then None else Some s) | None \<Rightarrow> None)"

definition params_of :: "request_action_input \<Rightarrow> (string \<times> json) list" where
  "params_of inp = (case raParams inp of None \<Rightarrow> [] | Some ps \<Rightarrow> ps)"

fun RESOLUTION_EVENT_BY_DECISION :: "verdict \<Rightarrow> action_request_event" where
  "RESOLUTION_EVENT_BY_DECISION Allow = ARE_auto_approve"
| "RESOLUTION_EVENT_BY_DECISION RequireApproval = ARE_require_approval"
| "RESOLUTION_EVENT_BY_DECISION Deny = ARE_deny"

definition DERIVED_IDEMPOTENCY_KEY_PREFIX :: string where
  "DERIVED_IDEMPOTENCY_KEY_PREFIX = ''auto:''"

definition STEP_IDEMPOTENCY_KEY_PREFIX :: string where
  "STEP_IDEMPOTENCY_KEY_PREFIX = DERIVED_IDEMPOTENCY_KEY_PREFIX @ ''step:''"

definition stepIdempotencyKey :: "approval_env \<Rightarrow> string \<Rightarrow> request_action_input \<Rightarrow> string" where
  "stepIdempotencyKey env stepRunId inp =
     STEP_IDEMPOTENCY_KEY_PREFIX @ stepRunId @ '':'' @ raGatekeeperId inp @ '':'' @ raActionKind inp
       @ '':'' @ envParamsDigest env (params_of inp)"

definition IN_FLIGHT_ACTION_REQUEST_STATUSES :: "action_request_status list" where
  "IN_FLIGHT_ACTION_REQUEST_STATUSES =
     [AR_proposed, AR_policy_evaluated, AR_auto_approved, AR_pending_approval, AR_approved, AR_executing]"

definition has_key :: "string \<Rightarrow> string \<Rightarrow> action_request \<Rightarrow> bool" where
  "has_key ws key r = (arWorkspaceId r = ws \<and> arIdempotencyKey r = Some key)"

definition findReplayableActionRequest ::
  "approval_db \<Rightarrow> string \<Rightarrow> string \<Rightarrow> bool \<Rightarrow> action_request option" where
  "findReplayableActionRequest db ws key afterConflict =
     (if \<not> startsWith key DERIVED_IDEMPOTENCY_KEY_PREFIX then find (has_key ws key) (requests db)
      else if afterConflict then newest (filter (has_key ws key) (requests db))
      else find (\<lambda>r. has_key ws key r \<and> arStatus r \<in> set IN_FLIGHT_ACTION_REQUEST_STATUSES) (requests db))"

definition step_replayed :: "action_request \<Rightarrow> bool" where
  "step_replayed r =
     (arStatus r \<in> set IN_FLIGHT_ACTION_REQUEST_STATUSES \<or> arStatus r = AR_executed
      \<or> arStatus r = AR_verified
      \<or> arStatus r = AR_failed \<and> arFailureKind r = Some OutcomeUnknown \<and> arReexecuteDecisionId r = None)"

definition findStepReplay ::
  "approval_db \<Rightarrow> string \<Rightarrow> string \<Rightarrow> string \<Rightarrow> action_request option" where
  "findStepReplay db ws stepRunId key =
     (case newest (filter (\<lambda>r. has_key ws key r \<and> arStepRunId r = Some stepRunId) (requests db)) of
        None \<Rightarrow> None
      | Some r \<Rightarrow> (if step_replayed r then Some r else None))"

definition in_doubt :: "string \<Rightarrow> string \<Rightarrow> request_action_input \<Rightarrow> action_request \<Rightarrow> bool" where
  "in_doubt ws stepRunId inp r =
     (arWorkspaceId r = ws \<and> arStepRunId r = Some stepRunId \<and> arGatekeeperId r = raGatekeeperId inp
      \<and> arActionKind r = raActionKind inp \<and> arStatus r = AR_failed
      \<and> arFailureKind r = Some OutcomeUnknown \<and> arReconciliation r = None)"

definition assertNoActionInDoubt ::
  "approval_db \<Rightarrow> string \<Rightarrow> string \<Rightarrow> request_action_input \<Rightarrow> (approval_error, unit) result" where
  "assertNoActionInDoubt db ws stepRunId inp =
     (case sort_key order_key (filter (in_doubt ws stepRunId inp) (requests db)) of
        [] \<Rightarrow> Inr ()
      | r # _ \<Rightarrow> Inl (ActionInDoubtError stepRunId (arId r)))"

definition evaluation_input :: "approval_env \<Rightarrow> string \<Rightarrow> request_action_input \<Rightarrow> policy_evaluation_input" where
  "evaluation_input env ws inp =
     \<lparr>peGatekeeperId = raGatekeeperId inp, peBlastRadius = raBlastRadius inp,
      peOperationAutoApprovable = raOperationAutoApprovable inp,
      peMcpTrustBlocked = raMcpTrustBlocked inp,
      peParamsCarrySuspectedSecrets = Some (envSuspectedSecrets env (params_of inp) > 0),
      peWorkspacePolicy =
        map_option (\<lambda>row. toPolicyEvaluationInput row
            \<lparr>difOperationDigest = raOperationDigest inp, difBlastRadius = raBlastRadius inp\<rparr>)
          (readEffectivePolicy (envRules env) ws (raGatekeeperId inp) (raActionKind inp)),
      peRequesterScope = raRequesterScope inp,
      pePrincipalAutoApproveLowEnabled = raPrincipalAutoApproveLowEnabled inp\<rparr>"

text \<open>The two partial unique indexes on \<open>idempotency_key\<close> (migration 0014).\<close>

definition key_conflict :: "approval_db \<Rightarrow> string \<Rightarrow> string option \<Rightarrow> action_request_status \<Rightarrow> bool" where
  "key_conflict db ws key status =
     (case key of
        None \<Rightarrow> False
      | Some k \<Rightarrow>
          (if startsWith k DERIVED_IDEMPOTENCY_KEY_PREFIX
           then status \<in> set IN_FLIGHT_ACTION_REQUEST_STATUSES
                \<and> list_ex (\<lambda>r. has_key ws k r \<and> arStatus r \<in> set IN_FLIGHT_ACTION_REQUEST_STATUSES)
                    (requests db)
           else list_ex (has_key ws k) (requests db)))"

definition new_request ::
  "string \<Rightarrow> int \<Rightarrow> string \<Rightarrow> request_action_input \<Rightarrow> action_request_status \<Rightarrow> verdict \<Rightarrow> bool
    \<Rightarrow> action_request" where
  "new_request fresh now ws inp status policyDecision mayApprove =
     \<lparr>arWorkspaceId = ws, arId = fresh, arStatus = status, arGatekeeperId = raGatekeeperId inp,
      arActionKind = raActionKind inp, arResourceScope = raResourceScope inp,
      arBlastRadius = raBlastRadius inp, arPolicyDecision = Some policyDecision,
      arApprovalDecisionId = None, arAwaitDecision = raAwaitDecision inp,
      arOnBehalfOf = raOnBehalfOf inp, arParentWorkerRunId = raParentWorkerRunId inp,
      arActorRuntime = raActorRuntime inp, arIdempotencyKey = raIdempotencyKey inp,
      arRequestedAt = now, arExecutingAt = None, arExecutedAt = None, arFailedAt = None,
      arFailureKind = None, arParams = params_of inp, arRequesterCanApprove = Some mayApprove,
      arOperationDigest = raOperationDigest inp, arStepRunId = raStepRunId inp,
      arReconciliation = None, arReconciliationDecisionId = None, arReexecuteDecisionId = None,
      arTarget = raTarget inp\<rparr>"

definition insertActionRequestRow ::
  "action_request \<Rightarrow> approval_db \<Rightarrow> (approval_error, action_request \<times> approval_db) result" where
  "insertActionRequestRow row db =
     bind_result (status_guard None row) (\<lambda>r.
       if key_conflict db (arWorkspaceId r) (arIdempotencyKey r) (arStatus r)
       then Inl (IdempotencyKeyConflict (arId r))
       else Inr (r, db\<lparr>requests := requests db @ [r]\<rparr>))"

text \<open>The part of \<open>requestAction\<close> after the replay checks.\<close>

definition submit_request ::
  "approval_env \<Rightarrow> string \<Rightarrow> int \<Rightarrow> string \<Rightarrow> request_action_input \<Rightarrow> approval_db
    \<Rightarrow> (approval_error, action_request \<times> approval_db) result" where
  "submit_request env fresh now ws inp db =
     (let ev = evaluate (evaluation_input env ws inp) in
      bind_result (request_transition AR_proposed ARE_evaluate_policy) (\<lambda>_.
      bind_result (request_transition AR_policy_evaluated (RESOLUTION_EVENT_BY_DECISION (erDecision ev)))
        (\<lambda>finalStatus.
          let row = new_request fresh now ws inp finalStatus (erDecision ev) (erRequesterCanApprove ev);
              record = (\<lambda>r db'. recordTransition env ws (raOnBehalfOf inp) ''action_request.request''
                          (arId r) finalStatus
                          (Some (raGatekeeperId inp, raActionKind inp, raResourceScope inp)) db')
          in case insertActionRequestRow row db of
               Inr (r, db') \<Rightarrow> Inr (r, record r db')
             | Inl (IdempotencyKeyConflict i) \<Rightarrow>
                 (case given (raIdempotencyKey inp) of
                    None \<Rightarrow> Inl (IdempotencyKeyConflict i)
                  | Some key \<Rightarrow>
                      (case findReplayableActionRequest db ws key True of
                         None \<Rightarrow> Inl (IdempotencyKeyConflict i)
                       | Some existing \<Rightarrow> Inr (existing, db)))
             | Inl e \<Rightarrow> Inl e)))"

definition requestAction ::
  "approval_env \<Rightarrow> string \<Rightarrow> int \<Rightarrow> string \<Rightarrow> request_action_input \<Rightarrow> approval_db
    \<Rightarrow> (approval_error, action_request \<times> approval_db) result" where
  "requestAction env fresh now ws requested db =
     (let inp = (case given (raStepRunId requested) of
                   Some step \<Rightarrow> requested\<lparr>raIdempotencyKey := Some (stepIdempotencyKey env step requested)\<rparr>
                 | None \<Rightarrow> requested)
      in case (given (raStepRunId inp), given (raIdempotencyKey inp)) of
           (Some step, Some key) \<Rightarrow>
             (case findStepReplay db ws step key of
                Some replay \<Rightarrow> Inr (replay, db)
              | None \<Rightarrow>
                  bind_result (assertNoActionInDoubt db ws step inp)
                    (\<lambda>_. submit_request env fresh now ws inp db))
         | (None, Some key) \<Rightarrow>
             (case findReplayableActionRequest db ws key False of
                Some existing \<Rightarrow> Inr (existing, db)
              | None \<Rightarrow> submit_request env fresh now ws inp db)
         | _ \<Rightarrow> submit_request env fresh now ws inp db)"

section \<open>Deciding\<close>

record decide_input =
  diActionRequestId :: string
  diApproverPrincipalId :: string
  diApproverRole :: role
  diReason :: "string option"
  diCredentialsReviewed :: "bool option"

definition normalizeReason :: "string option \<Rightarrow> string option" where
  "normalizeReason reason = given (map_option trim reason)"

definition roleMayDecideActionRequests :: "role \<Rightarrow> bool" where
  "roleMayDecideActionRequests r = roleSatisfiesMinRole r (Some Operator)"

definition approverHasScope ::
  "approval_env \<Rightarrow> int \<Rightarrow> string \<Rightarrow> string \<Rightarrow> role \<Rightarrow> string \<Rightarrow> string option \<Rightarrow> bool" where
  "approverHasScope env now ws who r kind scope =
     (if \<not> roleMayDecideActionRequests r then False
      else if r = Owner then True
      else hasActiveGrant (envGrants env) now ws who kind scope)"

definition assertApproverScope ::
  "approval_env \<Rightarrow> int \<Rightarrow> string \<Rightarrow> string \<Rightarrow> role \<Rightarrow> action_request \<Rightarrow> (approval_error, unit) result" where
  "assertApproverScope env now ws who r existing =
     (if arRequesterCanApprove existing = Some False \<and> who = arOnBehalfOf existing
        then Inl (SelfApprovalNotAllowedError (arId existing) who)
      else if approverHasScope env now ws who r (arActionKind existing) (arResourceScope existing)
        then Inr ()
      else Inl (ApprovalScopeError (arId existing) who))"

definition assertPersonDecidesWhenRequired ::
  "approval_env \<Rightarrow> string \<Rightarrow> string \<Rightarrow> action_request \<Rightarrow> action_request_event
    \<Rightarrow> (approval_error, unit) result" where
  "assertPersonDecidesWhenRequired env ws who existing event =
     (if map_option peKind (envPrincipals env ws who) = Some Human then Inr ()
      else if arBlastRadius existing = High
        then Inl (HumanDecisionRequiredError (arId existing) who event)
      else if envAutoApprovable env ws (arGatekeeperId existing) (arActionKind existing) \<noteq> Some True
        then Inl (HumanDecisionRequiredError (arId existing) who event)
      else Inr ())"

definition assertMayApprove ::
  "approval_env \<Rightarrow> int \<Rightarrow> string \<Rightarrow> string \<Rightarrow> role \<Rightarrow> action_request \<Rightarrow> (approval_error, unit) result" where
  "assertMayApprove env now ws who r existing =
     bind_result (assertApproverScope env now ws who r existing)
       (\<lambda>_. assertPersonDecidesWhenRequired env ws who existing ARE_approve)"

definition writeDecision ::
  "string \<Rightarrow> string \<Rightarrow> decision_event \<Rightarrow> decision_subject \<Rightarrow> string \<Rightarrow> string option \<Rightarrow> string option
    \<Rightarrow> approval_db \<Rightarrow> (approval_error, approval_db) result" where
  "writeDecision fresh ws event subject i who reason db =
     (case transition DECISION_TRANSITIONS Dec_proposed event of
        Inl e \<Rightarrow> Inl (IllegalDecisionTransition e)
      | Inr status \<Rightarrow>
          Inr (db\<lparr>decisions := decisions db @
                [\<lparr>dcWorkspaceId = ws, dcId = fresh, dcStatus = status, dcActionRequestId = i,
                  dcSubject = subject, dcReason = reason, dcDecidedBy = who\<rparr>]\<rparr>))"

definition approveActionRequest ::
  "approval_env \<Rightarrow> string \<Rightarrow> int \<Rightarrow> string \<Rightarrow> decide_input \<Rightarrow> approval_db
    \<Rightarrow> (approval_error, action_request \<times> approval_db) result" where
  "approveActionRequest env fresh now ws inp db =
     (let i = diActionRequestId inp; who = diApproverPrincipalId inp; reason = normalizeReason (diReason inp) in
      bind_result (getActionRequestForUpdateOrThrow db ws i) (\<lambda>existing.
      bind_result (assertMayApprove env now ws who (diApproverRole inp) existing) (\<lambda>_.
      if arBlastRadius existing = High \<and> reason = None then Inl (ApprovalReasonRequiredError i)
      else let secrets = envSuspectedSecrets env (arParams existing) in
      if secrets > 0 \<and> diCredentialsReviewed inp \<noteq> Some True
        then Inl (CredentialsReviewRequiredError i secrets)
      else
      bind_result (request_transition (arStatus existing) ARE_approve) (\<lambda>to.
      bind_result (writeDecision fresh ws DecE_approve ApprovalSubject i (Some who) reason db) (\<lambda>db1.
      bind_result (updateActionRequestStatusConditional ws i
                     ((plain_update to (arStatus existing))\<lparr>suApprovalDecisionId := Some fresh\<rparr>) db1)
        (\<lambda>(row, db2). Inr (row, recordTransition env ws who ''action_request.approve'' i to None db2)))))))"

definition rejectActionRequest ::
  "approval_env \<Rightarrow> string \<Rightarrow> int \<Rightarrow> string \<Rightarrow> decide_input \<Rightarrow> approval_db
    \<Rightarrow> (approval_error, action_request \<times> approval_db) result" where
  "rejectActionRequest env fresh now ws inp db =
     (let i = diActionRequestId inp; who = diApproverPrincipalId inp; reason = normalizeReason (diReason inp) in
      bind_result (getActionRequestForUpdateOrThrow db ws i) (\<lambda>existing.
      bind_result (assertApproverScope env now ws who (diApproverRole inp) existing) (\<lambda>_.
      bind_result (assertPersonDecidesWhenRequired env ws who existing ARE_reject) (\<lambda>_.
      bind_result (request_transition (arStatus existing) ARE_reject) (\<lambda>to.
      bind_result (writeDecision fresh ws DecE_reject RejectionSubject i (Some who) reason db) (\<lambda>db1.
      bind_result (updateActionRequestStatusConditional ws i
                     ((plain_update to (arStatus existing))\<lparr>suApprovalDecisionId := Some fresh\<rparr>) db1)
        (\<lambda>(row, db2). Inr (row, recordTransition env ws who ''action_request.reject'' i to None db2))))))))"

section \<open>Executing, expiring, withdrawing\<close>

text \<open>\<open>None\<close> in place of a row is the \<open>null\<close> of a request that is not pending any more.\<close>

definition expireActionRequest ::
  "approval_env \<Rightarrow> string \<Rightarrow> string \<Rightarrow> approval_db
    \<Rightarrow> (approval_error, action_request option \<times> approval_db) result" where
  "expireActionRequest env ws i db =
     (case getActionRequest db ws i of
        None \<Rightarrow> Inr (None, db)
      | Some existing \<Rightarrow>
          (if arStatus existing \<noteq> AR_pending_approval then Inr (None, db)
           else bind_result (move_request env ws i ARE_expire ''action_request.expire'' arOnBehalfOf id db)
                  (\<lambda>(row, db'). Inr (Some row, db'))))"

definition startActionRequestExecution ::
  "approval_env \<Rightarrow> int \<Rightarrow> string \<Rightarrow> string \<Rightarrow> approval_db
    \<Rightarrow> (approval_error, action_request \<times> approval_db) result" where
  "startActionRequestExecution env now ws i db =
     (case move_request env ws i ARE_start_execution ''action_request.start_execution'' arOnBehalfOf
             (\<lambda>u. u\<lparr>suExecutingAt := Some now\<rparr>) db of
        Inl (ExecutionGuardRaised j) \<Rightarrow>
          Inl (ExecutionConflictError j
                 (case getActionRequest db ws i of Some r \<Rightarrow> arStatus r | None \<Rightarrow> AR_proposed))
      | r \<Rightarrow> r)"

definition acting_as :: "string option \<Rightarrow> action_request \<Rightarrow> string" where
  "acting_as actor existing = (case actor of Some a \<Rightarrow> a | None \<Rightarrow> arOnBehalfOf existing)"

definition markActionRequestExecuted ::
  "approval_env \<Rightarrow> int \<Rightarrow> string \<Rightarrow> string \<Rightarrow> string option \<Rightarrow> approval_db
    \<Rightarrow> (approval_error, action_request \<times> approval_db) result" where
  "markActionRequestExecuted env now ws i actor db =
     move_request env ws i ARE_complete ''action_request.complete'' (acting_as actor)
       (\<lambda>u. u\<lparr>suExecutedAt := Some now\<rparr>) db"

definition markActionRequestFailed ::
  "approval_env \<Rightarrow> int \<Rightarrow> string \<Rightarrow> string \<Rightarrow> string option \<Rightarrow> failure_kind \<Rightarrow> approval_db
    \<Rightarrow> (approval_error, action_request \<times> approval_db) result" where
  "markActionRequestFailed env now ws i actor kind db =
     move_request env ws i ARE_fail ''action_request.fail'' (acting_as actor)
       (\<lambda>u. u\<lparr>suFailedAt := Some now, suFailureKind := Some kind\<rparr>) db"

definition recordActionRequestInDoubt :: "string \<Rightarrow> string \<Rightarrow> approval_db \<Rightarrow> approval_db" where
  "recordActionRequestInDoubt ws i db =
     (case getActionRequest db ws i of
        None \<Rightarrow> db
      | Some existing \<Rightarrow>
          (if arStatus existing \<noteq> AR_executing then db
           else db\<lparr>audit := audit db @
                 [\<lparr>auWorkspaceId = ws, auActor = arOnBehalfOf existing,
                   auAction = ''action_request.outcome_in_doubt'', auResourceId = i,
                   auResultingStatus = Some (arStatus existing)\<rparr>]\<rparr>))"

definition withdrawActionRequest ::
  "approval_env \<Rightarrow> string \<Rightarrow> string \<Rightarrow> string option \<Rightarrow> approval_db
    \<Rightarrow> (approval_error, action_request \<times> approval_db) result" where
  "withdrawActionRequest env ws i actor db =
     move_request env ws i ARE_withdraw ''action_request.withdraw'' (acting_as actor) id db"

definition compensateActionRequest ::
  "approval_env \<Rightarrow> string \<Rightarrow> string \<Rightarrow> string option \<Rightarrow> approval_db
    \<Rightarrow> (approval_error, action_request \<times> approval_db) result" where
  "compensateActionRequest env ws i actor db =
     move_request env ws i ARE_compensate ''action_request.compensate'' (acting_as actor) id db"

text \<open>\<open>listExecutableQueue\<close>: one gate's queue, in request order.\<close>

definition listExecutableQueue :: "approval_db \<Rightarrow> string \<Rightarrow> string \<Rightarrow> action_request list" where
  "listExecutableQueue db ws gate =
     sort_key order_key
       (filter (\<lambda>r. arWorkspaceId r = ws \<and> arGatekeeperId r = gate \<and> arStatus r \<in> set QUEUED)
         (requests db))"

definition as_entry :: "action_request \<Rightarrow> queue_entry" where
  "as_entry r = \<lparr>qId = arId r, qStatus = arStatus r, qTarget = arTarget r\<rparr>"

section \<open>Reconciling an unknown outcome\<close>

definition RECONCILIATION_NOTE_MAX :: nat where
  "RECONCILIATION_NOTE_MAX = 2000"

record reconcile_input =
  riActionRequestId :: string
  riDeciderPrincipalId :: string
  riVerdict :: "reconciliation option"
  riReexecute :: bool
  riNote :: "string option"

definition normalizeNote ::
  "approval_env \<Rightarrow> string option \<Rightarrow> string \<Rightarrow> (approval_error, string option) result" where
  "normalizeNote env note i =
     (case normalizeReason note of
        None \<Rightarrow> Inr None
      | Some trimmed \<Rightarrow>
          (if length trimmed > RECONCILIATION_NOTE_MAX then Inl (ActionReconciliationStateError i AR_failed)
           else if envCredentialText env trimmed then Inl CredentialTextError
           else Inr (Some trimmed)))"

definition reconcilable :: "action_request \<Rightarrow> bool" where
  "reconcilable r = (arStatus r = AR_failed \<and> arFailureKind r = Some OutcomeUnknown)"

definition audit_of :: "string \<Rightarrow> string \<Rightarrow> string \<Rightarrow> string \<Rightarrow> audit_record" where
  "audit_of ws actor action i =
     \<lparr>auWorkspaceId = ws, auActor = actor, auAction = action, auResourceId = i, auResultingStatus = None\<rparr>"

text \<open>
  The checks before any write: what is to be recorded, as the finding, whether it is new, whether a
  re-execute decision is new, and the normalized note.
\<close>

record reconcile_plan =
  rpFinding :: "reconciliation option"
  rpRecordFinding :: bool
  rpRecordReexecute :: bool
  rpNote :: "string option"

definition reconcile_checks ::
  "approval_env \<Rightarrow> reconcile_input \<Rightarrow> action_request \<Rightarrow> (approval_error, reconcile_plan) result" where
  "reconcile_checks env inp existing =
     (let i = riActionRequestId inp; wrong = Inl (ActionReconciliationStateError i (arStatus existing)) in
      if riVerdict inp = None \<and> \<not> riReexecute inp then wrong
      else if \<not> reconcilable existing then wrong
      else
      bind_result (normalizeNote env (riNote inp) i) (\<lambda>noted.
      if riVerdict inp \<noteq> None \<and> arReconciliation existing \<noteq> None
         \<and> arReconciliation existing \<noteq> riVerdict inp then wrong
      else
        (let finding = (case riVerdict inp of Some v \<Rightarrow> Some v | None \<Rightarrow> arReconciliation existing)
         in if riReexecute inp \<and> finding \<noteq> Some EffectAbsent then wrong
            else Inr \<lparr>rpFinding = finding,
                      rpRecordFinding = (riVerdict inp \<noteq> None \<and> arReconciliation existing = None),
                      rpRecordReexecute = (riReexecute inp \<and> arReexecuteDecisionId existing = None),
                      rpNote = noted\<rparr>)))"

definition may_reconcile ::
  "approval_env \<Rightarrow> string \<Rightarrow> reconcile_input \<Rightarrow> action_request \<Rightarrow> reconcile_plan
    \<Rightarrow> (approval_error, unit) result" where
  "may_reconcile env ws inp existing plan =
     (let i = riActionRequestId inp; who = riDeciderPrincipalId inp;
          decider = envPrincipals env ws who;
          person = (case decider of None \<Rightarrow> False | Some p \<Rightarrow> peKind p = Human \<and> peEnabled p);
          requester = (who = arOnBehalfOf existing)
      in if rpRecordFinding plan \<and> \<not> (person \<and> (requester \<or> map_option peRole decider = Some Owner))
           then Inl (ActionReconciliationForbiddenError i)
         else if rpRecordReexecute plan \<and> \<not> (person \<and> requester)
           then Inl (ActionReconciliationForbiddenError i)
         else Inr ())"

definition record_reconciliation ::
  "string \<Rightarrow> string \<Rightarrow> string \<Rightarrow> reconcile_input \<Rightarrow> action_request \<Rightarrow> reconcile_plan \<Rightarrow> approval_db
    \<Rightarrow> (approval_error, action_request \<times> approval_db) result" where
  "record_reconciliation fresh1 fresh2 ws inp existing plan db =
     (let i = riActionRequestId inp; who = riDeciderPrincipalId inp;
          rf = rpRecordFinding plan; rx = rpRecordReexecute plan in
      bind_result (if rf then writeDecision fresh1 ws DecE_approve (ReconcileSubject (the (rpFinding plan))) i
                             (Some who) (rpNote plan) db
                   else Inr db) (\<lambda>db1.
      bind_result (if rx then writeDecision fresh2 ws DecE_approve ReexecuteSubject i (Some who)
                             (rpNote plan) db1
                   else Inr db1) (\<lambda>db2.
      let row = existing\<lparr>arReconciliation := rpFinding plan,
                  arReconciliationDecisionId := (if rf then Some fresh1 else arReconciliationDecisionId existing),
                  arReexecuteDecisionId := (if rx then Some fresh2 else arReexecuteDecisionId existing)\<rparr>;
          db3 = replace_row ws i row db2
      in Inr (row,
          db3\<lparr>audit := audit db3
                 @ (if rf then [audit_of ws who ''action_request.reconcile'' i] else [])
                 @ (if rx then [audit_of ws who ''action_request.reexecute'' i] else []),
               outbox := outbox db3 @ [ActionRequestUpdated ws i (arStatus existing)]\<rparr>))))"

definition reconcileActionRequest ::
  "approval_env \<Rightarrow> string \<Rightarrow> string \<Rightarrow> string \<Rightarrow> reconcile_input \<Rightarrow> approval_db
    \<Rightarrow> (approval_error, (action_request \<times> bool) \<times> approval_db) result" where
  "reconcileActionRequest env fresh1 fresh2 ws inp db =
     bind_result (getActionRequestForUpdateOrThrow db ws (riActionRequestId inp)) (\<lambda>existing.
     bind_result (reconcile_checks env inp existing) (\<lambda>plan.
     if \<not> rpRecordFinding plan \<and> \<not> rpRecordReexecute plan then Inr ((existing, False), db)
     else
     bind_result (may_reconcile env ws inp existing plan) (\<lambda>_.
     bind_result (record_reconciliation fresh1 fresh2 ws inp existing plan db)
       (\<lambda>(row, db'). Inr ((row, True), db')))))"

record observed_input =
  oiActionRequestId :: string
  oiActorPrincipalId :: string

definition recordObservedReconciliation ::
  "string \<Rightarrow> string \<Rightarrow> observed_input \<Rightarrow> approval_db
    \<Rightarrow> (approval_error, (action_request \<times> bool) \<times> approval_db) result" where
  "recordObservedReconciliation fresh ws inp db =
     (let i = oiActionRequestId inp in
      bind_result (getActionRequestForUpdateOrThrow db ws i) (\<lambda>existing.
      if \<not> reconcilable existing then Inl (ActionReconciliationStateError i (arStatus existing))
      else if arReconciliation existing \<noteq> None then Inr ((existing, False), db)
      else
      bind_result (writeDecision fresh ws DecE_approve (ReconcileSubject EffectSeen) i None None db) (\<lambda>db1.
      let row = existing\<lparr>arReconciliation := Some EffectSeen, arReconciliationDecisionId := Some fresh\<rparr>;
          db2 = replace_row ws i row db1
      in Inr ((row, True),
          db2\<lparr>audit := audit db2 @ [audit_of ws (oiActorPrincipalId inp) ''action_request.reconcile'' i],
               outbox := outbox db2 @ [ActionRequestUpdated ws i (arStatus existing)]\<rparr>))))"

end
