(* ===== verification/Approval_Safety.thy ===== *)
theory Approval_Safety
  imports Action_Requests
begin

text \<open>
  What the approval service guarantees over every interleaving of its operations.  A step is one
  successful transaction; environments (rules, grants, published definitions) may change between
  steps.  The invariants are proved by rule induction over the reachable tables.
\<close>

section \<open>Effects of the operations\<close>

lemma request_transition_edge:
  "request_transition s e = Inr t \<Longrightarrow> edge s e t \<in> set ACTION_REQUEST_EDGES"
  by (auto simp: request_transition_def ACTION_REQUEST_TRANSITIONS_def split: sum.splits
      dest!: transition_Inr_edge)

lemma request_moves:
  "request_transition s ARE_approve = Inr t \<Longrightarrow> s = AR_pending_approval \<and> t = AR_approved"
  "request_transition s ARE_reject = Inr t \<Longrightarrow> s = AR_pending_approval \<and> t = AR_rejected"
  "request_transition s ARE_expire = Inr t \<Longrightarrow> s = AR_pending_approval \<and> t = AR_expired"
  "request_transition s ARE_start_execution = Inr t \<Longrightarrow>
     (s = AR_approved \<or> s = AR_auto_approved) \<and> t = AR_executing"
  "request_transition s ARE_complete = Inr t \<Longrightarrow> s = AR_executing \<and> t = AR_executed"
  "request_transition s ARE_fail = Inr t \<Longrightarrow> s = AR_executing \<and> t = AR_failed"
  "request_transition s ARE_compensate = Inr t \<Longrightarrow> s = AR_failed \<and> t = AR_compensated"
  "request_transition s ARE_withdraw = Inr t \<Longrightarrow>
     (s = AR_pending_approval \<or> s = AR_approved \<or> s = AR_auto_approved) \<and> t = AR_withdrawn"
  by (drule request_transition_edge, auto simp: ACTION_REQUEST_EDGES_def)+

lemma submission_moves [simp]:
  "request_transition AR_proposed ARE_evaluate_policy = Inr AR_policy_evaluated"
  "request_transition AR_policy_evaluated ARE_auto_approve = Inr AR_auto_approved"
  "request_transition AR_policy_evaluated ARE_require_approval = Inr AR_pending_approval"
  "request_transition AR_policy_evaluated ARE_deny = Inr AR_denied"
  by (simp_all add: request_transition_def transition_def table_eval)

lemma decision_moves [simp]:
  "transition DECISION_TRANSITIONS Dec_proposed DecE_approve = Inr Dec_approved"
  "transition DECISION_TRANSITIONS Dec_proposed DecE_reject = Inr Dec_rejected"
  by (simp_all add: transition_def table_eval)

lemma getActionRequest_Some:
  "getActionRequest db ws i = Some r \<Longrightarrow> r \<in> set (requests db) \<and> arWorkspaceId r = ws \<and> arId r = i"
  unfolding getActionRequest_def by (drule find_SomeD) (simp add: is_row_def)

lemma getForUpdate_Inr [simp]:
  "getActionRequestForUpdateOrThrow db ws i = Inr r \<longleftrightarrow> getActionRequest db ws i = Some r"
  by (simp add: getActionRequestForUpdateOrThrow_def split: option.splits)

lemma recordTransition_fields [simp]:
  "requests (recordTransition env ws a b i s f db) = requests db"
  "decisions (recordTransition env ws a b i s f db) = decisions db"
  by (simp_all add: recordTransition_def)

lemma replace_row_fields [simp]:
  "decisions (replace_row ws i r db) = decisions db"
  "requests (replace_row ws i r db) = map (\<lambda>q. if is_row ws i q then r else q) (requests db)"
  by (simp_all add: replace_row_def)

text \<open>The row a status update leaves.\<close>

definition updated_row :: "status_update \<Rightarrow> action_request \<Rightarrow> action_request" where
  "updated_row u old =
     old\<lparr>arStatus := suStatus u,
         arApprovalDecisionId := coalesce (suApprovalDecisionId u) (arApprovalDecisionId old),
         arExecutingAt := coalesce (suExecutingAt u) (arExecutingAt old),
         arExecutedAt := coalesce (suExecutedAt u) (arExecutedAt old),
         arFailedAt := coalesce (suFailedAt u) (arFailedAt old),
         arFailureKind :=
           (let k = coalesce (suFailureKind u) (arFailureKind old)
            in if suStatus u \<in> {AR_failed, AR_compensated} \<and> k = None then Some OutcomeUnknown else k)\<rparr>"

lemma status_guard_Inr:
  "status_guard (Some old) new = Inr row \<Longrightarrow>
   row = (if arStatus new \<in> {AR_failed, AR_compensated} \<and> arFailureKind new = None
          then new\<lparr>arFailureKind := Some OutcomeUnknown\<rparr> else new)"
  unfolding status_guard_def Let_def option.case by (simp only: sum.inject sum.distinct split: if_split_asm)

lemma status_update_spec:
  assumes "updateActionRequestStatusConditional ws i u db = Inr (row, db')"
  obtains old where "getActionRequest db ws i = Some old" and "arStatus old = suExpectedStatus u"
    and "row = updated_row u old" and "db' = replace_row ws i row db"
    and "suStatus u = AR_executing \<Longrightarrow> arStatus old \<noteq> AR_executing \<Longrightarrow> \<not> execution_guard db old"
proof -
  obtain old where old: "getActionRequest db ws i = Some old"
    using assms by (auto simp: updateActionRequestStatusConditional_def split: option.splits)
  let ?new = "old\<lparr>arStatus := suStatus u,
         arApprovalDecisionId := coalesce (suApprovalDecisionId u) (arApprovalDecisionId old),
         arExecutingAt := coalesce (suExecutingAt u) (arExecutingAt old),
         arExecutedAt := coalesce (suExecutedAt u) (arExecutedAt old),
         arFailedAt := coalesce (suFailedAt u) (arFailedAt old),
         arFailureKind := coalesce (suFailureKind u) (arFailureKind old)\<rparr>"
  have upd: "updateActionRequestStatusConditional ws i u db =
      (if arStatus old \<noteq> suExpectedStatus u
       then Inl (ConcurrentTransitionError i (suExpectedStatus u) (suStatus u))
       else if suStatus u = AR_executing \<and> arStatus old \<noteq> AR_executing \<and> execution_guard db ?new
       then Inl (ExecutionGuardRaised i)
       else bind_result (status_guard (Some old) ?new) (\<lambda>row. Inr (row, replace_row ws i row db)))"
    by (simp only: updateActionRequestStatusConditional_def old option.case Let_def) simp
  from assms have exp: "arStatus old = suExpectedStatus u" unfolding upd by (simp split: if_splits)
  moreover from assms exp have guard:
    "\<not> (suStatus u = AR_executing \<and> arStatus old \<noteq> AR_executing \<and> execution_guard db ?new)"
    unfolding upd by (simp split: if_splits)
  ultimately have "bind_result (status_guard (Some old) ?new) (\<lambda>row. Inr (row, replace_row ws i row db))
      = Inr (row, db')"
    using assms unfolding upd by (simp only: if_not_P not_not simp_thms)
  then have "status_guard (Some old) ?new = Inr row" and db': "db' = replace_row ws i row db"
    by auto
  then have "row = updated_row u old"
    by (auto simp: updated_row_def Let_def dest!: status_guard_Inr)
  moreover have "execution_guard db ?new = execution_guard db old" by (simp add: execution_guard_def)
  ultimately show thesis using that old exp db' guard by blast
qed

lemma move_request_spec:
  assumes "move_request env ws i event action actor fill db = Inr (row, db')"
    and fill: "\<And>u. suStatus (fill u) = suStatus u \<and> suExpectedStatus (fill u) = suExpectedStatus u"
  obtains old to where "getActionRequest db ws i = Some old"
    and "request_transition (arStatus old) event = Inr to"
    and "row = updated_row (fill (plain_update to (arStatus old))) old"
    and "requests db' = requests (replace_row ws i row db)" and "decisions db' = decisions db"
    and "to = AR_executing \<Longrightarrow> arStatus old \<noteq> AR_executing \<Longrightarrow> \<not> execution_guard db old"
proof -
  from assms(1) obtain old to db1 where old: "getActionRequest db ws i = Some old"
    and to: "request_transition (arStatus old) event = Inr to"
    and upd: "updateActionRequestStatusConditional ws i (fill (plain_update to (arStatus old))) db
              = Inr (row, db1)"
    and db': "db' = recordTransition env ws (actor old) action i to None db1"
    by (auto simp: move_request_def)
  from upd show thesis
  proof (rule status_update_spec)
    fix old'
    assume "getActionRequest db ws i = Some old'"
      and row: "row = updated_row (fill (plain_update to (arStatus old))) old'"
      and db1: "db1 = replace_row ws i row db"
      and guard: "suStatus (fill (plain_update to (arStatus old))) = AR_executing
          \<Longrightarrow> arStatus old' \<noteq> AR_executing \<Longrightarrow> \<not> execution_guard db old'"
    with old have "old' = old" by simp
    with old to row db1 db' guard fill show thesis
      by (intro that[of old to]) (simp_all add: plain_update_def)
  qed
qed

section \<open>Steps of the service\<close>

datatype approval_op =
    OpRequest string int request_action_input
  | OpApprove string int decide_input
  | OpReject string int decide_input
  | OpExpire string
  | OpStart int string
  | OpExecuted int string "string option"
  | OpFailed int string "string option" failure_kind
  | OpInDoubt string
  | OpWithdraw string "string option"
  | OpCompensate string "string option"
  | OpReconcile string string reconcile_input
  | OpObserved string observed_input

fun perform ::
  "approval_env \<Rightarrow> string \<Rightarrow> approval_op \<Rightarrow> approval_db \<Rightarrow> (approval_error, approval_db) result" where
  "perform env ws (OpRequest fresh now inp) db = map_sum id snd (requestAction env fresh now ws inp db)"
| "perform env ws (OpApprove fresh now inp) db = map_sum id snd (approveActionRequest env fresh now ws inp db)"
| "perform env ws (OpReject fresh now inp) db = map_sum id snd (rejectActionRequest env fresh now ws inp db)"
| "perform env ws (OpExpire i) db = map_sum id snd (expireActionRequest env ws i db)"
| "perform env ws (OpStart now i) db = map_sum id snd (startActionRequestExecution env now ws i db)"
| "perform env ws (OpExecuted now i actor) db =
     map_sum id snd (markActionRequestExecuted env now ws i actor db)"
| "perform env ws (OpFailed now i actor kind) db =
     map_sum id snd (markActionRequestFailed env now ws i actor kind db)"
| "perform env ws (OpInDoubt i) db = Inr (recordActionRequestInDoubt ws i db)"
| "perform env ws (OpWithdraw i actor) db = map_sum id snd (withdrawActionRequest env ws i actor db)"
| "perform env ws (OpCompensate i actor) db = map_sum id snd (compensateActionRequest env ws i actor db)"
| "perform env ws (OpReconcile f1 f2 inp) db = map_sum id snd (reconcileActionRequest env f1 f2 ws inp db)"
| "perform env ws (OpObserved fresh inp) db = map_sum id snd (recordObservedReconciliation fresh ws inp db)"

definition empty_db :: approval_db where
  "empty_db = \<lparr>requests = [], decisions = [], audit = [], outbox = []\<rparr>"

type_synonym kind_map = "string \<Rightarrow> string \<Rightarrow> principal_kind option"

definition kinds_of :: "approval_env \<Rightarrow> kind_map" where
  "kinds_of env ws p = map_option peKind (envPrincipals env ws p)"

text \<open>
  The tables a run can reach: a principal's kind is fixed for the run, everything else the
  environment holds may differ at every step, and a request's identifier is new (its table's
  primary key).
\<close>

inductive approval_reachable :: "kind_map \<Rightarrow> approval_db \<Rightarrow> bool" for kinds :: kind_map where
  init: "approval_reachable kinds empty_db"
| step: "approval_reachable kinds db \<Longrightarrow> kinds_of env = kinds
         \<Longrightarrow> (\<And>fresh now inp. op = OpRequest fresh now inp \<Longrightarrow> fresh \<notin> arId ` set (requests db))
         \<Longrightarrow> perform env ws op db = Inr db' \<Longrightarrow> approval_reachable kinds db'"

section \<open>What one step may change\<close>

text \<open>The fields of a request no operation ever changes.\<close>

definition same_identity :: "action_request \<Rightarrow> action_request \<Rightarrow> bool" where
  "same_identity a b \<longleftrightarrow>
     arWorkspaceId b = arWorkspaceId a \<and> arId b = arId a \<and> arGatekeeperId b = arGatekeeperId a
     \<and> arActionKind b = arActionKind a \<and> arResourceScope b = arResourceScope a \<and> arBlastRadius b = arBlastRadius a
     \<and> arPolicyDecision b = arPolicyDecision a \<and> arOnBehalfOf b = arOnBehalfOf a
     \<and> arTarget b = arTarget a \<and> arRequesterCanApprove b = arRequesterCanApprove a
     \<and> arIdempotencyKey b = arIdempotencyKey a \<and> arStepRunId b = arStepRunId a
     \<and> arRequestedAt b = arRequestedAt a \<and> arParams b = arParams a"

text \<open>A decision on record that approved the request, by someone who may.\<close>

definition approved_by :: "kind_map \<Rightarrow> approval_db \<Rightarrow> action_request \<Rightarrow> bool" where
  "approved_by kinds db r \<longleftrightarrow>
     (\<exists>d\<in>set (decisions db). \<exists>p.
        arApprovalDecisionId r = Some (dcId d) \<and> dcWorkspaceId d = arWorkspaceId r
        \<and> dcActionRequestId d = arId r \<and> dcSubject d = ApprovalSubject \<and> dcDecidedBy d = Some p
        \<and> (arBlastRadius r = High \<longrightarrow> kinds (arWorkspaceId r) p = Some Human \<and> dcReason d \<noteq> None)
        \<and> (arRequesterCanApprove r = Some False \<longrightarrow> p \<noteq> arOnBehalfOf r))"

definition moved ::
  "kind_map \<Rightarrow> approval_db \<Rightarrow> approval_db \<Rightarrow> action_request_event \<Rightarrow> action_request
    \<Rightarrow> action_request \<Rightarrow> bool" where
  "moved kinds db db' e old row \<longleftrightarrow>
     same_identity old row
     \<and> request_transition (arStatus old) e = Inr (arStatus row)
     \<and> arReconciliation row = arReconciliation old
     \<and> arReexecuteDecisionId row = arReexecuteDecisionId old
     \<and> (e \<noteq> ARE_fail \<longrightarrow> arFailureKind old \<noteq> None \<longrightarrow> arFailureKind row = arFailureKind old)
     \<and> (e \<notin> {ARE_approve, ARE_reject} \<longrightarrow> arApprovalDecisionId row = arApprovalDecisionId old)
     \<and> (e = ARE_approve \<longrightarrow> approved_by kinds db' row)
     \<and> (e = ARE_start_execution \<longrightarrow> \<not> execution_guard db old)"

definition reconciled :: "kind_map \<Rightarrow> action_request \<Rightarrow> action_request \<Rightarrow> bool" where
  "reconciled kinds old row \<longleftrightarrow>
     same_identity old row \<and> arStatus row = arStatus old \<and> reconcilable old
     \<and> arFailureKind row = arFailureKind old
     \<and> arApprovalDecisionId row = arApprovalDecisionId old
     \<and> (arReconciliation old \<noteq> None \<longrightarrow> arReconciliation row = arReconciliation old)
     \<and> (arReexecuteDecisionId old \<noteq> None \<longrightarrow> arReexecuteDecisionId row = arReexecuteDecisionId old)
     \<and> (arReexecuteDecisionId row \<noteq> arReexecuteDecisionId old \<longrightarrow>
          arReconciliation row = Some EffectAbsent)"

definition inserted :: "approval_env \<Rightarrow> string \<Rightarrow> approval_db \<Rightarrow> action_request \<Rightarrow> bool" where
  "inserted env ws db row \<longleftrightarrow>
     (\<exists>fresh now inp. let ev = evaluate (evaluation_input env ws inp) in
        row = new_request fresh now ws inp
                (case erDecision ev of Allow \<Rightarrow> AR_auto_approved | RequireApproval \<Rightarrow> AR_pending_approval
                   | Deny \<Rightarrow> AR_denied)
                (erDecision ev) (erRequesterCanApprove ev)
        \<and> \<not> key_conflict db ws (arIdempotencyKey row) (arStatus row))"

lemma updated_row_identity [simp]: "same_identity old (updated_row u old)"
  by (simp add: same_identity_def updated_row_def)

lemma updated_row_fields [simp]:
  "arStatus (updated_row u old) = suStatus u"
  "arReconciliation (updated_row u old) = arReconciliation old"
  "arReexecuteDecisionId (updated_row u old) = arReexecuteDecisionId old"
  "arApprovalDecisionId (updated_row u old) = coalesce (suApprovalDecisionId u) (arApprovalDecisionId old)"
  by (simp_all add: updated_row_def)

lemma updated_row_failure:
  "suFailureKind u = None \<Longrightarrow> arFailureKind old \<noteq> None \<Longrightarrow> arFailureKind (updated_row u old) = arFailureKind old"
  by (auto simp: updated_row_def coalesce_def)

lemma plain_update_fields [simp]:
  "suStatus (plain_update t f) = t" "suExpectedStatus (plain_update t f) = f"
  "suApprovalDecisionId (plain_update t f) = None" "suFailureKind (plain_update t f) = None"
  by (simp_all add: plain_update_def)

lemma coalesce_None [simp]: "coalesce None x = x"
  by (simp add: coalesce_def)

lemma move_request_moved:
  assumes move: "move_request env ws i e action actor fill db = Inr (row, db')"
    and fill: "\<And>u. suStatus (fill u) = suStatus u \<and> suExpectedStatus (fill u) = suExpectedStatus u
                  \<and> suApprovalDecisionId (fill u) = suApprovalDecisionId u
                  \<and> (e \<noteq> ARE_fail \<longrightarrow> suFailureKind (fill u) = suFailureKind u)"
    and e: "e \<notin> {ARE_approve, ARE_reject}"
  shows "\<exists>old. getActionRequest db ws i = Some old \<and> moved kinds db db' e old row
           \<and> requests db' = map (\<lambda>q. if is_row ws i q then row else q) (requests db)
           \<and> decisions db' = decisions db"
proof -
  have "\<And>u. suStatus (fill u) = suStatus u \<and> suExpectedStatus (fill u) = suExpectedStatus u"
    using fill by blast
  from move this show ?thesis
  proof (rule move_request_spec)
    fix old to
    assume old: "getActionRequest db ws i = Some old"
      and to: "request_transition (arStatus old) e = Inr to"
      and row: "row = updated_row (fill (plain_update to (arStatus old))) old"
      and req: "requests db' = requests (replace_row ws i row db)" and dec: "decisions db' = decisions db"
      and guard: "to = AR_executing \<Longrightarrow> arStatus old \<noteq> AR_executing \<Longrightarrow> \<not> execution_guard db old"
    have "\<not> execution_guard db old" if "e = ARE_start_execution"
      using to guard that request_moves(4)[of "arStatus old" to] by auto
    moreover have "arFailureKind row = arFailureKind old" if "e \<noteq> ARE_fail" "arFailureKind old \<noteq> None"
      unfolding row using that fill by (intro updated_row_failure) simp_all
    ultimately have "moved kinds db db' e old row"
      using e to fill by (auto simp: moved_def row)
    with old req dec show ?thesis by auto
  qed
qed

lemma getActionRequest_decisions [simp]:
  "getActionRequest (db\<lparr>decisions := ds\<rparr>) ws i = getActionRequest db ws i"
  by (simp add: getActionRequest_def)

lemma writeDecision_Inr:
  assumes "writeDecision fresh ws e subject i who reason db = Inr db'"
  shows "requests db' = requests db" and "set (decisions db) \<subseteq> set (decisions db')"
    and "\<exists>d\<in>set (decisions db'). dcId d = fresh \<and> dcWorkspaceId d = ws \<and> dcActionRequestId d = i
           \<and> dcSubject d = subject \<and> dcReason d = reason \<and> dcDecidedBy d = who"
  using assms by (auto simp: writeDecision_def split: sum.splits)

lemma getActionRequest_requests:
  "requests db' = requests db \<Longrightarrow> getActionRequest db' ws i = getActionRequest db ws i"
  by (simp add: getActionRequest_def)

lemma approve_moved:
  assumes "approveActionRequest env fresh now ws inp db = Inr (row, db')"
  shows "\<exists>old. getActionRequest db ws (diActionRequestId inp) = Some old
           \<and> moved (kinds_of env) db db' ARE_approve old row
           \<and> requests db' = map (\<lambda>q. if is_row ws (diActionRequestId inp) q then row else q) (requests db)
           \<and> set (decisions db) \<subseteq> set (decisions db')"
proof -
  let ?i = "diActionRequestId inp" and ?who = "diApproverPrincipalId inp"
  let ?reason = "normalizeReason (diReason inp)"
  from assms obtain old to db1 db2 where old: "getActionRequest db ws ?i = Some old"
    and may: "assertMayApprove env now ws ?who (diApproverRole inp) old = Inr ()"
    and reason: "\<not> (arBlastRadius old = High \<and> ?reason = None)"
    and to: "request_transition (arStatus old) ARE_approve = Inr to"
    and dec: "writeDecision fresh ws DecE_approve ApprovalSubject ?i (Some ?who) ?reason db = Inr db1"
    and upd: "updateActionRequestStatusConditional ws ?i
                ((plain_update to (arStatus old))\<lparr>suApprovalDecisionId := Some fresh\<rparr>) db1 = Inr (row, db2)"
    and db': "db' = recordTransition env ws ?who ''action_request.approve'' ?i to None db2"
    by (auto simp: approveActionRequest_def Let_def split: if_splits)
  note wd = writeDecision_Inr[OF dec]
  from upd obtain old' where old': "getActionRequest db1 ws ?i = Some old'"
    and row: "row = updated_row ((plain_update to (arStatus old))\<lparr>suApprovalDecisionId := Some fresh\<rparr>) old'"
    and db2: "db2 = replace_row ws ?i row db1"
    by (rule status_update_spec)
  have same: "old' = old" using old' old getActionRequest_requests[OF wd(1), of ws ?i] by simp
  have self: "\<not> (arRequesterCanApprove old = Some False \<and> ?who = arOnBehalfOf old)"
    using may by (auto simp: assertMayApprove_def assertApproverScope_def split: if_splits)
  have human: "arBlastRadius old = High \<longrightarrow> kinds_of env ws ?who = Some Human"
    using may by (auto simp: assertMayApprove_def assertPersonDecidesWhenRequired_def kinds_of_def
        split: if_splits)
  have id: "arWorkspaceId old = ws" "arId old = ?i" using getActionRequest_Some[OF old] by simp_all
  have si: "same_identity old row" by (simp add: row same)
  obtain d where "d \<in> set (decisions db1)" "dcId d = fresh" "dcWorkspaceId d = ws"
      "dcActionRequestId d = ?i" "dcSubject d = ApprovalSubject" "dcReason d = ?reason"
      "dcDecidedBy d = Some ?who"
    using wd(3) by blast
  moreover have "arApprovalDecisionId row = Some fresh" by (simp add: row coalesce_def)
  moreover have "decisions db' = decisions db1" by (simp add: db' db2)
  ultimately have "approved_by (kinds_of env) db' row"
    unfolding approved_by_def using si id self human reason
    by (intro bexI[of _ d] exI[of _ ?who]) (auto simp: same_identity_def)
  then have "moved (kinds_of env) db db' ARE_approve old row"
    using to by (simp add: moved_def si) (auto simp: row same updated_row_failure)
  with old wd(1,2) show ?thesis by (auto simp: db' db2)
qed

lemma reject_moved:
  assumes "rejectActionRequest env fresh now ws inp db = Inr (row, db')"
  shows "\<exists>old. getActionRequest db ws (diActionRequestId inp) = Some old
           \<and> moved kinds db db' ARE_reject old row
           \<and> requests db' = map (\<lambda>q. if is_row ws (diActionRequestId inp) q then row else q) (requests db)
           \<and> set (decisions db) \<subseteq> set (decisions db')"
proof -
  let ?i = "diActionRequestId inp" and ?who = "diApproverPrincipalId inp"
  let ?reason = "normalizeReason (diReason inp)"
  from assms obtain old to db1 db2 where old: "getActionRequest db ws ?i = Some old"
    and to: "request_transition (arStatus old) ARE_reject = Inr to"
    and dec: "writeDecision fresh ws DecE_reject RejectionSubject ?i (Some ?who) ?reason db = Inr db1"
    and upd: "updateActionRequestStatusConditional ws ?i
                ((plain_update to (arStatus old))\<lparr>suApprovalDecisionId := Some fresh\<rparr>) db1 = Inr (row, db2)"
    and db': "db' = recordTransition env ws ?who ''action_request.reject'' ?i to None db2"
    by (auto simp: rejectActionRequest_def Let_def split: if_splits)
  note wd = writeDecision_Inr[OF dec]
  from upd obtain old' where old': "getActionRequest db1 ws ?i = Some old'"
    and row: "row = updated_row ((plain_update to (arStatus old))\<lparr>suApprovalDecisionId := Some fresh\<rparr>) old'"
    and db2: "db2 = replace_row ws ?i row db1"
    by (rule status_update_spec)
  have same: "old' = old" using old' old getActionRequest_requests[OF wd(1), of ws ?i] by simp
  have "moved kinds db db' ARE_reject old row"
    using to by (simp add: moved_def row same) (auto simp: updated_row_failure)
  with old wd(1,2) show ?thesis by (auto simp: db' db2)
qed

lemma observed_effect:
  assumes "recordObservedReconciliation fresh ws inp db = Inr ((row, changed), db')"
  shows "(requests db' = requests db \<and> decisions db' = decisions db) \<or>
         (\<exists>old. getActionRequest db ws (oiActionRequestId inp) = Some old \<and> reconciled kinds old row
           \<and> requests db' = map (\<lambda>q. if is_row ws (oiActionRequestId inp) q then row else q) (requests db)
           \<and> set (decisions db) \<subseteq> set (decisions db'))"
proof -
  let ?i = "oiActionRequestId inp"
  from assms obtain old where old: "getActionRequest db ws ?i = Some old"
    and ok: "reconcilable old"
    by (auto simp: recordObservedReconciliation_def Let_def split: if_splits)
  show ?thesis
  proof (cases "arReconciliation old")
    case (Some v)
    with assms old ok show ?thesis by (simp add: recordObservedReconciliation_def Let_def)
  next
    case None
    with assms old ok obtain db1 where
      dec: "writeDecision fresh ws DecE_approve (ReconcileSubject EffectSeen) ?i None None db = Inr db1"
      and row: "row = old\<lparr>arReconciliation := Some EffectSeen, arReconciliationDecisionId := Some fresh\<rparr>"
      and req: "requests db' = requests (replace_row ws ?i row db1)"
      and dd: "decisions db' = decisions db1"
      by (auto simp: recordObservedReconciliation_def Let_def)
    note wd = writeDecision_Inr[OF dec]
    have "reconciled kinds old row"
      using ok None by (simp add: reconciled_def row same_identity_def)
    with old req dd wd(1,2) show ?thesis by auto
  qed
qed

lemma reconcile_checks_Inr:
  assumes "reconcile_checks env inp old = Inr plan"
  shows "reconcilable old"
    and "arReconciliation old \<noteq> None \<Longrightarrow> rpFinding plan = arReconciliation old"
    and "rpRecordReexecute plan \<Longrightarrow> arReexecuteDecisionId old = None \<and> rpFinding plan = Some EffectAbsent"
  using assms by (auto simp: reconcile_checks_def Let_def split: if_splits option.splits)

lemma record_reconciliation_Inr:
  assumes "record_reconciliation f1 f2 ws inp old plan db = Inr (row, db')"
  shows "row = old\<lparr>arReconciliation := rpFinding plan,
            arReconciliationDecisionId :=
              (if rpRecordFinding plan then Some f1 else arReconciliationDecisionId old),
            arReexecuteDecisionId :=
              (if rpRecordReexecute plan then Some f2 else arReexecuteDecisionId old)\<rparr>"
    and "requests db' = map (\<lambda>q. if is_row ws (riActionRequestId inp) q then row else q) (requests db)"
    and "set (decisions db) \<subseteq> set (decisions db')"
proof -
  from assms obtain db1 db2 where
    dec1: "(if rpRecordFinding plan then writeDecision f1 ws DecE_approve
              (ReconcileSubject (the (rpFinding plan))) (riActionRequestId inp)
              (Some (riDeciderPrincipalId inp)) (rpNote plan) db else Inr db) = Inr db1"
    and dec2: "(if rpRecordReexecute plan then writeDecision f2 ws DecE_approve ReexecuteSubject
              (riActionRequestId inp) (Some (riDeciderPrincipalId inp)) (rpNote plan) db1 else Inr db1)
              = Inr db2"
    and row: "row = old\<lparr>arReconciliation := rpFinding plan,
            arReconciliationDecisionId :=
              (if rpRecordFinding plan then Some f1 else arReconciliationDecisionId old),
            arReexecuteDecisionId :=
              (if rpRecordReexecute plan then Some f2 else arReexecuteDecisionId old)\<rparr>"
    and req: "requests db' = requests (replace_row ws (riActionRequestId inp) row db2)"
    and dd: "decisions db' = decisions db2"
    unfolding record_reconciliation_def Let_def by fastforce
  have "requests db1 = requests db \<and> set (decisions db) \<subseteq> set (decisions db1)"
    using dec1 writeDecision_Inr(1,2) by (auto split: if_splits)
  moreover have "requests db2 = requests db1 \<and> set (decisions db1) \<subseteq> set (decisions db2)"
    using dec2 writeDecision_Inr(1,2) by (auto split: if_splits)
  ultimately show "row = old\<lparr>arReconciliation := rpFinding plan,
            arReconciliationDecisionId :=
              (if rpRecordFinding plan then Some f1 else arReconciliationDecisionId old),
            arReexecuteDecisionId :=
              (if rpRecordReexecute plan then Some f2 else arReexecuteDecisionId old)\<rparr>"
    "requests db' = map (\<lambda>q. if is_row ws (riActionRequestId inp) q then row else q) (requests db)"
    "set (decisions db) \<subseteq> set (decisions db')"
    using row req dd by auto
qed

lemma reconcile_effect:
  assumes "reconcileActionRequest env f1 f2 ws inp db = Inr ((row, changed), db')"
  shows "(requests db' = requests db \<and> decisions db' = decisions db) \<or>
         (\<exists>old. getActionRequest db ws (riActionRequestId inp) = Some old \<and> reconciled kinds old row
           \<and> requests db' = map (\<lambda>q. if is_row ws (riActionRequestId inp) q then row else q) (requests db)
           \<and> set (decisions db) \<subseteq> set (decisions db'))"
proof -
  from assms obtain old plan where old: "getActionRequest db ws (riActionRequestId inp) = Some old"
    and plan: "reconcile_checks env inp old = Inr plan"
    and rest: "db' = db \<or> record_reconciliation f1 f2 ws inp old plan db = Inr (row, db')"
    unfolding reconcileActionRequest_def by (auto split: if_splits)
  from rest show ?thesis
  proof
    assume rec: "record_reconciliation f1 f2 ws inp old plan db = Inr (row, db')"
    note r = record_reconciliation_Inr[OF rec] and c = reconcile_checks_Inr[OF plan]
    have "reconciled kinds old row"
      using c unfolding reconciled_def r(1) by (auto simp: same_identity_def)
    with old r(2,3) show ?thesis by blast
  qed simp
qed

lemma submit_effect:
  assumes "submit_request env fresh now ws inp db = Inr (row, db')"
  shows "(db' = db) \<or> (inserted env ws db row \<and> requests db' = requests db @ [row]
            \<and> arId row = fresh \<and> arWorkspaceId row = ws \<and> decisions db' = decisions db)"
proof -
  let ?ev = "evaluate (evaluation_input env ws inp)"
  let ?st = "case erDecision ?ev of Allow \<Rightarrow> AR_auto_approved | RequireApproval \<Rightarrow> AR_pending_approval
               | Deny \<Rightarrow> AR_denied"
  let ?row = "new_request fresh now ws inp ?st (erDecision ?ev) (erRequesterCanApprove ?ev)"
  have res: "request_transition AR_policy_evaluated (RESOLUTION_EVENT_BY_DECISION (erDecision ?ev)) = Inr ?st"
    by (cases "erDecision ?ev") simp_all
  have st: "?st \<noteq> AR_withdrawn \<and> ?st \<notin> {AR_failed, AR_compensated}" by (cases "erDecision ?ev") simp_all
  then have ins: "insertActionRequestRow ?row db =
      (if key_conflict db ws (arIdempotencyKey ?row) ?st then Inl (IdempotencyKeyConflict fresh)
       else Inr (?row, db\<lparr>requests := requests db @ [?row]\<rparr>))"
    by (simp add: insertActionRequestRow_def status_guard_def new_request_def)
  show ?thesis
  proof (cases "key_conflict db ws (arIdempotencyKey ?row) ?st")
    case True
    with assms show ?thesis
      by (auto simp: submit_request_def Let_def res ins split: option.splits)
  next
    case False
    with assms have "row = ?row" "requests db' = requests db @ [?row]" "decisions db' = decisions db"
      by (auto simp: submit_request_def Let_def res ins)
    moreover have "inserted env ws db ?row"
    proof -
      have "arStatus ?row = ?st" by (simp add: new_request_def)
      with False have "\<not> key_conflict db ws (arIdempotencyKey ?row) (arStatus ?row)" by metis
      then show ?thesis
        unfolding inserted_def Let_def by (intro exI[of _ fresh] exI[of _ now] exI[of _ inp] conjI) simp_all
    qed
    moreover have "arId ?row = fresh" "arWorkspaceId ?row = ws" by (simp_all add: new_request_def)
    ultimately show ?thesis by metis
  qed
qed

lemma request_effect:
  assumes "requestAction env fresh now ws requested db = Inr (row, db')"
  shows "(db' = db) \<or> (inserted env ws db row \<and> requests db' = requests db @ [row]
            \<and> arId row = fresh \<and> arWorkspaceId row = ws \<and> decisions db' = decisions db)"
  using assms by (auto simp: requestAction_def Let_def split: option.splits dest: submit_effect)

subsection \<open>Every step is one of three changes\<close>

definition replaced :: "string \<Rightarrow> action_request \<Rightarrow> action_request \<Rightarrow> approval_db \<Rightarrow> approval_db \<Rightarrow> bool" where
  "replaced ws old row db db' \<longleftrightarrow>
     getActionRequest db ws (arId old) = Some old
     \<and> requests db' = map (\<lambda>q. if is_row ws (arId old) q then row else q) (requests db)"

lemma replacedI:
  "getActionRequest db ws i = Some old \<Longrightarrow>
   requests db' = map (\<lambda>q. if is_row ws i q then row else q) (requests db) \<Longrightarrow> replaced ws old row db db'"
  using getActionRequest_Some[of db ws i old] by (simp add: replaced_def)

definition one_step :: "approval_env \<Rightarrow> string \<Rightarrow> approval_op \<Rightarrow> approval_db \<Rightarrow> approval_db \<Rightarrow> bool" where
  "one_step env ws op db db' \<longleftrightarrow>
     set (decisions db) \<subseteq> set (decisions db')
     \<and> (requests db' = requests db
        \<or> (\<exists>row fresh now inp. op = OpRequest fresh now inp \<and> arId row = fresh \<and> arWorkspaceId row = ws
             \<and> inserted env ws db row \<and> requests db' = requests db @ [row])
        \<or> (\<exists>old row. replaced ws old row db db'
             \<and> ((\<exists>e. moved (kinds_of env) db db' e old row) \<or> reconciled (kinds_of env) old row)))"

lemma map_sum_Inr: "map_sum f g r = Inr y \<longleftrightarrow> (\<exists>x. r = Inr x \<and> y = g x)"
  by (cases r) auto

lemma one_step_move:
  assumes "move_request env ws i e action actor fill db = Inr (row, db')"
    and "\<And>u. suStatus (fill u) = suStatus u \<and> suExpectedStatus (fill u) = suExpectedStatus u
                  \<and> suApprovalDecisionId (fill u) = suApprovalDecisionId u
                  \<and> (e \<noteq> ARE_fail \<longrightarrow> suFailureKind (fill u) = suFailureKind u)"
    and "e \<notin> {ARE_approve, ARE_reject}"
  shows "one_step env ws op db db'"
  using move_request_moved[OF assms, where kinds = "kinds_of env"]
  unfolding one_step_def by (metis replacedI subset_refl)

lemma step_effect:
  assumes "perform env ws op db = Inr db'"
  shows "one_step env ws op db db'"
proof (cases op)
  case (OpRequest fresh now inp)
  with assms obtain row where "requestAction env fresh now ws inp db = Inr (row, db')"
    by (auto simp: map_sum_Inr)
  from request_effect[OF this] OpRequest show ?thesis by (auto simp: one_step_def)
next
  case (OpApprove fresh now inp)
  with assms obtain row where "approveActionRequest env fresh now ws inp db = Inr (row, db')"
    by (auto simp: map_sum_Inr)
  from approve_moved[OF this] show ?thesis unfolding one_step_def by (metis replacedI)
next
  case (OpReject fresh now inp)
  with assms obtain row where "rejectActionRequest env fresh now ws inp db = Inr (row, db')"
    by (auto simp: map_sum_Inr)
  from reject_moved[OF this, where kinds = "kinds_of env"] show ?thesis
    unfolding one_step_def by (metis replacedI)
next
  case (OpExpire i)
  with assms obtain r where r: "expireActionRequest env ws i db = Inr (r, db')"
    by (auto simp: map_sum_Inr)
  then consider "db' = db"
    | row where "move_request env ws i ARE_expire ''action_request.expire'' arOnBehalfOf id db = Inr (row, db')"
    by (auto simp: expireActionRequest_def split: option.splits if_splits)
  then show ?thesis
  proof cases
    case 1
    then show ?thesis by (simp add: one_step_def)
  next
    case 2
    then show ?thesis by (rule one_step_move) simp_all
  qed
next
  case (OpStart now i)
  with assms obtain row where "startActionRequestExecution env now ws i db = Inr (row, db')"
    by (auto simp: map_sum_Inr)
  then have "move_request env ws i ARE_start_execution ''action_request.start_execution'' arOnBehalfOf
             (\<lambda>u. u\<lparr>suExecutingAt := Some now\<rparr>) db = Inr (row, db')"
    by (auto simp: startActionRequestExecution_def split: sum.splits approval_error.splits)
  then show ?thesis by (rule one_step_move) simp_all
next
  case (OpExecuted now i actor)
  with assms show ?thesis
    by (auto simp: map_sum_Inr markActionRequestExecuted_def intro!: one_step_move)
next
  case (OpFailed now i actor kind)
  with assms show ?thesis
    by (auto simp: map_sum_Inr markActionRequestFailed_def intro!: one_step_move)
next
  case (OpInDoubt i)
  with assms show ?thesis
    by (auto simp: one_step_def recordActionRequestInDoubt_def split: option.splits)
next
  case (OpWithdraw i actor)
  with assms show ?thesis
    by (auto simp: map_sum_Inr withdrawActionRequest_def intro!: one_step_move)
next
  case (OpCompensate i actor)
  with assms show ?thesis
    by (auto simp: map_sum_Inr compensateActionRequest_def intro!: one_step_move)
next
  case (OpReconcile f1 f2 inp)
  with assms obtain row c where "reconcileActionRequest env f1 f2 ws inp db = Inr ((row, c), db')"
    by (auto simp: map_sum_Inr)
  from reconcile_effect[OF this, where kinds = "kinds_of env"] show ?thesis
    unfolding one_step_def by (metis replacedI subset_refl)
next
  case (OpObserved fresh inp)
  with assms obtain row c where "recordObservedReconciliation fresh ws inp db = Inr ((row, c), db')"
    by (auto simp: map_sum_Inr)
  from observed_effect[OF this, where kinds = "kinds_of env"] show ?thesis
    unfolding one_step_def by (metis replacedI subset_refl)
qed

section \<open>Invariants of the request table\<close>

lemma actionTargetsConflict_sym: "actionTargetsConflict a b = actionTargetsConflict b a"
proof -
  have "list_all2 (\<lambda>v w. identity_text v = identity_text w) xs ys
      = list_all2 (\<lambda>v w. identity_text v = identity_text w) ys xs" for xs ys
    by (auto simp: list_all2_conv_all_nth)
  then show ?thesis by (auto simp: actionTargetsConflict_def split: option.splits)
qed

lemma replaced_rows:
  assumes "distinct (map arId (requests db))" and "replaced ws old row db db'" and "arId row = arId old"
    and "arWorkspaceId row = arWorkspaceId old"
  shows "map arId (requests db') = map arId (requests db)"
    and "set (requests db') = insert row (set (requests db) - {old})"
    and "old \<in> set (requests db)"
proof -
  from assms(2) have old: "old \<in> set (requests db)" "arWorkspaceId old = ws"
    using getActionRequest_Some by (auto simp: replaced_def)
  show "old \<in> set (requests db)" by (rule old(1))
  have uniq: "q = old" if "q \<in> set (requests db)" "arId q = arId old" for q
    using assms(1) that old(1) by (metis distinct_map inj_onD)
  have eq: "(if is_row ws (arId old) q then row else q) = (if q = old then row else q)"
    if "q \<in> set (requests db)" for q
    using uniq[OF that] old(2) by (auto simp: is_row_def)
  have "requests db' = map (\<lambda>q. if q = old then row else q) (requests db)"
    using assms(2) eq by (simp add: replaced_def)
  then show "map arId (requests db') = map arId (requests db)"
    "set (requests db') = insert row (set (requests db) - {old})"
    using old(1) assms(3) by auto
qed

lemma moved_identity: "moved kinds db db' e old row \<Longrightarrow> same_identity old row"
  by (simp add: moved_def)

lemma reconciled_identity: "reconciled kinds old row \<Longrightarrow> same_identity old row"
  by (simp add: reconciled_def)

lemma same_identity_keys:
  "same_identity old row \<Longrightarrow> arId row = arId old \<and> arWorkspaceId row = arWorkspaceId old"
  by (simp add: same_identity_def)

text \<open>A case rule: what a reachable table's rows are after one more step.\<close>

lemma reachable_distinct: "approval_reachable kinds db \<Longrightarrow> distinct (map arId (requests db))"
proof (induction rule: approval_reachable.induct)
  case init
  then show ?case by (simp add: empty_db_def)
next
  case (step db env op ws db')
  from step_effect[OF step.hyps(4)] consider
      "requests db' = requests db"
    | row fresh now inp where "op = OpRequest fresh now inp" "arId row = fresh"
        "requests db' = requests db @ [row]"
    | old row where "replaced ws old row db db'" "same_identity old row"
    unfolding one_step_def using moved_identity reconciled_identity by blast
  then show ?case
  proof cases
    case 1
    with step.IH show ?thesis by simp
  next
    case (2 row fresh now inp)
    with step.hyps(3) step.IH show ?thesis by auto
  next
    case (3 old row)
    with replaced_rows(1)[OF step.IH 3(1)] same_identity_keys[OF 3(2)] step.IH show ?thesis by simp
  qed
qed

lemma reachable_step_cases:
  assumes "approval_reachable kinds db" and "kinds_of env = kinds" and "perform env ws op db = Inr db'"
  obtains (same) "requests db' = requests db"
    | (insert) row where "inserted env ws db row" and "set (requests db') = insert row (set (requests db))"
        and "arWorkspaceId row = ws"
    | (move) old row e where "moved kinds db db' e old row"
        and "set (requests db') = insert row (set (requests db) - {old})" and "old \<in> set (requests db)"
    | (reconcile) old row where "reconciled kinds old row"
        and "set (requests db') = insert row (set (requests db) - {old})" and "old \<in> set (requests db)"
proof -
  note d = reachable_distinct[OF assms(1)]
  from step_effect[OF assms(3)] consider
      "requests db' = requests db"
    | row where "inserted env ws db row" "arWorkspaceId row = ws"
        "requests db' = requests db @ [row]"
    | old row e where "replaced ws old row db db'" "moved kinds db db' e old row"
    | old row where "replaced ws old row db db'" "reconciled kinds old row"
    unfolding one_step_def assms(2) by blast
  then show thesis
  proof cases
    case 1
    then show thesis by (rule same)
  next
    case (2 row)
    then show thesis by (intro insert[of row]) simp_all
  next
    case (3 old row e)
    with replaced_rows(2,3)[OF d 3(1)] same_identity_keys[OF moved_identity[OF 3(2)]]
    show thesis by (intro move[of e old row]) simp_all
  next
    case (4 old row)
    with replaced_rows(2,3)[OF d 4(1)] same_identity_keys[OF reconciled_identity[OF 4(2)]]
    show thesis by (intro reconcile[of old row]) simp_all
  qed
qed

lemma inserted_facts:
  assumes "inserted env ws db row"
  obtains d where "arPolicyDecision row = Some d"
    and "arStatus row = (case d of Allow \<Rightarrow> AR_auto_approved | RequireApproval \<Rightarrow> AR_pending_approval
                           | Deny \<Rightarrow> AR_denied)"
    and "arBlastRadius row = High \<Longrightarrow> d \<noteq> Allow"
    and "arReconciliation row = None" and "arReexecuteDecisionId row = None"
    and "\<not> key_conflict db ws (arIdempotencyKey row) (arStatus row)"
proof -
  from assms obtain fresh now inp where
    row: "row = new_request fresh now ws inp
        (case erDecision (evaluate (evaluation_input env ws inp)) of Allow \<Rightarrow> AR_auto_approved
           | RequireApproval \<Rightarrow> AR_pending_approval | Deny \<Rightarrow> AR_denied)
        (erDecision (evaluate (evaluation_input env ws inp)))
        (erRequesterCanApprove (evaluate (evaluation_input env ws inp)))"
    and key: "\<not> key_conflict db ws (arIdempotencyKey row) (arStatus row)"
    unfolding inserted_def Let_def by blast
  let ?d = "erDecision (evaluate (evaluation_input env ws inp))"
  have "arBlastRadius row = High \<Longrightarrow> ?d \<noteq> Allow"
    by (simp add: row new_request_def evaluate_decision evaluation_input_def)
  then show thesis
    by (intro that[of ?d]) (simp_all only: key, simp_all add: row new_request_def)
qed

lemma moved_to_executing:
  assumes "moved kinds db db' e old row" and "arStatus row = AR_executing"
  shows "\<not> execution_guard db old" and "arStatus old = AR_approved \<or> arStatus old = AR_auto_approved"
proof -
  from assms have "edge (arStatus old) e AR_executing \<in> set ACTION_REQUEST_EDGES"
    using request_transition_edge by (auto simp: moved_def)
  then have "e = ARE_start_execution \<and> (arStatus old = AR_approved \<or> arStatus old = AR_auto_approved)"
    by (auto simp: ACTION_REQUEST_EDGES_def)
  with assms show "\<not> execution_guard db old"
    "arStatus old = AR_approved \<or> arStatus old = AR_auto_approved" by (auto simp: moved_def)
qed

definition exclusive :: "action_request \<Rightarrow> action_request \<Rightarrow> bool" where
  "exclusive r q \<longleftrightarrow>
     arStatus r = AR_executing \<and> arStatus q = AR_executing \<and> arId r \<noteq> arId q
     \<and> arWorkspaceId r = arWorkspaceId q \<and> arGatekeeperId r = arGatekeeperId q \<longrightarrow>
     \<not> actionTargetsConflict (arTarget r) (arTarget q)"

lemma started_exclusive:
  assumes "\<not> execution_guard db old" and "q \<in> set (requests db)" and "same_identity old row"
  shows "exclusive q row"
  using assms by (auto simp: exclusive_def execution_guard_def same_identity_def list_ex_iff)

lemma exclusive_sym: "exclusive r q = exclusive q r"
  by (auto simp: exclusive_def actionTargetsConflict_sym)

lemma reachable_exclusive:
  "approval_reachable kinds db \<Longrightarrow> r \<in> set (requests db) \<Longrightarrow> q \<in> set (requests db) \<Longrightarrow> exclusive r q"
proof (induction arbitrary: r q rule: approval_reachable.induct)
  case init
  then show ?case by (simp add: empty_db_def)
next
  case (step db env op ws db')
  have not_running: "exclusive x y" if "arStatus y \<noteq> AR_executing" for x y
    using that by (simp add: exclusive_def)
  have refl: "exclusive x x" for x by (simp add: exclusive_def)
  from step.hyps(1,2,4) show ?case
  proof (cases rule: reachable_step_cases)
    case same
    with step.prems step.IH show ?thesis by simp
  next
    case (insert row)
    have "arStatus row \<noteq> AR_executing"
      using insert(1) by (rule inserted_facts) (simp split: verdict.splits)
    with insert(2) step.prems step.IH not_running exclusive_sym refl show ?thesis
      by (metis insert_iff)
  next
    case (move old row e)
    have new: "exclusive x row" if "x \<in> set (requests db)" for x
    proof (cases "arStatus row = AR_executing")
      case True
      then show ?thesis
        using started_exclusive[OF moved_to_executing(1)[OF move(1)] that moved_identity[OF move(1)]] by simp
    qed (rule not_running)
    with move(2) step.prems step.IH exclusive_sym refl show ?thesis by (metis Diff_iff insert_iff)
  next
    case (reconcile old row)
    then have "arStatus row \<noteq> AR_executing" by (simp add: reconciled_def reconcilable_def)
    with reconcile(2) step.prems step.IH not_running exclusive_sym refl show ?thesis
      by (metis Diff_iff insert_iff)
  qed
qed

subsection \<open>Consent\<close>

definition consent_ok :: "kind_map \<Rightarrow> approval_db \<Rightarrow> action_request \<Rightarrow> bool" where
  "consent_ok kinds db r \<longleftrightarrow>
     (\<exists>d. arPolicyDecision r = Some d \<and> (arBlastRadius r = High \<longrightarrow> d \<noteq> Allow)
        \<and> arStatus r \<notin> {AR_proposed, AR_policy_evaluated}
        \<and> (arStatus r = AR_pending_approval \<longrightarrow> d = RequireApproval)
        \<and> (arStatus r = AR_auto_approved \<longrightarrow> d = Allow)
        \<and> (arStatus r = AR_approved \<longrightarrow> d = RequireApproval \<and> approved_by kinds db r)
        \<and> (execution_started (arStatus r) \<longrightarrow> d = Allow \<or> d = RequireApproval \<and> approved_by kinds db r))"

lemma approved_by_keep:
  assumes "approved_by kinds db old" and "same_identity old row"
    and "arApprovalDecisionId row = arApprovalDecisionId old" and "set (decisions db) \<subseteq> set (decisions db')"
  shows "approved_by kinds db' row"
proof -
  from assms(1) obtain d p where d: "d \<in> set (decisions db)" and
    f: "arApprovalDecisionId old = Some (dcId d) \<and> dcWorkspaceId d = arWorkspaceId old
        \<and> dcActionRequestId d = arId old \<and> dcSubject d = ApprovalSubject \<and> dcDecidedBy d = Some p
        \<and> (arBlastRadius old = High \<longrightarrow> kinds (arWorkspaceId old) p = Some Human \<and> dcReason d \<noteq> None)
        \<and> (arRequesterCanApprove old = Some False \<longrightarrow> p \<noteq> arOnBehalfOf old)"
    unfolding approved_by_def by blast
  with assms(2-4) show ?thesis
    unfolding approved_by_def by (intro bexI[of _ d] exI[of _ p]) (auto simp: same_identity_def)
qed

lemma consent_keep:
  assumes "consent_ok kinds db old" and "same_identity old row" and "arStatus row = arStatus old"
    and "arApprovalDecisionId row = arApprovalDecisionId old" and "set (decisions db) \<subseteq> set (decisions db')"
  shows "consent_ok kinds db' row"
  using assms approved_by_keep[OF _ assms(2,4,5)]
  unfolding consent_ok_def same_identity_def by metis

lemma consent_moved:
  assumes old: "consent_ok kinds db old" and mv: "moved kinds db db' e old row"
    and mono: "set (decisions db) \<subseteq> set (decisions db')"
  shows "consent_ok kinds db' row"
proof -
  from old obtain d where d: "arPolicyDecision old = Some d" "arBlastRadius old = High \<longrightarrow> d \<noteq> Allow"
    "arStatus old \<notin> {AR_proposed, AR_policy_evaluated}"
    "arStatus old = AR_pending_approval \<longrightarrow> d = RequireApproval"
    "arStatus old = AR_auto_approved \<longrightarrow> d = Allow"
    "arStatus old = AR_approved \<longrightarrow> d = RequireApproval \<and> approved_by kinds db old"
    "execution_started (arStatus old) \<longrightarrow> d = Allow \<or> d = RequireApproval \<and> approved_by kinds db old"
    unfolding consent_ok_def by blast
  have id: "same_identity old row" by (rule moved_identity[OF mv])
  have keep: "approved_by kinds db' row" if "approved_by kinds db old" "e \<notin> {ARE_approve, ARE_reject}"
    using approved_by_keep[OF that(1) id _ mono] mv that(2) by (simp add: moved_def)
  have edge: "edge (arStatus old) e (arStatus row) \<in> set ACTION_REQUEST_EDGES"
    using mv request_transition_edge by (simp add: moved_def)
  have appr: "e = ARE_approve \<Longrightarrow> approved_by kinds db' row" using mv by (simp add: moved_def)
  have pd: "arPolicyDecision row = Some d" "arBlastRadius row = High \<longrightarrow> d \<noteq> Allow"
    using id d(1,2) by (simp_all add: same_identity_def)
  have "arStatus row \<notin> {AR_proposed, AR_policy_evaluated}
     \<and> (arStatus row = AR_pending_approval \<longrightarrow> d = RequireApproval)
     \<and> (arStatus row = AR_auto_approved \<longrightarrow> d = Allow)
     \<and> (arStatus row = AR_approved \<longrightarrow> d = RequireApproval \<and> approved_by kinds db' row)
     \<and> (execution_started (arStatus row) \<longrightarrow> d = Allow \<or> d = RequireApproval \<and> approved_by kinds db' row)"
    using edge unfolding ACTION_REQUEST_EDGES_def
    apply simp
    apply (elim disjE conjE)
    using d(3-7) keep appr apply (simp_all add: execution_started_def)
    apply blast+
    done
  with pd show ?thesis unfolding consent_ok_def by blast
qed

lemma reachable_consent:
  "approval_reachable kinds db \<Longrightarrow> r \<in> set (requests db) \<Longrightarrow> consent_ok kinds db r"
proof (induction arbitrary: r rule: approval_reachable.induct)
  case init
  then show ?case by (simp add: empty_db_def)
next
  case (step db env op ws db')
  have mono: "set (decisions db) \<subseteq> set (decisions db')"
    using step_effect[OF step.hyps(4)] by (simp add: one_step_def)
  have keep: "consent_ok kinds db' q" if "q \<in> set (requests db)" for q
    by (rule consent_keep[OF step.IH[OF that] _ refl refl mono]) (simp add: same_identity_def)
  from step.hyps(1,2,4) show ?case
  proof (cases rule: reachable_step_cases)
    case same
    with step.prems keep show ?thesis by simp
  next
    case (insert row)
    have "consent_ok kinds db' row"
      using insert(1) by (rule inserted_facts)
        (auto simp: consent_ok_def execution_started_def split: verdict.splits)
    with insert(2) step.prems keep show ?thesis by auto
  next
    case (move old row e)
    with consent_moved[OF step.IH[OF move(3)] move(1) mono] step.prems keep show ?thesis by auto
  next
    case (reconcile old row)
    have "consent_ok kinds db' row"
      by (rule consent_keep[OF step.IH[OF reconcile(3)] reconciled_identity[OF reconcile(1)] _ _ mono])
        (use reconcile(1) in \<open>simp_all add: reconciled_def\<close>)
    with reconcile(2) step.prems keep show ?thesis by auto
  qed
qed

subsection \<open>Reconciliation and keys\<close>

definition reconciliation_ok :: "action_request \<Rightarrow> bool" where
  "reconciliation_ok r \<longleftrightarrow>
     (arReconciliation r \<noteq> None \<longrightarrow>
        arStatus r \<in> {AR_failed, AR_compensated} \<and> arFailureKind r = Some OutcomeUnknown)
     \<and> (arReexecuteDecisionId r \<noteq> None \<longrightarrow> arReconciliation r = Some EffectAbsent)"

lemma reconciliation_moved:
  assumes "reconciliation_ok old" and mv: "moved kinds db db' e old row"
  shows "reconciliation_ok row"
proof -
  have edge: "edge (arStatus old) e (arStatus row) \<in> set ACTION_REQUEST_EDGES"
    using mv request_transition_edge by (simp add: moved_def)
  have "arStatus row = AR_compensated \<and> e = ARE_compensate" if "arReconciliation old \<noteq> None"
    using edge assms(1) that by (auto simp: reconciliation_ok_def ACTION_REQUEST_EDGES_def)
  with assms show ?thesis by (auto simp: reconciliation_ok_def moved_def)
qed

lemma reconciliation_recorded:
  "reconciliation_ok old \<Longrightarrow> reconciled kinds old row \<Longrightarrow> reconciliation_ok row"
  by (cases "arReconciliation old"; cases "arReexecuteDecisionId old")
    (auto simp: reconciliation_ok_def reconciled_def reconcilable_def)

lemma reachable_reconciliation:
  "approval_reachable kinds db \<Longrightarrow> r \<in> set (requests db) \<Longrightarrow> reconciliation_ok r"
proof (induction arbitrary: r rule: approval_reachable.induct)
  case init
  then show ?case by (simp add: empty_db_def)
next
  case (step db env op ws db')
  from step.hyps(1,2,4) show ?case
  proof (cases rule: reachable_step_cases)
    case same
    with step.prems step.IH show ?thesis by simp
  next
    case (insert row)
    have "reconciliation_ok row"
      using insert(1) by (rule inserted_facts) (simp add: reconciliation_ok_def)
    with insert(2) step.prems step.IH show ?thesis by auto
  next
    case (move old row e)
    with reconciliation_moved[OF step.IH[OF move(3)] move(1)] step.prems step.IH show ?thesis by auto
  next
    case (reconcile old row)
    with reconciliation_recorded[OF step.IH[OF reconcile(3)] reconcile(1)] step.prems step.IH
    show ?thesis by auto
  qed
qed

text \<open>
  A key names its request: one a caller gave for good, one the code derived while the request is in
  flight.
\<close>

definition live_key :: "action_request \<Rightarrow> string \<Rightarrow> bool" where
  "live_key r k \<longleftrightarrow> arIdempotencyKey r = Some k
     \<and> (startsWith k DERIVED_IDEMPOTENCY_KEY_PREFIX \<longrightarrow> arStatus r \<in> set IN_FLIGHT_ACTION_REQUEST_STATUSES)"

definition same_key :: "action_request \<Rightarrow> action_request \<Rightarrow> bool" where
  "same_key r q \<longleftrightarrow> arWorkspaceId r = arWorkspaceId q \<and> (\<exists>k. live_key r k \<and> live_key q k)"

text \<open>A request that is in flight has been so from the start, and its key has been its own.\<close>

lemma moved_in_flight:
  assumes "moved kinds db db' e old row" and "arStatus row \<in> set IN_FLIGHT_ACTION_REQUEST_STATUSES"
  shows "arStatus old \<in> set IN_FLIGHT_ACTION_REQUEST_STATUSES"
proof -
  have "edge (arStatus old) e (arStatus row) \<in> set ACTION_REQUEST_EDGES"
    using assms(1) request_transition_edge by (simp add: moved_def)
  with assms(2) show ?thesis
    by (auto simp: ACTION_REQUEST_EDGES_def IN_FLIGHT_ACTION_REQUEST_STATUSES_def)
qed

lemma live_key_before:
  assumes "same_identity old row" and "live_key row k"
    and "arStatus row \<in> set IN_FLIGHT_ACTION_REQUEST_STATUSES \<Longrightarrow> arStatus old \<in> set IN_FLIGHT_ACTION_REQUEST_STATUSES"
  shows "live_key old k"
  using assms by (auto simp: same_identity_def live_key_def)

lemma same_key_before:
  assumes "same_key x y" and "arWorkspaceId x' = arWorkspaceId x" and "arWorkspaceId y' = arWorkspaceId y"
    and "\<And>k. live_key x k \<Longrightarrow> live_key x' k" and "\<And>k. live_key y k \<Longrightarrow> live_key y' k"
  shows "same_key x' y'"
  using assms by (auto simp: same_key_def)

lemma replaced_before:
  assumes "x \<in> insert row (rows - {old})" and "old \<in> rows" and "same_identity old row"
    and "\<And>k. live_key row k \<Longrightarrow> live_key old k"
  shows "\<exists>x'\<in>rows. arId x' = arId x \<and> arWorkspaceId x' = arWorkspaceId x \<and> (\<forall>k. live_key x k \<longrightarrow> live_key x' k)"
  using assms same_identity_keys[OF assms(3)] by (cases "x = row") auto

lemma reachable_keys:
  "approval_reachable kinds db \<Longrightarrow> r \<in> set (requests db) \<Longrightarrow> q \<in> set (requests db) \<Longrightarrow>
   same_key r q \<Longrightarrow> arId r = arId q"
proof (induction arbitrary: r q rule: approval_reachable.induct)
  case init
  then show ?case by (simp add: empty_db_def)
next
  case (step db env op ws db')
  have sym: "same_key x y = same_key y x" for x y by (auto simp: same_key_def)
  have earlier: "arId r = arId q"
    if before: "\<And>x. x \<in> set (requests db') \<Longrightarrow> \<exists>x'\<in>set (requests db). arId x' = arId x \<and> arWorkspaceId x' = arWorkspaceId x
        \<and> (\<forall>k. live_key x k \<longrightarrow> live_key x' k)"
  proof -
    obtain r' q' where "r' \<in> set (requests db)" "arId r' = arId r" "q' \<in> set (requests db)" "arId q' = arId q"
        "same_key r' q'"
      using before[OF step.prems(1)] before[OF step.prems(2)] same_key_before[OF step.prems(3)] by metis
    with step.IH[of r' q'] show ?thesis by simp
  qed
  from step.hyps(1,2,4) show ?case
  proof (cases rule: reachable_step_cases)
    case same
    with step.prems step.IH show ?thesis by simp
  next
    case (insert row)
    have "\<not> same_key row x" if "x \<in> set (requests db)" for x
      using insert(1)
    proof (rule inserted_facts)
      assume "\<not> key_conflict db ws (arIdempotencyKey row) (arStatus row)"
      with that insert(3) show ?thesis
        by (auto simp: same_key_def live_key_def key_conflict_def has_key_def list_ex_iff
            split: if_splits)
    qed
    with insert(2) step.prems step.IH sym show ?thesis by (metis insert_iff)
  next
    case (move old row e)
    note id = moved_identity[OF move(1)]
    have "live_key row k \<Longrightarrow> live_key old k" for k
      using live_key_before[OF id] moved_in_flight[OF move(1)] by blast
    then show ?thesis using replaced_before[OF _ move(3) id] move(2) by (intro earlier) auto
  next
    case (reconcile old row)
    note id = reconciled_identity[OF reconcile(1)]
    have "live_key row k \<Longrightarrow> live_key old k" for k
      using live_key_before[OF id] reconcile(1) by (simp add: reconciled_def)
    then show ?thesis using replaced_before[OF _ reconcile(3) id] reconcile(2) by (intro earlier) auto
  qed
qed

subsection \<open>Who approved\<close>

text \<open>
  What makes an approval one of somebody who may give it, at the time it was given: the owner, or an
  operator with an active grant for what the request does; not the requester of a request its
  requester may not approve; a person, unless the impact is not high and the operation is published
  as one that needs none; with a reason where the impact is high; and with the suspected credentials
  reviewed where there are any.
\<close>

definition grant_in_force :: "int \<Rightarrow> string \<Rightarrow> string \<Rightarrow> action_request \<Rightarrow> capability_grant \<Rightarrow> bool" where
  "grant_in_force now ws who r g \<longleftrightarrow>
     cgPrincipalId g = who \<and> cgWorkspaceId g = ws \<and> cgStatus g = GrantActive
     \<and> (\<forall>e. cgExpiresAt g = Some e \<longrightarrow> now < e)
     \<and> cgResourceId g \<in> {None, arResourceScope r}
     \<and> (cgResourceType g = arActionKind r \<or> cgResourceType g = ''gatekeeper'' \<and> arResourceScope r \<noteq> None)"

definition approval_given ::
  "approval_env \<Rightarrow> int \<Rightarrow> string \<Rightarrow> decide_input \<Rightarrow> action_request \<Rightarrow> bool" where
  "approval_given env now ws inp r \<longleftrightarrow>
     (let who = diApproverPrincipalId inp in
        (diApproverRole inp = Owner
         \<or> diApproverRole inp = Operator \<and> (\<exists>g\<in>set (envGrants env). grant_in_force now ws who r g))
        \<and> (arRequesterCanApprove r = Some False \<longrightarrow> who \<noteq> arOnBehalfOf r)
        \<and> (map_option peKind (envPrincipals env ws who) = Some Human
           \<or> arBlastRadius r \<noteq> High
             \<and> envAutoApprovable env ws (arGatekeeperId r) (arActionKind r) = Some True)
        \<and> (arBlastRadius r = High \<longrightarrow> normalizeReason (diReason inp) \<noteq> None)
        \<and> (envSuspectedSecrets env (arParams r) > 0 \<longrightarrow> diCredentialsReviewed inp = Some True))"

text \<open>The runs of the service, with the operations performed and the environment of each.\<close>

inductive approval_history ::
  "kind_map \<Rightarrow> (approval_env \<times> string \<times> approval_op) list \<Rightarrow> approval_db \<Rightarrow> bool" for kinds :: kind_map where
  start: "approval_history kinds [] empty_db"
| performed: "approval_history kinds hist db \<Longrightarrow> kinds_of env = kinds
    \<Longrightarrow> (\<And>fresh now inp. op = OpRequest fresh now inp \<Longrightarrow> fresh \<notin> arId ` set (requests db))
    \<Longrightarrow> perform env ws op db = Inr db' \<Longrightarrow> approval_history kinds (hist @ [(env, ws, op)]) db'"

lemma history_reachable: "approval_history kinds hist db \<Longrightarrow> approval_reachable kinds db"
  by (induction rule: approval_history.induct) (rule approval_reachable.init, rule approval_reachable.step)

lemma reachable_history: "approval_reachable kinds db \<Longrightarrow> \<exists>hist. approval_history kinds hist db"
  by (induction rule: approval_reachable.induct) (blast intro: approval_history.intros)+

lemma approver_scope:
  assumes "approverHasScope env now ws who r (arActionKind q) (arResourceScope q)"
  shows "r = Owner \<or> r = Operator \<and> (\<exists>g\<in>set (envGrants env). grant_in_force now ws who q g)"
  using assms
  by (auto simp: approverHasScope_def roleMayDecideActionRequests_def roleSatisfiesMinRole_def hasActiveGrant_def
      list_ex_iff grant_covers_def grant_in_force_def unexpired_def GATEKEEPER_GRANT_CAPABILITY_def
      split: if_splits option.splits)

lemma may_approve_given:
  assumes "assertMayApprove env now ws (diApproverPrincipalId inp) (diApproverRole inp) old = Inr ()"
    and "\<not> (arBlastRadius old = High \<and> normalizeReason (diReason inp) = None)"
    and "\<not> (envSuspectedSecrets env (arParams old) > 0 \<and> diCredentialsReviewed inp \<noteq> Some True)"
  shows "approval_given env now ws inp old"
  using assms approver_scope[of env now ws "diApproverPrincipalId inp" "diApproverRole inp" old]
  by (auto simp: approval_given_def Let_def assertMayApprove_def assertApproverScope_def
      assertPersonDecidesWhenRequired_def split: if_splits)

lemma given_same_identity:
  "approval_given env now ws inp old \<Longrightarrow> same_identity old row \<Longrightarrow> approval_given env now ws inp row"
  by (simp add: approval_given_def grant_in_force_def same_identity_def Let_def)

text \<open>Only approving writes the decision of an approval.\<close>

lemma writeDecision_adds:
  "writeDecision fresh ws event subject i who reason db = Inr db' \<Longrightarrow> d \<in> set (decisions db')
   \<Longrightarrow> d \<in> set (decisions db) \<or> dcId d = fresh \<and> dcWorkspaceId d = ws \<and> dcActionRequestId d = i
         \<and> dcSubject d = subject \<and> dcReason d = reason \<and> dcDecidedBy d = who"
  by (auto simp: writeDecision_def split: sum.splits)

lemma status_update_decisions:
  "updateActionRequestStatusConditional ws i u db = Inr (row, db') \<Longrightarrow> decisions db' = decisions db"
  by (erule status_update_spec) simp

lemma move_request_decisions:
  "move_request env ws i e action actor fill db = Inr (row, db') \<Longrightarrow> decisions db' = decisions db"
  by (auto simp: move_request_def dest: status_update_decisions)

lemma approve_adds:
  assumes "approveActionRequest env fresh now ws inp db = Inr (row, db')" and "d \<in> set (decisions db')"
  shows "d \<in> set (decisions db)
    \<or> dcId d = fresh \<and> dcWorkspaceId d = ws \<and> dcActionRequestId d = diActionRequestId inp
      \<and> dcDecidedBy d = Some (diApproverPrincipalId inp)
      \<and> (\<exists>old. getActionRequest db ws (diActionRequestId inp) = Some old \<and> approval_given env now ws inp old)"
proof -
  let ?i = "diActionRequestId inp" and ?who = "diApproverPrincipalId inp"
  let ?reason = "normalizeReason (diReason inp)"
  from assms(1) obtain old to db1 db2 where old: "getActionRequest db ws ?i = Some old"
    and may: "assertMayApprove env now ws ?who (diApproverRole inp) old = Inr ()"
      "\<not> (arBlastRadius old = High \<and> ?reason = None)"
      "\<not> (envSuspectedSecrets env (arParams old) > 0 \<and> diCredentialsReviewed inp \<noteq> Some True)"
    and dec: "writeDecision fresh ws DecE_approve ApprovalSubject ?i (Some ?who) ?reason db = Inr db1"
    and upd: "updateActionRequestStatusConditional ws ?i
                ((plain_update to (arStatus old))\<lparr>suApprovalDecisionId := Some fresh\<rparr>) db1 = Inr (row, db2)"
    and db': "db' = recordTransition env ws ?who ''action_request.approve'' ?i to None db2"
    by (auto simp: approveActionRequest_def Let_def split: if_splits)
  have "d \<in> set (decisions db1)" using assms(2) status_update_decisions[OF upd] by (simp add: db')
  with writeDecision_adds[OF dec, of d] may_approve_given[OF may] old show ?thesis by blast
qed

lemma reject_adds:
  assumes "rejectActionRequest env fresh now ws inp db = Inr (row, db')" and "d \<in> set (decisions db')"
  shows "d \<in> set (decisions db) \<or> dcSubject d = RejectionSubject"
  using assms
  by (auto simp: rejectActionRequest_def Let_def dest!: status_update_decisions writeDecision_adds split: if_splits)

lemma observed_adds:
  assumes "recordObservedReconciliation fresh ws inp db = Inr ((row, changed), db')" and "d \<in> set (decisions db')"
  shows "d \<in> set (decisions db) \<or> dcSubject d \<noteq> ApprovalSubject"
  using assms
  by (auto simp: recordObservedReconciliation_def Let_def dest!: writeDecision_adds split: if_splits)

lemma reconcile_adds:
  assumes "reconcileActionRequest env f1 f2 ws inp db = Inr ((row, changed), db')" and "d \<in> set (decisions db')"
  shows "d \<in> set (decisions db) \<or> dcSubject d \<noteq> ApprovalSubject"
  using assms
  by (auto simp: reconcileActionRequest_def record_reconciliation_def Let_def dest!: writeDecision_adds
      split: if_splits)

lemma step_approvals:
  assumes "perform env ws op db = Inr db'" and "d \<in> set (decisions db')" and "dcSubject d = ApprovalSubject"
  shows "d \<in> set (decisions db)
    \<or> (\<exists>now inp old. op = OpApprove (dcId d) now inp \<and> dcWorkspaceId d = ws
         \<and> dcActionRequestId d = diActionRequestId inp \<and> dcDecidedBy d = Some (diApproverPrincipalId inp)
         \<and> getActionRequest db ws (diActionRequestId inp) = Some old \<and> approval_given env now ws inp old)"
proof (cases op)
  case (OpRequest fresh now inp)
  with assms request_effect show ?thesis by (fastforce simp: map_sum_Inr)
next
  case (OpApprove fresh now inp)
  with assms approve_adds show ?thesis by (fastforce simp: map_sum_Inr)
next
  case (OpReject fresh now inp)
  with assms reject_adds show ?thesis by (fastforce simp: map_sum_Inr)
next
  case (OpExpire i)
  with assms show ?thesis
    by (auto simp: map_sum_Inr expireActionRequest_def dest!: move_request_decisions split: option.splits if_splits)
next
  case (OpStart now i)
  with assms show ?thesis
    by (auto simp: map_sum_Inr startActionRequestExecution_def dest!: move_request_decisions
        split: sum.splits approval_error.splits)
next
  case (OpExecuted now i actor)
  with assms show ?thesis by (auto simp: map_sum_Inr markActionRequestExecuted_def dest!: move_request_decisions)
next
  case (OpFailed now i actor kind)
  with assms show ?thesis by (auto simp: map_sum_Inr markActionRequestFailed_def dest!: move_request_decisions)
next
  case (OpInDoubt i)
  with assms show ?thesis by (auto simp: recordActionRequestInDoubt_def split: option.splits if_splits)
next
  case (OpWithdraw i actor)
  with assms show ?thesis by (auto simp: map_sum_Inr withdrawActionRequest_def dest!: move_request_decisions)
next
  case (OpCompensate i actor)
  with assms show ?thesis by (auto simp: map_sum_Inr compensateActionRequest_def dest!: move_request_decisions)
next
  case (OpReconcile f1 f2 inp)
  with assms reconcile_adds show ?thesis by (fastforce simp: map_sum_Inr)
next
  case (OpObserved fresh inp)
  with assms observed_adds show ?thesis by (fastforce simp: map_sum_Inr)
qed

lemma step_keeps_rows:
  assumes "approval_reachable kinds db" and "kinds_of env = kinds" and "perform env ws op db = Inr db'"
    and "q \<in> set (requests db)"
  shows "\<exists>q'\<in>set (requests db'). same_identity q q'"
  using assms(1-3)
proof (cases rule: reachable_step_cases)
  case (move old row e)
  with moved_identity[OF move(1)] assms(4) show ?thesis by (cases "q = old") (auto simp: same_identity_def)
next
  case (reconcile old row)
  with reconciled_identity[OF reconcile(1)] assms(4) show ?thesis
    by (cases "q = old") (auto simp: same_identity_def)
qed (use assms(4) in \<open>auto simp: same_identity_def\<close>)

definition approval_on_record ::
  "(approval_env \<times> string \<times> approval_op) list \<Rightarrow> approval_db \<Rightarrow> decision_row \<Rightarrow> bool" where
  "approval_on_record hist db d \<longleftrightarrow>
     (\<exists>env now inp. (env, dcWorkspaceId d, OpApprove (dcId d) now inp) \<in> set hist
        \<and> diActionRequestId inp = dcActionRequestId d \<and> dcDecidedBy d = Some (diApproverPrincipalId inp)
        \<and> (\<exists>q\<in>set (requests db). arId q = dcActionRequestId d
             \<and> approval_given env now (dcWorkspaceId d) inp q))"

lemma history_approvals:
  "approval_history kinds hist db \<Longrightarrow> d \<in> set (decisions db) \<Longrightarrow> dcSubject d = ApprovalSubject
   \<Longrightarrow> approval_on_record hist db d"
proof (induction arbitrary: d rule: approval_history.induct)
  case start
  then show ?case by (simp add: empty_db_def)
next
  case (performed hist db env op ws db')
  note rows = step_keeps_rows[OF history_reachable[OF performed.hyps(1)] performed.hyps(2,4)]
  from step_approvals[OF performed.hyps(4) performed.prems] show ?case
  proof
    assume "d \<in> set (decisions db)"
    then have "approval_on_record hist db d" using performed.IH performed.prems(2) by blast
    then obtain e now inp q where e: "(e, dcWorkspaceId d, OpApprove (dcId d) now inp) \<in> set hist"
        "diActionRequestId inp = dcActionRequestId d" "dcDecidedBy d = Some (diApproverPrincipalId inp)"
        "q \<in> set (requests db)" "arId q = dcActionRequestId d" "approval_given e now (dcWorkspaceId d) inp q"
      unfolding approval_on_record_def by blast
    from rows[OF e(4)] obtain q' where "q' \<in> set (requests db')" "same_identity q q'" by blast
    with e given_same_identity[OF e(6)] same_identity_keys show ?thesis
      unfolding approval_on_record_def by fastforce
  next
    assume "\<exists>now inp old. op = OpApprove (dcId d) now inp \<and> dcWorkspaceId d = ws
         \<and> dcActionRequestId d = diActionRequestId inp \<and> dcDecidedBy d = Some (diApproverPrincipalId inp)
         \<and> getActionRequest db ws (diActionRequestId inp) = Some old \<and> approval_given env now ws inp old"
    then obtain now inp old where o: "op = OpApprove (dcId d) now inp" "dcWorkspaceId d = ws"
        "dcActionRequestId d = diActionRequestId inp" "dcDecidedBy d = Some (diApproverPrincipalId inp)"
        "old \<in> set (requests db)" "arId old = diActionRequestId inp" "approval_given env now ws inp old"
      using getActionRequest_Some by blast
    from rows[OF o(5)] obtain q' where "q' \<in> set (requests db')" "same_identity old q'" by blast
    with o given_same_identity[OF o(7)] same_identity_keys show ?thesis
      unfolding approval_on_record_def by fastforce
  qed
qed

end
