(* ===== verification/Approval_Guarantees.thy ===== *)
theory Approval_Guarantees
  imports Approval_Safety
begin

text \<open>
  What the approval service guarantees of every table its operations can build, whatever their
  order, arguments and outcomes: exclusion of executions, consent, idempotency and the handling of
  unknown outcomes.  The theorems rest on the invariants of \<open>Approval_Safety\<close>; the sample run gives
  each one an instance.
\<close>

section \<open>A sample run\<close>

text \<open>
  A run the witnesses below use: two requests on two hosts of one gate, approved by the owner and
  started together; the second fails without a known outcome, and its requester records that it had
  no effect and is to run again.
\<close>

definition sample_env :: approval_env where
  "sample_env =
     \<lparr>envRules = no_policies,
      envPrincipals = (\<lambda>_ p. if p = ''olga'' then Some \<lparr>peKind = Human, peRole = Owner, peEnabled = True\<rparr>
                        else if p = ''ana'' then Some \<lparr>peKind = Human, peRole = Member, peEnabled = True\<rparr>
                        else None),
      envGrants = [], envHolders = (\<lambda>_ _ _. []), envAutoApprovable = (\<lambda>_ _ _. None),
      envSuspectedSecrets = (\<lambda>_. 0), envCredentialText = (\<lambda>_. False), envParamsDigest = (\<lambda>_. ''d'')\<rparr>"

definition sample_action :: "string \<Rightarrow> string option \<Rightarrow> string option \<Rightarrow> request_action_input" where
  "sample_action object key step =
     \<lparr>raGatekeeperId = ''gk'', raActionKind = ''restart'', raResourceScope = None, raBlastRadius = High,
      raOperationAutoApprovable = False, raMcpTrustBlocked = None, raAwaitDecision = True,
      raOnBehalfOf = ''ana'', raActorRuntime = ''chat'', raIdempotencyKey = key,
      raParentWorkerRunId = None, raStepRunId = step, raOperationDigest = None, raParams = None,
      raTarget = Some \<lparr>targetType = ''host'', targetParams = [''name''], targetIdentity = [Inl object]\<rparr>,
      raRequesterScope = \<lparr>capabilities = [], resources = [(''gatekeeper'', [''gk''])]\<rparr>,
      raPrincipalAutoApproveLowEnabled = None\<rparr>"


definition olga_approves :: "string \<Rightarrow> decide_input" where
  "olga_approves i = \<lparr>diActionRequestId = i, diApproverPrincipalId = ''olga'', diApproverRole = Owner,
     diReason = Some ''ok'', diCredentialsReviewed = None\<rparr>"

fun run_ops :: "approval_op list \<Rightarrow> approval_db \<Rightarrow> approval_db" where
  "run_ops [] db = db"
| "run_ops (op # ops) db =
     (case perform sample_env ''ws'' op db of Inr db' \<Rightarrow> run_ops ops db' | Inl _ \<Rightarrow> db)"

fun fresh_op :: "approval_op \<Rightarrow> approval_db \<Rightarrow> bool" where
  "fresh_op (OpRequest fresh now inp) db = list_all (\<lambda>r. arId r \<noteq> fresh) (requests db)"
| "fresh_op op db = True"

fun fresh_run :: "approval_op list \<Rightarrow> approval_db \<Rightarrow> bool" where
  "fresh_run [] db = True"
| "fresh_run (op # ops) db =
     (fresh_op op db
      \<and> (case perform sample_env ''ws'' op db of Inr db' \<Rightarrow> fresh_run ops db' | Inl _ \<Rightarrow> True))"

fun past :: "approval_op list \<Rightarrow> approval_db \<Rightarrow> (approval_env \<times> string \<times> approval_op) list" where
  "past [] db = []"
| "past (op # ops) db =
     (case perform sample_env ''ws'' op db of Inr db' \<Rightarrow> (sample_env, ''ws'', op) # past ops db' | Inl _ \<Rightarrow> [])"

lemma run_ops_history:
  "fresh_run ops db \<Longrightarrow> approval_history (kinds_of sample_env) hist db
   \<Longrightarrow> approval_history (kinds_of sample_env) (hist @ past ops db) (run_ops ops db)"
proof (induction ops db arbitrary: hist rule: run_ops.induct)
  case (2 op ops db)
  show ?case
  proof (cases "perform sample_env ''ws'' op db")
    case (Inr db')
    have "approval_history (kinds_of sample_env) (hist @ [(sample_env, ''ws'', op)]) db'"
      using "2.prems" Inr
      by (intro approval_history.performed[of _ hist db sample_env op "''ws''" db']) (auto simp: list_all_iff)
    with 2 Inr show ?thesis by fastforce
  qed (use 2 in simp)
qed simp

lemma run_ops_reachable:
  "fresh_run ops db \<Longrightarrow> approval_reachable (kinds_of sample_env) db
   \<Longrightarrow> approval_reachable (kinds_of sample_env) (run_ops ops db)"
proof (induction ops db rule: run_ops.induct)
  case (2 op ops db)
  show ?case
  proof (cases "perform sample_env ''ws'' op db")
    case (Inr db')
    have "approval_reachable (kinds_of sample_env) db'"
      using "2.prems" Inr
      by (intro approval_reachable.step[of _ db sample_env op "''ws''" db']) (auto simp: list_all_iff)
    with 2 Inr show ?thesis by simp
  qed (use 2 in simp)
qed simp

definition both_running :: "approval_op list" where
  "both_running =
     [OpRequest ''r1'' 1 (sample_action ''a'' (Some ''k'') None), OpApprove ''d1'' 2 (olga_approves ''r1''),
      OpRequest ''r2'' 3 (sample_action ''b'' None (Some ''s'')), OpApprove ''d2'' 4 (olga_approves ''r2''),
      OpStart 5 ''r1'', OpStart 6 ''r2'']"

definition second_in_doubt :: "approval_op list" where
  "second_in_doubt = both_running @ [OpFailed 7 ''r2'' None OutcomeUnknown]"

definition second_rerun :: "approval_op list" where
  "second_rerun = second_in_doubt @
     [OpReconcile ''d3'' ''d4'' \<lparr>riActionRequestId = ''r2'', riDeciderPrincipalId = ''ana'',
        riVerdict = Some EffectAbsent, riReexecute = True, riNote = None\<rparr>]"

definition running_db :: approval_db where "running_db = run_ops both_running empty_db"
definition doubtful_db :: approval_db where "doubtful_db = run_ops second_in_doubt empty_db"
definition rerun_db :: approval_db where "rerun_db = run_ops second_rerun empty_db"

lemma sample_runs_reachable:
  "approval_reachable (kinds_of sample_env) running_db"
  "approval_reachable (kinds_of sample_env) doubtful_db"
  "approval_reachable (kinds_of sample_env) rerun_db"
proof -
  have "fresh_run both_running empty_db" "fresh_run second_in_doubt empty_db"
    "fresh_run second_rerun empty_db" by code_simp+
  then show "approval_reachable (kinds_of sample_env) running_db"
    "approval_reachable (kinds_of sample_env) doubtful_db"
    "approval_reachable (kinds_of sample_env) rerun_db"
    by (simp_all add: running_db_def doubtful_db_def rerun_db_def run_ops_reachable approval_reachable.init)
qed

definition row_at :: "nat \<Rightarrow> approval_db \<Rightarrow> action_request" where
  "row_at n db = requests db ! n"

lemma row_at_in: "n < length (requests db) \<Longrightarrow> row_at n db \<in> set (requests db)"
  by (simp add: row_at_def)

lemma sample_sizes:
  "length (requests running_db) = 2" "length (requests doubtful_db) = 2" "length (requests rerun_db) = 2"
  by code_simp+

lemma sample_rows [simp]:
  "row_at 0 running_db \<in> set (requests running_db)" "row_at 1 running_db \<in> set (requests running_db)"
  "row_at 1 doubtful_db \<in> set (requests doubtful_db)" "row_at 1 rerun_db \<in> set (requests rerun_db)"
  by (simp_all add: row_at_in sample_sizes)

section \<open>The guarantees\<close>

text \<open>
  C2: whatever the interleaving of requests, decisions, starts and completions, two requests of
  one gate that act on the same instance, or of which one acts on the whole gate, are never
  executing at the same time.
\<close>

theorem executions_exclude_each_other:
  assumes "approval_reachable kinds db" and "r \<in> set (requests db)" and "q \<in> set (requests db)"
    and "arStatus r = AR_executing" and "arStatus q = AR_executing" and "arId r \<noteq> arId q"
    and "arWorkspaceId r = arWorkspaceId q" and "arGatekeeperId r = arGatekeeperId q"
  shows "\<not> actionTargetsConflict (arTarget r) (arTarget q)"
  using reachable_exclusive[OF assms(1-3)] assms(4-8) by (simp add: exclusive_def)

theorem executions_exclude_each_other_witness:
  "arStatus (row_at 0 running_db) = AR_executing \<and> arStatus (row_at 1 running_db) = AR_executing
   \<and> \<not> actionTargetsConflict (arTarget (row_at 0 running_db)) (arTarget (row_at 1 running_db))"
proof -
  have facts: "arStatus (row_at 0 running_db) = AR_executing" "arStatus (row_at 1 running_db) = AR_executing"
    "arId (row_at 0 running_db) \<noteq> arId (row_at 1 running_db)"
    "arWorkspaceId (row_at 0 running_db) = arWorkspaceId (row_at 1 running_db)"
    "arGatekeeperId (row_at 0 running_db) = arGatekeeperId (row_at 1 running_db)"
    by code_simp+
  with executions_exclude_each_other[OF sample_runs_reachable(1) sample_rows(1,2)] show ?thesis by simp
qed

text \<open>
  C3: a request that started executing was allowed by the policy, which never allows a high-impact
  one, or was approved by a decision on record that names it.  That decision was written by an
  approval of this very request among the operations performed, given by the person the decision
  names, who at that time might: the owner, or an operator with a grant in force for what the request
  does; not the requester of a request its requester may not approve; a human being, unless the
  impact is not high and the operation is published as one that needs none; with a reason if the
  impact is high, which the decision records; and with the suspected credentials of its parameters
  reviewed.
\<close>

theorem started_requests_had_consent:
  assumes "approval_history kinds hist db" and "r \<in> set (requests db)" and "execution_started (arStatus r)"
  shows "(arPolicyDecision r = Some Allow \<and> arBlastRadius r \<noteq> High)
         \<or> (arPolicyDecision r = Some RequireApproval
            \<and> (\<exists>d\<in>set (decisions db). \<exists>p. arApprovalDecisionId r = Some (dcId d)
                 \<and> dcActionRequestId d = arId r \<and> dcSubject d = ApprovalSubject \<and> dcDecidedBy d = Some p
                 \<and> (arBlastRadius r = High \<longrightarrow>
                      kinds (arWorkspaceId r) p = Some Human \<and> dcReason d \<noteq> None)
                 \<and> (arRequesterCanApprove r = Some False \<longrightarrow> p \<noteq> arOnBehalfOf r)
                 \<and> (\<exists>env now inp. (env, arWorkspaceId r, OpApprove (dcId d) now inp) \<in> set hist
                      \<and> diActionRequestId inp = arId r \<and> diApproverPrincipalId inp = p
                      \<and> approval_given env now (arWorkspaceId r) inp r)))"
proof -
  note reachable = history_reachable[OF assms(1)]
  have given: "\<exists>env now inp. (env, arWorkspaceId r, OpApprove (dcId d) now inp) \<in> set hist
      \<and> diActionRequestId inp = arId r \<and> diApproverPrincipalId inp = p
      \<and> approval_given env now (arWorkspaceId r) inp r"
    if "d \<in> set (decisions db)" "dcWorkspaceId d = arWorkspaceId r" "dcActionRequestId d = arId r"
      "dcSubject d = ApprovalSubject" "dcDecidedBy d = Some p" for d p
  proof -
    have "q = r" if "q \<in> set (requests db)" "arId q = arId r" for q
      using that assms(2) reachable_distinct[OF reachable] by (metis distinct_map inj_onD)
    with history_approvals[OF assms(1) that(1,4)] that show ?thesis
      unfolding approval_on_record_def by (metis option.inject)
  qed
  from reachable_consent[OF reachable assms(2)] obtain d where d: "arPolicyDecision r = Some d"
      "arBlastRadius r = High \<longrightarrow> d \<noteq> Allow"
      "execution_started (arStatus r) \<longrightarrow> d = Allow \<or> d = RequireApproval \<and> approved_by kinds db r"
    unfolding consent_ok_def by (elim exE conjE) (rule that)
  show ?thesis
  proof (cases "d = Allow")
    case False
    with d(3) assms(3) obtain c p where c: "c \<in> set (decisions db)"
      "arApprovalDecisionId r = Some (dcId c) \<and> dcWorkspaceId c = arWorkspaceId r
        \<and> dcActionRequestId c = arId r \<and> dcSubject c = ApprovalSubject \<and> dcDecidedBy c = Some p
        \<and> (arBlastRadius r = High \<longrightarrow> kinds (arWorkspaceId r) p = Some Human \<and> dcReason c \<noteq> None)
        \<and> (arRequesterCanApprove r = Some False \<longrightarrow> p \<noteq> arOnBehalfOf r)"
      unfolding approved_by_def by blast
    from False d(3) assms(3) have "d = RequireApproval" by blast
    with d(1) c given[OF c(1), of p] show ?thesis by (intro disjI2 conjI bexI[OF _ c(1)] exI[of _ p]) simp_all
  qed (use d(1,2) in simp)
qed

lemma running_history: "approval_history (kinds_of sample_env) (past both_running empty_db) running_db"
proof -
  have "fresh_run both_running empty_db" by code_simp
  from run_ops_history[OF this approval_history.start] show ?thesis by (simp add: running_db_def)
qed

theorem started_requests_had_consent_witness:
  "execution_started (arStatus (row_at 0 running_db)) \<and> (\<exists>d\<in>set (decisions running_db).
     arApprovalDecisionId (row_at 0 running_db) = Some (dcId d) \<and> dcReason d \<noteq> None
     \<and> (\<exists>env now inp. (env, ''ws'', OpApprove (dcId d) now inp) \<in> set (past both_running empty_db)
          \<and> approval_given env now ''ws'' inp (row_at 0 running_db)))"
proof -
  have started: "execution_started (arStatus (row_at 0 running_db))"
    and high: "arBlastRadius (row_at 0 running_db) = High" "arWorkspaceId (row_at 0 running_db) = ''ws''"
    by code_simp+
  from started_requests_had_consent[OF running_history sample_rows(1) started] high started
  show ?thesis by auto
qed

text \<open>
  C14: a finding is recorded only on a request whose outcome was unknown, and a request is marked
  to be run again only after no effect was found.
\<close>

theorem reexecution_needs_absence:
  assumes "approval_reachable kinds db" and "r \<in> set (requests db)"
  shows "(arReconciliation r \<noteq> None \<longrightarrow>
            arStatus r \<in> {AR_failed, AR_compensated} \<and> arFailureKind r = Some OutcomeUnknown)
         \<and> (arReexecuteDecisionId r \<noteq> None \<longrightarrow> arReconciliation r = Some EffectAbsent)"
  using reachable_reconciliation[OF assms] by (simp add: reconciliation_ok_def)

theorem reexecution_needs_absence_witness:
  "arReexecuteDecisionId (row_at 1 rerun_db) = Some ''d4''
   \<and> arReconciliation (row_at 1 rerun_db) = Some EffectAbsent"
proof -
  have "arReexecuteDecisionId (row_at 1 rerun_db) = Some ''d4''" by code_simp
  with reexecution_needs_absence[OF sample_runs_reachable(3) sample_rows(4)] show ?thesis by simp
qed

text \<open>
  C15: outside a goal step, repeating a request under a key its caller gave returns the request that
  key already made, in whatever state it is, and changes nothing - even when the repeat asks for
  something else.  Under a key the code derived it does so while that request is in flight; once the
  request has ended the derived key does not name it any more.
\<close>

theorem repeated_key_returns_first_request:
  assumes "approval_reachable kinds db" and "r \<in> set (requests db)"
    and "arIdempotencyKey r = Some k" and "k \<noteq> []"
    and "raIdempotencyKey inp = Some k" and "given (raStepRunId inp) = None"
    and "\<not> startsWith k ''auto:''
      \<or> arStatus r \<in> {AR_proposed, AR_policy_evaluated, AR_auto_approved, AR_pending_approval, AR_approved, AR_executing}"
  shows "requestAction env fresh now (arWorkspaceId r) inp db = Inr (r, db)"
proof -
  have live: "live_key r k"
    using assms(3,7) by (auto simp: live_key_def DERIVED_IDEMPOTENCY_KEY_PREFIX_def IN_FLIGHT_ACTION_REQUEST_STATUSES_def)
  have only: "y = r" if "y \<in> set (requests db)" "arWorkspaceId y = arWorkspaceId r" "live_key y k" for y
  proof -
    have "same_key y r" using that live by (auto simp: same_key_def)
    then have "arId y = arId r" using reachable_keys[OF assms(1) that(1) assms(2)] by blast
    then show "y = r"
      using reachable_distinct[OF assms(1)] that(1) assms(2) by (auto simp: distinct_map dest: inj_onD)
  qed
  have "findReplayableActionRequest db (arWorkspaceId r) k False = Some r"
  proof (cases "startsWith k DERIVED_IDEMPOTENCY_KEY_PREFIX")
    case True
    with live only assms(2) show ?thesis
      by (auto simp: findReplayableActionRequest_def live_key_def has_key_def intro!: find_unique)
  next
    case False
    with live only assms(2) show ?thesis
      by (auto simp: findReplayableActionRequest_def live_key_def has_key_def intro!: find_unique)
  qed
  then show ?thesis using assms(4-6) by (simp add: requestAction_def given_def)
qed

theorem repeated_key_returns_first_request_witness:
  "requestAction sample_env ''r9'' 9 ''ws'' (sample_action ''c'' (Some ''k'') None) running_db
     = Inr (row_at 0 running_db, running_db)
   \<and> requestAction sample_env ''r9'' 9 ''ws'' (sample_action ''c'' (Some ''auto:step:s:gk:restart:d'') None) running_db
     = Inr (row_at 1 running_db, running_db)"
proof -
  have facts: "arIdempotencyKey (row_at 0 running_db) = Some ''k''" "arWorkspaceId (row_at 0 running_db) = ''ws''"
    "\<not> startsWith ''k'' ''auto:''"
    "arIdempotencyKey (row_at 1 running_db) = Some ''auto:step:s:gk:restart:d''"
    "arWorkspaceId (row_at 1 running_db) = ''ws''" "arStatus (row_at 1 running_db) = AR_executing" by code_simp+
  show ?thesis
    using repeated_key_returns_first_request[OF sample_runs_reachable(1) sample_rows(1) facts(1), of
        "sample_action ''c'' (Some ''k'') None" sample_env "''r9''" 9]
      repeated_key_returns_first_request[OF sample_runs_reachable(1) sample_rows(2) facts(4), of
        "sample_action ''c'' (Some ''auto:step:s:gk:restart:d'') None" sample_env "''r9''" 9]
    by (simp add: facts sample_action_def given_def del: One_nat_def)
qed

text \<open>
  C13: while a goal step has a request of an operation whose outcome is unknown and not yet
  reconciled, no request of that operation in that step creates anything: it is a replay of an
  earlier request, or an error.
\<close>

theorem doubt_blocks_new_requests:
  assumes "q \<in> set (requests db)" and "in_doubt ws step inp q" and "raStepRunId inp = Some step"
    and "step \<noteq> []" and "requestAction env fresh now ws inp db = Inr (row, db')"
  shows "db' = db \<and> row \<in> set (requests db)"
proof -
  let ?key = "stepIdempotencyKey env step inp"
  let ?inp = "inp\<lparr>raIdempotencyKey := Some ?key\<rparr>"
  have key: "given (Some ?key) = Some ?key" "given (raStepRunId inp) = Some step"
    using assms(3,4) by (simp_all add: given_def stepIdempotencyKey_def STEP_IDEMPOTENCY_KEY_PREFIX_def
        DERIVED_IDEMPOTENCY_KEY_PREFIX_def)
  have "in_doubt ws step ?inp q" using assms(2) by (simp add: in_doubt_def)
  with assms(1) have "q \<in> set (sort_key order_key (filter (in_doubt ws step ?inp) (requests db)))"
    by simp
  then have doubt: "\<exists>e. assertNoActionInDoubt db ws step ?inp = Inl e"
    by (cases "sort_key order_key (filter (in_doubt ws step ?inp) (requests db))")
      (simp_all only: assertNoActionInDoubt_def list.case list.set empty_iff, blast)
  have "requestAction env fresh now ws inp db =
      (case findStepReplay db ws step ?key of
         Some replay \<Rightarrow> Inr (replay, db)
       | None \<Rightarrow> bind_result (assertNoActionInDoubt db ws step ?inp)
                   (\<lambda>_. submit_request env fresh now ws ?inp db))"
    using assms(3) key by (simp add: requestAction_def Let_def)
  with assms(5) doubt have replay: "findStepReplay db ws step ?key = Some row" and "db' = db"
    by (auto split: option.splits)
  moreover have "row \<in> set (requests db)"
  proof -
    have "newest rows = Some x \<Longrightarrow> x \<in> set rows" for rows x
      unfolding newest_def by (metis (no_types, lifting) list.case_eq_if list.set_sel(1) option.distinct(1)
          option.inject set_rev set_sort)
    with replay show ?thesis by (fastforce simp: findStepReplay_def split: option.splits if_splits)
  qed
  ultimately show ?thesis by simp
qed

theorem doubt_blocks_new_requests_witness:
  "case requestAction sample_env ''r9'' 9 ''ws'' (sample_action ''b'' None (Some ''s'')) doubtful_db of
     Inr (row, db') \<Rightarrow> db' = doubtful_db \<and> row \<in> set (requests doubtful_db) | Inl _ \<Rightarrow> False"
proof -
  let ?inp = "sample_action ''b'' None (Some ''s'')"
  have doubt: "in_doubt ''ws'' ''s'' ?inp (row_at 1 doubtful_db)" by code_simp
  have step: "raStepRunId ?inp = Some ''s''" by (simp add: sample_action_def)
  have "\<not> isl (requestAction sample_env ''r9'' 9 ''ws'' ?inp doubtful_db)" by code_simp
  then obtain row db' where r: "requestAction sample_env ''r9'' 9 ''ws'' ?inp doubtful_db = Inr (row, db')"
    by (metis isl_def sum.exhaust surj_pair)
  from doubt_blocks_new_requests[OF sample_rows(3) doubt step _ r] r show ?thesis by simp
qed

end
