(* ===== verification/Capability_Registry.thy ===== *)
theory Capability_Registry
  imports Call_Authorization
begin

text \<open>
  The capability registry of \<open>packages/shared/src/capabilities.ts\<close>: its entries, group by group in
  the order of the file, with every field the authorization rules read (name, group, mode, channel,
  scope, minimum role, side effects, person and admin-agent flags), and its consistency check.  An
  entry's parameter and result schemas, its description and its audit masks are not carried.
\<close>

section \<open>The entries\<close>

definition cap_entry ::
  "string \<Rightarrow> capability_group \<Rightarrow> capability_mode \<Rightarrow> capability_channel \<Rightarrow> capability" where
  "cap_entry n g m ch =
     \<lparr>capName = n, capGroup = g, capMode = m, capSideEffects = None, capChannel = ch,
      capScopeKind = None, capMinRole = None, capActsForPerson = False, capAdminAgentOnly = False\<rparr>"

definition chatCapabilities :: "capability list" where
  "chatCapabilities =
     [(cap_entry ''list_chats'' Grp_chat ModeObserve HumanChannel)\<lparr>capMinRole := Some Member\<rparr>,
      (cap_entry ''new_chat'' Grp_chat ModeExecute HumanChannel)\<lparr>capMinRole := Some Member\<rparr>,
      (cap_entry ''send_chat_message'' Grp_chat ModeExecute HumanChannel)\<lparr>capMinRole := Some Member\<rparr>,
      (cap_entry ''stop_agent'' Grp_chat ModeExecute HumanChannel)\<lparr>capMinRole := Some Member\<rparr>,
      (cap_entry ''get_chat_history'' Grp_chat ModeObserve HumanChannel)\<lparr>capMinRole := Some Member\<rparr>,
      (cap_entry ''subscribe_chat'' Grp_chat ModeObserve HumanChannel)\<lparr>capMinRole := Some Member\<rparr>,
      (cap_entry ''archive_chat'' Grp_chat ModeWrite HumanChannel)\<lparr>capMinRole := Some Member\<rparr>,
      (cap_entry ''unarchive_chat'' Grp_chat ModeWrite HumanChannel)\<lparr>capMinRole := Some Member\<rparr>,
      (cap_entry ''rename_chat'' Grp_chat ModeWrite HumanChannel)\<lparr>capMinRole := Some Member\<rparr>,
      (cap_entry ''list_chat_turns'' Grp_chat ModeObserve HumanChannel)\<lparr>capMinRole := Some Member\<rparr>,
      (cap_entry ''mark_turn_outcome'' Grp_chat ModeWrite HumanChannel)\<lparr>capMinRole := Some Member\<rparr>]"

definition ontologyCapabilities :: "capability list" where
  "ontologyCapabilities =
     [(cap_entry ''publish_ontology_version'' Grp_ontology ModeExecute HumanChannel)\<lparr>capMinRole := Some Builder\<rparr>,
      (cap_entry ''propose_ontology_change'' Grp_ontology ModePropose HandleChannel)\<lparr>capMinRole := Some Builder\<rparr>,
      cap_entry ''get_type'' Grp_ontology ModeObserve HandleChannel,
      cap_entry ''list_types'' Grp_ontology ModeObserve HandleChannel,
      cap_entry ''validate'' Grp_ontology ModeObserve HandleChannel,
      (cap_entry ''list_ontology_versions'' Grp_ontology ModeObserve HandleChannel)\<lparr>capMinRole := Some Member\<rparr>]"

definition graphCapabilities :: "capability list" where
  "graphCapabilities =
     [(cap_entry ''get_object'' Grp_graph ModeObserve HandleChannel)\<lparr>capMinRole := Some Member\<rparr>,
      (cap_entry ''traverse'' Grp_graph ModeObserve HandleChannel)\<lparr>capMinRole := Some Member\<rparr>,
      (cap_entry ''search'' Grp_graph ModeObserve HandleChannel)\<lparr>capMinRole := Some Member\<rparr>,
      (cap_entry ''list_facts'' Grp_graph ModeObserve HandleChannel)\<lparr>capMinRole := Some Member\<rparr>,
      (cap_entry ''state_at'' Grp_graph ModeObserve HandleChannel)\<lparr>capMinRole := Some Member\<rparr>,
      (cap_entry ''graph_freshness'' Grp_graph ModeObserve HandleChannel)\<lparr>capMinRole := Some Member\<rparr>,
      (cap_entry ''graph_overview'' Grp_graph ModeObserve HandleChannel)\<lparr>capMinRole := Some Member\<rparr>,
      (cap_entry ''find_operations'' Grp_graph ModeObserve HandleChannel)\<lparr>capMinRole := Some Member\<rparr>,
      (cap_entry ''find_workers'' Grp_graph ModeObserve HandleChannel)\<lparr>capMinRole := Some Member\<rparr>,
      (cap_entry ''find_procedures'' Grp_graph ModeObserve HandleChannel)\<lparr>capMinRole := Some Member\<rparr>]"

definition gateCapabilities :: "capability list" where
  "gateCapabilities =
     [(cap_entry ''observe_operation'' Grp_gate ModeObserve HandleChannel)\<lparr>capMinRole := Some Member, capSideEffects := Some True\<rparr>,
      (cap_entry ''<gate>.<op>'' Grp_gate ModeObserve HandleChannel)\<lparr>capMinRole := Some Member, capSideEffects := Some True\<rparr>,
      cap_entry ''<gate>.<op>:execute'' Grp_gate ModeExecute HandleChannel]"

definition connectionCapabilities :: "capability list" where
  "connectionCapabilities =
     [(cap_entry ''request_connection'' Grp_connection ModePropose HandleChannel)\<lparr>capMinRole := Some Member\<rparr>,
      (cap_entry ''create_connection'' Grp_connection ModeExecute HumanChannel)\<lparr>capMinRole := Some Owner\<rparr>,
      (cap_entry ''mint_connection_secret'' Grp_connection ModeWrite HumanChannel)\<lparr>capMinRole := Some Owner\<rparr>,
      (cap_entry ''rotate_connection_secret'' Grp_connection ModeWrite HumanChannel)\<lparr>capMinRole := Some Owner\<rparr>,
      (cap_entry ''publish_manifest'' Grp_connection ModeExecute HumanChannel)\<lparr>capMinRole := Some Owner\<rparr>,
      (cap_entry ''connect_gatekeeper'' Grp_connection ModeExecute HumanChannel)\<lparr>capMinRole := Some Owner\<rparr>,
      (cap_entry ''list_connection_requests'' Grp_connection ModeObserve HumanChannel)\<lparr>capMinRole := Some Owner\<rparr>,
      (cap_entry ''cancel_connection_request'' Grp_connection ModeWrite HumanChannel)\<lparr>capMinRole := Some Member\<rparr>,
      (cap_entry ''list_gatekeepers'' Grp_connection ModeObserve HumanChannel)\<lparr>capMinRole := Some Member\<rparr>,
      (cap_entry ''issue_service_handle'' Grp_connection ModeWrite HumanChannel)\<lparr>capMinRole := Some Owner\<rparr>,
      (cap_entry ''list_available_gate_instances'' Grp_connection ModeObserve HumanChannel)\<lparr>capMinRole := Some Member\<rparr>,
      (cap_entry ''enable_gate_instance'' Grp_connection ModeWrite HumanChannel)\<lparr>capMinRole := Some Owner\<rparr>,
      (cap_entry ''preview_gate_instance_enable'' Grp_connection ModeObserve HumanChannel)\<lparr>capMinRole := Some Owner\<rparr>,
      (cap_entry ''refresh_operation_governance'' Grp_connection ModeWrite HumanChannel)\<lparr>capMinRole := Some Owner\<rparr>,
      (cap_entry ''preview_gatekeeper_resync'' Grp_connection ModeObserve HumanChannel)\<lparr>capMinRole := Some Owner\<rparr>,
      (cap_entry ''issue_gate_credential_token'' Grp_connection ModeWrite HumanChannel)\<lparr>capMinRole := Some Member\<rparr>,
      (cap_entry ''get_gatekeeper'' Grp_connection ModeObserve HumanChannel)\<lparr>capMinRole := Some Member\<rparr>,
      (cap_entry ''list_operations'' Grp_connection ModeObserve HumanChannel)\<lparr>capMinRole := Some Member\<rparr>,
      (cap_entry ''get_operation_stats'' Grp_connection ModeObserve HumanChannel)\<lparr>capMinRole := Some Member\<rparr>]"

definition metaCapabilities :: "capability list" where
  "metaCapabilities =
     [(cap_entry ''propose_operation'' Grp_meta ModePropose HandleChannel)\<lparr>capMinRole := Some Builder\<rparr>,
      (cap_entry ''publish_operation'' Grp_meta ModeExecute HumanChannel)\<lparr>capMinRole := Some Builder\<rparr>,
      (cap_entry ''deprecate_operation'' Grp_meta ModeExecute HumanChannel)\<lparr>capMinRole := Some Builder\<rparr>,
      (cap_entry ''discard_operation_draft'' Grp_meta ModeExecute HumanChannel)\<lparr>capMinRole := Some Builder\<rparr>,
      (cap_entry ''update_operation_description'' Grp_meta ModeWrite HumanChannel)\<lparr>capMinRole := Some Builder\<rparr>,
      (cap_entry ''propose_skill'' Grp_meta ModePropose HandleChannel)\<lparr>capMinRole := Some Builder\<rparr>,
      (cap_entry ''propose_procedure'' Grp_meta ModePropose HandleChannel)\<lparr>capMinRole := Some Builder\<rparr>,
      (cap_entry ''publish_skill'' Grp_meta ModeExecute HumanChannel)\<lparr>capMinRole := Some Builder\<rparr>,
      (cap_entry ''publish_procedure'' Grp_meta ModeExecute HumanChannel)\<lparr>capMinRole := Some Builder\<rparr>,
      (cap_entry ''deprecate_skill'' Grp_meta ModeExecute HumanChannel)\<lparr>capMinRole := Some Builder\<rparr>,
      (cap_entry ''deprecate_procedure'' Grp_meta ModeExecute HumanChannel)\<lparr>capMinRole := Some Builder\<rparr>,
      (cap_entry ''list_skills'' Grp_meta ModeObserve HandleChannel)\<lparr>capMinRole := Some Member\<rparr>,
      (cap_entry ''get_skill'' Grp_meta ModeObserve HandleChannel)\<lparr>capMinRole := Some Member\<rparr>,
      (cap_entry ''get_skill_stats'' Grp_meta ModeObserve HumanChannel)\<lparr>capMinRole := Some Builder\<rparr>,
      (cap_entry ''get_skill_draft_verdicts'' Grp_meta ModeObserve HandleChannel)\<lparr>capMinRole := Some Member\<rparr>,
      (cap_entry ''list_procedures'' Grp_meta ModeObserve HandleChannel)\<lparr>capMinRole := Some Member\<rparr>,
      (cap_entry ''get_procedure_stats'' Grp_meta ModeObserve HumanChannel)\<lparr>capMinRole := Some Builder\<rparr>,
      (cap_entry ''assert_fact'' Grp_meta ModeWrite HandleChannel)\<lparr>capMinRole := Some Member\<rparr>,
      (cap_entry ''supersede_fact'' Grp_meta ModeWrite HandleChannel)\<lparr>capMinRole := Some Member\<rparr>,
      (cap_entry ''invalidate_fact'' Grp_meta ModeWrite HandleChannel)\<lparr>capMinRole := Some Member\<rparr>]"

definition epistemicCapabilities :: "capability list" where
  "epistemicCapabilities =
     [(cap_entry ''explain'' Grp_epistemic ModeObserve HandleChannel)\<lparr>capMinRole := Some Member\<rparr>,
      (cap_entry ''record_decision'' Grp_epistemic ModeWrite HandleChannel)\<lparr>capMinRole := Some Member\<rparr>,
      (cap_entry ''query_decisions'' Grp_epistemic ModeObserve HandleChannel)\<lparr>capMinRole := Some Member\<rparr>,
      (cap_entry ''find_precedents'' Grp_epistemic ModeObserve HandleChannel)\<lparr>capMinRole := Some Member\<rparr>,
      (cap_entry ''causal_chain'' Grp_epistemic ModeObserve HandleChannel)\<lparr>capMinRole := Some Member\<rparr>,
      (cap_entry ''decision_impact'' Grp_epistemic ModeObserve HandleChannel)\<lparr>capMinRole := Some Member\<rparr>,
      (cap_entry ''list_conflicts'' Grp_epistemic ModeObserve HandleChannel)\<lparr>capMinRole := Some Member\<rparr>,
      (cap_entry ''resolve_conflict'' Grp_epistemic ModeWrite HumanChannel)\<lparr>capMinRole := Some Member\<rparr>,
      (cap_entry ''verify_fact'' Grp_epistemic ModeWrite HumanChannel)\<lparr>capMinRole := Some Member\<rparr>,
      (cap_entry ''attest_fact'' Grp_epistemic ModeWrite HumanChannel)\<lparr>capMinRole := Some Member\<rparr>]"

definition governanceCapabilities :: "capability list" where
  "governanceCapabilities =
     [(cap_entry ''request_action'' Grp_governance ModeExecute HandleChannel)\<lparr>capMinRole := Some Member\<rparr>,
      (cap_entry ''approve'' Grp_governance ModeExecute HumanChannel)\<lparr>capMinRole := Some Operator\<rparr>,
      (cap_entry ''reject'' Grp_governance ModeExecute HumanChannel)\<lparr>capMinRole := Some Operator\<rparr>,
      (cap_entry ''list_pending'' Grp_governance ModeObserve HumanChannel)\<lparr>capMinRole := Some Operator\<rparr>,
      (cap_entry ''get_action'' Grp_governance ModeObserve HumanChannel)\<lparr>capMinRole := Some Operator\<rparr>,
      (cap_entry ''list_action_requests'' Grp_governance ModeObserve HumanChannel)\<lparr>capMinRole := Some Operator\<rparr>,
      (cap_entry ''set_auto_approved_action_kind'' Grp_governance ModeExecute HumanChannel)\<lparr>capMinRole := Some Operator\<rparr>,
      (cap_entry ''grant_capability'' Grp_governance ModeExecute HumanChannel)\<lparr>capMinRole := Some Owner\<rparr>,
      (cap_entry ''revoke_capability'' Grp_governance ModeExecute HumanChannel)\<lparr>capMinRole := Some Owner\<rparr>,
      (cap_entry ''set_policy'' Grp_governance ModeExecute HumanChannel)\<lparr>capMinRole := Some Owner\<rparr>,
      (cap_entry ''set_quota'' Grp_governance ModeExecute HumanChannel)\<lparr>capMinRole := Some Owner\<rparr>,
      (cap_entry ''issue_handle'' Grp_governance ModeExecute HumanChannel)\<lparr>capMinRole := Some Owner\<rparr>,
      (cap_entry ''list_grants'' Grp_governance ModeObserve HumanChannel)\<lparr>capMinRole := Some Operator\<rparr>,
      (cap_entry ''list_policies'' Grp_governance ModeObserve HumanChannel)\<lparr>capMinRole := Some Operator\<rparr>,
      (cap_entry ''list_quotas'' Grp_governance ModeObserve HumanChannel)\<lparr>capMinRole := Some Operator\<rparr>,
      (cap_entry ''list_capability_names'' Grp_governance ModeObserve HumanChannel)\<lparr>capMinRole := Some Member\<rparr>,
      (cap_entry ''execution_readiness'' Grp_governance ModeObserve HumanChannel)\<lparr>capMinRole := Some Member\<rparr>]"

definition taskCapabilities :: "capability list" where
  "taskCapabilities =
     [(cap_entry ''get_entry_context'' Grp_task ModeObserve HandleChannel)\<lparr>capMinRole := Some Member, capSideEffects := Some True\<rparr>,
      (cap_entry ''report_turn'' Grp_task ModeWrite HandleChannel)\<lparr>capMinRole := Some Member\<rparr>,
      (cap_entry ''record_procedure_followed'' Grp_task ModeWrite HandleChannel)\<lparr>capMinRole := Some Member\<rparr>,
      (cap_entry ''report_task_outcome'' Grp_task ModeWrite HandleChannel)\<lparr>capMinRole := Some Member\<rparr>,
      (cap_entry ''invoke_worker'' Grp_task ModeWrite HandleChannel)\<lparr>capMinRole := Some Member\<rparr>,
      (cap_entry ''get_task'' Grp_task ModeObserve HandleChannel)\<lparr>capMinRole := Some Member\<rparr>,
      cap_entry ''list_allowed_operations'' Grp_task ModeObserve HandleChannel,
      cap_entry ''report_task_result'' Grp_task ModeWrite HandleChannel,
      (cap_entry ''list_tasks'' Grp_task ModeObserve HumanChannel)\<lparr>capMinRole := Some Member\<rparr>,
      (cap_entry ''cancel_task'' Grp_task ModeWrite HandleChannel)\<lparr>capMinRole := Some Member\<rparr>]"

definition workerCapabilities :: "capability list" where
  "workerCapabilities =
     [(cap_entry ''propose_worker_definition'' Grp_worker ModePropose HandleChannel)\<lparr>capMinRole := Some Builder\<rparr>,
      (cap_entry ''get_entry_template_status'' Grp_worker ModeObserve HumanChannel)\<lparr>capMinRole := Some Builder\<rparr>,
      (cap_entry ''propose_entry_template_upgrade'' Grp_worker ModePropose HumanChannel)\<lparr>capMinRole := Some Builder\<rparr>,
      (cap_entry ''publish_worker_definition'' Grp_worker ModeExecute HumanChannel)\<lparr>capMinRole := Some Builder\<rparr>,
      (cap_entry ''deprecate_worker_definition'' Grp_worker ModeExecute HumanChannel)\<lparr>capMinRole := Some Builder\<rparr>,
      cap_entry ''discard_draft'' Grp_worker ModeExecute HumanChannel,
      (cap_entry ''reject_draft'' Grp_worker ModeExecute HumanChannel)\<lparr>capMinRole := Some Builder\<rparr>,
      (cap_entry ''list_draft_rejections'' Grp_worker ModeObserve HumanChannel)\<lparr>capMinRole := Some Member\<rparr>,
      (cap_entry ''list_worker_definitions'' Grp_worker ModeObserve HandleChannel)\<lparr>capMinRole := Some Member\<rparr>,
      (cap_entry ''get_worker_definition'' Grp_worker ModeObserve HumanChannel)\<lparr>capMinRole := Some Member\<rparr>]"

definition ingestCapabilities :: "capability list" where
  "ingestCapabilities =
     [cap_entry ''register_source'' Grp_ingest ModeWrite HandleChannel,
      cap_entry ''submit_observations'' Grp_ingest ModeWrite HandleChannel]"

definition auditCapabilities :: "capability list" where
  "auditCapabilities =
     [(cap_entry ''audit_query'' Grp_audit ModeObserve HumanChannel)\<lparr>capMinRole := Some Auditor\<rparr>,
      (cap_entry ''reconstruct'' Grp_audit ModeObserve HumanChannel)\<lparr>capMinRole := Some Auditor\<rparr>,
      (cap_entry ''export_prov'' Grp_audit ModeObserve HumanChannel)\<lparr>capMinRole := Some Auditor\<rparr>]"

definition membersCapabilities :: "capability list" where
  "membersCapabilities =
     [(cap_entry ''list_principals'' Grp_members ModeObserve HumanChannel)\<lparr>capMinRole := Some Operator\<rparr>,
      (cap_entry ''create_principal'' Grp_members ModeWrite HumanChannel)\<lparr>capMinRole := Some Owner\<rparr>,
      (cap_entry ''add_member'' Grp_members ModeWrite HumanChannel)\<lparr>capMinRole := Some Owner\<rparr>,
      (cap_entry ''set_principal_role'' Grp_members ModeWrite HumanChannel)\<lparr>capMinRole := Some Owner\<rparr>,
      (cap_entry ''rotate_api_key'' Grp_members ModeWrite HumanChannel)\<lparr>capMinRole := Some Member\<rparr>,
      (cap_entry ''disable_principal'' Grp_members ModeWrite HumanChannel)\<lparr>capMinRole := Some Owner\<rparr>,
      (cap_entry ''get_workspace'' Grp_members ModeObserve HumanChannel)\<lparr>capMinRole := Some Member\<rparr>,
      (cap_entry ''resolve_refs'' Grp_members ModeObserve HumanChannel)\<lparr>capMinRole := Some Member\<rparr>,
      (cap_entry ''list_models'' Grp_members ModeObserve HumanChannel)\<lparr>capMinRole := Some Member\<rparr>]"

definition agentProfileCapabilities :: "capability list" where
  "agentProfileCapabilities =
     [(cap_entry ''get_agent_profile'' Grp_agent_profile ModeObserve HumanChannel)\<lparr>capMinRole := Some Member\<rparr>,
      (cap_entry ''set_agent_profile'' Grp_agent_profile ModeWrite HumanChannel)\<lparr>capMinRole := Some Member\<rparr>,
      (cap_entry ''get_agent_policy'' Grp_agent_profile ModeObserve HumanChannel)\<lparr>capMinRole := Some Member\<rparr>,
      (cap_entry ''set_agent_policy'' Grp_agent_profile ModeWrite HumanChannel)\<lparr>capMinRole := Some Owner\<rparr>]"

definition platformCapabilities :: "capability list" where
  "platformCapabilities =
     [(cap_entry ''platform_overview'' Grp_platform ModeObserve HumanChannel)\<lparr>capScopeKind := Some PlatformKind\<rparr>,
      (cap_entry ''list_users'' Grp_platform ModeObserve HumanChannel)\<lparr>capScopeKind := Some PlatformKind\<rparr>,
      (cap_entry ''create_user'' Grp_platform ModeWrite HumanChannel)\<lparr>capScopeKind := Some PlatformKind\<rparr>,
      (cap_entry ''update_user'' Grp_platform ModeWrite HumanChannel)\<lparr>capScopeKind := Some PlatformKind\<rparr>,
      (cap_entry ''set_user_status'' Grp_platform ModeWrite HumanChannel)\<lparr>capScopeKind := Some PlatformKind\<rparr>,
      (cap_entry ''reset_user_password'' Grp_platform ModeWrite HumanChannel)\<lparr>capScopeKind := Some PlatformKind\<rparr>,
      (cap_entry ''list_user_memberships'' Grp_platform ModeObserve HumanChannel)\<lparr>capScopeKind := Some PlatformKind\<rparr>,
      (cap_entry ''add_membership'' Grp_platform ModeWrite HumanChannel)\<lparr>capScopeKind := Some PlatformKind\<rparr>,
      (cap_entry ''set_membership_role'' Grp_platform ModeWrite HumanChannel)\<lparr>capScopeKind := Some PlatformKind\<rparr>,
      (cap_entry ''remove_membership'' Grp_platform ModeWrite HumanChannel)\<lparr>capScopeKind := Some PlatformKind\<rparr>,
      (cap_entry ''merge_user'' Grp_platform ModeWrite HumanChannel)\<lparr>capScopeKind := Some PlatformKind\<rparr>,
      (cap_entry ''set_user_budget'' Grp_platform ModeWrite HumanChannel)\<lparr>capScopeKind := Some PlatformKind\<rparr>,
      (cap_entry ''get_platform_settings'' Grp_platform ModeObserve HumanChannel)\<lparr>capScopeKind := Some PlatformKind\<rparr>,
      (cap_entry ''update_platform_settings'' Grp_platform ModeWrite HumanChannel)\<lparr>capScopeKind := Some PlatformKind\<rparr>,
      (cap_entry ''set_platform_default_model'' Grp_platform ModeWrite HumanChannel)\<lparr>capScopeKind := Some PlatformKind\<rparr>,
      (cap_entry ''platform_audit_query'' Grp_platform ModeObserve HumanChannel)\<lparr>capScopeKind := Some PlatformKind\<rparr>,
      (cap_entry ''list_workspaces'' Grp_platform ModeObserve HumanChannel)\<lparr>capScopeKind := Some PlatformKind\<rparr>,
      (cap_entry ''list_platform_models'' Grp_platform ModeObserve HumanChannel)\<lparr>capScopeKind := Some PlatformKind\<rparr>,
      (cap_entry ''create_workspace'' Grp_platform ModeWrite HumanChannel)\<lparr>capScopeKind := Some PlatformKind\<rparr>,
      (cap_entry ''update_workspace'' Grp_platform ModeWrite HumanChannel)\<lparr>capScopeKind := Some PlatformKind\<rparr>,
      (cap_entry ''set_workspace_status'' Grp_platform ModeWrite HumanChannel)\<lparr>capScopeKind := Some PlatformKind\<rparr>,
      (cap_entry ''set_allowed_models'' Grp_platform ModeWrite HumanChannel)\<lparr>capScopeKind := Some PlatformKind\<rparr>,
      (cap_entry ''purge_workspace'' Grp_platform ModeWrite HumanChannel)\<lparr>capScopeKind := Some PlatformKind\<rparr>,
      (cap_entry ''purge_user'' Grp_platform ModeWrite HumanChannel)\<lparr>capScopeKind := Some PlatformKind\<rparr>,
      (cap_entry ''list_connectors'' Grp_platform ModeObserve HumanChannel)\<lparr>capScopeKind := Some PlatformKind\<rparr>,
      (cap_entry ''set_connector_mode'' Grp_platform ModeWrite HumanChannel)\<lparr>capScopeKind := Some PlatformKind\<rparr>,
      (cap_entry ''list_gate_instances'' Grp_platform ModeObserve HumanChannel)\<lparr>capScopeKind := Some PlatformKind\<rparr>,
      (cap_entry ''get_gate_instance'' Grp_platform ModeObserve HumanChannel)\<lparr>capScopeKind := Some PlatformKind\<rparr>,
      (cap_entry ''update_gate_instance'' Grp_platform ModeWrite HumanChannel)\<lparr>capScopeKind := Some PlatformKind\<rparr>,
      (cap_entry ''confirm_gate_manifest'' Grp_platform ModeWrite HumanChannel)\<lparr>capScopeKind := Some PlatformKind\<rparr>,
      (cap_entry ''list_connector_presets'' Grp_platform ModeObserve HumanChannel)\<lparr>capScopeKind := Some PlatformKind\<rparr>,
      (cap_entry ''create_gate_instance'' Grp_platform ModeWrite HumanChannel)\<lparr>capScopeKind := Some PlatformKind\<rparr>,
      (cap_entry ''delete_gate_instance'' Grp_platform ModeWrite HumanChannel)\<lparr>capScopeKind := Some PlatformKind\<rparr>,
      (cap_entry ''issue_gate_host_token'' Grp_platform ModeWrite HumanChannel)\<lparr>capScopeKind := Some PlatformKind\<rparr>,
      (cap_entry ''test_gate_instance'' Grp_platform ModeObserve HumanChannel)\<lparr>capScopeKind := Some PlatformKind, capSideEffects := Some True\<rparr>,
      (cap_entry ''list_external_runtimes'' Grp_platform ModeObserve HumanChannel)\<lparr>capScopeKind := Some PlatformKind\<rparr>,
      (cap_entry ''revoke_external_runtime'' Grp_platform ModeWrite HumanChannel)\<lparr>capScopeKind := Some PlatformKind\<rparr>,
      (cap_entry ''list_self_connections'' Grp_platform ModeObserve HumanChannel)\<lparr>capScopeKind := Some PlatformKind\<rparr>,
      (cap_entry ''suspend_self_connection'' Grp_platform ModeWrite HumanChannel)\<lparr>capScopeKind := Some PlatformKind\<rparr>,
      (cap_entry ''resume_self_connection'' Grp_platform ModeWrite HumanChannel)\<lparr>capScopeKind := Some PlatformKind\<rparr>,
      (cap_entry ''issue_llm_admin_token'' Grp_platform ModeWrite HumanChannel)\<lparr>capScopeKind := Some PlatformKind\<rparr>,
      (cap_entry ''platform_draft_residue'' Grp_platform ModeObserve HumanChannel)\<lparr>capScopeKind := Some PlatformKind\<rparr>,
      (cap_entry ''runtime_inventory'' Grp_platform ModeObserve HumanChannel)\<lparr>capScopeKind := Some PlatformKind\<rparr>,
      (cap_entry ''list_runtime_images'' Grp_platform ModeObserve HumanChannel)\<lparr>capScopeKind := Some PlatformKind\<rparr>,
      (cap_entry ''set_active_runtime_image'' Grp_platform ModeWrite HumanChannel)\<lparr>capScopeKind := Some PlatformKind\<rparr>,
      (cap_entry ''rollback_runtime_image'' Grp_platform ModeWrite HumanChannel)\<lparr>capScopeKind := Some PlatformKind\<rparr>,
      (cap_entry ''roll_entry_containers'' Grp_platform ModeWrite HumanChannel)\<lparr>capScopeKind := Some PlatformKind\<rparr>,
      (cap_entry ''pi_drift'' Grp_platform ModeObserve HumanChannel)\<lparr>capScopeKind := Some PlatformKind\<rparr>,
      (cap_entry ''platform_updates'' Grp_platform ModeObserve HumanChannel)\<lparr>capScopeKind := Some PlatformKind\<rparr>,
      (cap_entry ''platform_status'' Grp_platform ModeObserve HumanChannel)\<lparr>capScopeKind := Some PlatformKind\<rparr>,
      (cap_entry ''list_modules'' Grp_platform ModeObserve HumanChannel)\<lparr>capScopeKind := Some PlatformKind\<rparr>,
      (cap_entry ''set_default_modules'' Grp_platform ModeWrite HumanChannel)\<lparr>capScopeKind := Some PlatformKind\<rparr>,
      (cap_entry ''extra_packs_status'' Grp_platform ModeObserve HumanChannel)\<lparr>capScopeKind := Some PlatformKind\<rparr>,
      (cap_entry ''export_admin_proposal_pack'' Grp_platform ModeObserve HumanChannel)\<lparr>capScopeKind := Some PlatformKind\<rparr>,
      (cap_entry ''list_admin_proposals'' Grp_platform ModeObserve HumanChannel)\<lparr>capScopeKind := Some PlatformKind\<rparr>,
      (cap_entry ''get_admin_proposal'' Grp_platform ModeObserve HumanChannel)\<lparr>capScopeKind := Some PlatformKind\<rparr>,
      (cap_entry ''withdraw_admin_proposal'' Grp_platform ModeWrite HumanChannel)\<lparr>capScopeKind := Some PlatformKind\<rparr>,
      (cap_entry ''get_admin_agent_status'' Grp_platform ModeObserve HumanChannel)\<lparr>capScopeKind := Some PlatformKind\<rparr>,
      (cap_entry ''set_admin_agent_targets'' Grp_platform ModeWrite HumanChannel)\<lparr>capScopeKind := Some PlatformKind\<rparr>,
      (cap_entry ''stop_admin_agent'' Grp_platform ModeWrite HumanChannel)\<lparr>capScopeKind := Some PlatformKind\<rparr>,
      (cap_entry ''preview_platform_segment'' Grp_platform ModeObserve HumanChannel)\<lparr>capScopeKind := Some PlatformKind\<rparr>,
      (cap_entry ''apply_platform_segment'' Grp_platform ModeWrite HumanChannel)\<lparr>capScopeKind := Some PlatformKind\<rparr>,
      (cap_entry ''reject_platform_segment'' Grp_platform ModeWrite HumanChannel)\<lparr>capScopeKind := Some PlatformKind\<rparr>,
      (cap_entry ''list_platform_change_segments'' Grp_platform ModeObserve HumanChannel)\<lparr>capScopeKind := Some PlatformKind\<rparr>,
      (cap_entry ''get_platform_change_segment'' Grp_platform ModeObserve HumanChannel)\<lparr>capScopeKind := Some PlatformKind\<rparr>,
      (cap_entry ''preview_roll_back_platform_change_segment'' Grp_platform ModeObserve HumanChannel)\<lparr>capScopeKind := Some PlatformKind\<rparr>,
      (cap_entry ''roll_back_platform_change_segment'' Grp_platform ModeWrite HumanChannel)\<lparr>capScopeKind := Some PlatformKind\<rparr>]"

definition modulesCapabilities :: "capability list" where
  "modulesCapabilities =
     [(cap_entry ''list_workspace_modules'' Grp_modules ModeObserve HumanChannel)\<lparr>capMinRole := Some Member\<rparr>,
      (cap_entry ''install_module'' Grp_modules ModeWrite HumanChannel)\<lparr>capMinRole := Some Owner, capActsForPerson := True\<rparr>,
      (cap_entry ''upgrade_module'' Grp_modules ModeWrite HumanChannel)\<lparr>capMinRole := Some Owner, capActsForPerson := True\<rparr>,
      (cap_entry ''list_change_segments'' Grp_modules ModeObserve HumanChannel)\<lparr>capMinRole := Some Member\<rparr>,
      (cap_entry ''get_change_segment'' Grp_modules ModeObserve HumanChannel)\<lparr>capMinRole := Some Member\<rparr>,
      (cap_entry ''preview_roll_back_change_segment'' Grp_modules ModeObserve HumanChannel)\<lparr>capMinRole := Some Owner\<rparr>,
      (cap_entry ''roll_back_change_segment'' Grp_modules ModeWrite HumanChannel)\<lparr>capMinRole := Some Owner, capActsForPerson := True\<rparr>,
      (cap_entry ''verify_change_segment'' Grp_modules ModeWrite HumanChannel)\<lparr>capMinRole := Some Owner, capActsForPerson := True\<rparr>,
      (cap_entry ''list_packs'' Grp_modules ModeObserve HumanChannel)\<lparr>capMinRole := Some Member\<rparr>,
      (cap_entry ''preview_pack_install'' Grp_modules ModeObserve HumanChannel)\<lparr>capMinRole := Some Owner\<rparr>,
      (cap_entry ''install_pack'' Grp_modules ModeWrite HumanChannel)\<lparr>capMinRole := Some Owner, capActsForPerson := True\<rparr>,
      (cap_entry ''list_admin_proposal_segments'' Grp_modules ModeObserve HumanChannel)\<lparr>capMinRole := Some Owner, capActsForPerson := True\<rparr>,
      (cap_entry ''get_admin_proposal_segment_counts'' Grp_modules ModeObserve HumanChannel)\<lparr>capMinRole := Some Owner, capActsForPerson := True\<rparr>,
      (cap_entry ''preview_admin_proposal_segment'' Grp_modules ModeObserve HumanChannel)\<lparr>capMinRole := Some Owner, capActsForPerson := True\<rparr>,
      (cap_entry ''apply_admin_proposal_segment'' Grp_modules ModeWrite HumanChannel)\<lparr>capMinRole := Some Owner, capActsForPerson := True\<rparr>,
      (cap_entry ''reject_admin_proposal_segment'' Grp_modules ModeWrite HumanChannel)\<lparr>capMinRole := Some Owner, capActsForPerson := True\<rparr>]"

definition goalCapabilities :: "capability list" where
  "goalCapabilities =
     [(cap_entry ''get_goal'' Grp_goal ModeObserve HandleChannel)\<lparr>capMinRole := Some Member\<rparr>,
      (cap_entry ''list_goals'' Grp_goal ModeObserve HandleChannel)\<lparr>capMinRole := Some Member\<rparr>,
      (cap_entry ''get_goal_revision'' Grp_goal ModeObserve HandleChannel)\<lparr>capMinRole := Some Member\<rparr>,
      (cap_entry ''list_goal_unresolved_actions'' Grp_goal ModeObserve HandleChannel)\<lparr>capMinRole := Some Member\<rparr>,
      (cap_entry ''propose_goal'' Grp_goal ModePropose HandleChannel)\<lparr>capMinRole := Some Member, capActsForPerson := True\<rparr>,
      (cap_entry ''confirm_goal'' Grp_goal ModeExecute HumanChannel)\<lparr>capMinRole := Some Member\<rparr>,
      (cap_entry ''reject_goal'' Grp_goal ModeExecute HumanChannel)\<lparr>capMinRole := Some Member\<rparr>,
      (cap_entry ''pause_goal'' Grp_goal ModeWrite HumanChannel)\<lparr>capMinRole := Some Member\<rparr>,
      (cap_entry ''resume_goal'' Grp_goal ModeExecute HumanChannel)\<lparr>capMinRole := Some Member\<rparr>,
      (cap_entry ''cancel_goal'' Grp_goal ModeWrite HumanChannel)\<lparr>capMinRole := Some Member\<rparr>,
      (cap_entry ''release_goal_hold'' Grp_goal ModeExecute HumanChannel)\<lparr>capMinRole := Some Owner\<rparr>,
      (cap_entry ''revise_goal'' Grp_goal ModeExecute HumanChannel)\<lparr>capMinRole := Some Member\<rparr>,
      (cap_entry ''decide_plan_revision'' Grp_goal ModeExecute HumanChannel)\<lparr>capMinRole := Some Member\<rparr>,
      (cap_entry ''confirm_goal_acceptance'' Grp_goal ModeExecute HumanChannel)\<lparr>capMinRole := Some Member\<rparr>,
      (cap_entry ''end_goal'' Grp_goal ModeExecute HumanChannel)\<lparr>capMinRole := Some Member\<rparr>,
      (cap_entry ''reconcile_goal_action'' Grp_goal ModeExecute HumanChannel)\<lparr>capMinRole := Some Member\<rparr>,
      (cap_entry ''approve_step_trial'' Grp_goal ModeExecute HumanChannel)\<lparr>capMinRole := Some Builder, capActsForPerson := True\<rparr>]"

definition evaluationCapabilities :: "capability list" where
  "evaluationCapabilities =
     [(cap_entry ''list_eval_suites'' Grp_evaluation ModeObserve HumanChannel)\<lparr>capMinRole := Some Member, capActsForPerson := True\<rparr>,
      (cap_entry ''get_eval_suite'' Grp_evaluation ModeObserve HumanChannel)\<lparr>capMinRole := Some Member, capActsForPerson := True\<rparr>,
      (cap_entry ''get_eval_case'' Grp_evaluation ModeObserve HumanChannel)\<lparr>capMinRole := Some Member, capActsForPerson := True\<rparr>,
      (cap_entry ''create_eval_suite'' Grp_evaluation ModeWrite HumanChannel)\<lparr>capMinRole := Some Builder, capActsForPerson := True\<rparr>,
      (cap_entry ''repin_eval_suite'' Grp_evaluation ModeWrite HumanChannel)\<lparr>capMinRole := Some Builder, capActsForPerson := True\<rparr>,
      (cap_entry ''add_eval_fixture_gate'' Grp_evaluation ModeWrite HumanChannel)\<lparr>capMinRole := Some Builder, capActsForPerson := True\<rparr>,
      (cap_entry ''sync_eval_fixture_gate'' Grp_evaluation ModeWrite HumanChannel)\<lparr>capMinRole := Some Builder, capActsForPerson := True\<rparr>,
      (cap_entry ''remove_eval_fixture_gate'' Grp_evaluation ModeWrite HumanChannel)\<lparr>capMinRole := Some Builder, capActsForPerson := True\<rparr>,
      (cap_entry ''add_eval_case'' Grp_evaluation ModeWrite HumanChannel)\<lparr>capMinRole := Some Builder, capActsForPerson := True\<rparr>,
      (cap_entry ''edit_eval_case'' Grp_evaluation ModeWrite HumanChannel)\<lparr>capMinRole := Some Builder, capActsForPerson := True\<rparr>,
      (cap_entry ''retire_eval_case'' Grp_evaluation ModeWrite HumanChannel)\<lparr>capMinRole := Some Builder, capActsForPerson := True\<rparr>,
      (cap_entry ''start_eval_case_trial'' Grp_evaluation ModeExecute HumanChannel)\<lparr>capMinRole := Some Builder, capActsForPerson := True\<rparr>,
      (cap_entry ''get_eval_run'' Grp_evaluation ModeObserve HumanChannel)\<lparr>capMinRole := Some Member, capActsForPerson := True\<rparr>,
      (cap_entry ''list_eval_runs'' Grp_evaluation ModeObserve HumanChannel)\<lparr>capMinRole := Some Member, capActsForPerson := True\<rparr>,
      (cap_entry ''get_eval_budget'' Grp_evaluation ModeObserve HumanChannel)\<lparr>capMinRole := Some Member, capActsForPerson := True\<rparr>,
      (cap_entry ''start_draft_evaluation'' Grp_evaluation ModeExecute HumanChannel)\<lparr>capMinRole := Some Builder, capActsForPerson := True\<rparr>,
      (cap_entry ''get_draft_evaluation'' Grp_evaluation ModeObserve HumanChannel)\<lparr>capMinRole := Some Member, capActsForPerson := True\<rparr>,
      (cap_entry ''list_draft_evaluations'' Grp_evaluation ModeObserve HumanChannel)\<lparr>capMinRole := Some Member, capActsForPerson := True\<rparr>,
      (cap_entry ''cancel_draft_evaluation'' Grp_evaluation ModeWrite HumanChannel)\<lparr>capMinRole := Some Builder, capActsForPerson := True\<rparr>,
      (cap_entry ''get_skill_publish_evidence'' Grp_evaluation ModeObserve HumanChannel)\<lparr>capMinRole := Some Member, capActsForPerson := True\<rparr>,
      (cap_entry ''list_eval_seal_holds'' Grp_evaluation ModeObserve HumanChannel)\<lparr>capMinRole := Some Auditor, capActsForPerson := True\<rparr>,
      (cap_entry ''release_eval_seal_hold'' Grp_evaluation ModeWrite HumanChannel)\<lparr>capMinRole := Some Owner, capActsForPerson := True\<rparr>]"

definition platformStateCapabilities :: "capability list" where
  "platformStateCapabilities =
     [(cap_entry ''platform_state_gates'' Grp_platform_state ModeObserve HandleChannel)\<lparr>capAdminAgentOnly := True\<rparr>,
      (cap_entry ''platform_state_connectors'' Grp_platform_state ModeObserve HandleChannel)\<lparr>capAdminAgentOnly := True\<rparr>,
      (cap_entry ''platform_state_audit'' Grp_platform_state ModeObserve HandleChannel)\<lparr>capAdminAgentOnly := True\<rparr>,
      (cap_entry ''platform_state_runtime'' Grp_platform_state ModeObserve HandleChannel)\<lparr>capAdminAgentOnly := True\<rparr>,
      (cap_entry ''platform_state_updates'' Grp_platform_state ModeObserve HandleChannel)\<lparr>capAdminAgentOnly := True\<rparr>,
      (cap_entry ''platform_state_invariants'' Grp_platform_state ModeObserve HandleChannel)\<lparr>capAdminAgentOnly := True\<rparr>]"

definition adminProposalCapabilities :: "capability list" where
  "adminProposalCapabilities =
     [(cap_entry ''propose_admin_proposal'' Grp_admin_proposal ModePropose HandleChannel)\<lparr>capAdminAgentOnly := True\<rparr>,
      (cap_entry ''agent_list_admin_proposals'' Grp_admin_proposal ModeObserve HandleChannel)\<lparr>capAdminAgentOnly := True\<rparr>,
      (cap_entry ''agent_get_admin_proposal'' Grp_admin_proposal ModeObserve HandleChannel)\<lparr>capAdminAgentOnly := True\<rparr>,
      (cap_entry ''agent_withdraw_admin_proposal'' Grp_admin_proposal ModeWrite HandleChannel)\<lparr>capAdminAgentOnly := True\<rparr>,
      (cap_entry ''agent_list_proposal_targets'' Grp_admin_proposal ModeObserve HandleChannel)\<lparr>capAdminAgentOnly := True\<rparr>,
      (cap_entry ''propose_pack_install'' Grp_admin_proposal ModePropose HandleChannel)\<lparr>capAdminAgentOnly := True\<rparr>,
      (cap_entry ''agent_list_packs'' Grp_admin_proposal ModeObserve HandleChannel)\<lparr>capAdminAgentOnly := True\<rparr>]"

definition GROUPS :: "capability list list" where
  "GROUPS =
     [chatCapabilities, ontologyCapabilities, graphCapabilities, gateCapabilities,
      connectionCapabilities, metaCapabilities, epistemicCapabilities, governanceCapabilities,
      taskCapabilities, workerCapabilities, ingestCapabilities, auditCapabilities,
      membersCapabilities, agentProfileCapabilities, platformCapabilities, modulesCapabilities,
      goalCapabilities, evaluationCapabilities, platformStateCapabilities, adminProposalCapabilities]"

definition CAPABILITY_REGISTRY :: "capability list" where
  "CAPABILITY_REGISTRY = concat GROUPS"

definition HUMAN_ONLY_CAPABILITY_NAMES :: "string list" where
  "HUMAN_ONLY_CAPABILITY_NAMES =
     [''publish_ontology_version'', ''create_connection'', ''publish_manifest'',
      ''connect_gatekeeper'', ''list_connection_requests'', ''publish_skill'',
      ''publish_procedure'', ''deprecate_skill'', ''deprecate_procedure'', ''publish_operation'',
      ''deprecate_operation'', ''discard_operation_draft'', ''update_operation_description'',
      ''attest_fact'', ''approve'', ''reject'', ''list_pending'', ''get_action'',
      ''list_action_requests'', ''set_auto_approved_action_kind'', ''grant_capability'',
      ''revoke_capability'', ''set_policy'', ''set_quota'', ''issue_handle'',
      ''publish_worker_definition'', ''deprecate_worker_definition'', ''get_worker_definition'',
      ''get_entry_template_status'', ''propose_entry_template_upgrade'', ''discard_draft'',
      ''reject_draft'', ''list_admin_proposal_segments'', ''get_admin_proposal_segment_counts'',
      ''preview_admin_proposal_segment'', ''apply_admin_proposal_segment'',
      ''reject_admin_proposal_segment'', ''list_draft_rejections'', ''list_eval_suites'',
      ''get_eval_suite'', ''create_eval_suite'', ''repin_eval_suite'', ''add_eval_fixture_gate'',
      ''sync_eval_fixture_gate'', ''remove_eval_fixture_gate'', ''get_eval_case'',
      ''add_eval_case'', ''edit_eval_case'', ''retire_eval_case'', ''start_eval_case_trial'',
      ''get_eval_run'', ''list_eval_runs'', ''get_eval_budget'', ''start_draft_evaluation'',
      ''get_draft_evaluation'', ''list_draft_evaluations'', ''cancel_draft_evaluation'',
      ''get_skill_publish_evidence'', ''list_eval_seal_holds'', ''release_eval_seal_hold'',
      ''audit_query'', ''reconstruct'', ''export_prov'', ''list_principals'',
      ''create_principal'', ''add_member'', ''set_principal_role'', ''rotate_api_key'',
      ''disable_principal'', ''list_grants'', ''list_policies'', ''list_quotas'',
      ''list_gatekeepers'', ''get_gatekeeper'', ''list_operations'', ''get_operation_stats'',
      ''get_skill_stats'', ''get_procedure_stats'', ''get_workspace'', ''list_models'',
      ''get_agent_profile'', ''set_agent_profile'', ''get_agent_policy'', ''set_agent_policy'',
      ''confirm_goal'', ''reject_goal'', ''pause_goal'', ''resume_goal'', ''cancel_goal'',
      ''release_goal_hold'', ''revise_goal'', ''decide_plan_revision'',
      ''confirm_goal_acceptance'', ''end_goal'', ''reconcile_goal_action'',
      ''approve_step_trial'', ''list_change_segments'', ''get_change_segment'',
      ''preview_roll_back_change_segment'', ''roll_back_change_segment'', ''list_packs'',
      ''preview_pack_install'', ''install_pack'', ''platform_overview'', ''list_users'',
      ''create_user'', ''update_user'', ''set_user_status'', ''reset_user_password'',
      ''list_user_memberships'', ''add_membership'', ''set_membership_role'',
      ''remove_membership'', ''merge_user'', ''set_user_budget'', ''get_platform_settings'',
      ''update_platform_settings'', ''platform_audit_query'', ''list_workspaces'',
      ''list_platform_models'', ''create_workspace'', ''update_workspace'',
      ''set_workspace_status'', ''set_allowed_models'', ''list_connectors'',
      ''set_connector_mode'', ''list_connector_presets'', ''list_gate_instances'',
      ''get_gate_instance'', ''update_gate_instance'', ''confirm_gate_manifest'',
      ''test_gate_instance'', ''list_external_runtimes'', ''revoke_external_runtime'',
      ''list_self_connections'', ''suspend_self_connection'', ''resume_self_connection'',
      ''list_available_gate_instances'', ''enable_gate_instance'',
      ''preview_gate_instance_enable'', ''preview_gatekeeper_resync'',
      ''refresh_operation_governance'', ''issue_service_handle'', ''create_gate_instance'',
      ''delete_gate_instance'', ''issue_gate_host_token'', ''issue_gate_credential_token'',
      ''issue_llm_admin_token'', ''list_admin_proposals'', ''get_admin_proposal'',
      ''withdraw_admin_proposal'', ''preview_platform_segment'', ''apply_platform_segment'',
      ''reject_platform_segment'', ''list_platform_change_segments'',
      ''get_platform_change_segment'', ''preview_roll_back_platform_change_segment'',
      ''roll_back_platform_change_segment'']"

section \<open>Lookups\<close>

definition getCapability :: "string \<Rightarrow> capability option" where
  "getCapability n = find (\<lambda>c. capName c = n) CAPABILITY_REGISTRY"

definition isCapabilityName :: "string \<Rightarrow> bool" where
  "isCapabilityName n = (getCapability n \<noteq> None)"

definition listByChannel :: "capability_channel \<Rightarrow> capability list" where
  "listByChannel ch = filter (\<lambda>c. capChannel c = ch) CAPABILITY_REGISTRY"

definition listPlatformCapabilities :: "capability list" where
  "listPlatformCapabilities = filter (\<lambda>c. capScopeKind c = Some PlatformKind) CAPABILITY_REGISTRY"

definition HANDLE_EXECUTE_ALLOWLIST :: "string list" where
  "HANDLE_EXECUTE_ALLOWLIST = [''request_action'', ''<gate>.<op>:execute'']"

section \<open>The consistency check\<close>

datatype admin_only_flaw =
    WrongGroup | NotHandleChannel | NotSideEffectFreeObserve | ExecutesOrObservesWithSideEffects
  | DeclaresScope | HasMinRole | DeclaresActsForPerson

datatype registry_error =
    DuplicateName string
  | SideEffectFreeWrite string
  | MustBeHumanChannel string
  | PlatformNotHumanChannel string
  | PlatformHasMinRole string
  | PlatformOutsideGroup string
  | PlatformGroupWithoutScope string
  | PlatformActsForPerson string
  | AdminAgentOnlyBut string admin_only_flaw
  | AdminGroupNotAdminAgentOnly string
  | ExecuteOnHandleChannel string

definition admin_only_broken :: "capability \<Rightarrow> admin_only_flaw option" where
  "admin_only_broken c =
     (if capGroup c \<noteq> Grp_platform_state \<and> capGroup c \<noteq> Grp_admin_proposal then Some WrongGroup
      else if capChannel c \<noteq> HandleChannel then Some NotHandleChannel
      else if capGroup c = Grp_platform_state
              \<and> (capMode c \<noteq> ModeObserve \<or> capabilityHasSideEffects c) then Some NotSideEffectFreeObserve
      else if capMode c = ModeExecute \<or> (capMode c = ModeObserve \<and> capabilityHasSideEffects c)
        then Some ExecutesOrObservesWithSideEffects
      else if capScopeKind c \<noteq> None then Some DeclaresScope
      else if capMinRole c \<noteq> None then Some HasMinRole
      else if capActsForPerson c then Some DeclaresActsForPerson
      else None)"

text \<open>The body of the loop after the name check, in the order of its throws.\<close>

definition entry_error :: "capability \<Rightarrow> registry_error option" where
  "entry_error c =
     first_error (\<lambda>e. e)
       [if capMode c \<noteq> ModeObserve \<and> capSideEffects c = Some False
        then Some (SideEffectFreeWrite (capName c)) else None,
        if capName c \<in> set HUMAN_ONLY_CAPABILITY_NAMES \<and> capChannel c \<noteq> HumanChannel
        then Some (MustBeHumanChannel (capName c)) else None,
        if capScopeKind c = Some PlatformKind then
          (if capChannel c \<noteq> HumanChannel then Some (PlatformNotHumanChannel (capName c))
           else if capMinRole c \<noteq> None then Some (PlatformHasMinRole (capName c))
           else if capGroup c \<noteq> Grp_platform then Some (PlatformOutsideGroup (capName c))
           else None)
        else if capGroup c = Grp_platform then Some (PlatformGroupWithoutScope (capName c)) else None,
        if capActsForPerson c \<and> capScopeKind c = Some PlatformKind
        then Some (PlatformActsForPerson (capName c)) else None,
        if capAdminAgentOnly c then map_option (AdminAgentOnlyBut (capName c)) (admin_only_broken c)
        else if capGroup c = Grp_platform_state \<or> capGroup c = Grp_admin_proposal
        then Some (AdminGroupNotAdminAgentOnly (capName c)) else None,
        if capMode c = ModeExecute \<and> capChannel c = HandleChannel
           \<and> capName c \<notin> set HANDLE_EXECUTE_ALLOWLIST
        then Some (ExecuteOnHandleChannel (capName c)) else None]"

fun check_entries :: "string list \<Rightarrow> capability list \<Rightarrow> (registry_error, unit) result" where
  "check_entries seen [] = Inr ()"
| "check_entries seen (c # cs) =
     (if capName c \<in> set seen then Inl (DuplicateName (capName c))
      else case entry_error c of
        Some e \<Rightarrow> Inl e
      | None \<Rightarrow> check_entries (capName c # seen) cs)"

definition assertRegistryConsistent :: "capability list \<Rightarrow> (registry_error, unit) result" where
  "assertRegistryConsistent registry = check_entries [] registry"

section \<open>What the check means\<close>

text \<open>The rules the check enforces on one entry, as the properties they protect.\<close>

definition well_governed :: "capability \<Rightarrow> bool" where
  "well_governed c \<longleftrightarrow>
     (capSideEffects c = Some False \<longrightarrow> capMode c = ModeObserve)
     \<and> (capName c \<in> set HUMAN_ONLY_CAPABILITY_NAMES \<longrightarrow> capChannel c = HumanChannel)
     \<and> (capScopeKind c = Some PlatformKind \<longleftrightarrow> capGroup c = Grp_platform)
     \<and> (capScopeKind c = Some PlatformKind \<longrightarrow>
          capChannel c = HumanChannel \<and> capMinRole c = None \<and> \<not> capActsForPerson c)
     \<and> (capAdminAgentOnly c \<longleftrightarrow> capGroup c = Grp_platform_state \<or> capGroup c = Grp_admin_proposal)
     \<and> (capAdminAgentOnly c \<longrightarrow>
          capChannel c = HandleChannel \<and> capScopeKind c = None \<and> capMinRole c = None
          \<and> \<not> capActsForPerson c \<and> capMode c \<noteq> ModeExecute
          \<and> (capGroup c = Grp_platform_state \<or> capMode c = ModeObserve \<longrightarrow> \<not> capabilityHasSideEffects c)
          \<and> (capGroup c = Grp_platform_state \<longrightarrow> capMode c = ModeObserve))
     \<and> (capMode c = ModeExecute \<and> capChannel c = HandleChannel \<longrightarrow>
          capName c \<in> set HANDLE_EXECUTE_ALLOWLIST)"

lemma channel_neq: "capChannel c \<noteq> HumanChannel \<longleftrightarrow> capChannel c = HandleChannel"
  by (cases "capChannel c") simp_all

lemma admin_only_broken_None:
  "admin_only_broken c = None \<longleftrightarrow>
     (capGroup c = Grp_platform_state \<or> capGroup c = Grp_admin_proposal)
     \<and> capChannel c = HandleChannel \<and> capScopeKind c = None \<and> capMinRole c = None
     \<and> \<not> capActsForPerson c \<and> capMode c \<noteq> ModeExecute
     \<and> (capGroup c = Grp_platform_state \<or> capMode c = ModeObserve \<longrightarrow> \<not> capabilityHasSideEffects c)
     \<and> (capGroup c = Grp_platform_state \<longrightarrow> capMode c = ModeObserve)"
  by (auto simp: admin_only_broken_def)

lemma guard_None: "(if P then Some e else None) = None \<longleftrightarrow> \<not> P"
  by simp

lemma entry_error_rules:
  "entry_error c = None \<longleftrightarrow>
     \<not> (capMode c \<noteq> ModeObserve \<and> capSideEffects c = Some False)
     \<and> \<not> (capName c \<in> set HUMAN_ONLY_CAPABILITY_NAMES \<and> capChannel c \<noteq> HumanChannel)
     \<and> (if capScopeKind c = Some PlatformKind
        then capChannel c = HumanChannel \<and> capMinRole c = None \<and> capGroup c = Grp_platform
        else capGroup c \<noteq> Grp_platform)
     \<and> \<not> (capActsForPerson c \<and> capScopeKind c = Some PlatformKind)
     \<and> (if capAdminAgentOnly c then admin_only_broken c = None
        else capGroup c \<noteq> Grp_platform_state \<and> capGroup c \<noteq> Grp_admin_proposal)
     \<and> \<not> (capMode c = ModeExecute \<and> capChannel c = HandleChannel
            \<and> capName c \<notin> set HANDLE_EXECUTE_ALLOWLIST)"
  unfolding entry_error_def first_error_None_iff list.set ball_simps(7) guard_None
  by (cases "capScopeKind c = Some PlatformKind"; cases "capAdminAgentOnly c") simp_all

lemma entry_error_None: "entry_error c = None \<longleftrightarrow> well_governed c"
proof (cases "capAdminAgentOnly c")
  case True
  then show ?thesis
    unfolding entry_error_rules well_governed_def admin_only_broken_None
    by (cases "capChannel c"; cases "capMode c"; auto)
next
  case False
  then show ?thesis
    unfolding entry_error_rules well_governed_def
    by (cases "capChannel c"; cases "capMode c"; auto)
qed

lemma check_entries_Inr:
  "check_entries seen cs = Inr () \<longleftrightarrow>
     distinct (map capName cs) \<and> set (map capName cs) \<inter> set seen = {} \<and> list_all well_governed cs"
proof (induction seen cs rule: check_entries.induct)
  case (2 seen c cs)
  show ?case
  proof (cases "capName c \<in> set seen \<or> entry_error c \<noteq> None")
    case True
    then show ?thesis by (auto simp: entry_error_None split: option.splits)
  next
    case False
    then have "well_governed c" and "check_entries seen (c # cs) = check_entries (capName c # seen) cs"
      by (auto simp: entry_error_None[symmetric])
    with 2 False show ?thesis by auto
  qed
qed simp

text \<open>
  C37: the registry check passes exactly the registries whose names are distinct and whose every
  entry obeys the governance rules: a human-only name stays on the human channel, platform
  capabilities are the console's, an admin agent's own capabilities are reads or proposals on its
  handle, and nothing on a handle executes but the two allowed entries.
\<close>

theorem registry_check_exact:
  "assertRegistryConsistent registry = Inr () \<longleftrightarrow>
     distinct (map capName registry) \<and> list_all well_governed registry"
  by (simp add: assertRegistryConsistent_def check_entries_Inr)

section \<open>The registry passes its check\<close>

text \<open>
  Names are compared as numbers, which the simplifier decides quickly: any function whose values
  differ tells the names apart.
\<close>

fun name_code :: "string \<Rightarrow> nat" where
  "name_code [] = 0"
| "name_code (c # s) = of_char c + 1 + 512 * name_code s"

lemma distinct_by_code: "distinct (map name_code ns) \<Longrightarrow> distinct ns"
  by (simp add: distinct_map)

lemmas registry_groups =
  chatCapabilities_def ontologyCapabilities_def graphCapabilities_def gateCapabilities_def
  connectionCapabilities_def metaCapabilities_def epistemicCapabilities_def
  governanceCapabilities_def taskCapabilities_def workerCapabilities_def ingestCapabilities_def
  auditCapabilities_def membersCapabilities_def agentProfileCapabilities_def
  platformCapabilities_def modulesCapabilities_def goalCapabilities_def
  evaluationCapabilities_def platformStateCapabilities_def adminProposalCapabilities_def

lemmas unfold_registry =
  CAPABILITY_REGISTRY_def GROUPS_def registry_groups cap_entry_def list.map concat.simps
  append.simps capability.simps append_Nil2

lemma registry_names_distinct: "distinct (map capName CAPABILITY_REGISTRY)"
proof -
  have "distinct (map name_code (map capName CAPABILITY_REGISTRY))"
    by (simp only: unfold_registry) (simp add: char_of_def)
  then show ?thesis by (rule distinct_by_code)
qed

text \<open>The capabilities of the handle channel, group by group.\<close>

definition handle_rows ::
  "capability list \<Rightarrow> (string \<times> capability_group \<times> capability_mode \<times> bool option) list" where
  "handle_rows g =
     map (\<lambda>c. (capName c, capGroup c, capMode c, capSideEffects c))
       (filter (\<lambda>c. capChannel c = HandleChannel) g)"

lemma handle_rows_by_group:
  "handle_rows chatCapabilities = []"
  "handle_rows ontologyCapabilities =
     [(''propose_ontology_change'', Grp_ontology, ModePropose, None),
      (''get_type'', Grp_ontology, ModeObserve, None),
      (''list_types'', Grp_ontology, ModeObserve, None),
      (''validate'', Grp_ontology, ModeObserve, None),
      (''list_ontology_versions'', Grp_ontology, ModeObserve, None)]"
  "handle_rows graphCapabilities =
     [(''get_object'', Grp_graph, ModeObserve, None),
      (''traverse'', Grp_graph, ModeObserve, None), (''search'', Grp_graph, ModeObserve, None),
      (''list_facts'', Grp_graph, ModeObserve, None),
      (''state_at'', Grp_graph, ModeObserve, None),
      (''graph_freshness'', Grp_graph, ModeObserve, None),
      (''graph_overview'', Grp_graph, ModeObserve, None),
      (''find_operations'', Grp_graph, ModeObserve, None),
      (''find_workers'', Grp_graph, ModeObserve, None),
      (''find_procedures'', Grp_graph, ModeObserve, None)]"
  "handle_rows gateCapabilities =
     [(''observe_operation'', Grp_gate, ModeObserve, Some True),
      (''<gate>.<op>'', Grp_gate, ModeObserve, Some True),
      (''<gate>.<op>:execute'', Grp_gate, ModeExecute, None)]"
  "handle_rows connectionCapabilities =
     [(''request_connection'', Grp_connection, ModePropose, None)]"
  "handle_rows metaCapabilities =
     [(''propose_operation'', Grp_meta, ModePropose, None),
      (''propose_skill'', Grp_meta, ModePropose, None),
      (''propose_procedure'', Grp_meta, ModePropose, None),
      (''list_skills'', Grp_meta, ModeObserve, None),
      (''get_skill'', Grp_meta, ModeObserve, None),
      (''get_skill_draft_verdicts'', Grp_meta, ModeObserve, None),
      (''list_procedures'', Grp_meta, ModeObserve, None),
      (''assert_fact'', Grp_meta, ModeWrite, None),
      (''supersede_fact'', Grp_meta, ModeWrite, None),
      (''invalidate_fact'', Grp_meta, ModeWrite, None)]"
  "handle_rows epistemicCapabilities =
     [(''explain'', Grp_epistemic, ModeObserve, None),
      (''record_decision'', Grp_epistemic, ModeWrite, None),
      (''query_decisions'', Grp_epistemic, ModeObserve, None),
      (''find_precedents'', Grp_epistemic, ModeObserve, None),
      (''causal_chain'', Grp_epistemic, ModeObserve, None),
      (''decision_impact'', Grp_epistemic, ModeObserve, None),
      (''list_conflicts'', Grp_epistemic, ModeObserve, None)]"
  "handle_rows governanceCapabilities =
     [(''request_action'', Grp_governance, ModeExecute, None)]"
  "handle_rows taskCapabilities =
     [(''get_entry_context'', Grp_task, ModeObserve, Some True),
      (''report_turn'', Grp_task, ModeWrite, None),
      (''record_procedure_followed'', Grp_task, ModeWrite, None),
      (''report_task_outcome'', Grp_task, ModeWrite, None),
      (''invoke_worker'', Grp_task, ModeWrite, None),
      (''get_task'', Grp_task, ModeObserve, None),
      (''list_allowed_operations'', Grp_task, ModeObserve, None),
      (''report_task_result'', Grp_task, ModeWrite, None),
      (''cancel_task'', Grp_task, ModeWrite, None)]"
  "handle_rows workerCapabilities =
     [(''propose_worker_definition'', Grp_worker, ModePropose, None),
      (''list_worker_definitions'', Grp_worker, ModeObserve, None)]"
  "handle_rows ingestCapabilities =
     [(''register_source'', Grp_ingest, ModeWrite, None),
      (''submit_observations'', Grp_ingest, ModeWrite, None)]"
  "handle_rows auditCapabilities = []"
  "handle_rows membersCapabilities = []"
  "handle_rows agentProfileCapabilities = []"
  "handle_rows platformCapabilities = []"
  "handle_rows modulesCapabilities = []"
  "handle_rows goalCapabilities =
     [(''get_goal'', Grp_goal, ModeObserve, None), (''list_goals'', Grp_goal, ModeObserve, None),
      (''get_goal_revision'', Grp_goal, ModeObserve, None),
      (''list_goal_unresolved_actions'', Grp_goal, ModeObserve, None),
      (''propose_goal'', Grp_goal, ModePropose, None)]"
  "handle_rows evaluationCapabilities = []"
  "handle_rows platformStateCapabilities =
     [(''platform_state_gates'', Grp_platform_state, ModeObserve, None),
      (''platform_state_connectors'', Grp_platform_state, ModeObserve, None),
      (''platform_state_audit'', Grp_platform_state, ModeObserve, None),
      (''platform_state_runtime'', Grp_platform_state, ModeObserve, None),
      (''platform_state_updates'', Grp_platform_state, ModeObserve, None),
      (''platform_state_invariants'', Grp_platform_state, ModeObserve, None)]"
  "handle_rows adminProposalCapabilities =
     [(''propose_admin_proposal'', Grp_admin_proposal, ModePropose, None),
      (''agent_list_admin_proposals'', Grp_admin_proposal, ModeObserve, None),
      (''agent_get_admin_proposal'', Grp_admin_proposal, ModeObserve, None),
      (''agent_withdraw_admin_proposal'', Grp_admin_proposal, ModeWrite, None),
      (''agent_list_proposal_targets'', Grp_admin_proposal, ModeObserve, None),
      (''propose_pack_install'', Grp_admin_proposal, ModePropose, None),
      (''agent_list_packs'', Grp_admin_proposal, ModeObserve, None)]"
  by (simp_all add: handle_rows_def registry_groups cap_entry_def)

definition handle_names :: "string list" where
  "handle_names = map fst (concat (map handle_rows GROUPS))"

lemma handle_rows_registry: "concat (map handle_rows GROUPS) = handle_rows CAPABILITY_REGISTRY"
  by (simp add: handle_rows_def[abs_def] CAPABILITY_REGISTRY_def filter_concat map_concat o_def)

lemma in_handle_names:
  "n \<in> set handle_names \<longleftrightarrow> (\<exists>c\<in>set CAPABILITY_REGISTRY. capName c = n \<and> capChannel c = HandleChannel)"
  unfolding handle_names_def handle_rows_registry by (auto simp: handle_rows_def)

lemma handle_names_not_human_only: "set handle_names \<inter> set HUMAN_ONLY_CAPABILITY_NAMES = {}"
proof -
  have "distinct (map name_code (handle_names @ HUMAN_ONLY_CAPABILITY_NAMES))"
    unfolding handle_names_def GROUPS_def HUMAN_ONLY_CAPABILITY_NAMES_def list.map concat.simps
      handle_rows_by_group append.simps append_Nil2 fst_conv
    by (simp add: char_of_def)
  then have "distinct (handle_names @ HUMAN_ONLY_CAPABILITY_NAMES)" by (rule distinct_by_code)
  then show ?thesis by simp
qed

text \<open>The rules that need no lookup of a name, decided entry by entry on the other fields.\<close>

definition governed_apart_from_names :: "capability \<Rightarrow> bool" where
  "governed_apart_from_names c \<longleftrightarrow>
     (capName c \<in> set HUMAN_ONLY_CAPABILITY_NAMES \<longrightarrow> capChannel c = HumanChannel) \<longrightarrow> well_governed c"

lemma governedI:
  assumes "se \<noteq> Some False"
    and "sk = Some PlatformKind \<longleftrightarrow> g = Grp_platform"
    and "sk = Some PlatformKind \<longrightarrow> ch = HumanChannel \<and> mr = None \<and> \<not> afp"
    and "aao \<longleftrightarrow> g = Grp_platform_state \<or> g = Grp_admin_proposal"
    and "aao \<longrightarrow> ch = HandleChannel \<and> sk = None \<and> mr = None \<and> \<not> afp \<and> m \<noteq> ModeExecute \<and> se = None
           \<and> (g = Grp_platform_state \<longrightarrow> m = ModeObserve)"
    and "m = ModeExecute \<and> ch = HandleChannel \<longrightarrow> n \<in> set HANDLE_EXECUTE_ALLOWLIST"
  shows "governed_apart_from_names
     \<lparr>capName = n, capGroup = g, capMode = m, capSideEffects = se, capChannel = ch, capScopeKind = sk,
      capMinRole = mr, capActsForPerson = afp, capAdminAgentOnly = aao\<rparr>"
  using assms
  by (cases m; cases ch)
    (auto simp: governed_apart_from_names_def well_governed_def capabilityHasSideEffects_def)

lemma registry_governed: "list_all governed_apart_from_names CAPABILITY_REGISTRY"
  by (simp only: unfold_registry capability.update_convs list.pred_inject simp_thms;
      intro conjI governedI TrueI; simp add: HANDLE_EXECUTE_ALLOWLIST_def)

lemma getCapability_registered:
  "c \<in> set CAPABILITY_REGISTRY \<Longrightarrow> getCapability (capName c) = Some c"
  unfolding getCapability_def by (rule find_first[OF registry_names_distinct])

lemma getCapability_Some:
  "getCapability n = Some c \<Longrightarrow> c \<in> set CAPABILITY_REGISTRY \<and> capName c = n"
  unfolding getCapability_def by (drule find_SomeD) simp

lemma registry_well_governed: "c \<in> set CAPABILITY_REGISTRY \<Longrightarrow> well_governed c"
proof -
  assume c: "c \<in> set CAPABILITY_REGISTRY"
  have "governed_apart_from_names c" using registry_governed c by (auto simp: list_all_iff)
  moreover have "capChannel c = HandleChannel \<Longrightarrow> capName c \<notin> set HUMAN_ONLY_CAPABILITY_NAMES"
    using handle_names_not_human_only c in_handle_names[of "capName c"] by auto
  ultimately show ?thesis by (auto simp: governed_apart_from_names_def channel_neq[symmetric])
qed

lemma handle_row_capability:
  assumes "(n, g, m, se) \<in> set (concat (map handle_rows GROUPS))"
  obtains c where "getCapability n = Some c" and "capChannel c = HandleChannel" and "capGroup c = g"
    and "capMode c = m" and "capSideEffects c = se" and "well_governed c" and "capName c = n"
proof -
  from assms obtain c where c: "c \<in> set CAPABILITY_REGISTRY" and row: "capName c = n"
      "capChannel c = HandleChannel" "capGroup c = g" "capMode c = m" "capSideEffects c = se"
    unfolding handle_rows_registry by (auto simp: handle_rows_def)
  have "getCapability n = Some c" using getCapability_registered[OF c] row(1) by simp
  with row registry_well_governed[OF c] that show thesis by blast
qed

text \<open>
  C38: the platform's own registry passes its check, so every rule of \<open>well_governed\<close> holds
  of each of its 269 capabilities.
\<close>

theorem registry_is_consistent:
  "assertRegistryConsistent CAPABILITY_REGISTRY = Inr () \<and> length CAPABILITY_REGISTRY = 269"
proof -
  have "length CAPABILITY_REGISTRY = 269" by (simp only: unfold_registry) simp
  then show ?thesis
    by (simp add: assertRegistryConsistent_def check_entries_Inr registry_names_distinct
        list_all_iff registry_well_governed)
qed

end
