(* ===== verification/Handle_Scopes.thy ===== *)
theory Handle_Scopes
  imports Capability_Registry Js_Text
begin

text \<open>
  What a capability handle may carry: the ceilings of entry agents, Workers and admin agents, the
  scopes built from them and the subset check (\<open>governance/capability/handles.ts\<close>), the narrowing
  of an \<open>issue_handle\<close> request (\<open>application/gateway/issue-handle-handler.ts\<close>) and the scope a
  Worker's handle gets from its invoker's (\<open>application/task/handle-mint.ts\<close>).

  A scope's \<open>resources\<close> object is an association list with distinct keys; keys that
  \<open>Object.prototype\<close> defines are left aside.
\<close>

section \<open>Valid scopes\<close>

datatype scope_error = UnknownCapability string | HumanChannelCapability string

definition capability_problem :: "string \<Rightarrow> scope_error option" where
  "capability_problem n =
     (case getCapability n of
        None \<Rightarrow> Some (UnknownCapability n)
      | Some c \<Rightarrow> (if capChannel c \<noteq> HandleChannel then Some (HumanChannelCapability n) else None))"

definition assertValidScope :: "capability_scope \<Rightarrow> (scope_error, unit) result" where
  "assertValidScope scope =
     (case first_error capability_problem (capabilities scope) of Some e \<Rightarrow> Inl e | None \<Rightarrow> Inr ())"

section \<open>Ceilings\<close>

definition ENTRY_CEILING_EXTRA_CAPABILITY_NAMES :: "string list" where
  "ENTRY_CEILING_EXTRA_CAPABILITY_NAMES =
     [''get_task'', ''get_entry_context'', ''report_turn'', ''invoke_worker'',
      ''request_connection'', ''record_decision'', ''record_procedure_followed'',
      ''report_task_outcome'', ''explain'', ''list_allowed_operations'', ''report_task_result'',
      ''observe_operation'', ''get_goal'', ''list_goals'', ''get_goal_revision'',
      ''list_goal_unresolved_actions'', ''get_skill_draft_verdicts'']"

definition ENTRY_CEILING_GATE_OBSERVE_CAPABILITY_NAME :: string where
  "ENTRY_CEILING_GATE_OBSERVE_CAPABILITY_NAME = ''<gate>.<op>''"

text \<open>The loop both ceilings start with: graph reads and proposals of the handle channel.\<close>

definition registry_names :: "string list \<Rightarrow> string list" where
  "registry_names excluded =
     map capName (filter (\<lambda>c. capChannel c = HandleChannel \<and> capName c \<notin> set excluded
                            \<and> \<not> capAdminAgentOnly c
                            \<and> (capGroup c = Grp_graph \<or> startsWith (capName c) ''propose_''))
                   CAPABILITY_REGISTRY)"

definition ENTRY_CEILING_CAPABILITIES :: "string list" where
  "ENTRY_CEILING_CAPABILITIES =
     js_set (registry_names [] @ [ENTRY_CEILING_GATE_OBSERVE_CAPABILITY_NAME]
             @ ENTRY_CEILING_EXTRA_CAPABILITY_NAMES)"

definition WORKER_CEILING_EXTRA_CAPABILITY_NAMES :: "string list" where
  "WORKER_CEILING_EXTRA_CAPABILITY_NAMES =
     [''assert_fact'', ''supersede_fact'', ''invalidate_fact'', ''get_task'', ''invoke_worker'',
      ''request_action'', ''list_allowed_operations'', ''report_task_result'',
      ''observe_operation'', ''get_skill_draft_verdicts'']"

definition WORKER_CEILING_GATE_EXECUTE_CAPABILITY_NAME :: string where
  "WORKER_CEILING_GATE_EXECUTE_CAPABILITY_NAME = ''<gate>.<op>:execute''"

definition WORKER_CEILING_EXCLUDED_PROPOSE_NAMES :: "string list" where
  "WORKER_CEILING_EXCLUDED_PROPOSE_NAMES =
     [''propose_goal'']"

definition WORKER_CEILING_CAPABILITIES :: "string list" where
  "WORKER_CEILING_CAPABILITIES =
     js_set (registry_names WORKER_CEILING_EXCLUDED_PROPOSE_NAMES
             @ [ENTRY_CEILING_GATE_OBSERVE_CAPABILITY_NAME, WORKER_CEILING_GATE_EXECUTE_CAPABILITY_NAME]
             @ WORKER_CEILING_EXTRA_CAPABILITY_NAMES)"

definition WORKER_INFRASTRUCTURE_CAPABILITY_NAMES :: "string list" where
  "WORKER_INFRASTRUCTURE_CAPABILITY_NAMES =
     [''list_allowed_operations'', ''report_task_result'', ''get_task'', ''observe_operation'']"

definition EXECUTE_CLASS_CAPABILITY_NAMES :: "string list" where
  "EXECUTE_CLASS_CAPABILITY_NAMES =
     [WORKER_CEILING_GATE_EXECUTE_CAPABILITY_NAME, ''request_action'']"

definition isExecuteClassCapability :: "string \<Rightarrow> bool" where
  "isExecuteClassCapability n = (n \<in> set EXECUTE_CLASS_CAPABILITY_NAMES)"

definition defaultWorkerCapabilities :: "string list \<Rightarrow> string list" where
  "defaultWorkerCapabilities limit = filter (\<lambda>n. \<not> isExecuteClassCapability n) limit"

definition GATE_SCOPE_READERS :: "string list" where
  "GATE_SCOPE_READERS =
     [''invoke_worker'', ''list_allowed_operations'']"

text \<open>The scope an entry agent's and an admin agent's handle share the shape of.\<close>

definition scope_of_ceiling ::
  "string list \<Rightarrow> (string \<times> string list) list \<Rightarrow> role option \<Rightarrow> capability_scope" where
  "scope_of_ceiling limit requested_resources r =
     (let names = (case r of
                     None \<Rightarrow> limit
                   | Some r' \<Rightarrow> filter (\<lambda>n. roleMayUseCapability r' (getCapability n)) limit);
          carriesGates = list_ex (\<lambda>n. n \<in> set GATE_SCOPE_READERS) names
      in \<lparr>capabilities = names,
          resources = filter (\<lambda>(key, ids). \<not> (key = ''gatekeeper'' \<and> \<not> carriesGates)) requested_resources\<rparr>)"

definition entryScope ::
  "(string \<times> string list) list option \<Rightarrow> role option \<Rightarrow> capability_scope" where
  "entryScope definition_resources r =
     scope_of_ceiling ENTRY_CEILING_CAPABILITIES
       (case definition_resources of None \<Rightarrow> [] | Some rs \<Rightarrow> rs) r"

subsection \<open>The admin agent's ceiling\<close>

definition ADMIN_AGENT_CEILING_CAPABILITY_NAMES :: "string list" where
  "ADMIN_AGENT_CEILING_CAPABILITY_NAMES =
     [''get_object'', ''traverse'', ''search'', ''list_facts'', ''state_at'',
      ''graph_freshness'', ''graph_overview'', ''find_operations'', ''find_workers'',
      ''find_procedures'', ''explain'', ''list_skills'', ''get_skill'',
      ''get_skill_draft_verdicts'', ''list_procedures'', ''get_type'', ''list_types'',
      ''validate'', ''list_ontology_versions'', ''list_worker_definitions'', ''propose_skill'',
      ''propose_procedure'', ''propose_worker_definition'', ''propose_operation'',
      ''propose_ontology_change'', ''get_goal'', ''list_goals'', ''get_goal_revision'',
      ''list_goal_unresolved_actions'', ''get_task'', ''list_allowed_operations'',
      ''observe_operation'', ENTRY_CEILING_GATE_OBSERVE_CAPABILITY_NAME, ''report_task_result'',
      ''platform_state_gates'', ''platform_state_connectors'', ''platform_state_audit'',
      ''platform_state_runtime'', ''platform_state_updates'', ''platform_state_invariants'',
      ''propose_admin_proposal'', ''agent_list_admin_proposals'', ''agent_get_admin_proposal'',
      ''agent_withdraw_admin_proposal'', ''agent_list_proposal_targets'',
      ''propose_pack_install'', ''agent_list_packs'', ''request_connection'', ''invoke_worker'']"

definition ADMIN_AGENT_CEILING_GROUPS :: "capability_group list" where
  "ADMIN_AGENT_CEILING_GROUPS =
     [Grp_graph, Grp_epistemic, Grp_meta, Grp_ontology, Grp_worker, Grp_goal, Grp_task, Grp_gate,
      Grp_connection, Grp_platform_state, Grp_admin_proposal]"

definition ADMIN_AGENT_CEILING_PROPOSALS :: "string list" where
  "ADMIN_AGENT_CEILING_PROPOSALS =
     [''propose_skill'', ''propose_procedure'', ''propose_worker_definition'',
      ''propose_operation'', ''propose_ontology_change'', ''propose_admin_proposal'',
      ''propose_pack_install'', ''request_connection'']"

definition ADMIN_AGENT_CEILING_WRITES :: "string list" where
  "ADMIN_AGENT_CEILING_WRITES =
     [''agent_withdraw_admin_proposal'', ''invoke_worker'']"

definition ADMIN_AGENT_CEILING_FOR_ITS_WORKERS :: "string list" where
  "ADMIN_AGENT_CEILING_FOR_ITS_WORKERS =
     [''report_task_result'']"

definition ADMIN_AGENT_CEILING_SIDE_EFFECTS :: "string list" where
  "ADMIN_AGENT_CEILING_SIDE_EFFECTS =
     [''observe_operation'', ENTRY_CEILING_GATE_OBSERVE_CAPABILITY_NAME]"

datatype ceiling_rule =
    NotRegistered | HumanChannelRule | PlatformCapability | GroupNotAdmitted | ExecuteClass
  | NotWorkerInfrastructure | WriteNotNamed | SideEffectsNotNamed

definition ceiling_problem :: "string \<Rightarrow> ceiling_rule option" where
  "ceiling_problem n =
     (case getCapability n of
        None \<Rightarrow> Some NotRegistered
      | Some c \<Rightarrow>
          (if capChannel c \<noteq> HandleChannel then Some HumanChannelRule
           else if capScopeKind c = Some PlatformKind then Some PlatformCapability
           else if capGroup c \<notin> set ADMIN_AGENT_CEILING_GROUPS then Some GroupNotAdmitted
           else if isExecuteClassCapability n then Some ExecuteClass
           else if n \<in> set ADMIN_AGENT_CEILING_FOR_ITS_WORKERS
                   \<and> n \<notin> set WORKER_INFRASTRUCTURE_CAPABILITY_NAMES then Some NotWorkerInfrastructure
           else if capMode c \<noteq> ModeObserve
                   \<and> \<not> (capMode c = ModePropose \<and> n \<in> set ADMIN_AGENT_CEILING_PROPOSALS)
                   \<and> \<not> (capMode c = ModeWrite \<and> n \<in> set ADMIN_AGENT_CEILING_WRITES)
                   \<and> \<not> (capMode c = ModeWrite \<and> n \<in> set ADMIN_AGENT_CEILING_FOR_ITS_WORKERS)
             then Some WriteNotNamed
           else if capSideEffects c = Some True \<and> n \<notin> set ADMIN_AGENT_CEILING_SIDE_EFFECTS
             then Some SideEffectsNotNamed
           else None))"

definition buildAdminAgentCeiling :: "string list \<Rightarrow> (string \<times> ceiling_rule, string list) result" where
  "buildAdminAgentCeiling names =
     (case first_error (\<lambda>n. map_option (Pair n) (ceiling_problem n)) names of
        Some e \<Rightarrow> Inl e
      | None \<Rightarrow> Inr (js_set names))"

text \<open>A throw while the module loads leaves no ceiling; \<open>admin_ceiling_loads\<close> shows there is none.\<close>

definition ADMIN_AGENT_CEILING_CAPABILITIES :: "string list" where
  "ADMIN_AGENT_CEILING_CAPABILITIES =
     (case buildAdminAgentCeiling ADMIN_AGENT_CEILING_CAPABILITY_NAMES of
        Inr names \<Rightarrow> names | Inl _ \<Rightarrow> [])"

definition isAdminAgentCeilingCapability :: "string \<Rightarrow> bool" where
  "isAdminAgentCeilingCapability n = (n \<in> set ADMIN_AGENT_CEILING_CAPABILITIES)"

definition adminAgentScope ::
  "(string \<times> string list) list \<Rightarrow> role option \<Rightarrow> capability_scope" where
  "adminAgentScope requested_resources r =
     scope_of_ceiling ADMIN_AGENT_CEILING_CAPABILITIES requested_resources r"

section \<open>Narrowing a scope\<close>

datatype attenuation_error =
    CapabilityNotInParent string
  | ResourceNotInParent string string
  | TtlExceedsParent

definition assertScopeIsSubset ::
  "capability_scope \<Rightarrow> capability_scope \<Rightarrow> (attenuation_error, unit) result" where
  "assertScopeIsSubset parent child =
     (case first_error (\<lambda>n. if n \<notin> set (capabilities parent) then Some (CapabilityNotInParent n) else None)
             (capabilities child) of
        Some e \<Rightarrow> Inl e
      | None \<Rightarrow>
          (case first_error (\<lambda>(key, ids).
                   first_error (\<lambda>i. if i \<notin> set (resource_values parent key)
                                    then Some (ResourceNotInParent key i) else None) ids)
                 (resources child) of
             Some e \<Rightarrow> Inl e
           | None \<Rightarrow> Inr ()))"

record requested_scope =
  rqCapabilities :: "string list option"
  rqResources :: "(string \<times> string list) list option"

definition intersectScope :: "capability_scope \<Rightarrow> requested_scope option \<Rightarrow> capability_scope" where
  "intersectScope limit requested =
     \<lparr>capabilities =
        (case Option.bind requested rqCapabilities of
           Some names \<Rightarrow> filter (\<lambda>n. n \<in> set (capabilities limit)) names
         | None \<Rightarrow> capabilities limit),
      resources =
        (case Option.bind requested rqResources of
           Some rs \<Rightarrow>
             List.map_filter (\<lambda>(key, ids).
                 let narrowed = filter (\<lambda>i. i \<in> set (resource_values limit key)) ids
                 in if narrowed \<noteq> [] then Some (key, narrowed) else None) rs
         | None \<Rightarrow> resources limit)\<rparr>"

section \<open>A Worker's scope\<close>

record declared_gate =
  dgId :: string
  dgName :: string

datatype gate_error = AmbiguousGateName string | UnknownGate string

definition resolve_gate :: "declared_gate list \<Rightarrow> string \<Rightarrow> (gate_error, string) result" where
  "resolve_gate declared requested =
     (if requested \<in> set (map dgId declared) then Inr requested
      else case filter (\<lambda>g. dgName g = requested) declared of
        [only] \<Rightarrow> Inr (dgId only)
      | [] \<Rightarrow> Inl (UnknownGate requested)
      | _ \<Rightarrow> Inl (AmbiguousGateName requested))"

fun resolveRequestedGateIds ::
  "string list \<Rightarrow> declared_gate list \<Rightarrow> (gate_error, string list) result" where
  "resolveRequestedGateIds [] declared = Inr []"
| "resolveRequestedGateIds (requested # rest) declared =
     bind_result (resolve_gate declared requested) (\<lambda>i.
     bind_result (resolveRequestedGateIds rest declared) (\<lambda>ids. Inr (i # ids)))"

definition EMPTY_CAPABILITY_SCOPE :: capability_scope where
  "EMPTY_CAPABILITY_SCOPE = \<lparr>capabilities = [], resources = []\<rparr>"

datatype parent_authority = Unconstrained | Constrained capability_scope

record child_scope_input =
  csParentAuthority :: parent_authority
  csDeclaredCapabilities :: "string list"
  csDeclaredGates :: "string list"
  csRequestedGates :: "string list option"

datatype child_scope_error =
    MissingExecuteClass "string list"
  | GatesNotDeclared "string list"
  | MissingExecuteGates "string list"
  | ChildNotSubset attenuation_error

definition parent_scope :: "parent_authority \<Rightarrow> capability_scope" where
  "parent_scope a = (case a of Unconstrained \<Rightarrow> EMPTY_CAPABILITY_SCOPE | Constrained s \<Rightarrow> s)"

definition parent_gates :: "parent_authority \<Rightarrow> string list" where
  "parent_gates a = resource_values (parent_scope a) ''gatekeeper''"

definition delegatedRequestAction :: "parent_authority \<Rightarrow> bool" where
  "delegatedRequestAction a = (a \<noteq> Unconstrained \<and> parent_gates a \<noteq> [])"

definition parent_has :: "parent_authority \<Rightarrow> string \<Rightarrow> bool" where
  "parent_has a n =
     (a = Unconstrained \<or> n \<in> set (capabilities (parent_scope a))
      \<or> (n = ''request_action'' \<and> delegatedRequestAction a))"

definition effectiveDeclaredCapabilities :: "child_scope_input \<Rightarrow> string list" where
  "effectiveDeclaredCapabilities inp =
     js_set (csDeclaredCapabilities inp @ WORKER_INFRASTRUCTURE_CAPABILITY_NAMES)"

text \<open>What the Worker definition asks for, and what of it the parent has to give.\<close>

definition considered_names :: "child_scope_input \<Rightarrow> string list" where
  "considered_names inp =
     filter (\<lambda>n. n \<in> set WORKER_CEILING_CAPABILITIES) (effectiveDeclaredCapabilities inp)"

definition requested_gates :: "child_scope_input \<Rightarrow> string list" where
  "requested_gates inp = (case csRequestedGates inp of Some gs \<Rightarrow> gs | None \<Rightarrow> csDeclaredGates inp)"

definition holds_gate :: "child_scope_input \<Rightarrow> string \<Rightarrow> bool" where
  "holds_gate inp gate \<longleftrightarrow>
     csParentAuthority inp = Unconstrained \<or> gate \<in> set (parent_gates (csParentAuthority inp))"

definition narrowed_scope :: "child_scope_input \<Rightarrow> capability_scope" where
  "narrowed_scope inp =
     \<lparr>capabilities = filter (parent_has (csParentAuthority inp)) (considered_names inp),
      resources = (if filter (holds_gate inp) (requested_gates inp) = [] then []
                   else [(''gatekeeper'', filter (holds_gate inp) (requested_gates inp))])\<rparr>"

definition computeChildHandleScope ::
  "child_scope_input \<Rightarrow> (child_scope_error, capability_scope) result" where
  "computeChildHandleScope inp =
     (let authority = csParentAuthority inp;
          childScope = narrowed_scope inp;
          missingExecuteClass =
            filter (\<lambda>n. isExecuteClassCapability n \<and> \<not> parent_has authority n) (considered_names inp);
          notDeclared = filter (\<lambda>gate. gate \<notin> set (csDeclaredGates inp)) (requested_gates inp);
          wantsExecute = list_ex isExecuteClassCapability (capabilities childScope);
          missingExecuteGates = filter (\<lambda>gate. \<not> holds_gate inp gate \<and> wantsExecute) (requested_gates inp)
      in if missingExecuteClass \<noteq> [] then Inl (MissingExecuteClass missingExecuteClass)
         else if notDeclared \<noteq> [] then Inl (GatesNotDeclared notDeclared)
         else if missingExecuteGates \<noteq> [] then Inl (MissingExecuteGates missingExecuteGates)
         else if authority \<noteq> Unconstrained then
           (let comparisonScope =
                  (if delegatedRequestAction authority
                   then \<lparr>capabilities = js_set (capabilities (parent_scope authority) @ [''request_action'']),
                         resources = resources (parent_scope authority)\<rparr>
                   else parent_scope authority)
            in case assertScopeIsSubset comparisonScope childScope of
                 Inl e \<Rightarrow> Inl (ChildNotSubset e)
               | Inr _ \<Rightarrow> Inr childScope)
         else Inr childScope)"

definition resolveParentAuthority ::
  "handle_claims option \<Rightarrow> role option \<Rightarrow> parent_authority" where
  "resolveParentAuthority claims caller_role =
     (case claims of
        Some c \<Rightarrow> Constrained (hcScope c)
      | None \<Rightarrow> (if caller_role = Some Owner then Unconstrained else Constrained EMPTY_CAPABILITY_SCOPE))"

section \<open>The ceilings hold what a handle may carry\<close>

text \<open>A name a handle of an ordinary session may carry, and the names that are.\<close>

definition mintable :: "string \<Rightarrow> bool" where
  "mintable n \<longleftrightarrow>
     (\<exists>c. getCapability n = Some c \<and> capChannel c = HandleChannel \<and> \<not> capAdminAgentOnly c)"

abbreviation handle_table ::
  "(string \<times> capability_group \<times> capability_mode \<times> bool option) list" where
  "handle_table \<equiv> concat (map handle_rows GROUPS)"

text \<open>No group but the admin agent's own two holds an admin-agent-only capability.\<close>

lemma ordinary_row_mintable:
  assumes "(n, g, m, se) \<in> set handle_table" and "g \<noteq> Grp_platform_state" and "g \<noteq> Grp_admin_proposal"
  shows "mintable n"
proof -
  from handle_row_capability[OF assms(1)] obtain c
    where "getCapability n = Some c" "capChannel c = HandleChannel" "capGroup c = g" "well_governed c"
    by metis
  with assms(2,3) show ?thesis by (auto simp: mintable_def well_governed_def)
qed

definition ordinary_names :: "string list" where
  "ordinary_names =
     map fst (filter (\<lambda>(n, g, m, se). g \<noteq> Grp_platform_state \<and> g \<noteq> Grp_admin_proposal) handle_table)"

lemma ordinary_names_mintable: "n \<in> set ordinary_names \<Longrightarrow> mintable n"
  unfolding ordinary_names_def set_map set_filter by (auto intro: ordinary_row_mintable simp del: set_concat)

lemmas eval_handle_table = GROUPS_def list.map concat.simps handle_rows_by_group append.simps append_Nil2

lemma named_extras_ordinary:
  "set (ENTRY_CEILING_GATE_OBSERVE_CAPABILITY_NAME # WORKER_CEILING_GATE_EXECUTE_CAPABILITY_NAME
        # ENTRY_CEILING_EXTRA_CAPABILITY_NAMES @ WORKER_CEILING_EXTRA_CAPABILITY_NAMES)
   \<subseteq> set ordinary_names"
proof -
  have names: "ordinary_names = map fst (concat (map handle_rows (take 18 GROUPS)))"
    unfolding ordinary_names_def eval_handle_table by (simp add: handle_rows_by_group)
  show ?thesis
    unfolding names ENTRY_CEILING_EXTRA_CAPABILITY_NAMES_def WORKER_CEILING_EXTRA_CAPABILITY_NAMES_def
      ENTRY_CEILING_GATE_OBSERVE_CAPABILITY_NAME_def WORKER_CEILING_GATE_EXECUTE_CAPABILITY_NAME_def
    by (simp add: GROUPS_def handle_rows_by_group)
qed

lemma registry_names_mintable: "n \<in> set (registry_names excluded) \<Longrightarrow> mintable n"
  by (auto simp: registry_names_def mintable_def dest: getCapability_registered)

lemma entry_ceiling_mintable: "n \<in> set ENTRY_CEILING_CAPABILITIES \<Longrightarrow> mintable n"
  using named_extras_ordinary
  by (auto simp: ENTRY_CEILING_CAPABILITIES_def intro: ordinary_names_mintable registry_names_mintable)

lemma worker_ceiling_mintable: "n \<in> set WORKER_CEILING_CAPABILITIES \<Longrightarrow> mintable n"
  using named_extras_ordinary
  by (auto simp: WORKER_CEILING_CAPABILITIES_def intro: ordinary_names_mintable registry_names_mintable)

lemma mintable_valid: "mintable n \<Longrightarrow> capability_problem n = None"
  by (auto simp: mintable_def capability_problem_def)

lemma valid_scope_iff:
  "assertValidScope scope = Inr () \<longleftrightarrow> (\<forall>n\<in>set (capabilities scope). capability_problem n = None)"
proof (cases "first_error capability_problem (capabilities scope)")
  case None
  then have "\<forall>n\<in>set (capabilities scope). capability_problem n = None" by simp
  with None show ?thesis by (simp add: assertValidScope_def del: first_error_None_iff)
next
  case (Some e)
  then have "\<not> (\<forall>n\<in>set (capabilities scope). capability_problem n = None)"
    by (metis first_error_None_iff option.distinct(1))
  with Some show ?thesis by (simp add: assertValidScope_def)
qed

subsection \<open>The admin agent's ceiling loads\<close>

definition row_admitted :: "string \<times> capability_group \<times> capability_mode \<times> bool option \<Rightarrow> bool" where
  "row_admitted row =
     (case row of (n, g, m, se) \<Rightarrow>
        g \<in> set ADMIN_AGENT_CEILING_GROUPS \<and> m \<noteq> ModeExecute
        \<and> (if m = ModeObserve then se = Some True \<longrightarrow> n \<in> set ADMIN_AGENT_CEILING_SIDE_EFFECTS
           else if m = ModePropose then se \<noteq> Some True \<and> n \<in> set ADMIN_AGENT_CEILING_PROPOSALS
           else se \<noteq> Some True
                \<and> n \<in> set (ADMIN_AGENT_CEILING_WRITES @ ADMIN_AGENT_CEILING_FOR_ITS_WORKERS)))"

lemma admitted_has_no_problem:
  assumes "row_admitted (n, g, m, se)" and "(n, g, m, se) \<in> set handle_table"
    and "\<not> isExecuteClassCapability n"
  shows "ceiling_problem n = None"
proof -
  from handle_row_capability[OF assms(2)] obtain c
    where c: "getCapability n = Some c" "capChannel c = HandleChannel" "capGroup c = g" "capMode c = m"
      "capSideEffects c = se" "well_governed c" by metis
  have worker: "set ADMIN_AGENT_CEILING_FOR_ITS_WORKERS \<subseteq> set WORKER_INFRASTRUCTURE_CAPABILITY_NAMES"
    by (simp add: ADMIN_AGENT_CEILING_FOR_ITS_WORKERS_def WORKER_INFRASTRUCTURE_CAPABILITY_NAMES_def)
  from c(2,6) have "capScopeKind c \<noteq> Some PlatformKind" by (auto simp: well_governed_def)
  with assms c worker show ?thesis
    by (cases m) (auto simp: row_admitted_def ceiling_problem_def)
qed

definition admitted_names :: "capability list \<Rightarrow> string list" where
  "admitted_names g = map fst (filter row_admitted (handle_rows g))"

lemma admitted_by_group:
  "admitted_names chatCapabilities = []"
  "admitted_names ontologyCapabilities =
     [''propose_ontology_change'', ''get_type'', ''list_types'', ''validate'',
      ''list_ontology_versions'']"
  "admitted_names graphCapabilities =
     [''get_object'', ''traverse'', ''search'', ''list_facts'', ''state_at'',
      ''graph_freshness'', ''graph_overview'', ''find_operations'', ''find_workers'',
      ''find_procedures'']"
  "admitted_names gateCapabilities =
     [''observe_operation'', ''<gate>.<op>'']"
  "admitted_names connectionCapabilities =
     [''request_connection'']"
  "admitted_names metaCapabilities =
     [''propose_operation'', ''propose_skill'', ''propose_procedure'', ''list_skills'',
      ''get_skill'', ''get_skill_draft_verdicts'', ''list_procedures'']"
  "admitted_names epistemicCapabilities =
     [''explain'', ''query_decisions'', ''find_precedents'', ''causal_chain'',
      ''decision_impact'', ''list_conflicts'']"
  "admitted_names governanceCapabilities = []"
  "admitted_names taskCapabilities =
     [''invoke_worker'', ''get_task'', ''list_allowed_operations'', ''report_task_result'']"
  "admitted_names workerCapabilities =
     [''propose_worker_definition'', ''list_worker_definitions'']"
  "admitted_names ingestCapabilities = []"
  "admitted_names auditCapabilities = []"
  "admitted_names membersCapabilities = []"
  "admitted_names agentProfileCapabilities = []"
  "admitted_names platformCapabilities = []"
  "admitted_names modulesCapabilities = []"
  "admitted_names goalCapabilities =
     [''get_goal'', ''list_goals'', ''get_goal_revision'', ''list_goal_unresolved_actions'']"
  "admitted_names evaluationCapabilities = []"
  "admitted_names platformStateCapabilities =
     [''platform_state_gates'', ''platform_state_connectors'', ''platform_state_audit'',
      ''platform_state_runtime'', ''platform_state_updates'', ''platform_state_invariants'']"
  "admitted_names adminProposalCapabilities =
     [''propose_admin_proposal'', ''agent_list_admin_proposals'', ''agent_get_admin_proposal'',
      ''agent_withdraw_admin_proposal'', ''agent_list_proposal_targets'',
      ''propose_pack_install'', ''agent_list_packs'']"
  by (simp_all add: admitted_names_def handle_rows_by_group row_admitted_def
      ADMIN_AGENT_CEILING_GROUPS_def ADMIN_AGENT_CEILING_PROPOSALS_def
      ADMIN_AGENT_CEILING_WRITES_def ADMIN_AGENT_CEILING_FOR_ITS_WORKERS_def
      ADMIN_AGENT_CEILING_SIDE_EFFECTS_def ENTRY_CEILING_GATE_OBSERVE_CAPABILITY_NAME_def)

lemma ceiling_names_admitted:
  "set ADMIN_AGENT_CEILING_CAPABILITY_NAMES \<subseteq> set (concat (map admitted_names GROUPS))"
  unfolding GROUPS_def list.map concat.simps admitted_by_group append.simps append_Nil2
    ADMIN_AGENT_CEILING_CAPABILITY_NAMES_def ENTRY_CEILING_GATE_OBSERVE_CAPABILITY_NAME_def
  by simp

lemma ceiling_names_not_execute:
  "list_all (\<lambda>n. \<not> isExecuteClassCapability n) ADMIN_AGENT_CEILING_CAPABILITY_NAMES"
  by (simp add: ADMIN_AGENT_CEILING_CAPABILITY_NAMES_def isExecuteClassCapability_def
      EXECUTE_CLASS_CAPABILITY_NAMES_def WORKER_CEILING_GATE_EXECUTE_CAPABILITY_NAME_def
      ENTRY_CEILING_GATE_OBSERVE_CAPABILITY_NAME_def)

lemma ceiling_names_unproblematic:
  assumes "n \<in> set ADMIN_AGENT_CEILING_CAPABILITY_NAMES"
  shows "ceiling_problem n = None"
proof -
  from assms ceiling_names_admitted have "n \<in> set (concat (map admitted_names GROUPS))" by blast
  then have "\<exists>row\<in>set handle_table. row_admitted row \<and> fst row = n"
    by (auto simp: admitted_names_def)
  then obtain g m se where "row_admitted (n, g, m, se)" "(n, g, m, se) \<in> set handle_table"
    by (metis prod.exhaust_sel)
  moreover have "\<not> isExecuteClassCapability n"
    using assms ceiling_names_not_execute by (auto simp: list_all_iff)
  ultimately show ?thesis by (rule admitted_has_no_problem)
qed

lemma admin_ceiling_built:
  "buildAdminAgentCeiling ADMIN_AGENT_CEILING_CAPABILITY_NAMES
     = Inr (js_set ADMIN_AGENT_CEILING_CAPABILITY_NAMES)"
proof -
  have "first_error (\<lambda>n. map_option (Pair n) (ceiling_problem n)) ADMIN_AGENT_CEILING_CAPABILITY_NAMES = None"
    using ceiling_names_unproblematic by simp
  then show ?thesis by (simp only: buildAdminAgentCeiling_def option.case)
qed

lemma set_admin_ceiling: "set ADMIN_AGENT_CEILING_CAPABILITIES = set ADMIN_AGENT_CEILING_CAPABILITY_NAMES"
  by (simp add: ADMIN_AGENT_CEILING_CAPABILITIES_def admin_ceiling_built)

lemma admin_ceiling_rule:
  assumes "n \<in> set ADMIN_AGENT_CEILING_CAPABILITIES"
  obtains c where "getCapability n = Some c" and "ceiling_problem n = None"
proof -
  have "ceiling_problem n = None"
    using assms by (simp add: set_admin_ceiling ceiling_names_unproblematic)
  moreover then obtain c where "getCapability n = Some c"
    by (auto simp: ceiling_problem_def split: option.splits)
  ultimately show thesis using that by blast
qed

lemma registry_names_not_execute:
  assumes "n \<in> set (registry_names excluded)"
  shows "\<not> isExecuteClassCapability n"
proof
  assume exec: "isExecuteClassCapability n"
  from assms obtain c where c: "c \<in> set CAPABILITY_REGISTRY" "capName c = n"
      "capGroup c = Grp_graph \<or> startsWith n ''propose_''"
    by (auto simp: registry_names_def)
  from exec have n: "n = ''request_action'' \<or> n = ''<gate>.<op>:execute''"
    by (auto simp: isExecuteClassCapability_def EXECUTE_CLASS_CAPABILITY_NAMES_def
        WORKER_CEILING_GATE_EXECUTE_CAPABILITY_NAME_def)
  then have "\<exists>g m se. (n, g, m, se) \<in> set handle_table \<and> g \<noteq> Grp_graph"
  proof
    assume "n = ''request_action''"
    then have "(n, Grp_task, ModeExecute, None) \<in> set (handle_rows taskCapabilities)
        \<or> (n, Grp_governance, ModeExecute, None) \<in> set (handle_rows governanceCapabilities)"
      by (simp add: handle_rows_by_group)
    then show ?thesis unfolding GROUPS_def by auto
  next
    assume "n = ''<gate>.<op>:execute''"
    then have "(n, Grp_gate, ModeExecute, None) \<in> set (handle_rows gateCapabilities)"
      by (simp add: handle_rows_by_group)
    then show ?thesis unfolding GROUPS_def by auto
  qed
  then obtain g m se where row: "(n, g, m, se) \<in> set handle_table" "g \<noteq> Grp_graph" by blast
  from handle_row_capability[OF row(1)] obtain c' where "getCapability n = Some c'" "capGroup c' = g" by metis
  with getCapability_registered[OF c(1)] c(2) row(2) have "capGroup c \<noteq> Grp_graph" by simp
  with c(3) n show False by (auto simp: startsWith_def)
qed

lemma entry_ceiling_not_execute: "n \<in> set ENTRY_CEILING_CAPABILITIES \<Longrightarrow> \<not> isExecuteClassCapability n"
proof -
  have "list_all (\<lambda>n. \<not> isExecuteClassCapability n)
      (ENTRY_CEILING_GATE_OBSERVE_CAPABILITY_NAME # ENTRY_CEILING_EXTRA_CAPABILITY_NAMES)"
    by (simp add: ENTRY_CEILING_EXTRA_CAPABILITY_NAMES_def ENTRY_CEILING_GATE_OBSERVE_CAPABILITY_NAME_def
        isExecuteClassCapability_def EXECUTE_CLASS_CAPABILITY_NAMES_def
        WORKER_CEILING_GATE_EXECUTE_CAPABILITY_NAME_def)
  then show "n \<in> set ENTRY_CEILING_CAPABILITIES \<Longrightarrow> \<not> isExecuteClassCapability n"
    by (auto simp: ENTRY_CEILING_CAPABILITIES_def list_all_iff dest: registry_names_not_execute)
qed

text \<open>
  C39: the three ceilings load and hold what they are for: every entry and Worker capability is
  registered, on the handle channel and not the admin agent's own; neither an entry agent's nor an
  admin agent's ceiling can execute; and each name of the admin agent's passes every rule of its
  construction, so building it never throws.
\<close>

theorem ceilings_hold_no_decision:
  "list_all mintable ENTRY_CEILING_CAPABILITIES \<and> list_all mintable WORKER_CEILING_CAPABILITIES
   \<and> list_all (\<lambda>n. \<not> isExecuteClassCapability n)
        (ENTRY_CEILING_CAPABILITIES @ ADMIN_AGENT_CEILING_CAPABILITIES)
   \<and> buildAdminAgentCeiling ADMIN_AGENT_CEILING_CAPABILITY_NAMES = Inr ADMIN_AGENT_CEILING_CAPABILITIES
   \<and> list_all (\<lambda>n. ceiling_problem n = None) ADMIN_AGENT_CEILING_CAPABILITIES"
proof -
  have "ADMIN_AGENT_CEILING_CAPABILITIES = js_set ADMIN_AGENT_CEILING_CAPABILITY_NAMES"
    by (simp add: ADMIN_AGENT_CEILING_CAPABILITIES_def admin_ceiling_built)
  with ceiling_names_not_execute show ?thesis
    by (auto simp: list_all_iff entry_ceiling_mintable worker_ceiling_mintable admin_ceiling_built
        ceiling_names_unproblematic set_admin_ceiling dest: entry_ceiling_not_execute)
qed

section \<open>A child's scope is its parent's, narrowed\<close>

lemma subset_iff:
  "assertScopeIsSubset parent child = Inr () \<longleftrightarrow>
     set (capabilities child) \<subseteq> set (capabilities parent)
     \<and> (\<forall>(key, ids)\<in>set (resources child). set ids \<subseteq> set (resource_values parent key))"
proof -
  let ?names = "first_error (\<lambda>n. if n \<notin> set (capabilities parent) then Some (CapabilityNotInParent n)
    else None) (capabilities child)"
  let ?ids = "first_error (\<lambda>(key, ids). first_error (\<lambda>i. if i \<notin> set (resource_values parent key)
    then Some (ResourceNotInParent key i) else None) ids) (resources child)"
  have "assertScopeIsSubset parent child = Inr () \<longleftrightarrow> ?names = None \<and> ?ids = None"
    by (simp add: assertScopeIsSubset_def del: first_error_None_iff split: option.splits)
  also have "?names = None \<longleftrightarrow> set (capabilities child) \<subseteq> set (capabilities parent)" by auto
  also have "?ids = None \<longleftrightarrow>
      (\<forall>(key, ids)\<in>set (resources child). set ids \<subseteq> set (resource_values parent key))"
    by (fastforce split: if_splits)
  finally show ?thesis .
qed

lemma narrowed_is_subset:
  assumes "csParentAuthority inp = Constrained s"
  shows "assertScopeIsSubset
     (if delegatedRequestAction (csParentAuthority inp)
      then \<lparr>capabilities = js_set (capabilities s @ [''request_action'']), resources = resources s\<rparr>
      else s) (narrowed_scope inp) = Inr ()"
  using assms
  by (auto simp: subset_iff narrowed_scope_def parent_has_def holds_gate_def parent_gates_def
      parent_scope_def resource_values_def)

text \<open>The redundant check at the end never fires.\<close>

lemma computeChildHandleScope_Inr:
  "computeChildHandleScope inp = Inr child \<longleftrightarrow>
     child = narrowed_scope inp
     \<and> (\<forall>n\<in>set (considered_names inp). isExecuteClassCapability n \<longrightarrow> parent_has (csParentAuthority inp) n)
     \<and> set (requested_gates inp) \<subseteq> set (csDeclaredGates inp)
     \<and> (list_ex isExecuteClassCapability (capabilities (narrowed_scope inp)) \<longrightarrow>
          (\<forall>gate\<in>set (requested_gates inp). holds_gate inp gate))"
proof -
  let ?last = "if csParentAuthority inp \<noteq> Unconstrained then
      (case assertScopeIsSubset
             (if delegatedRequestAction (csParentAuthority inp)
              then \<lparr>capabilities = js_set (capabilities (parent_scope (csParentAuthority inp)) @ [''request_action'']),
                    resources = resources (parent_scope (csParentAuthority inp))\<rparr>
              else parent_scope (csParentAuthority inp)) (narrowed_scope inp) of
         Inl e \<Rightarrow> Inl (ChildNotSubset e) | Inr _ \<Rightarrow> Inr (narrowed_scope inp))
    else Inr (narrowed_scope inp)"
  have last: "?last = Inr (narrowed_scope inp)"
  proof (cases "csParentAuthority inp")
    case (Constrained s)
    then have parent: "parent_scope (csParentAuthority inp) = s" by (simp add: parent_scope_def)
    show ?thesis unfolding parent narrowed_is_subset[OF Constrained] by simp
  qed simp
  show ?thesis
    unfolding computeChildHandleScope_def Let_def last
    by (auto simp: filter_empty_conv)
qed

lemma child_never_fails_subset: "computeChildHandleScope inp \<noteq> Inl (ChildNotSubset e)"
proof (cases "csParentAuthority inp")
  case (Constrained s)
  then have parent: "parent_scope (csParentAuthority inp) = s" by (simp add: parent_scope_def)
  show ?thesis
    unfolding computeChildHandleScope_def Let_def parent narrowed_is_subset[OF Constrained] by simp
qed (simp add: computeChildHandleScope_def Let_def)

text \<open>
  C7: invoking a Worker gives its handle exactly what its definition asks for, and the infrastructure
  names every Worker gets, within the Worker ceiling that the invoker also has - \<open>request_action\<close> being had by whoever has a gate - on exactly
  the requested gates the invoker has; it fails exactly when an execute-class capability, or with
  one a gate, is not the invoker's, or a gate is not declared; and the subset check that ends the
  construction never fires.
\<close>

theorem child_scope_exact:
  "(computeChildHandleScope inp = Inr child \<longleftrightarrow>
      capabilities child = filter (\<lambda>n. n \<in> set WORKER_CEILING_CAPABILITIES \<and> parent_has (csParentAuthority inp) n)
                             (effectiveDeclaredCapabilities inp)
      \<and> resources child = (if list_ex (holds_gate inp) (requested_gates inp)
                           then [(''gatekeeper'', filter (holds_gate inp) (requested_gates inp))] else [])
      \<and> list_all (\<lambda>n. parent_has (csParentAuthority inp) n)
          (filter (\<lambda>n. isExecuteClassCapability n \<and> n \<in> set WORKER_CEILING_CAPABILITIES)
             (effectiveDeclaredCapabilities inp))
      \<and> set (requested_gates inp) \<subseteq> set (csDeclaredGates inp)
      \<and> (if list_ex isExecuteClassCapability (capabilities child)
         then list_all (holds_gate inp) (requested_gates inp) else True))
   \<and> computeChildHandleScope inp \<noteq> Inl (ChildNotSubset e)"
proof -
  have scope: "child = narrowed_scope inp \<longleftrightarrow>
      capabilities child = filter (\<lambda>n. n \<in> set WORKER_CEILING_CAPABILITIES \<and> parent_has (csParentAuthority inp) n)
                             (effectiveDeclaredCapabilities inp)
      \<and> resources child = (if list_ex (holds_gate inp) (requested_gates inp)
                           then [(''gatekeeper'', filter (holds_gate inp) (requested_gates inp))] else [])"
    by (auto simp: narrowed_scope_def considered_names_def list_ex_iff filter_empty_conv conj_commute
        intro!: capability_scope.equality)
  show ?thesis
  proof (cases "child = narrowed_scope inp")
    case True
    then have "capabilities child = capabilities (narrowed_scope inp)" by simp
    with True scope show ?thesis
      by (simp add: computeChildHandleScope_Inr child_never_fails_subset list_all_iff considered_names_def)
        blast
  next
    case False
    with scope child_never_fails_subset[of inp e] show ?thesis
      unfolding computeChildHandleScope_Inr by blast
  qed
qed

end
