(* ===== verification/Handles.thy ===== *)
theory Handles
  imports Handle_Scopes
begin

text \<open>
  The life of a capability handle: issuing, verifying, attenuating and revoking it
  (\<open>governance/capability/handles.ts\<close>), and the handle of a Worker run
  (\<open>application/task/handle-mint.ts\<close>, \<open>mintWorkerRunHandle\<close>), over the \<open>sessions\<close> and
  \<open>capability_handles\<close> tables.

  A client sees the rows of its workspace only, which is an argument.  The clock is in seconds;
  two readings of it in one operation are two arguments.  Signing and checking a token is the
  \<open>jose\<close> library: what it accepts, with the claims it returns, is a parameter, and a token that is
  issued is represented by its claims.
\<close>

section \<open>State\<close>

record session_row =
  seWorkspaceId :: string
  seId :: string
  sePrincipalId :: string
  seKind :: session_kind
  seOnBehalfOf :: string

record handle_row =
  chWorkspaceId :: string
  chJti :: string
  chSessionId :: string
  chOnBehalfOf :: string
  chParentJti :: "string option"
  chScope :: capability_scope
  chExpiresAt :: int
  chRevokedAt :: "int option"

record handle_db =
  sessions :: "session_row list"
  handles :: "handle_row list"

text \<open>A JavaScript number, as \<open>Number.isFinite\<close> and the comparisons see it.\<close>

datatype js_number = Finite rat | PosInfinity | NegInfinity | NotANumber

datatype token_failure = TokenExpired | TokenInvalid

type_synonym token_check = "string \<Rightarrow> (token_failure, handle_claims) result"

datatype handle_error =
    ScopeInvalid scope_error
  | TtlNotPositive
  | NoSession string
  | OutsideAdminCeiling "string list"
  | AdminAgentCapabilities "string list"
  | ParentAboutToExpire
  | ParentHandleMissing string
  | HandleExpired
  | HandleInvalid
  | HandleRevoked string
  | Attenuation attenuation_error

section \<open>Issuing\<close>

definition CONTAINER_HELD_SESSION_KINDS :: "session_kind list" where
  "CONTAINER_HELD_SESSION_KINDS = [SK_entry, SK_worker_run, SK_admin_agent]"

definition held_by_container :: "session_kind \<Rightarrow> bool" where
  "held_by_container kind = (kind \<in> set CONTAINER_HELD_SESSION_KINDS)"

record issue_params =
  ipSessionId :: string
  ipScope :: capability_scope
  ipTtlSeconds :: js_number
  ipParentJti :: "string option"
  ipNotAfterSeconds :: "int option"

definition find_session :: "string \<Rightarrow> string \<Rightarrow> handle_db \<Rightarrow> session_row option" where
  "find_session ws sid db = find (\<lambda>s. seWorkspaceId s = ws \<and> seId s = sid) (sessions db)"

definition find_handle :: "string \<Rightarrow> string \<Rightarrow> handle_db \<Rightarrow> handle_row option" where
  "find_handle ws jti db = find (\<lambda>h. chWorkspaceId h = ws \<and> chJti h = jti) (handles db)"

text \<open>\<open>Number.isFinite(ttl) && ttl > 0\<close>, and its floor.\<close>

definition whole_seconds :: "js_number \<Rightarrow> int option" where
  "whole_seconds ttl = (case ttl of Finite q \<Rightarrow> (if q > 0 then Some \<lfloor>q\<rfloor> else None) | _ \<Rightarrow> None)"

text \<open>What a session of a kind may not carry.\<close>

definition kind_problem :: "session_kind \<Rightarrow> string list \<Rightarrow> handle_error option" where
  "kind_problem kind names =
     (if kind = SK_admin_agent then
        (let outside = filter (\<lambda>n. \<not> isAdminAgentCeilingCapability n) names
         in if outside \<noteq> [] then Some (OutsideAdminCeiling outside) else None)
      else
        (let agentOnly = filter (\<lambda>n. case getCapability n of Some c \<Rightarrow> capAdminAgentOnly c | None \<Rightarrow> False) names
         in if agentOnly \<noteq> [] then Some (AdminAgentCapabilities agentOnly) else None))"

definition expiry :: "int \<Rightarrow> int \<Rightarrow> int option \<Rightarrow> int" where
  "expiry iat ttl notAfter = (case notAfter of None \<Rightarrow> iat + ttl | Some e \<Rightarrow> min (iat + ttl) e)"

text \<open>
  The row \<open>issueHandle\<close> inserts.  Its parent, when it names one, must exist: the table's foreign
  key on \<open>(workspace_id, parent_jti)\<close>.
\<close>

definition issueHandle ::
  "int \<Rightarrow> string \<Rightarrow> string \<Rightarrow> issue_params \<Rightarrow> handle_db
    \<Rightarrow> (handle_error, handle_claims \<times> handle_db) result" where
  "issueHandle now jti ws params db =
     (case assertValidScope (ipScope params) of
        Inl e \<Rightarrow> Inl (ScopeInvalid e)
      | Inr _ \<Rightarrow>
     (case whole_seconds (ipTtlSeconds params) of
        None \<Rightarrow> Inl TtlNotPositive
      | Some ttl \<Rightarrow>
     (case find_session ws (ipSessionId params) db of
        None \<Rightarrow> Inl (NoSession (ipSessionId params))
      | Some session \<Rightarrow>
     (case kind_problem (seKind session) (capabilities (ipScope params)) of
        Some e \<Rightarrow> Inl e
      | None \<Rightarrow>
          (let expSeconds = expiry now ttl (ipNotAfterSeconds params) in
           if expSeconds \<le> now then Inl ParentAboutToExpire
           else if (case ipParentJti params of Some p \<Rightarrow> find_handle ws p db = None | None \<Rightarrow> False)
             then Inl (ParentHandleMissing (the (ipParentJti params)))
           else Inr (\<lparr>hcWorkspace = seWorkspaceId session, hcSession = ipSessionId params,
                      hcOnBehalfOf = seOnBehalfOf session, hcScope = ipScope params, hcJti = jti,
                      hcIssuedAt = now, hcExpiresAt = expSeconds, hcParent = ipParentJti params,
                      hcContainerHeld = held_by_container (seKind session)\<rparr>,
                     db\<lparr>handles := handles db @
                       [\<lparr>chWorkspaceId = seWorkspaceId session, chJti = jti,
                         chSessionId = ipSessionId params, chOnBehalfOf = seOnBehalfOf session,
                         chParentJti = ipParentJti params, chScope = ipScope params,
                         chExpiresAt = expSeconds, chRevokedAt = None\<rparr>]\<rparr>))))))"

section \<open>Verifying\<close>

definition dbRevocationCheck :: "string \<Rightarrow> handle_db \<Rightarrow> string \<Rightarrow> bool" where
  "dbRevocationCheck ws db jti =
     (case find_handle ws jti db of None \<Rightarrow> True | Some h \<Rightarrow> chRevokedAt h \<noteq> None)"

definition verifyHandle ::
  "token_check \<Rightarrow> (string \<Rightarrow> bool) \<Rightarrow> string \<Rightarrow> (handle_error, handle_claims) result" where
  "verifyHandle verify_token isRevoked token =
     (case verify_token token of
        Inl TokenExpired \<Rightarrow> Inl HandleExpired
      | Inl TokenInvalid \<Rightarrow> Inl HandleInvalid
      | Inr claims \<Rightarrow>
          (if isRevoked (hcJti claims) then Inl (HandleRevoked (hcJti claims)) else Inr claims))"

section \<open>Attenuating\<close>

definition exceeds :: "js_number \<Rightarrow> int \<Rightarrow> bool" where
  "exceeds ttl remaining =
     (case ttl of Finite q \<Rightarrow> q > of_int remaining | PosInfinity \<Rightarrow> True | _ \<Rightarrow> False)"

text \<open>
  \<open>now1\<close> is the clock when the remaining time is computed, \<open>now2\<close> when the child is issued.
\<close>

definition attenuate ::
  "token_check \<Rightarrow> int \<Rightarrow> int \<Rightarrow> string \<Rightarrow> string \<Rightarrow> string \<Rightarrow> capability_scope \<Rightarrow> js_number option
    \<Rightarrow> handle_db \<Rightarrow> (handle_error, handle_claims \<times> handle_db) result" where
  "attenuate verify_token now1 now2 jti ws token scope ttl_option db =
     (case assertValidScope scope of
        Inl e \<Rightarrow> Inl (ScopeInvalid e)
      | Inr _ \<Rightarrow>
     bind_result (verifyHandle verify_token (dbRevocationCheck ws db) token) (\<lambda>parent.
     case assertScopeIsSubset (hcScope parent) scope of
        Inl e \<Rightarrow> Inl (Attenuation e)
      | Inr _ \<Rightarrow>
          (let remaining = hcExpiresAt parent - now1;
               ttl = (case ttl_option of Some t \<Rightarrow> t | None \<Rightarrow> Finite (of_int remaining))
           in if exceeds ttl remaining then Inl (Attenuation TtlExceedsParent)
              else issueHandle now2 jti ws
                     \<lparr>ipSessionId = hcSession parent, ipScope = scope, ipTtlSeconds = ttl,
                      ipParentJti = Some (hcJti parent), ipNotAfterSeconds = Some (hcExpiresAt parent)\<rparr> db)))"

section \<open>A Worker run's handle\<close>

text \<open>\<open>Math.min(ttl, remaining)\<close>, which is \<open>NaN\<close> when one of them is.\<close>

definition js_min :: "js_number \<Rightarrow> int \<Rightarrow> js_number" where
  "js_min ttl remaining =
     (case ttl of
        Finite q \<Rightarrow> Finite (min q (of_int remaining))
      | PosInfinity \<Rightarrow> Finite (of_int remaining)
      | NegInfinity \<Rightarrow> NegInfinity
      | NotANumber \<Rightarrow> NotANumber)"

record parent_lineage =
  plJti :: string
  plExp :: int

definition mintWorkerRunHandle ::
  "int \<Rightarrow> int \<Rightarrow> string \<Rightarrow> string \<Rightarrow> string \<Rightarrow> string \<Rightarrow> parent_lineage option \<Rightarrow> capability_scope \<Rightarrow> js_number
    \<Rightarrow> handle_db \<Rightarrow> (handle_error, handle_claims \<times> handle_db) result" where
  "mintWorkerRunHandle now1 now2 sid jti ws onBehalfOf parent scope ttl db =
     (case assertValidScope scope of
        Inl e \<Rightarrow> Inl (ScopeInvalid e)
      | Inr _ \<Rightarrow>
          (let db1 = db\<lparr>sessions := sessions db @
                 [\<lparr>seWorkspaceId = ws, seId = sid, sePrincipalId = onBehalfOf, seKind = SK_worker_run,
                   seOnBehalfOf = onBehalfOf\<rparr>]\<rparr>
           in issueHandle now2 jti ws
                \<lparr>ipSessionId = sid, ipScope = scope,
                 ipTtlSeconds = (case parent of None \<Rightarrow> ttl | Some p \<Rightarrow> js_min ttl (plExp p - now1)),
                 ipParentJti = map_option plJti parent, ipNotAfterSeconds = map_option plExp parent\<rparr> db1))"

section \<open>Revoking\<close>

definition revoke_where :: "(handle_row \<Rightarrow> bool) \<Rightarrow> int \<Rightarrow> handle_db \<Rightarrow> handle_db" where
  "revoke_where P now db =
     db\<lparr>handles := map (\<lambda>h. if P h \<and> chRevokedAt h = None then h\<lparr>chRevokedAt := Some now\<rparr> else h)
                    (handles db)\<rparr>"

definition revokeHandle :: "int \<Rightarrow> string \<Rightarrow> string \<Rightarrow> handle_db \<Rightarrow> handle_db" where
  "revokeHandle now ws jti = revoke_where (\<lambda>h. chWorkspaceId h = ws \<and> chJti h = jti) now"

definition revokeSession :: "int \<Rightarrow> string \<Rightarrow> string \<Rightarrow> handle_db \<Rightarrow> handle_db" where
  "revokeSession now ws sid = revoke_where (\<lambda>h. chWorkspaceId h = ws \<and> chSessionId h = sid) now"

text \<open>The loop every bulk revocation is: the sessions it selects, one after the other.\<close>

definition revoke_sessions :: "(session_row \<Rightarrow> bool) \<Rightarrow> int \<Rightarrow> string \<Rightarrow> handle_db \<Rightarrow> handle_db" where
  "revoke_sessions P now ws db =
     fold (\<lambda>s. revokeSession now ws (seId s))
       (filter (\<lambda>s. seWorkspaceId s = ws \<and> P s) (sessions db)) db"

definition revokeEntrySessionHandles :: "int \<Rightarrow> string \<Rightarrow> string \<Rightarrow> handle_db \<Rightarrow> handle_db" where
  "revokeEntrySessionHandles now ws principal_id =
     revoke_sessions (\<lambda>s. sePrincipalId s = principal_id \<and> seOnBehalfOf s = principal_id
                        \<and> seKind s = SK_entry) now ws"

definition revokeGateGrantScopedSessionHandles :: "int \<Rightarrow> string \<Rightarrow> string \<Rightarrow> handle_db \<Rightarrow> handle_db" where
  "revokeGateGrantScopedSessionHandles now ws principal_id =
     revoke_sessions (\<lambda>s. sePrincipalId s = principal_id \<and> seOnBehalfOf s = principal_id
                        \<and> seKind s \<in> {SK_entry, SK_admin_agent}) now ws"

definition revokeWorkspaceEntrySessionHandles :: "int \<Rightarrow> string \<Rightarrow> handle_db \<Rightarrow> handle_db" where
  "revokeWorkspaceEntrySessionHandles now ws =
     revoke_sessions (\<lambda>s. sePrincipalId s = seOnBehalfOf s \<and> seKind s = SK_entry) now ws"

definition revokeRoleScopedSessionHandles :: "int \<Rightarrow> string \<Rightarrow> string \<Rightarrow> handle_db \<Rightarrow> handle_db" where
  "revokeRoleScopedSessionHandles now ws principal_id =
     revoke_sessions (\<lambda>s. seOnBehalfOf s = principal_id
                        \<and> seKind s \<in> {SK_entry, SK_mcp_session, SK_admin_agent}) now ws"

definition revokeOnBehalfOfSessionHandles :: "int \<Rightarrow> string \<Rightarrow> string \<Rightarrow> handle_db \<Rightarrow> handle_db" where
  "revokeOnBehalfOfSessionHandles now ws principal_id =
     revoke_sessions (\<lambda>s. seOnBehalfOf s = principal_id) now ws"

end
