(* ===== verification/Handle_Safety.thy ===== *)
theory Handle_Safety
  imports Handles
begin

text \<open>
  What capability handles keep through every sequence of sessions opened, handles issued,
  attenuated and given to Workers, and revocations: authority only narrows from a handle to its
  children, no handle carries what its kind of session may not, and a revoked handle is refused for
  good.
\<close>

section \<open>Steps\<close>

text \<open>
  A token the check accepts is one this service signed: its claims are those of a row.  This is the
  documented behaviour of an EdDSA signature under a private key nobody else holds.
\<close>

definition claims_of :: "handle_row \<Rightarrow> handle_claims \<Rightarrow> bool" where
  "claims_of h c \<longleftrightarrow>
     hcWorkspace c = chWorkspaceId h \<and> hcJti c = chJti h \<and> hcSession c = chSessionId h
     \<and> hcOnBehalfOf c = chOnBehalfOf h \<and> hcScope c = chScope h \<and> hcExpiresAt c = chExpiresAt h
     \<and> hcParent c = chParentJti h"

definition genuine :: "handle_db \<Rightarrow> token_check \<Rightarrow> bool" where
  "genuine db verify_token \<longleftrightarrow>
     (\<forall>t c. verify_token t = Inr c \<longrightarrow> (\<exists>h\<in>set (handles db). claims_of h c))"

text \<open>
  Identifiers are new: a session's id in its workspace, a handle's \<open>jti\<close> anywhere
  (\<open>randomUUID\<close>).  A Worker invoked with a handle gets the scope computed from that handle's; one
  invoked without gets any scope the invoker's role allows.
\<close>

inductive handle_step :: "handle_db \<Rightarrow> handle_db \<Rightarrow> bool" where
  open_session:
    "find_session (seWorkspaceId s) (seId s) db = None
     \<Longrightarrow> handle_step db (db\<lparr>sessions := sessions db @ [s]\<rparr>)"
| issue:
    "jti \<notin> chJti ` set (handles db) \<Longrightarrow> ipParentJti params = None
     \<Longrightarrow> issueHandle now jti ws params db = Inr (c, db') \<Longrightarrow> handle_step db db'"
| narrow:
    "jti \<notin> chJti ` set (handles db) \<Longrightarrow> genuine db verify_token
     \<Longrightarrow> attenuate verify_token now1 now2 jti ws token scope ttl db = Inr (c, db')
     \<Longrightarrow> handle_step db db'"
| invoke:
    "jti \<notin> chJti ` set (handles db) \<Longrightarrow> find_session ws sid db = None
     \<Longrightarrow> h \<in> set (handles db) \<Longrightarrow> claims_of h parent \<Longrightarrow> hcWorkspace parent = ws
     \<Longrightarrow> csParentAuthority inp = resolveParentAuthority (Some parent) r
     \<Longrightarrow> computeChildHandleScope inp = Inr scope
     \<Longrightarrow> mintWorkerRunHandle now1 now2 sid jti ws (hcOnBehalfOf parent)
           (Some \<lparr>plJti = hcJti parent, plExp = hcExpiresAt parent\<rparr>) scope ttl db = Inr (c, db')
     \<Longrightarrow> handle_step db db'"
| invoke_as_person:
    "jti \<notin> chJti ` set (handles db) \<Longrightarrow> find_session ws sid db = None
     \<Longrightarrow> mintWorkerRunHandle now1 now2 sid jti ws who None scope ttl db = Inr (c, db')
     \<Longrightarrow> handle_step db db'"
| revoke: "handle_step db (revoke_where P now db)"

definition no_handles :: handle_db where "no_handles = \<lparr>sessions = [], handles = []\<rparr>"

abbreviation handle_reachable :: "handle_db \<Rightarrow> bool" where
  "handle_reachable \<equiv> handle_step\<^sup>*\<^sup>* no_handles"

section \<open>What issuing adds\<close>

lemma issueHandle_Inr:
  assumes "issueHandle now jti ws params db = Inr (c, db')"
  obtains session row where "find_session ws (ipSessionId params) db = Some session"
    and "assertValidScope (ipScope params) = Inr ()"
    and "kind_problem (seKind session) (capabilities (ipScope params)) = None"
    and "db' = db\<lparr>handles := handles db @ [row]\<rparr>"
    and "row = \<lparr>chWorkspaceId = ws, chJti = jti, chSessionId = ipSessionId params,
           chOnBehalfOf = seOnBehalfOf session, chParentJti = ipParentJti params,
           chScope = ipScope params, chExpiresAt = hcExpiresAt c, chRevokedAt = None\<rparr>"
    and "\<And>e. ipNotAfterSeconds params = Some e \<Longrightarrow> hcExpiresAt c \<le> e"
    and "claims_of row c"
proof -
  from assms obtain ttl session where step: "assertValidScope (ipScope params) = Inr ()"
      "find_session ws (ipSessionId params) db = Some session"
      "kind_problem (seKind session) (capabilities (ipScope params)) = None"
      "hcExpiresAt c = expiry now ttl (ipNotAfterSeconds params)"
    and row: "db' = db\<lparr>handles := handles db @
      [\<lparr>chWorkspaceId = seWorkspaceId session, chJti = jti, chSessionId = ipSessionId params,
        chOnBehalfOf = seOnBehalfOf session, chParentJti = ipParentJti params,
        chScope = ipScope params, chExpiresAt = hcExpiresAt c, chRevokedAt = None\<rparr>]\<rparr>"
    and claims: "c = \<lparr>hcWorkspace = seWorkspaceId session, hcSession = ipSessionId params,
        hcOnBehalfOf = seOnBehalfOf session, hcScope = ipScope params, hcJti = jti,
        hcIssuedAt = now, hcExpiresAt = hcExpiresAt c, hcParent = ipParentJti params,
        hcContainerHeld = held_by_container (seKind session)\<rparr>"
    by (auto simp: issueHandle_def Let_def split: sum.splits option.splits if_splits)
  from step(2) have "seWorkspaceId session = ws"
    unfolding find_session_def by (auto dest: find_SomeD)
  with step row claims show thesis
    by (intro that[of session]) (auto simp: expiry_def claims_of_def)
qed

lemma find_session_SomeD:
  "find_session ws sid db = Some s \<Longrightarrow> s \<in> set (sessions db) \<and> seWorkspaceId s = ws \<and> seId s = sid"
  unfolding find_session_def by (drule find_SomeD) simp

lemma find_handle_SomeD:
  "find_handle ws jti db = Some h \<Longrightarrow> h \<in> set (handles db) \<and> chWorkspaceId h = ws \<and> chJti h = jti"
  unfolding find_handle_def by (drule find_SomeD) simp

section \<open>The invariant\<close>

text \<open>The authority of one scope within another's.\<close>

definition scope_within :: "capability_scope \<Rightarrow> capability_scope \<Rightarrow> bool" where
  "scope_within child parent \<longleftrightarrow>
     (\<forall>n\<in>set (capabilities child). n \<in> set (capabilities parent)
        \<or> n = ''request_action'' \<and> resource_values parent ''gatekeeper'' \<noteq> [])
     \<and> (\<forall>key. set (resource_values child key) \<subseteq> set (resource_values parent key))"

definition child_of :: "handle_row \<Rightarrow> handle_row \<Rightarrow> bool" where
  "child_of h p \<longleftrightarrow>
     chParentJti h = Some (chJti p) \<and> chWorkspaceId h = chWorkspaceId p
     \<and> chOnBehalfOf h = chOnBehalfOf p \<and> chExpiresAt h \<le> chExpiresAt p
     \<and> scope_within (chScope h) (chScope p)"

definition parents_first :: "handle_db \<Rightarrow> bool" where
  "parents_first db \<longleftrightarrow>
     (\<forall>pre h post. handles db = pre @ h # post \<longrightarrow> chParentJti h = None \<or> (\<exists>p\<in>set pre. child_of h p))"

definition carries_allowed :: "handle_db \<Rightarrow> handle_row \<Rightarrow> bool" where
  "carries_allowed db h \<longleftrightarrow>
     (\<exists>s\<in>set (sessions db). seWorkspaceId s = chWorkspaceId h \<and> seId s = chSessionId h
        \<and> seOnBehalfOf s = chOnBehalfOf h
        \<and> (\<forall>n\<in>set (capabilities (chScope h)). capability_problem n = None)
        \<and> kind_problem (seKind s) (capabilities (chScope h)) = None)"

lemma scope_within_refl: "scope_within a a"
  by (simp add: scope_within_def)

lemma scope_within_trans:
  assumes "scope_within a b" and "scope_within b c"
  shows "scope_within a c"
proof -
  have gates: "set (resource_values b ''gatekeeper'') \<subseteq> set (resource_values c ''gatekeeper'')"
    using assms(2) by (simp add: scope_within_def)
  then have gate: "resource_values b ''gatekeeper'' \<noteq> [] \<Longrightarrow> resource_values c ''gatekeeper'' \<noteq> []"
    by auto
  have "n \<in> set (capabilities c) \<or> n = ''request_action'' \<and> resource_values c ''gatekeeper'' \<noteq> []"
    if "n \<in> set (capabilities a)" for n
    using that assms gate by (simp add: scope_within_def) blast
  moreover have "set (resource_values a key) \<subseteq> set (resource_values c key)" for key
    using assms by (simp add: scope_within_def) blast
  ultimately show ?thesis by (simp add: scope_within_def)
qed

lemma subset_within: "assertScopeIsSubset parent child = Inr () \<Longrightarrow> scope_within child parent"
proof -
  assume sub: "assertScopeIsSubset parent child = Inr ()"
  have "set (resource_values child key) \<subseteq> set (resource_values parent key)" for key
  proof (cases "map_of (resources child) key")
    case (Some ids)
    then have "(key, ids) \<in> set (resources child)" by (rule map_of_SomeD)
    with sub have "set ids \<subseteq> set (resource_values parent key)" by (auto simp: subset_iff)
    with Some show ?thesis by (simp add: resource_values_def)
  qed (simp add: resource_values_def)
  with sub show ?thesis by (auto simp: scope_within_def subset_iff)
qed

lemma narrowed_within:
  assumes "computeChildHandleScope inp = Inr scope" and "csParentAuthority inp = Constrained s"
  shows "scope_within scope s"
proof -
  from assms(1) have scope: "scope = narrowed_scope inp" by (simp add: computeChildHandleScope_Inr)
  have "n \<in> set (capabilities s) \<or> n = ''request_action'' \<and> resource_values s ''gatekeeper'' \<noteq> []"
    if "n \<in> set (capabilities scope)" for n
    using that assms(2)
    by (auto simp: scope narrowed_scope_def parent_has_def parent_scope_def delegatedRequestAction_def
        parent_gates_def)
  moreover have "set (resource_values scope key) \<subseteq> set (resource_values s key)" for key
  proof -
    have "resource_values scope key =
        (if key = ''gatekeeper'' then filter (holds_gate inp) (requested_gates inp) else [])"
      by (simp add: scope narrowed_scope_def resource_values_def)
    then show ?thesis
      using assms(2) by (auto simp: holds_gate_def parent_gates_def parent_scope_def)
  qed
  ultimately show ?thesis by (simp add: scope_within_def)
qed

lemma parents_first_append:
  assumes "parents_first db" and "handles db' = handles db @ [row]"
    and "chParentJti row = None \<or> (\<exists>p\<in>set (handles db). child_of row p)"
  shows "parents_first db'"
  unfolding parents_first_def
proof (intro allI impI)
  fix pre h post
  assume split: "handles db' = pre @ h # post"
  show "chParentJti h = None \<or> (\<exists>p\<in>set pre. child_of h p)"
  proof (cases post rule: rev_cases)
    case Nil
    with split assms(2) have "pre = handles db" "h = row" by simp_all
    with assms(3) show ?thesis by simp
  next
    case (snoc post' last)
    with split assms(2) have "handles db = pre @ h # post'" by simp
    with assms(1) show ?thesis unfolding parents_first_def by blast
  qed
qed

lemma parents_first_mark:
  assumes "parents_first db" and "handles db' = map (\<lambda>h. h\<lparr>chRevokedAt := f h\<rparr>) (handles db)"
  shows "parents_first db'"
  unfolding parents_first_def
proof (intro allI impI)
  fix pre h post
  assume "handles db' = pre @ h # post"
  then have "pre @ h # post = map (\<lambda>h. h\<lparr>chRevokedAt := f h\<rparr>) (handles db)" using assms(2) by simp
  then obtain pre' h' post' where split: "handles db = pre' @ h' # post'"
    and marked: "pre = map (\<lambda>h. h\<lparr>chRevokedAt := f h\<rparr>) pre'" "h = h'\<lparr>chRevokedAt := f h'\<rparr>"
    by (auto simp: append_eq_map_conv Cons_eq_map_conv)
  from assms(1) split have "chParentJti h' = None \<or> (\<exists>p\<in>set pre'. child_of h' p)"
    unfolding parents_first_def by blast
  then show "chParentJti h = None \<or> (\<exists>p\<in>set pre. child_of h p)"
    unfolding marked by (auto simp: child_of_def)
qed

lemma carries_keep:
  "carries_allowed db h \<Longrightarrow> set (sessions db) \<subseteq> set (sessions db') \<Longrightarrow> carries_allowed db' h"
  by (auto simp: carries_allowed_def)

text \<open>A step opens a session, adds one handle, or marks handles revoked.\<close>

definition handle_facts :: "handle_db \<Rightarrow> bool" where
  "handle_facts db \<longleftrightarrow>
     distinct (map chJti (handles db)) \<and> parents_first db
     \<and> (\<forall>h\<in>set (handles db). carries_allowed db h)
     \<and> (\<forall>s\<in>set (sessions db). find_session (seWorkspaceId s) (seId s) db = Some s)"

definition added :: "handle_db \<Rightarrow> handle_row \<Rightarrow> handle_db \<Rightarrow> bool" where
  "added db row db' \<longleftrightarrow>
     handles db' = handles db @ [row] \<and> chJti row \<notin> chJti ` set (handles db)
     \<and> chRevokedAt row = None \<and> (\<exists>ss. sessions db' = sessions db @ ss \<and>
          (\<forall>s\<in>set ss. length ss = 1 \<and> find_session (seWorkspaceId s) (seId s) db = None))
     \<and> carries_allowed db' row
     \<and> (chParentJti row = None \<or> (\<exists>p\<in>set (handles db). child_of row p))"

lemma carries_issued:
  assumes "issueHandle now jti ws params db = Inr (c, db')"
  obtains row where "handles db' = handles db @ [row]" and "sessions db' = sessions db"
    and "carries_allowed db' row" and "chJti row = jti" and "chRevokedAt row = None"
    and "chParentJti row = ipParentJti params" and "chWorkspaceId row = ws"
    and "chScope row = ipScope params"
    and "\<And>e. ipNotAfterSeconds params = Some e \<Longrightarrow> chExpiresAt row \<le> e"
    and "\<And>s. find_session ws (ipSessionId params) db = Some s \<Longrightarrow> chOnBehalfOf row = seOnBehalfOf s"
    and "claims_of row c"
proof -
  from assms show thesis
  proof (rule issueHandle_Inr)
    fix session row
    assume session: "find_session ws (ipSessionId params) db = Some session"
      and valid: "assertValidScope (ipScope params) = Inr ()"
        "kind_problem (seKind session) (capabilities (ipScope params)) = None"
      and db': "db' = db\<lparr>handles := handles db @ [row]\<rparr>"
      and row: "row = \<lparr>chWorkspaceId = ws, chJti = jti, chSessionId = ipSessionId params,
           chOnBehalfOf = seOnBehalfOf session, chParentJti = ipParentJti params,
           chScope = ipScope params, chExpiresAt = hcExpiresAt c, chRevokedAt = None\<rparr>"
      and e: "\<And>e. ipNotAfterSeconds params = Some e \<Longrightarrow> hcExpiresAt c \<le> e" and "claims_of row c"
    have "carries_allowed db' row"
      using find_session_SomeD[OF session] valid
      by (auto simp: carries_allowed_def db' row valid_scope_iff intro!: bexI[of _ session])
    with session db' row e \<open>claims_of row c\<close> show thesis by (intro that[of row]) simp_all
  qed
qed

lemma jti_row:
  assumes "distinct (map chJti (handles db))" and "h \<in> set (handles db)" and "find_handle ws (chJti h) db = Some q"
  shows "q = h"
  using find_handle_SomeD[OF assms(3)] assms(1,2) by (metis distinct_map inj_onD)

lemma session_of:
  assumes "handle_facts db" and "h \<in> set (handles db)"
  obtains s where "find_session (chWorkspaceId h) (chSessionId h) db = Some s"
    and "seOnBehalfOf s = chOnBehalfOf h"
  using assms unfolding handle_facts_def carries_allowed_def by metis

lemma attenuate_Inr:
  assumes "attenuate verify_token now1 now2 jti ws token scope ttl db = Inr (c, db')"
  obtains parent t where "verify_token token = Inr parent" and "\<not> dbRevocationCheck ws db (hcJti parent)"
    and "assertScopeIsSubset (hcScope parent) scope = Inr ()"
    and "issueHandle now2 jti ws \<lparr>ipSessionId = hcSession parent, ipScope = scope,
      ipTtlSeconds = t, ipParentJti = Some (hcJti parent), ipNotAfterSeconds = Some (hcExpiresAt parent)\<rparr> db
      = Inr (c, db')"
proof -
  from assms obtain parent where verified: "verifyHandle verify_token (dbRevocationCheck ws db) token = Inr parent"
    by (cases "verifyHandle verify_token (dbRevocationCheck ws db) token")
      (auto simp: attenuate_def split: sum.splits)
  from verified have "verify_token token = Inr parent" "\<not> dbRevocationCheck ws db (hcJti parent)"
    by (auto simp: verifyHandle_def split: sum.splits token_failure.splits if_splits)
  moreover from assms verified have "assertScopeIsSubset (hcScope parent) scope = Inr ()"
    by (cases "assertScopeIsSubset (hcScope parent) scope") (auto simp: attenuate_def split: sum.splits)
  ultimately show thesis
    using assms verified that by (auto simp: attenuate_def Let_def split: sum.splits if_splits)
qed

lemma issued_child_added:
  assumes facts: "handle_facts db" and fresh: "jti \<notin> chJti ` set (handles db)"
    and p: "p \<in> set (handles db)" "chWorkspaceId p = ws" and within: "scope_within scope (chScope p)"
    and dbs: "handles mid = handles db" "sessions mid = sessions db @ ss"
      "\<forall>s\<in>set ss. length ss = 1 \<and> find_session (seWorkspaceId s) (seId s) db = None"
    and session: "find_session ws sid mid = Some s" "seOnBehalfOf s = chOnBehalfOf p"
    and issued: "issueHandle now jti ws \<lparr>ipSessionId = sid, ipScope = scope, ipTtlSeconds = t,
      ipParentJti = Some (chJti p), ipNotAfterSeconds = Some (chExpiresAt p)\<rparr> mid = Inr (c, db')"
  shows "\<exists>row. added db row db' \<and> claims_of row c \<and> child_of row p \<and> chJti row = jti \<and> chScope row = scope"
proof -
  obtain row where row: "handles db' = handles mid @ [row]" "sessions db' = sessions mid"
      "carries_allowed db' row" "chJti row = jti" "chRevokedAt row = None" "chWorkspaceId row = ws"
      "chParentJti row = Some (chJti p)" "chScope row = scope" "chExpiresAt row \<le> chExpiresAt p"
      "chOnBehalfOf row = chOnBehalfOf p" "claims_of row c"
    by (rule carries_issued[OF issued]) (use session in simp_all)
  then have "child_of row p" using p(2) within by (simp add: child_of_def)
  moreover from this row fresh p(1) dbs have "added db row db'" by (auto simp: added_def)
  ultimately show ?thesis using row by blast
qed

lemma attenuate_added:
  assumes facts: "handle_facts db" and fresh: "jti \<notin> chJti ` set (handles db)"
    and genuine: "genuine db verify_token"
    and att: "attenuate verify_token now1 now2 jti ws token scope ttl db = Inr (c, db')"
  shows "\<exists>row p parent. added db row db' \<and> claims_of row c \<and> chJti row = jti \<and> chScope row = scope
    \<and> verify_token token = Inr parent \<and> p \<in> set (handles db) \<and> claims_of p parent \<and> chRevokedAt p = None
    \<and> child_of row p \<and> set (capabilities scope) \<subseteq> set (capabilities (chScope p))"
proof -
  obtain parent t where parent: "verify_token token = Inr parent" "\<not> dbRevocationCheck ws db (hcJti parent)"
      "assertScopeIsSubset (hcScope parent) scope = Inr ()"
    and issued: "issueHandle now2 jti ws \<lparr>ipSessionId = hcSession parent, ipScope = scope,
      ipTtlSeconds = t, ipParentJti = Some (hcJti parent), ipNotAfterSeconds = Some (hcExpiresAt parent)\<rparr> db
      = Inr (c, db')"
    using attenuate_Inr[OF att] by metis
  from parent(1) genuine obtain p where p: "p \<in> set (handles db)" "claims_of p parent"
    unfolding genuine_def by blast
  from parent(2) obtain q where "find_handle ws (hcJti parent) db = Some q" "chRevokedAt q = None"
    by (auto simp: dbRevocationCheck_def split: option.splits)
  with p facts have ws: "chWorkspaceId p = ws" and live: "chRevokedAt p = None"
    using jti_row[of db p ws q] find_handle_SomeD[of ws "hcJti parent" db q]
    by (auto simp: handle_facts_def claims_of_def)
  obtain s where "find_session ws (hcSession parent) db = Some s" "seOnBehalfOf s = chOnBehalfOf p"
    using session_of[OF facts p(1)] p(2) ws by (auto simp: claims_of_def)
  moreover have "scope_within scope (chScope p)"
    using subset_within[OF parent(3)] p(2) by (simp add: claims_of_def)
  ultimately have "\<exists>row. added db row db' \<and> claims_of row c \<and> child_of row p \<and> chJti row = jti \<and> chScope row = scope"
    using issued p ws fresh facts
    by (intro issued_child_added[where mid = db and ss = "[]" and p = p and s = s]) (simp_all add: claims_of_def)
  moreover have "set (capabilities scope) \<subseteq> set (capabilities (chScope p))"
    using parent(3) p(2) by (simp add: subset_iff claims_of_def)
  ultimately show ?thesis using parent(1) p live by blast
qed

lemma find_append: "find P (xs @ ys) = (case find P xs of None \<Rightarrow> find P ys | Some x \<Rightarrow> Some x)"
  by (induction xs) simp_all

lemma mint_Inr:
  assumes "mintWorkerRunHandle now1 now2 sid jti ws who parent scope ttl db = Inr (c, db')"
    and "find_session ws sid db = None"
  obtains db1 s t where "handles db1 = handles db" and "sessions db1 = sessions db @ [s]"
    and "find_session (seWorkspaceId s) (seId s) db = None"
    and "find_session ws sid db1 = Some s" and "seOnBehalfOf s = who"
    and "issueHandle now2 jti ws \<lparr>ipSessionId = sid, ipScope = scope, ipTtlSeconds = t,
      ipParentJti = map_option plJti parent, ipNotAfterSeconds = map_option plExp parent\<rparr> db1 = Inr (c, db')"
proof -
  define s where "s = \<lparr>seWorkspaceId = ws, seId = sid, sePrincipalId = who, seKind = SK_worker_run,
    seOnBehalfOf = who\<rparr>"
  from assms show thesis
    by (intro that[of "db\<lparr>sessions := sessions db @ [s]\<rparr>" s])
      (auto simp: mintWorkerRunHandle_def s_def find_session_def Let_def find_append
        split: sum.splits option.splits)
qed

lemma invoked_added:
  assumes facts: "handle_facts db" and fresh: "jti \<notin> chJti ` set (handles db)"
    and new: "find_session ws sid db = None" and h: "h \<in> set (handles db)" "claims_of h parent"
    and parent: "hcWorkspace parent = ws" "csParentAuthority inp = resolveParentAuthority (Some parent) r"
      "computeChildHandleScope inp = Inr scope"
    and minted: "mintWorkerRunHandle t1 t2 sid jti ws (hcOnBehalfOf parent)
      (Some \<lparr>plJti = hcJti parent, plExp = hcExpiresAt parent\<rparr>) scope ttl db = Inr (c, db')"
  shows "\<exists>row. added db row db' \<and> claims_of row c \<and> child_of row h \<and> chJti row = jti \<and> chScope row = scope"
  using minted new
proof (rule mint_Inr)
  fix mid s t
  assume mid: "handles mid = handles db" "sessions mid = sessions db @ [s]"
      "find_session (seWorkspaceId s) (seId s) db = None" "find_session ws sid mid = Some s"
      "seOnBehalfOf s = hcOnBehalfOf parent"
    and issued: "issueHandle t2 jti ws \<lparr>ipSessionId = sid, ipScope = scope, ipTtlSeconds = t,
      ipParentJti = map_option plJti (Some \<lparr>plJti = hcJti parent, plExp = hcExpiresAt parent\<rparr>),
      ipNotAfterSeconds = map_option plExp (Some \<lparr>plJti = hcJti parent, plExp = hcExpiresAt parent\<rparr>)\<rparr>
      mid = Inr (c, db')"
  have "scope_within scope (hcScope parent)"
    using narrowed_within[OF parent(3), of "hcScope parent"] parent(2)
    by (simp add: resolveParentAuthority_def)
  with facts fresh h parent(1) mid issued show ?thesis
    by (intro issued_child_added[where mid = mid and ss = "[s]" and p = h and s = s])
      (simp_all add: claims_of_def)
qed

lemma issued_root_added:
  assumes fresh: "jti \<notin> chJti ` set (handles db)" and root: "ipParentJti params = None"
    and dbs: "handles mid = handles db" "sessions mid = sessions db @ ss"
      "\<forall>s\<in>set ss. length ss = 1 \<and> find_session (seWorkspaceId s) (seId s) db = None"
    and issued: "issueHandle now jti ws params mid = Inr (c, db')"
  shows "\<exists>row. added db row db' \<and> claims_of row c"
  using issued
proof (rule carries_issued)
  fix row
  assume "handles db' = handles mid @ [row]" "sessions db' = sessions mid" "carries_allowed db' row"
    "chJti row = jti" "chRevokedAt row = None" "chParentJti row = ipParentJti params" "claims_of row c"
  with fresh root dbs show ?thesis by (intro exI[of _ row]) (auto simp: added_def)
qed

lemma minted_root_added:
  assumes "jti \<notin> chJti ` set (handles db)" and "find_session ws sid db = None"
    and "mintWorkerRunHandle t1 t2 sid jti ws who None scope ttl db = Inr (c, db')"
  shows "\<exists>row. added db row db' \<and> claims_of row c"
  using assms(3,2)
proof (rule mint_Inr)
  fix mid s t
  assume mid: "handles mid = handles db" "sessions mid = sessions db @ [s]"
      "find_session (seWorkspaceId s) (seId s) db = None"
    and issued: "issueHandle t2 jti ws \<lparr>ipSessionId = sid, ipScope = scope, ipTtlSeconds = t,
      ipParentJti = map_option plJti None, ipNotAfterSeconds = map_option plExp None\<rparr> mid = Inr (c, db')"
  show ?thesis using issued_root_added[OF assms(1) _ mid(1,2) _ issued] mid(3) by simp
qed

lemma step_cases:
  assumes "handle_step db db'" and "handle_facts db"
  obtains (session) s where "find_session (seWorkspaceId s) (seId s) db = None"
      and "db' = db\<lparr>sessions := sessions db @ [s]\<rparr>"
  | (handle) row where "added db row db'"
  | (revoked) P now where "db' = revoke_where P now db"
  using assms(1)
proof cases
  case (open_session s)
  with session show thesis by blast
next
  case (issue jti params now ws c)
  then show thesis using issued_root_added[of jti db params db "[]"] handle by fastforce
next
  case narrow
  then show thesis using attenuate_added[OF assms(2)] handle by metis
next
  case invoke
  then show thesis using invoked_added[OF assms(2)] handle by metis
next
  case invoke_as_person
  then show thesis using minted_root_added handle by metis
qed (rule revoked)

lemma added_facts:
  assumes "handle_facts db" and "added db row db'"
  shows "handle_facts db'"
proof -
  from assms(2) obtain ss where new: "handles db' = handles db @ [row]" "chJti row \<notin> chJti ` set (handles db)"
    "sessions db' = sessions db @ ss" "carries_allowed db' row"
    "\<forall>s\<in>set ss. length ss = 1 \<and> find_session (seWorkspaceId s) (seId s) db = None"
    "chParentJti row = None \<or> (\<exists>p\<in>set (handles db). child_of row p)"
    unfolding added_def by blast
  have "find_session (seWorkspaceId s) (seId s) db' = Some s" if "s \<in> set (sessions db')" for s
  proof (cases "s \<in> set (sessions db)")
    case True
    with assms(1) new(3) show ?thesis by (auto simp: handle_facts_def find_session_def find_append)
  next
    case False
    with that new(3) have "s \<in> set ss" by simp
    with new(5) have "ss = [s]" "find_session (seWorkspaceId s) (seId s) db = None"
      by (auto simp: length_Suc_conv)
    with new(3) show ?thesis by (simp add: find_session_def find_append)
  qed
  moreover have "carries_allowed db' h" if "h \<in> set (handles db)" for h
    using that assms(1) new(3) by - (rule carries_keep[of db], simp_all add: handle_facts_def)
  moreover have "parents_first db'"
    using assms(1) new(1,6) by - (rule parents_first_append[of db _ row], simp_all add: handle_facts_def)
  moreover have "distinct (map chJti (handles db'))"
    using assms(1) new(1,2) by (simp add: handle_facts_def)
  ultimately show ?thesis
    using new(1,4) by (simp add: handle_facts_def)
qed

lemma opened_facts:
  assumes "handle_facts db" and "find_session (seWorkspaceId s) (seId s) db = None"
  shows "handle_facts (db\<lparr>sessions := sessions db @ [s]\<rparr>)"
proof -
  let ?db = "db\<lparr>sessions := sessions db @ [s]\<rparr>"
  have "parents_first ?db" using assms(1) by (simp add: handle_facts_def parents_first_def)
  moreover have "carries_allowed ?db h" if "h \<in> set (handles db)" for h
    using that assms(1) by - (rule carries_keep[of db], simp_all add: handle_facts_def subset_insertI)
  moreover have "find_session (seWorkspaceId x) (seId x) ?db = Some x" if "x \<in> set (sessions db)" for x
    using that assms(1) by (simp add: handle_facts_def find_session_def find_append)
  moreover have "find_session (seWorkspaceId s) (seId s) ?db = Some s"
    using assms(2) by (simp add: find_session_def find_append)
  ultimately show ?thesis using assms(1) by (simp add: handle_facts_def)
qed

lemma revoke_where_marks:
  "handles (revoke_where P now db) =
     map (\<lambda>h. h\<lparr>chRevokedAt := if P h \<and> chRevokedAt h = None then Some now else chRevokedAt h\<rparr>) (handles db)"
  by (simp add: revoke_where_def)

lemma revoked_facts:
  assumes "handle_facts db" shows "handle_facts (revoke_where P now db)"
proof -
  have "parents_first (revoke_where P now db)"
    by (rule parents_first_mark[OF _ revoke_where_marks]) (use assms in \<open>simp add: handle_facts_def\<close>)
  moreover have "sessions (revoke_where P now db) = sessions db" by (simp add: revoke_where_def)
  ultimately show ?thesis
    using assms by (simp add: handle_facts_def revoke_where_marks comp_def find_session_def carries_allowed_def)
qed

lemma handle_facts_step: "handle_step db db' \<Longrightarrow> handle_facts db \<Longrightarrow> handle_facts db'"
  by (elim step_cases) (auto intro: added_facts opened_facts revoked_facts)

lemma handle_facts_none: "handle_facts no_handles"
  by (simp add: handle_facts_def no_handles_def parents_first_def)

lemma handle_facts_reachable: "handle_reachable db \<Longrightarrow> handle_facts db"
  by (induction rule: rtranclp_induct) (auto intro: handle_facts_none handle_facts_step)

section \<open>Bulk revocation\<close>

lemma revoke_again:
  "revoke_where Q now (revoke_where P now db) = revoke_where (\<lambda>h. P h \<or> Q (h\<lparr>chRevokedAt := None\<rparr>)) now db"
  if "\<And>h r. Q (h\<lparr>chRevokedAt := r\<rparr>) = Q h"
  using that by (auto simp: revoke_where_def)

lemma fold_revoke_session:
  "fold (\<lambda>s. revokeSession now ws (seId s)) ss db =
     revoke_where (\<lambda>h. chWorkspaceId h = ws \<and> chSessionId h \<in> seId ` set ss) now db"
proof (induction ss arbitrary: db)
  case Nil
  show ?case by (simp add: revoke_where_def)
next
  case (Cons s ss)
  have "fold (\<lambda>s. revokeSession now ws (seId s)) (s # ss) db =
      revoke_where (\<lambda>h. chWorkspaceId h = ws \<and> chSessionId h \<in> seId ` set ss) now
        (revoke_where (\<lambda>h. chWorkspaceId h = ws \<and> chSessionId h = seId s) now db)"
    by (simp add: Cons.IH) (simp add: revokeSession_def)
  also have "\<dots> = revoke_where (\<lambda>h. chWorkspaceId h = ws \<and> chSessionId h \<in> seId ` set (s # ss)) now db"
    by (subst revoke_again) (auto intro!: arg_cong[of _ _ "\<lambda>P. revoke_where P now db"])
  finally show ?case .
qed

lemma revoke_sessions_marks:
  "revoke_sessions P now ws db =
     revoke_where (\<lambda>h. chWorkspaceId h = ws
       \<and> (\<exists>s\<in>set (sessions db). seWorkspaceId s = ws \<and> seId s = chSessionId h \<and> P s)) now db"
  unfolding revoke_sessions_def fold_revoke_session
  by (rule arg_cong[of _ _ "\<lambda>P. revoke_where P now db"], rule ext) (auto simp: image_iff)

lemma the_session:
  assumes "handle_facts db"
  shows "(\<exists>s\<in>set (sessions db). seWorkspaceId s = ws \<and> seId s = sid \<and> P s)
    \<longleftrightarrow> (case find_session ws sid db of Some s \<Rightarrow> P s | None \<Rightarrow> False)"
proof (cases "find_session ws sid db")
  case None
  then have "\<not> (\<exists>s\<in>set (sessions db). seWorkspaceId s = ws \<and> seId s = sid)"
    by (auto simp: find_session_def find_None_iff)
  with None show ?thesis by auto
next
  case (Some s)
  have "x = s" if "x \<in> set (sessions db)" "seWorkspaceId x = ws" "seId x = sid" for x
    using that assms Some by (auto simp: handle_facts_def)
  with Some find_session_SomeD[OF Some] show ?thesis by auto
qed

section \<open>Revoked for good\<close>

definition revoked_in :: "handle_db \<Rightarrow> handle_row \<Rightarrow> bool" where
  "revoked_in db h \<longleftrightarrow>
     (\<exists>r\<in>set (handles db). chWorkspaceId r = chWorkspaceId h \<and> chJti r = chJti h \<and> chRevokedAt r \<noteq> None)"

lemma revoked_in_step:
  assumes "handle_step db db'" and "handle_facts db" and "revoked_in db h"
  shows "revoked_in db' h"
  using assms(1,2)
proof (cases rule: step_cases)
  case (session s)
  with assms(3) show ?thesis by (simp add: revoked_in_def)
next
  case (handle row)
  then have "set (handles db) \<subseteq> set (handles db')" by (auto simp: added_def)
  with assms(3) show ?thesis unfolding revoked_in_def by blast
next
  case (revoked P now)
  with assms(3) show ?thesis by (auto simp: revoked_in_def revoke_where_marks)
qed

lemma revoked_in_steps:
  "handle_step\<^sup>*\<^sup>* db db' \<Longrightarrow> handle_facts db \<Longrightarrow> revoked_in db h \<Longrightarrow> handle_facts db' \<and> revoked_in db' h"
  by (induction rule: rtranclp_induct) (auto intro: handle_facts_step revoked_in_step)

lemma revoked_in_check:
  assumes "handle_facts db" and "revoked_in db h"
  shows "dbRevocationCheck ws db (chJti h)"
proof (cases "find_handle ws (chJti h) db")
  case (Some q)
  from assms(2) obtain r where r: "r \<in> set (handles db)" "chJti r = chJti h" "chRevokedAt r \<noteq> None"
    by (auto simp: revoked_in_def)
  with Some assms(1) have "q = r"
    using jti_row[of db r ws q] by (simp add: handle_facts_def)
  with Some r(3) show ?thesis by (simp add: dbRevocationCheck_def)
qed (simp add: dbRevocationCheck_def)

lemma revoked_handle_refused:
  assumes "dbRevocationCheck ws db (hcJti c)" and "verify_token t = Inr c"
  shows "verifyHandle verify_token (dbRevocationCheck ws db) t = Inl (HandleRevoked (hcJti c))"
    and "attenuate verify_token now1 now2 jti ws t scope ttl db \<noteq> Inr result"
  using assms by (auto simp: verifyHandle_def attenuate_def split: sum.splits)

section \<open>Descent\<close>

text \<open>The handle a handle names as its parent, and those it descends from, itself included.\<close>

definition parent_in :: "handle_db \<Rightarrow> handle_row \<Rightarrow> handle_row \<Rightarrow> bool" where
  "parent_in db h p \<longleftrightarrow> p \<in> set (handles db) \<and> chParentJti h = Some (chJti p)"

abbreviation descends_from :: "handle_db \<Rightarrow> handle_row \<Rightarrow> handle_row \<Rightarrow> bool" where
  "descends_from db \<equiv> (parent_in db)\<^sup>*\<^sup>*"

lemma parent_in_child:
  assumes "handle_facts db" and "h \<in> set (handles db)" and "parent_in db h p"
  shows "child_of h p"
proof -
  from assms(2) obtain pre post where split: "handles db = pre @ h # post" by (metis split_list)
  from assms(1) have "parents_first db" by (simp add: handle_facts_def)
  with split have "chParentJti h = None \<or> (\<exists>q\<in>set pre. child_of h q)"
    unfolding parents_first_def by blast
  with assms(3) obtain q where q: "q \<in> set pre" "child_of h q" by (auto simp: parent_in_def)
  then have "chJti q = chJti p" using assms(3) by (simp add: parent_in_def child_of_def)
  moreover have "q \<in> set (handles db)" "p \<in> set (handles db)" "distinct (map chJti (handles db))"
    using split q(1) assms(1,3) by (simp_all add: parent_in_def handle_facts_def)
  ultimately have "q = p" by (metis distinct_map inj_onD)
  with q(2) show ?thesis by simp
qed

lemma ancestor_within:
  assumes "handle_facts db" and "h \<in> set (handles db)" and "descends_from db h a"
  shows "a \<in> set (handles db) \<and> chWorkspaceId h = chWorkspaceId a \<and> chOnBehalfOf h = chOnBehalfOf a
    \<and> chExpiresAt h \<le> chExpiresAt a \<and> scope_within (chScope h) (chScope a)"
  using assms(3)
proof (induction rule: rtranclp_induct)
  case base
  with assms(2) show ?case by (simp add: scope_within_refl)
next
  case (step a b)
  then have "child_of a b" using parent_in_child[OF assms(1)] by blast
  with step show ?case by (auto simp: child_of_def parent_in_def intro: scope_within_trans)
qed

lemma descends_from_root:
  assumes "parents_first db" and "handles db = pre @ h # post"
  shows "\<exists>r. descends_from db h r \<and> chParentJti r = None"
  using assms(2)
proof (induction "length pre" arbitrary: pre h post rule: less_induct)
  case less
  from assms(1) less.prems have "chParentJti h = None \<or> (\<exists>p\<in>set pre. child_of h p)"
    unfolding parents_first_def by blast
  then show ?case
  proof
    assume "\<exists>p\<in>set pre. child_of h p"
    then obtain p pre1 pre2 where p: "child_of h p" "pre = pre1 @ p # pre2" by (metis split_list)
    with less.prems obtain r where "descends_from db p r" "chParentJti r = None"
      using less.hyps[of pre1 p "pre2 @ h # post"] by auto
    moreover have "parent_in db h p" using p less.prems by (simp add: parent_in_def child_of_def)
    ultimately show ?case by (meson converse_rtranclp_into_rtranclp)
  qed blast
qed

end
