(* ===== verification/Handle_Guarantees.thy ===== *)
theory Handle_Guarantees
  imports Handle_Safety
begin

text \<open>
  What capability handles guarantee through every sequence of steps, and a run that shows the
  hypotheses hold together.
\<close>

section \<open>A run\<close>

text \<open>
  An entry session's handle, a narrower one attenuated from it, and the person disabled.  The token
  of a handle is its \<open>jti\<close>.
\<close>

definition sample_session :: session_row where
  "sample_session = \<lparr>seWorkspaceId = ''ws'', seId = ''s'', sePrincipalId = ''ann'', seKind = SK_entry,
     seOnBehalfOf = ''ann''\<rparr>"

definition sample_scope :: capability_scope where
  "sample_scope = \<lparr>capabilities = [''get_object'', ''traverse''], resources = [(''gatekeeper'', [''g1'', ''g2''])]\<rparr>"

definition narrower_scope :: capability_scope where
  "narrower_scope = \<lparr>capabilities = [''traverse''], resources = [(''gatekeeper'', [''g2''])]\<rparr>"

definition sample_handle :: "string \<Rightarrow> capability_scope \<Rightarrow> int \<Rightarrow> string option \<Rightarrow> handle_row" where
  "sample_handle jti scope expires parent = \<lparr>chWorkspaceId = ''ws'', chJti = jti, chSessionId = ''s'',
     chOnBehalfOf = ''ann'', chParentJti = parent, chScope = scope, chExpiresAt = expires, chRevokedAt = None\<rparr>"

definition sample_claims :: "string \<Rightarrow> capability_scope \<Rightarrow> int \<Rightarrow> int \<Rightarrow> string option \<Rightarrow> handle_claims" where
  "sample_claims jti scope iat expires parent = \<lparr>hcWorkspace = ''ws'', hcSession = ''s'', hcOnBehalfOf = ''ann'',
     hcScope = scope, hcJti = jti, hcIssuedAt = iat, hcExpiresAt = expires, hcParent = parent, hcContainerHeld = True\<rparr>"

definition sample_tokens :: token_check where
  "sample_tokens t = (if t = ''h1'' then Inr (sample_claims ''h1'' sample_scope 0 900 None) else Inl TokenInvalid)"

definition sample_start :: handle_db where
  "sample_start = \<lparr>sessions = [sample_session], handles = []\<rparr>"

definition sample_issued :: handle_db where
  "sample_issued = \<lparr>sessions = [sample_session], handles = [sample_handle ''h1'' sample_scope 900 None]\<rparr>"

definition sample_handles :: handle_db where
  "sample_handles = \<lparr>sessions = [sample_session],
     handles = [sample_handle ''h1'' sample_scope 900 None, sample_handle ''h2'' narrower_scope 400 (Some ''h1'')]\<rparr>"

lemma sample_names: "mintable ''get_object''" "mintable ''traverse''"
proof -
  have "(''get_object'', Grp_graph, ModeObserve, None) \<in> set (handle_rows graphCapabilities)"
    "(''traverse'', Grp_graph, ModeObserve, None) \<in> set (handle_rows graphCapabilities)"
    by (simp_all add: handle_rows_by_group)
  then show "mintable ''get_object''" "mintable ''traverse''"
    by (auto intro!: ordinary_row_mintable[where g = Grp_graph and m = ModeObserve and se = None] simp: GROUPS_def)
qed

lemma sample_scopes:
  "assertValidScope sample_scope = Inr ()" "assertValidScope narrower_scope = Inr ()"
  "kind_problem SK_entry (capabilities sample_scope) = None"
  "kind_problem SK_entry (capabilities narrower_scope) = None"
  using sample_names
  by (auto simp: valid_scope_iff sample_scope_def narrower_scope_def kind_problem_def mintable_def
      intro: mintable_valid sample_names)

lemma sample_issue:
  "issueHandle 0 ''h1'' ''ws'' \<lparr>ipSessionId = ''s'', ipScope = sample_scope, ipTtlSeconds = Finite 900,
     ipParentJti = None, ipNotAfterSeconds = None\<rparr> sample_start
   = Inr (sample_claims ''h1'' sample_scope 0 900 None, sample_issued)"
  by (simp add: issueHandle_def sample_scopes sample_start_def sample_issued_def sample_session_def
      find_session_def whole_seconds_def expiry_def sample_handle_def sample_claims_def held_by_container_def
      CONTAINER_HELD_SESSION_KINDS_def)

lemma sample_narrow:
  "attenuate sample_tokens 100 100 ''h2'' ''ws'' ''h1'' narrower_scope (Some (Finite 300)) sample_issued
   = Inr (sample_claims ''h2'' narrower_scope 100 400 (Some ''h1''), sample_handles)"
proof -
  have sub: "assertScopeIsSubset sample_scope narrower_scope = Inr ()"
    by (simp add: subset_iff sample_scope_def narrower_scope_def resource_values_def)
  have verified: "verifyHandle sample_tokens (dbRevocationCheck ''ws'' sample_issued) ''h1''
      = Inr (sample_claims ''h1'' sample_scope 0 900 None)"
    by (simp add: verifyHandle_def sample_tokens_def dbRevocationCheck_def find_handle_def sample_issued_def
        sample_handle_def sample_claims_def)
  show ?thesis
    unfolding attenuate_def verified bind_result.simps
    by (simp add: sub sample_claims_def issueHandle_def sample_scopes sample_issued_def sample_session_def
        find_session_def whole_seconds_def expiry_def sample_handle_def held_by_container_def exceeds_def
        CONTAINER_HELD_SESSION_KINDS_def sample_handles_def find_handle_def)
qed

lemma sample_issued_reachable: "handle_reachable sample_issued"
proof -
  have "handle_step no_handles sample_start"
    using open_session[of sample_session no_handles]
    by (simp add: no_handles_def sample_start_def find_session_def)
  moreover have "handle_step sample_start sample_issued"
    by (rule issue[OF _ _ sample_issue]) (simp_all add: sample_start_def)
  ultimately show ?thesis by (meson rtranclp.rtrancl_refl rtranclp.rtrancl_into_rtrancl)
qed

lemma sample_genuine: "genuine sample_issued sample_tokens"
  by (simp add: genuine_def sample_tokens_def sample_issued_def claims_of_def sample_handle_def sample_claims_def)

lemma sample_reachable: "handle_reachable sample_handles"
proof -
  have "handle_step sample_issued sample_handles"
    using sample_genuine by (intro narrow[OF _ _ sample_narrow]) (simp_all add: sample_issued_def sample_handle_def)
  with sample_issued_reachable show ?thesis by (rule rtranclp.rtrancl_into_rtrancl)
qed

section \<open>The guarantees\<close>

text \<open>
  C4: authority never grows along a delegation.  Whatever sessions were opened, handles issued,
  attenuated and given to Workers, and revoked:

  every handle descends, by its own record of its parent, from one that has none; and whatever it
  descends from is a handle of the same workspace, for the same person, that expires no earlier and
  in whose scope its own lies: its capabilities, but for \<open>request_action\<close>, which a Worker gets from
  an invoker that has a gate without holding that name; and, for each kind of resource, its resources;

  attenuating a token records the handle that token is of, one not revoked, as the parent, and the new
  handle carries no capability its parent does not; and a Worker invoked with a handle gets a
  handle whose parent is the invoker's.
\<close>

theorem delegated_authority_narrows:
  assumes "handle_reachable db" and "jti \<notin> chJti ` set (handles db)"
  shows "(\<forall>h\<in>set (handles db).
      (\<exists>r. descends_from db h r \<and> chParentJti r = None)
      \<and> (\<forall>a. descends_from db h a \<longrightarrow>
           a \<in> set (handles db) \<and> chWorkspaceId h = chWorkspaceId a \<and> chOnBehalfOf h = chOnBehalfOf a
           \<and> chExpiresAt h \<le> chExpiresAt a
           \<and> (\<forall>n\<in>set (capabilities (chScope h)). n \<in> set (capabilities (chScope a))
                \<or> n = ''request_action'' \<and> resource_values (chScope a) ''gatekeeper'' \<noteq> [])
           \<and> (\<forall>key. set (resource_values (chScope h) key) \<subseteq> set (resource_values (chScope a) key))))
    \<and> (genuine db verify_token \<and> attenuate verify_token now1 now2 jti ws token scope ttl db = Inr (c, db') \<longrightarrow>
        (\<exists>parent p h. verify_token token = Inr parent \<and> p \<in> set (handles db) \<and> claims_of p parent
           \<and> chRevokedAt p = None \<and> handles db' = handles db @ [h] \<and> claims_of h c \<and> chScope h = scope
           \<and> parent_in db' h p \<and> set (capabilities scope) \<subseteq> set (capabilities (chScope p))))
    \<and> (invoker \<in> set (handles db) \<and> claims_of invoker held \<and> hcWorkspace held = ws \<and> find_session ws sid db = None
        \<and> csParentAuthority inp = resolveParentAuthority (Some held) r \<and> computeChildHandleScope inp = Inr scope
        \<and> mintWorkerRunHandle now1 now2 sid jti ws (hcOnBehalfOf held)
            (Some \<lparr>plJti = hcJti held, plExp = hcExpiresAt held\<rparr>) scope lifetime db = Inr (c, db') \<longrightarrow>
        (\<exists>h. handles db' = handles db @ [h] \<and> claims_of h c \<and> chScope h = scope \<and> parent_in db' h invoker))"
proof -
  from assms(1) have facts: "handle_facts db" by (rule handle_facts_reachable)
  have root: "\<exists>r. descends_from db h r \<and> chParentJti r = None" if "h \<in> set (handles db)" for h
    using that descends_from_root facts unfolding handle_facts_def by (metis split_list)
  have "\<exists>parent p h. verify_token token = Inr parent \<and> p \<in> set (handles db) \<and> claims_of p parent
      \<and> chRevokedAt p = None \<and> handles db' = handles db @ [h] \<and> claims_of h c \<and> chScope h = scope
      \<and> parent_in db' h p \<and> set (capabilities scope) \<subseteq> set (capabilities (chScope p))"
    if "genuine db verify_token" "attenuate verify_token now1 now2 jti ws token scope ttl db = Inr (c, db')"
    using attenuate_added[OF facts assms(2) that] by (fastforce simp: added_def parent_in_def child_of_def)
  moreover have "\<exists>h. handles db' = handles db @ [h] \<and> claims_of h c \<and> chScope h = scope \<and> parent_in db' h invoker"
    if "invoker \<in> set (handles db)" "claims_of invoker held" "hcWorkspace held = ws" "find_session ws sid db = None"
      "csParentAuthority inp = resolveParentAuthority (Some held) r" "computeChildHandleScope inp = Inr scope"
      "mintWorkerRunHandle now1 now2 sid jti ws (hcOnBehalfOf held)
            (Some \<lparr>plJti = hcJti held, plExp = hcExpiresAt held\<rparr>) scope lifetime db = Inr (c, db')"
    using invoked_added[OF facts assms(2) that(4,1,2,3,5,6,7)] that(1)
    by (fastforce simp: added_def parent_in_def child_of_def)
  ultimately show ?thesis
    using root ancestor_within[OF facts] unfolding scope_within_def by blast
qed

theorem delegated_authority_narrows_witness:
  "(\<exists>r. descends_from sample_handles (sample_handle ''h2'' narrower_scope 400 (Some ''h1'')) r
      \<and> chParentJti r = None)
   \<and> (\<exists>h. handles sample_handles = handles sample_issued @ [h]
        \<and> parent_in sample_handles h (sample_handle ''h1'' sample_scope 900 None))"
proof
  show "\<exists>r. descends_from sample_handles (sample_handle ''h2'' narrower_scope 400 (Some ''h1'')) r
      \<and> chParentJti r = None"
    using delegated_authority_narrows[OF sample_reachable, of "''h3''"]
    by (simp add: sample_handles_def sample_handle_def)
  have "''h2'' \<notin> chJti ` set (handles sample_issued)" by (simp add: sample_issued_def sample_handle_def)
  from delegated_authority_narrows[OF sample_issued_reachable this, THEN conjunct2, THEN conjunct1, rule_format,
      OF conjI[OF sample_genuine sample_narrow]]
  show "\<exists>h. handles sample_handles = handles sample_issued @ [h]
      \<and> parent_in sample_handles h (sample_handle ''h1'' sample_scope 900 None)"
    by (auto simp: sample_issued_def)
qed

lemma kind_problem_None:
  "kind_problem kind names = None \<longleftrightarrow>
     (\<forall>n\<in>set names. if kind = SK_admin_agent then isAdminAgentCeilingCapability n
        else (case getCapability n of Some c \<Rightarrow> \<not> capAdminAgentOnly c | None \<Rightarrow> True))"
  by (auto simp: kind_problem_def Let_def filter_empty_conv split: option.splits)

text \<open>
  C5: what every handle carries.  Each name in its scope is registered on the handle channel and
  is not one of the names only a person may call; the handle belongs to a session of its workspace,
  on behalf of the same person; a handle of an admin agent's session stays within the admin agent's
  ceiling, and no other carries what only the admin agent may.
\<close>

theorem handles_carry_only_allowed:
  assumes "handle_reachable db" and "h \<in> set (handles db)" and "n \<in> set (capabilities (chScope h))"
  shows "\<exists>c s. getCapability n = Some c \<and> capChannel c = HandleChannel
    \<and> n \<notin> set HUMAN_ONLY_CAPABILITY_NAMES
    \<and> find_session (chWorkspaceId h) (chSessionId h) db = Some s \<and> seOnBehalfOf s = chOnBehalfOf h
    \<and> (if seKind s = SK_admin_agent then n \<in> set ADMIN_AGENT_CEILING_CAPABILITIES
       else \<not> capAdminAgentOnly c)"
proof -
  from assms(1) have facts: "handle_facts db" by (rule handle_facts_reachable)
  with assms(2) obtain s where s: "s \<in> set (sessions db)" "seWorkspaceId s = chWorkspaceId h"
      "seId s = chSessionId h" "seOnBehalfOf s = chOnBehalfOf h" "capability_problem n = None"
      "kind_problem (seKind s) (capabilities (chScope h)) = None"
    using assms(3) by (auto simp: handle_facts_def carries_allowed_def)
  from s(5) obtain c where c: "getCapability n = Some c" "capChannel c = HandleChannel"
    by (auto simp: capability_problem_def split: option.splits if_splits)
  then have "n \<notin> set HUMAN_ONLY_CAPABILITY_NAMES"
    using getCapability_Some registry_well_governed by (fastforce simp: well_governed_def)
  moreover have "find_session (chWorkspaceId h) (chSessionId h) db = Some s"
    using facts s(1) unfolding handle_facts_def s(2,3)[symmetric] by blast
  moreover have "if seKind s = SK_admin_agent then n \<in> set ADMIN_AGENT_CEILING_CAPABILITIES
      else \<not> capAdminAgentOnly c"
    using s(6) assms(3) c(1) by (auto simp: kind_problem_None isAdminAgentCeilingCapability_def)
  ultimately show ?thesis using c s(4) by blast
qed

theorem handles_carry_only_allowed_witness:
  "\<exists>c s. getCapability ''traverse'' = Some c \<and> capChannel c = HandleChannel
    \<and> ''traverse'' \<notin> set HUMAN_ONLY_CAPABILITY_NAMES
    \<and> find_session ''ws'' ''s'' sample_handles = Some s \<and> seOnBehalfOf s = ''ann''
    \<and> (if seKind s = SK_admin_agent then ''traverse'' \<in> set ADMIN_AGENT_CEILING_CAPABILITIES
       else \<not> capAdminAgentOnly c)"
  using handles_carry_only_allowed[OF sample_reachable,
      of "sample_handle ''h2'' narrower_scope 400 (Some ''h1'')" "''traverse''"]
  by (simp add: sample_handles_def sample_handle_def narrower_scope_def)

text \<open>
  C6: disabling a person is final for what acts in their name.  Once every session on their
  behalf has been revoked, each handle they had then is refused by every later check, and cannot be
  attenuated, whatever steps follow - the Workers' handles that descend from it included, which are
  on behalf of the same person.  (A handle minted for them afterwards is another one.)
\<close>

theorem disabled_person_loses_every_handle:
  assumes "handle_reachable db" and "h \<in> set (handles db)"
    and "handle_step\<^sup>*\<^sup>* (revokeOnBehalfOfSessionHandles now (chWorkspaceId h) (chOnBehalfOf h) db) later"
    and "verify_token t = Inr c" and "hcJti c = chJti h"
  shows "verifyHandle verify_token (dbRevocationCheck ws later) t = Inl (HandleRevoked (chJti h))
    \<and> attenuate verify_token now1 now2 jti ws t scope ttl later \<noteq> Inr result"
proof -
  let ?db = "revokeOnBehalfOfSessionHandles now (chWorkspaceId h) (chOnBehalfOf h) db"
  from assms(1) have facts: "handle_facts db" by (rule handle_facts_reachable)
  obtain s where s: "find_session (chWorkspaceId h) (chSessionId h) db = Some s" "seOnBehalfOf s = chOnBehalfOf h"
    using facts assms(2) by (rule session_of)
  then have "revoked_in ?db h"
    using assms(2) by (auto simp: revoked_in_def revokeOnBehalfOfSessionHandles_def revoke_sessions_marks
        revoke_where_marks the_session[OF facts] intro!: bexI[of _ h])
  moreover have "handle_facts ?db"
    using facts by (simp add: revokeOnBehalfOfSessionHandles_def revoke_sessions_marks revoked_facts)
  ultimately have "dbRevocationCheck ws later (hcJti c)"
    using revoked_in_steps[OF assms(3)] revoked_in_check assms(5) by simp
  with revoked_handle_refused[of ws later c verify_token t] assms(4,5) show ?thesis by simp
qed

theorem disabled_person_loses_every_handle_witness:
  "verifyHandle sample_tokens (dbRevocationCheck ''ws''
     (revokeOnBehalfOfSessionHandles 200 ''ws'' ''ann'' sample_handles)) ''h1'' = Inl (HandleRevoked ''h1'')
   \<and> (\<nexists>result. attenuate sample_tokens 200 200 ''h3'' ''ws'' ''h1'' narrower_scope None
       (revokeOnBehalfOfSessionHandles 200 ''ws'' ''ann'' sample_handles) = Inr result)"
proof -
  note loses = disabled_person_loses_every_handle[OF sample_reachable,
      of "sample_handle ''h1'' sample_scope 900 None" 200
      "revokeOnBehalfOfSessionHandles 200 ''ws'' ''ann'' sample_handles" sample_tokens "''h1''"
      "sample_claims ''h1'' sample_scope 0 900 None" "''ws''"]
  show ?thesis
    using loses[of 200 200 "''h3''" narrower_scope None]
    by (simp add: sample_handles_def sample_handle_def sample_tokens_def sample_claims_def)
qed

lemma find_handle_revoked:
  "find_handle ws jti (revoke_where P now db) =
     map_option (\<lambda>h. if P h \<and> chRevokedAt h = None then h\<lparr>chRevokedAt := Some now\<rparr> else h)
       (find_handle ws jti db)"
proof -
  have "find (\<lambda>h. chWorkspaceId h = ws \<and> chJti h = jti)
      (map (\<lambda>h. if P h \<and> chRevokedAt h = None then h\<lparr>chRevokedAt := Some now\<rparr> else h) hs)
    = map_option (\<lambda>h. if P h \<and> chRevokedAt h = None then h\<lparr>chRevokedAt := Some now\<rparr> else h)
        (find (\<lambda>h. chWorkspaceId h = ws \<and> chJti h = jti) hs)" for hs
    by (induction hs) auto
  then show ?thesis by (simp add: find_handle_def revoke_where_def)
qed

lemma find_handle_self:
  assumes "handle_facts db" and "h \<in> set (handles db)"
  shows "find_handle (chWorkspaceId h) (chJti h) db = Some h"
proof (cases "find_handle (chWorkspaceId h) (chJti h) db")
  case None
  with assms(2) show ?thesis by (auto simp: find_handle_def find_None_iff)
next
  case (Some q)
  with assms show ?thesis using jti_row[of db h _ q] by (simp add: handle_facts_def)
qed

lemmas bulk_revocations =
  revokeEntrySessionHandles_def revokeGateGrantScopedSessionHandles_def revokeRoleScopedSessionHandles_def
  revokeOnBehalfOfSessionHandles_def revokeWorkspaceEntrySessionHandles_def

definition marked :: "int \<Rightarrow> bool \<Rightarrow> handle_row \<Rightarrow> handle_row" where
  "marked now reached h = (if reached \<and> chRevokedAt h = None then h\<lparr>chRevokedAt := Some now\<rparr> else h)"

text \<open>
  C40: which handles of its workspace each bulk revocation reaches, and no other: for the person named, those of
  the entry sessions of their own; of their own entry and admin-agent sessions; of the entry, MCP
  and admin-agent sessions on their behalf; of every session on their behalf; and, for a workspace,
  of every entry session a person has of their own.  A handle already revoked keeps its time.
\<close>

theorem bulk_revocation_exact:
  assumes "handle_reachable db" and "h \<in> set (handles db)" and "chWorkspaceId h = ws"
    and "find_session ws (chSessionId h) db = Some s"
  shows "find_handle ws (chJti h) (revokeEntrySessionHandles now ws p db)
      = Some (marked now (sePrincipalId s = p \<and> seOnBehalfOf s = p \<and> seKind s = SK_entry) h)
    \<and> find_handle ws (chJti h) (revokeGateGrantScopedSessionHandles now ws p db)
      = Some (marked now (sePrincipalId s = p \<and> seOnBehalfOf s = p
          \<and> (seKind s = SK_entry \<or> seKind s = SK_admin_agent)) h)
    \<and> find_handle ws (chJti h) (revokeRoleScopedSessionHandles now ws p db)
      = Some (marked now (seOnBehalfOf s = p
          \<and> (seKind s = SK_entry \<or> seKind s = SK_mcp_session \<or> seKind s = SK_admin_agent)) h)
    \<and> find_handle ws (chJti h) (revokeOnBehalfOfSessionHandles now ws p db)
      = Some (marked now (seOnBehalfOf s = p) h)
    \<and> find_handle ws (chJti h) (revokeWorkspaceEntrySessionHandles now ws db)
      = Some (marked now (sePrincipalId s = seOnBehalfOf s \<and> seKind s = SK_entry) h)"
proof -
  from assms(1) have facts: "handle_facts db" by (rule handle_facts_reachable)
  have "find_handle ws (chJti h) db = Some h"
    using find_handle_self[OF facts assms(2)] assms(3) by simp
  then show ?thesis
    by (simp add: bulk_revocations revoke_sessions_marks the_session[OF facts] find_handle_revoked assms(3,4)
        marked_def)
qed

theorem bulk_revocation_exact_witness:
  "find_handle ''ws'' ''h2'' (revokeRoleScopedSessionHandles 200 ''ws'' ''ann'' sample_handles)
     = Some ((sample_handle ''h2'' narrower_scope 400 (Some ''h1''))\<lparr>chRevokedAt := Some 200\<rparr>)
   \<and> find_handle ''ws'' ''h2'' (revokeEntrySessionHandles 200 ''ws'' ''bob'' sample_handles)
     = Some (sample_handle ''h2'' narrower_scope 400 (Some ''h1''))"
proof -
  have h: "sample_handle ''h2'' narrower_scope 400 (Some ''h1'') \<in> set (handles sample_handles)"
    "find_session ''ws'' (chSessionId (sample_handle ''h2'' narrower_scope 400 (Some ''h1''))) sample_handles
      = Some sample_session"
    by (simp_all add: sample_handles_def sample_handle_def find_session_def sample_session_def)
  show ?thesis
    using bulk_revocation_exact[OF sample_reachable h(1) _ h(2), of 200 "''ann''"]
      bulk_revocation_exact[OF sample_reachable h(1) _ h(2), of 200 "''bob''"]
    by (simp add: sample_handle_def sample_session_def marked_def)
qed

end
