(* ===== verification/Gate_Store.thy ===== *)
theory Gate_Store
  imports Json_Value NT_Prelude
begin

text \<open>
  The gate's idempotency store (\<open>gatekeeper-base/src/idempotency-store.ts\<close>): what it keeps under an
  action request's id, the operations on that map, the JSON file behind it and its in-memory twin.

  Times of storing are not kept (nothing reads them).  The text of a stored failure is the list of
  its parts.  A write of the file either replaces it or leaves it (\<open>writeFileAtomic\<close>), which is an
  argument of the operations that write.
\<close>

section \<open>Entries\<close>

record descriptor =
  idOperation :: string
  idParamsHash :: string
  idOnBehalfOf :: "string option"

record idempotency_entry = descriptor +
  ieData :: "json option"
  ieObservedFacts :: "json option"

datatype failure_text =
    TransportSaid string
  | FailedInsideGate string
  | StoppedByNetwork failure_text "string option"
  | TransportDidNotSay failure_text
  | ArrivedAfterClosing string

record stored_failure =
  sfMessage :: failure_text
  sfOutcomeUnknown :: bool

datatype store_entry =
    Pending descriptor
  | Orphaned descriptor
  | Done idempotency_entry
  | Failed descriptor stored_failure
  | NotReceived descriptor

type_synonym entry_map = "string \<rightharpoonup> store_entry"

datatype reserve_result =
    Reserved
  | ReserveReplay idempotency_entry
  | ReserveFailed stored_failure
  | ReserveUnknown
  | ReserveConflict

datatype lookup_result =
    LookupAbsent
  | LookupPending
  | LookupReplay idempotency_entry
  | LookupFailed stored_failure
  | LookupUnknown
  | LookupConflict

definition notReceivedFailure :: "string \<Rightarrow> stored_failure" where
  "notReceivedFailure key = \<lparr>sfMessage = ArrivedAfterClosing key, sfOutcomeUnknown = False\<rparr>"

text \<open>The three fields of the descriptor, of any entry.\<close>

fun descriptorOf :: "store_entry \<Rightarrow> descriptor" where
  "descriptorOf (Pending d) = d"
| "descriptorOf (Orphaned d) = d"
| "descriptorOf (Done e) = \<lparr>idOperation = idOperation e, idParamsHash = idParamsHash e, idOnBehalfOf = idOnBehalfOf e\<rparr>"
| "descriptorOf (Failed d f) = d"
| "descriptorOf (NotReceived d) = d"

definition sameDescriptor :: "descriptor \<Rightarrow> descriptor \<Rightarrow> bool" where
  "sameDescriptor a b =
     (idOperation a = idOperation b \<and> idParamsHash a = idParamsHash b \<and> idOnBehalfOf a = idOnBehalfOf b)"

section \<open>The map's operations\<close>

definition reserveOrConflict ::
  "entry_map \<Rightarrow> string \<Rightarrow> descriptor \<Rightarrow> reserve_result \<times> entry_map" where
  "reserveOrConflict m key d =
     (case m key of
        None \<Rightarrow> (Reserved, m(key \<mapsto> Pending d))
      | Some (Pending _) \<Rightarrow> (ReserveConflict, m)
      | Some existing \<Rightarrow>
          (if \<not> sameDescriptor (descriptorOf existing) d then ReserveConflict
           else case existing of
             Orphaned _ \<Rightarrow> ReserveUnknown
           | NotReceived _ \<Rightarrow> ReserveFailed (notReceivedFailure key)
           | Failed _ f \<Rightarrow> ReserveFailed f
           | Done e \<Rightarrow> ReserveReplay e
           | Pending _ \<Rightarrow> ReserveConflict, m))"

text \<open>The answer, whether the key was closed by it, and the map.\<close>

definition lookupOrClose ::
  "entry_map \<Rightarrow> string \<Rightarrow> descriptor \<Rightarrow> lookup_result \<times> bool \<times> entry_map" where
  "lookupOrClose m key d =
     (case m key of
        None \<Rightarrow> (LookupAbsent, True, m(key \<mapsto> NotReceived d))
      | Some existing \<Rightarrow>
          (if \<not> sameDescriptor (descriptorOf existing) d then LookupConflict
           else case existing of
             Pending _ \<Rightarrow> LookupPending
           | NotReceived _ \<Rightarrow> LookupAbsent
           | Orphaned _ \<Rightarrow> LookupUnknown
           | Failed _ f \<Rightarrow> LookupFailed f
           | Done e \<Rightarrow> LookupReplay e, False, m))"

definition reservedDescriptor :: "entry_map \<Rightarrow> string \<Rightarrow> descriptor" where
  "reservedDescriptor m key =
     (case m key of
        Some reserved \<Rightarrow> descriptorOf reserved
      | None \<Rightarrow> \<lparr>idOperation = '''', idParamsHash = '''', idOnBehalfOf = None\<rparr>)"

definition completeEntry :: "entry_map \<Rightarrow> string \<Rightarrow> json option \<Rightarrow> json option \<Rightarrow> entry_map" where
  "completeEntry m key data facts =
     (let d = reservedDescriptor m key in
      m(key \<mapsto> Done \<lparr>idOperation = idOperation d, idParamsHash = idParamsHash d, idOnBehalfOf = idOnBehalfOf d,
                     ieData = data, ieObservedFacts = facts\<rparr>))"

definition failEntry :: "entry_map \<Rightarrow> string \<Rightarrow> stored_failure \<Rightarrow> entry_map" where
  "failEntry m key failure = m(key \<mapsto> Failed (reservedDescriptor m key) failure)"

definition releaseEntry :: "entry_map \<Rightarrow> string \<Rightarrow> bool \<times> entry_map" where
  "releaseEntry m key =
     (case m key of
        Some (Pending _) \<Rightarrow> (True, m(key := None))
      | _ \<Rightarrow> (False, m))"

section \<open>The file\<close>

text \<open>What stands under a key of the file: an entry, or something of another shape.\<close>

datatype file_entry = StoredEntry store_entry | OtherShape

datatype store_file = NoFile | UnreadableFile | StoreFile "string \<rightharpoonup> file_entry"

text \<open>An entry still reserved was left by a process that stopped: it becomes orphaned.\<close>

fun loadedEntry :: "file_entry \<Rightarrow> store_entry option" where
  "loadedEntry (StoredEntry (Pending d)) = Some (Orphaned d)"
| "loadedEntry (StoredEntry (Orphaned d)) = Some (Orphaned d)"
| "loadedEntry (StoredEntry e) = Some e"
| "loadedEntry OtherShape = None"

definition load_entries :: "(string \<rightharpoonup> file_entry) \<Rightarrow> entry_map" where
  "load_entries f = (\<lambda>key. Option.bind (f key) loadedEntry)"

fun load_file :: "store_file \<Rightarrow> entry_map option" where
  "load_file NoFile = Some (\<lambda>_. None)"
| "load_file UnreadableFile = None"
| "load_file (StoreFile f) = Some (load_entries f)"

text \<open>
  \<open>entries[key] = \<dots>\<close> on an object literal sets the prototype when the key is
  \<open>__proto__\<close>, and the prototype is not written.
\<close>

definition writeSnapshot :: "entry_map \<Rightarrow> store_file" where
  "writeSnapshot m =
     StoreFile (\<lambda>key. if key = ''__proto__'' then None else map_option StoredEntry (m key))"

section \<open>The stores\<close>

datatype store_error = CannotRead | CannotWrite

record json_store =
  jsLoaded :: "entry_map option"
  jsFile :: store_file

definition load :: "json_store \<Rightarrow> (store_error, entry_map) result \<times> json_store" where
  "load s =
     (case jsLoaded s of
        Some m \<Rightarrow> (Inr m, s)
      | None \<Rightarrow>
          (case load_file (jsFile s) of
             Some m \<Rightarrow> (Inr m, s\<lparr>jsLoaded := Some m\<rparr>)
           | None \<Rightarrow> (Inl CannotRead, s)))"

text \<open>The map in memory, and the file after a write that lands or does not.\<close>

definition flush :: "bool \<Rightarrow> entry_map \<Rightarrow> json_store \<Rightarrow> (store_error, unit) result \<times> json_store" where
  "flush lands m s =
     (if lands then (Inr (), \<lparr>jsLoaded = Some m, jsFile = writeSnapshot m\<rparr>)
      else (Inl CannotWrite, s\<lparr>jsLoaded := Some m\<rparr>))"

definition json_reserve ::
  "bool \<Rightarrow> string \<Rightarrow> descriptor \<Rightarrow> json_store \<Rightarrow> (store_error, reserve_result) result \<times> json_store" where
  "json_reserve lands key d s =
     (case load s of
        (Inl e, s1) \<Rightarrow> (Inl e, s1)
      | (Inr m, s1) \<Rightarrow>
          (case reserveOrConflict m key d of
             (Reserved, m') \<Rightarrow>
               (case flush lands m' s1 of
                  (Inr _, s2) \<Rightarrow> (Inr Reserved, s2)
                | (Inl e, s2) \<Rightarrow> (Inl e, s2\<lparr>jsLoaded := Some (m'(key := None))\<rparr>))
           | (r, m') \<Rightarrow> (Inr r, s1)))"

definition json_complete ::
  "bool \<Rightarrow> string \<Rightarrow> json option \<Rightarrow> json option \<Rightarrow> json_store \<Rightarrow> (store_error, unit) result \<times> json_store" where
  "json_complete lands key data facts s =
     (case load s of
        (Inl e, s1) \<Rightarrow> (Inl e, s1)
      | (Inr m, s1) \<Rightarrow> flush lands (completeEntry m key data facts) s1)"

definition json_fail ::
  "bool \<Rightarrow> string \<Rightarrow> stored_failure \<Rightarrow> json_store \<Rightarrow> (store_error, unit) result \<times> json_store" where
  "json_fail lands key failure s =
     (case load s of
        (Inl e, s1) \<Rightarrow> (Inl e, s1)
      | (Inr m, s1) \<Rightarrow> flush lands (failEntry m key failure) s1)"

definition json_release :: "bool \<Rightarrow> string \<Rightarrow> json_store \<Rightarrow> (store_error, unit) result \<times> json_store" where
  "json_release lands key s =
     (case load s of
        (Inl e, s1) \<Rightarrow> (Inl e, s1)
      | (Inr m, s1) \<Rightarrow>
          (case releaseEntry m key of
             (True, m') \<Rightarrow> flush lands m' s1
           | (False, m') \<Rightarrow> (Inr (), s1)))"

definition json_lookup ::
  "bool \<Rightarrow> string \<Rightarrow> descriptor \<Rightarrow> json_store \<Rightarrow> (store_error, lookup_result) result \<times> json_store" where
  "json_lookup lands key d s =
     (case load s of
        (Inl e, s1) \<Rightarrow> (Inl e, s1)
      | (Inr m, s1) \<Rightarrow>
          (case lookupOrClose m key d of
             (r, True, m') \<Rightarrow>
               (case flush lands m' s1 of
                  (Inr _, s2) \<Rightarrow> (Inr r, s2)
                | (Inl e, s2) \<Rightarrow> (Inl e, s2\<lparr>jsLoaded := Some (m'(key := None))\<rparr>))
           | (r, False, m') \<Rightarrow> (Inr r, s1)))"

end
