(* ===== verification/Network_Failure.thy ===== *)
theory Network_Failure
  imports Js_Text NT_Prelude
begin

text \<open>
  Whether a call that failed on the network could have been delivered
  (\<open>gatekeeper-base/src/network-failure.ts\<close>), read from the codes of an error, its causes and the
  errors it aggregates.

  Error objects live in a heap, because the code remembers the objects it has seen: an address is an
  object, and what is not an object has none.  A property that is not of the type the code tests for
  counts as absent.
\<close>

datatype js_ref = Obj nat | NotObject

record error_object =
  eoName :: "string option"
  eoCode :: "string option"
  eoSyscall :: "string option"
  eoErrors :: "js_ref list option"
  eoCause :: js_ref

type_synonym error_heap = "nat \<Rightarrow> error_object"

datatype delivery = NotSent | MaybeDelivered

definition NOT_SENT_CODES :: "string list" where
  "NOT_SENT_CODES =
     [''ECONNREFUSED'', ''ENOTFOUND'', ''EAI_AGAIN'', ''EAI_FAIL'', ''EAI_NONAME'',
      ''EAI_NODATA'', ''UND_ERR_CONNECT_TIMEOUT'']"

definition NOT_SENT_SYSCALLS :: "string list" where
  "NOT_SENT_SYSCALLS =
     [''connect'', ''getaddrinfo'', ''getnameinfo'']"

definition CERT_VERIFY_CODES :: "string list" where
  "CERT_VERIFY_CODES =
     [''UNABLE_TO_GET_ISSUER_CERT'', ''UNABLE_TO_GET_CRL'', ''UNABLE_TO_DECRYPT_CERT_SIGNATURE'',
      ''UNABLE_TO_DECRYPT_CRL_SIGNATURE'', ''UNABLE_TO_DECODE_ISSUER_PUBLIC_KEY'',
      ''CERT_SIGNATURE_FAILURE'', ''CRL_SIGNATURE_FAILURE'', ''CERT_NOT_YET_VALID'',
      ''CERT_HAS_EXPIRED'', ''CRL_NOT_YET_VALID'', ''CRL_HAS_EXPIRED'',
      ''ERROR_IN_CERT_NOT_BEFORE_FIELD'', ''ERROR_IN_CERT_NOT_AFTER_FIELD'',
      ''ERROR_IN_CRL_LAST_UPDATE_FIELD'', ''ERROR_IN_CRL_NEXT_UPDATE_FIELD'',
      ''DEPTH_ZERO_SELF_SIGNED_CERT'', ''SELF_SIGNED_CERT_IN_CHAIN'',
      ''UNABLE_TO_GET_ISSUER_CERT_LOCALLY'', ''UNABLE_TO_VERIFY_LEAF_SIGNATURE'',
      ''CERT_CHAIN_TOO_LONG'', ''CERT_REVOKED'', ''INVALID_CA'', ''PATH_LENGTH_EXCEEDED'',
      ''INVALID_PURPOSE'', ''CERT_UNTRUSTED'', ''CERT_REJECTED'', ''HOSTNAME_MISMATCH'',
      ''ERR_TLS_CERT_ALTNAME_INVALID'']"

definition TLS_HANDSHAKE_CODES :: "string list" where
  "TLS_HANDSHAKE_CODES =
     [''ERR_TLS_HANDSHAKE_TIMEOUT'', ''ERR_SSL_NO_PROTOCOLS_AVAILABLE'',
      ''ERR_SSL_UNSUPPORTED_PROTOCOL'']"

text \<open>The nine codes the expression matches.\<close>

definition TLS_HANDSHAKE_ALERT :: "string list" where
  "TLS_HANDSHAKE_ALERT =
     [''ERR_SSL_SSLV3_ALERT_HANDSHAKE_FAILURE'', ''ERR_SSL_SSLV3_ALERT_PROTOCOL_VERSION'',
      ''ERR_SSL_SSLV3_ALERT_CERTIFICATE_REQUIRED'', ''ERR_SSL_TLSV1_ALERT_HANDSHAKE_FAILURE'',
      ''ERR_SSL_TLSV1_ALERT_PROTOCOL_VERSION'', ''ERR_SSL_TLSV1_ALERT_CERTIFICATE_REQUIRED'',
      ''ERR_SSL_TLSV13_ALERT_HANDSHAKE_FAILURE'', ''ERR_SSL_TLSV13_ALERT_PROTOCOL_VERSION'',
      ''ERR_SSL_TLSV13_ALERT_CERTIFICATE_REQUIRED'']"

definition TLS_ANY_CODE :: "string \<Rightarrow> bool" where
  "TLS_ANY_CODE code = (startsWith code ''ERR_SSL_'' \<or> startsWith code ''ERR_TLS_'')"

definition MAYBE_DELIVERED_CODES :: "string list" where
  "MAYBE_DELIVERED_CODES =
     [''ECONNRESET'', ''EPIPE'', ''ECONNABORTED'', ''ETIMEDOUT'', ''EHOSTUNREACH'',
      ''ENETUNREACH'', ''ENETRESET'', ''ERR_STREAM_PREMATURE_CLOSE'', ''UND_ERR_SOCKET'',
      ''UND_ERR_CLOSED'', ''UND_ERR_DESTROYED'', ''UND_ERR_ABORTED'',
      ''UND_ERR_HEADERS_TIMEOUT'', ''UND_ERR_BODY_TIMEOUT'',
      ''UND_ERR_RES_CONTENT_LENGTH_MISMATCH'', ''UND_ERR_REQ_CONTENT_LENGTH_MISMATCH'',
      ''UND_ERR_RESPONSE_EXCEEDED_MAX_SIZE'']"

definition code_char :: "char \<Rightarrow> bool" where
  "code_char c = (c \<in> set ''ABCDEFGHIJKLMNOPQRSTUVWXYZ0123456789_'')"

text \<open>\<open>^(?:HPE_|Z_)[A-Z0-9_]+$\<close>\<close>

definition ANSWER_READ_CODE :: "string \<Rightarrow> bool" where
  "ANSWER_READ_CODE code =
     ((startsWith code ''HPE_'' \<and> length code > 4 \<and> list_all code_char (drop 4 code))
      \<or> (startsWith code ''Z_'' \<and> length code > 2 \<and> list_all code_char (drop 2 code)))"

definition MAYBE_DELIVERED_NAMES :: "string list" where
  "MAYBE_DELIVERED_NAMES =
     [''AbortError'', ''TimeoutError'']"

definition MAX_DEPTH :: nat where "MAX_DEPTH = 8"

definition ownDelivery :: "error_object \<Rightarrow> delivery option" where
  "ownDelivery err =
     (if (case eoName err of Some name \<Rightarrow> name \<in> set MAYBE_DELIVERED_NAMES | None \<Rightarrow> False)
        then Some MaybeDelivered
      else case eoCode err of
        None \<Rightarrow> None
      | Some code \<Rightarrow>
          (if code \<in> set NOT_SENT_CODES \<or> code \<in> set CERT_VERIFY_CODES
              \<or> code \<in> set TLS_HANDSHAKE_CODES \<or> code \<in> set TLS_HANDSHAKE_ALERT then Some NotSent
           else if TLS_ANY_CODE code then Some MaybeDelivered
           else if (case eoSyscall err of Some call \<Rightarrow> call \<in> set NOT_SENT_SYSCALLS | None \<Rightarrow> False)
             then Some NotSent
           else if code \<in> set MAYBE_DELIVERED_CODES \<or> ANSWER_READ_CODE code then Some MaybeDelivered
           else None))"

text \<open>What one more object's own signal makes of what was found.\<close>

definition found_with :: "delivery option \<Rightarrow> delivery option \<Rightarrow> delivery option" where
  "found_with own found =
     (if own = Some MaybeDelivered then own
      else if own = Some NotSent \<and> found = None then own
      else found)"

text \<open>
  The objects seen and the signal found; the first number is how many levels may still be entered.
\<close>

fun visit :: "error_heap \<Rightarrow> nat \<Rightarrow> js_ref \<Rightarrow> nat list \<times> delivery option \<Rightarrow> nat list \<times> delivery option" where
  "visit heap levels NotObject st = st"
| "visit heap 0 (Obj r) st = st"
| "visit heap (Suc levels) (Obj r) st =
     (if r \<in> set (fst st) then st
      else visit heap levels (eoCause (heap r))
             (fold (visit heap levels) (case eoErrors (heap r) of Some errors \<Rightarrow> errors | None \<Rightarrow> [])
                (r # fst st, found_with (ownDelivery (heap r)) (snd st))))"

definition networkFailureDelivery :: "error_heap \<Rightarrow> js_ref \<Rightarrow> delivery option" where
  "networkFailureDelivery heap err = snd (visit heap (Suc MAX_DEPTH) err ([], None))"

text \<open>\<open>^[A-Z][A-Z0-9_]{1,63}$\<close>\<close>

definition is_code :: "string \<Rightarrow> bool" where
  "is_code code =
     (2 \<le> length code \<and> length code \<le> 64 \<and> hd code \<in> set ''ABCDEFGHIJKLMNOPQRSTUVWXYZ''
      \<and> list_all code_char code)"

fun failure_code :: "error_heap \<Rightarrow> nat \<Rightarrow> js_ref \<Rightarrow> string option" where
  "failure_code heap levels NotObject = None"
| "failure_code heap 0 (Obj r) = None"
| "failure_code heap (Suc levels) (Obj r) =
     (case eoCode (heap r) of
        Some code \<Rightarrow> (if is_code code then Some code else failure_code heap levels (eoCause (heap r)))
      | None \<Rightarrow> failure_code heap levels (eoCause (heap r)))"

definition networkFailureCode :: "error_heap \<Rightarrow> js_ref \<Rightarrow> string option" where
  "networkFailureCode heap err = failure_code heap (Suc MAX_DEPTH) err"

section \<open>What a verdict rests on\<close>

text \<open>
  The strongest signal of a list of objects: one that may have been delivered before one that was
  not sent.
\<close>

definition strongest :: "error_heap \<Rightarrow> nat set \<Rightarrow> delivery option" where
  "strongest heap rs =
     (if \<exists>r\<in>rs. ownDelivery (heap r) = Some MaybeDelivered then Some MaybeDelivered
      else if \<exists>r\<in>rs. ownDelivery (heap r) = Some NotSent then Some NotSent else None)"

lemma strongest_insert:
  "strongest heap (insert r rs) = found_with (ownDelivery (heap r)) (strongest heap rs)"
  by (auto simp: strongest_def found_with_def)

lemma visit_strongest:
  "snd st = strongest heap (set (fst st))
   \<Longrightarrow> snd (visit heap levels v st) = strongest heap (set (fst (visit heap levels v st)))"
proof (induction levels arbitrary: v st)
  case 0
  then show ?case by (cases v) simp_all
next
  case (Suc levels)
  have folded: "snd st' = strongest heap (set (fst st'))
      \<Longrightarrow> snd (fold (visit heap levels) vs st') = strongest heap (set (fst (fold (visit heap levels) vs st')))"
    for vs st' by (induction vs arbitrary: st') (simp_all add: Suc.IH)
  show ?case
    using Suc.prems by (cases v) (auto intro!: Suc.IH folded simp: strongest_insert)
qed

lemma networkFailureDelivery_strongest:
  "networkFailureDelivery heap err =
     strongest heap (set (fst (visit heap (Suc MAX_DEPTH) err ([], None))))"
  unfolding networkFailureDelivery_def by (rule visit_strongest) (simp add: strongest_def)

lemma fold_keeps:
  assumes "\<And>v st. set (fst st) \<subseteq> set (fst (g v st))"
  shows "set (fst st) \<subseteq> set (fst (fold g vs st))"
proof (induction vs arbitrary: st)
  case (Cons v vs)
  from assms[of st v] Cons[of "g v st"] show ?case by simp
qed simp

lemma visit_keeps: "set (fst st) \<subseteq> set (fst (visit heap levels v st))"
proof (induction levels arbitrary: v st)
  case 0
  then show ?case by (cases v) simp_all
next
  case (Suc levels)
  note folded = fold_keeps[of "visit heap levels", OF Suc.IH]
  show ?case
  proof (cases v)
    case (Obj r)
    let ?st = "(r # fst st, found_with (ownDelivery (heap r)) (snd st))"
    have "set (fst st) \<subseteq> set (fst (visit heap levels (eoCause (heap r)) (fold (visit heap levels) vs ?st)))" for vs
      using Suc.IH[of "fold (visit heap levels) vs ?st" "eoCause (heap r)"] folded[of ?st vs] by auto
    with Obj show ?thesis by simp
  qed simp
qed

section \<open>What an error carries\<close>

text \<open>
  An object holds another as its cause or among the errors it aggregates; an error carries what can
  be reached so.  The order of the visit, its memory of what was seen and its depth limit play no part.
\<close>

definition holds_error :: "error_heap \<Rightarrow> nat \<Rightarrow> nat \<Rightarrow> bool" where
  "holds_error heap r q \<longleftrightarrow> eoCause (heap r) = Obj q
     \<or> (\<exists>errors. eoErrors (heap r) = Some errors \<and> Obj q \<in> set errors)"

definition carried :: "error_heap \<Rightarrow> js_ref \<Rightarrow> nat set" where
  "carried heap err = {q. \<exists>r. err = Obj r \<and> (holds_error heap)\<^sup>*\<^sup>* r q}"

lemma holds_member:
  "Obj q \<in> set (case eoErrors (heap r) of Some errors \<Rightarrow> errors | None \<Rightarrow> []) \<or> eoCause (heap r) = Obj q
   \<longleftrightarrow> holds_error heap r q"
  by (cases "eoErrors (heap r)") (auto simp: holds_error_def)

text \<open>All that the objects seen hold is seen, but for those a visit has still to look into.\<close>

definition closed_but :: "error_heap \<Rightarrow> nat set \<Rightarrow> nat set \<Rightarrow> bool" where
  "closed_but heap pending seen \<longleftrightarrow> (\<forall>r\<in>seen - pending. \<forall>q. holds_error heap r q \<longrightarrow> q \<in> seen)"

lemma fold_reaches:
  assumes keeps: "\<And>u st. set (fst st) \<subseteq> set (fst (f u st))"
    and step: "\<And>u st. u \<in> set us \<Longrightarrow> good st \<Longrightarrow> good (f u st) \<and> (\<forall>q. u = Obj q \<longrightarrow> q \<in> set (fst (f u st)))"
    and "good st"
  shows "good (fold f us st) \<and> (\<forall>q. Obj q \<in> set us \<longrightarrow> q \<in> set (fst (fold f us st)))"
  using step \<open>good st\<close>
proof (induction us arbitrary: st)
  case (Cons u us)
  have here: "good (f u st)" "\<forall>q. u = Obj q \<longrightarrow> q \<in> set (fst (f u st))"
    using Cons.prems(1)[of u st] Cons.prems(2) by fastforce+
  have "good (fold f us (f u st)) \<and> (\<forall>q. Obj q \<in> set us \<longrightarrow> q \<in> set (fst (fold f us (f u st))))"
    by (rule Cons.IH[OF _ here(1)]) (rule Cons.prems(1), simp_all)
  with here(2) fold_keeps[of f "f u st" us, OF keeps] show ?case by auto
qed simp

text \<open>
  Among few objects the depth limit is never reached: each level the visit stands on is another one of
  them.
\<close>

lemma visit_complete:
  assumes "finite R" and "card R \<le> levels + card pending"
    and "pending \<subseteq> set (fst st)" and "set (fst st) \<subseteq> R" and "closed_but heap pending (set (fst st))"
    and "\<And>r q. r \<in> R \<Longrightarrow> holds_error heap r q \<Longrightarrow> q \<in> R" and "\<And>r. v = Obj r \<Longrightarrow> r \<in> R"
  shows "(\<forall>r. v = Obj r \<longrightarrow> r \<in> set (fst (visit heap levels v st)))
    \<and> set (fst (visit heap levels v st)) \<subseteq> R
    \<and> closed_but heap pending (set (fst (visit heap levels v st)))"
  using assms(2-5,7)
proof (induction levels arbitrary: v st pending)
  case 0
  have "finite (set (fst st))" by simp
  with 0(1,2) assms(1) have "pending = R"
    using 0(3) by (metis add_0 card_seteq order_trans)
  with 0 show ?case by (cases v) auto
next
  case (Suc levels)
  show ?case
  proof (cases v)
    case (Obj r)
    show ?thesis
    proof (cases "r \<in> set (fst st)")
      case True
      with Obj Suc.prems show ?thesis by simp
    next
      case False
      let ?open = "insert r pending" and ?vs = "case eoErrors (heap r) of Some errors \<Rightarrow> errors | None \<Rightarrow> []"
      let ?st = "(r # fst st, found_with (ownDelivery (heap r)) (snd st))"
      have "r \<notin> pending" using False Suc.prems(2) by auto
      moreover have "finite pending" using Suc.prems(2) finite_subset by blast
      ultimately have room: "card R \<le> levels + card ?open" using Suc.prems(1) by simp
      define good where "good st' \<longleftrightarrow> insert r (set (fst st)) \<subseteq> set (fst st') \<and> set (fst st') \<subseteq> R
          \<and> closed_but heap ?open (set (fst st'))" for st' :: "nat list \<times> delivery option"
      have step: "good (visit heap levels u st') \<and> (\<forall>q. u = Obj q \<longrightarrow> q \<in> set (fst (visit heap levels u st')))"
        if "good st'" "\<And>q. u = Obj q \<Longrightarrow> q \<in> R" for u st'
        using Suc.IH[OF room, of st' u] that Suc.prems(2) visit_keeps[of st' heap levels u]
        by (auto simp: good_def)
      have fold: "good (fold (visit heap levels) us st') \<and> (\<forall>q. Obj q \<in> set us \<longrightarrow> q \<in> set (fst (fold (visit heap levels) us st')))"
        if "good st'" "\<And>q. Obj q \<in> set us \<Longrightarrow> q \<in> R" for us st'
        by (rule fold_reaches[where good=good and f="visit heap levels", OF visit_keeps _ that(1)])
          (rule step, use that(2) in auto)
      have r: "r \<in> R" using Suc.prems(5) Obj by simp
      have "good ?st" using r Suc.prems(2-4) False by (auto simp: good_def closed_but_def)
      moreover have "q \<in> R" if "Obj q \<in> set ?vs" for q
        using that assms(6)[OF r, of q] holds_member[of q heap r] by blast
      ultimately have folded: "good (fold (visit heap levels) ?vs ?st)"
        "\<forall>q. Obj q \<in> set ?vs \<longrightarrow> q \<in> set (fst (fold (visit heap levels) ?vs ?st))"
        using fold[of ?st ?vs] by auto
      let ?fin = "visit heap levels (eoCause (heap r)) (fold (visit heap levels) ?vs ?st)"
      have cause: "eoCause (heap r) = Obj q \<Longrightarrow> q \<in> R" for q
        using assms(6)[OF r, of q] by (simp add: holds_error_def)
      have fin1: "good ?fin" "\<forall>q. eoCause (heap r) = Obj q \<longrightarrow> q \<in> set (fst ?fin)"
        using step[OF folded(1) cause] by auto
      have "\<forall>q. Obj q \<in> set ?vs \<longrightarrow> q \<in> set (fst ?fin)"
        using folded(2) visit_keeps[of "fold (visit heap levels) ?vs ?st" heap levels "eoCause (heap r)"] by blast
      with fin1(2) have own: "holds_error heap r q \<Longrightarrow> q \<in> set (fst ?fin)" for q
        using holds_member[of q heap r] by blast
      from fin1(1) have others: "closed_but heap ?open (set (fst ?fin))" "r \<in> set (fst ?fin)" "set (fst ?fin) \<subseteq> R"
        by (simp_all add: good_def)
      with own have "closed_but heap pending (set (fst ?fin))"
        unfolding closed_but_def by (metis Diff_iff insertE)
      moreover have "visit heap (Suc levels) v st = ?fin" using Obj False by simp
      ultimately show ?thesis using others Obj by simp
    qed
  qed (use Suc.prems in simp)
qed

text \<open>What is looked at in an error of at most as many objects as the levels is what it carries.\<close>

lemma seen_is_carried:
  assumes "carried heap err \<subseteq> set rs" and "length rs \<le> Suc MAX_DEPTH"
  shows "set (fst (visit heap (Suc MAX_DEPTH) err ([], None))) = carried heap err"
proof (cases err)
  case (Obj r)
  let ?seen = "set (fst (visit heap (Suc MAX_DEPTH) err ([], None)))"
  have closed: "q \<in> carried heap err" if "p \<in> carried heap err" "holds_error heap p q" for p q
    using that by (auto simp: carried_def intro: rtranclp.rtrancl_into_rtrancl)
  have root: "\<And>q. err = Obj q \<Longrightarrow> q \<in> carried heap err" by (simp add: carried_def)
  have finite: "finite (carried heap err)" using assms(1) by (rule finite_subset) simp
  have "card (carried heap err) \<le> card (set rs)" using assms(1) by (intro card_mono) simp_all
  with card_length[of rs] assms(2) have "card (carried heap err) \<le> Suc MAX_DEPTH" by linarith
  with finite have seen: "r \<in> ?seen" "?seen \<subseteq> carried heap err" "closed_but heap {} ?seen"
    using visit_complete[of "carried heap err" "Suc MAX_DEPTH" "{}" "([], None)" heap err, OF _ _ _ _ _ closed root] Obj
    by (simp_all add: closed_but_def del: visit.simps)
  have "q \<in> ?seen" if "(holds_error heap)\<^sup>*\<^sup>* r q" for q
    using that by induction (use seen(1,3) in \<open>auto simp: closed_but_def\<close>)
  with seen(2) Obj show ?thesis by (auto simp: carried_def)
qed (simp add: carried_def)

lemma delivery_of_carried:
  assumes "carried heap err \<subseteq> set rs" and "length rs \<le> Suc MAX_DEPTH"
  shows "networkFailureDelivery heap err = strongest heap (carried heap err)"
  by (simp only: networkFailureDelivery_strongest seen_is_carried[OF assms])

end
