(* ===== verification/Canonical_Json.thy ===== *)
theory Canonical_Json
  imports Json_Value "HOL-Library.Char_ord" "HOL-Library.List_Lexorder"
begin

text \<open>
  The canonical text of a JSON value, which digests and hashes are taken of: \<open>canonicalJson\<close> of
  \<open>gatekeeper-base/src/operation-digest.ts\<close> and \<open>stableStringify\<close> of
  \<open>gatekeeper-base/src/idempotency-store.ts\<close>.

  The text of a number (\<open>Number::toString\<close>) is an argument; what the theorems use of it is that
  texts of different numbers differ and are made of digits, signs, points and \<open>e\<close>.
\<close>

section \<open>Strings\<close>

definition hex_digit :: "nat \<Rightarrow> char" where
  "hex_digit n = ''0123456789abcdef'' ! n"

text \<open>What \<open>JSON.stringify\<close> writes of a character.\<close>

definition quoted_char :: "char \<Rightarrow> string" where
  "quoted_char c =
     (if c = CHR 0x22 \<or> c = CHR 0x5C then [CHR 0x5C, c]
      else if c = CHR 0x08 then [CHR 0x5C, CHR ''b'']
      else if c = CHR 0x09 then [CHR 0x5C, CHR ''t'']
      else if c = CHR 0x0A then [CHR 0x5C, CHR ''n'']
      else if c = CHR 0x0C then [CHR 0x5C, CHR ''f'']
      else if c = CHR 0x0D then [CHR 0x5C, CHR ''r'']
      else if of_char c < (32::nat)
        then [CHR 0x5C, CHR ''u'', CHR ''0'', CHR ''0'', hex_digit (of_char c div 16), hex_digit (of_char c mod 16)]
      else [c])"

definition quoted :: "string \<Rightarrow> string" where
  "quoted s = CHR 0x22 # concat (map quoted_char s) @ [CHR 0x22]"

section \<open>Values\<close>

definition by_key :: "(string \<times> 'a) list \<Rightarrow> (string \<times> 'a) list" where
  "by_key ps = sort_key fst ps"

lemma set_by_key [simp]: "set (by_key ps) = set ps"
  by (simp add: by_key_def)

lemma size_member:
  "(k, v) \<in> set ps \<Longrightarrow> size v < Suc (size_list (size_prod (\<lambda>_. 0) size) ps)"
  by (induction ps) auto

function canonicalJson :: "(rat \<Rightarrow> string) \<Rightarrow> json \<Rightarrow> string" where
  "canonicalJson number_text JNull = ''null''"
| "canonicalJson number_text (JBool b) = (if b then ''true'' else ''false'')"
| "canonicalJson number_text (JNum q) = number_text q"
| "canonicalJson number_text (JStr s) = quoted s"
| "canonicalJson number_text (JArr xs) =
     ''['' @ join '','' (map (canonicalJson number_text) xs) @ '']''"
| "canonicalJson number_text (JObj ps) =
     ''{'' @ join '','' (map (\<lambda>(k, v). quoted k @ '':'' @ canonicalJson number_text v) (by_key ps)) @ ''}''"
  by pat_completeness auto
termination
  by (relation "measure (size \<circ> snd)") (auto intro: size_member simp: less_Suc_eq_le size_list_estimation')

text \<open>The store's own serialiser, written apart; on JSON values it is the same text.\<close>

function stableStringify :: "(rat \<Rightarrow> string) \<Rightarrow> json \<Rightarrow> string" where
  "stableStringify number_text JNull = ''null''"
| "stableStringify number_text (JBool b) = (if b then ''true'' else ''false'')"
| "stableStringify number_text (JNum q) = number_text q"
| "stableStringify number_text (JStr s) = quoted s"
| "stableStringify number_text (JArr xs) =
     ''['' @ join '','' (map (stableStringify number_text) xs) @ '']''"
| "stableStringify number_text (JObj ps) =
     ''{'' @ join '','' (map (\<lambda>(k, v). quoted k @ '':'' @ stableStringify number_text v) (by_key ps)) @ ''}''"
  by pat_completeness auto
termination
  by (relation "measure (size \<circ> snd)") (auto intro: size_member simp: less_Suc_eq_le size_list_estimation')

lemma stableStringify_canonical: "stableStringify number_text v = canonicalJson number_text v"
proof (induction number_text v rule: canonicalJson.induct)
  case (5 number_text xs)
  then have "map (stableStringify number_text) xs = map (canonicalJson number_text) xs" by simp
  then show ?case by (simp only: stableStringify.simps canonicalJson.simps)
next
  case (6 number_text ps)
  then have "map (\<lambda>(k, v). quoted k @ '':'' @ stableStringify number_text v) (by_key ps)
      = map (\<lambda>(k, v). quoted k @ '':'' @ canonicalJson number_text v) (by_key ps)" by auto
  then show ?case by (simp only: stableStringify.simps canonicalJson.simps)
qed simp_all

section \<open>The text determines the value\<close>

text \<open>The value with the keys of every object in order.\<close>

function normalized :: "json \<Rightarrow> json" where
  "normalized JNull = JNull"
| "normalized (JBool b) = JBool b"
| "normalized (JNum q) = JNum q"
| "normalized (JStr s) = JStr s"
| "normalized (JArr xs) = JArr (map normalized xs)"
| "normalized (JObj ps) = JObj (map (\<lambda>(k, v). (k, normalized v)) (by_key ps))"
  by pat_completeness auto
termination
  by (relation "measure size") (auto intro: size_member simp: less_Suc_eq_le size_list_estimation')

text \<open>What the theorems use of the text of a number.\<close>

definition number_chars :: string where
  "number_chars = ''0123456789+-.e''"

definition number_texts :: "(rat \<Rightarrow> string) \<Rightarrow> bool" where
  "number_texts f \<longleftrightarrow> inj f \<and> (\<forall>q. f q \<noteq> [] \<and> set (f q) \<subseteq> set number_chars)"

text \<open>What may follow a value: nothing, or what ends an element.\<close>

definition ends :: "string \<Rightarrow> bool" where
  "ends s \<longleftrightarrow> s = [] \<or> hd s \<in> set '',]}''"

subsection \<open>Strings\<close>

text \<open>A character from its text.\<close>

definition hex_index :: "char \<Rightarrow> nat" where
  "hex_index c = length (takeWhile (\<lambda>d. d \<noteq> c) ''0123456789abcdef'')"

definition unquoted_char :: "string \<Rightarrow> char" where
  "unquoted_char s =
     (if hd s \<noteq> CHR 0x5C then hd s
      else if s ! 1 = CHR ''b'' then CHR 0x08
      else if s ! 1 = CHR ''t'' then CHR 0x09
      else if s ! 1 = CHR ''n'' then CHR 0x0A
      else if s ! 1 = CHR ''f'' then CHR 0x0C
      else if s ! 1 = CHR ''r'' then CHR 0x0D
      else if s ! 1 = CHR ''u'' then char_of (16 * hex_index (s ! 4) + hex_index (s ! 5))
      else s ! 1)"

lemma hex_index_digit: "n < 16 \<Longrightarrow> hex_index (hex_digit n) = n"
proof -
  have "list_all (\<lambda>n. hex_index (hex_digit n) = n) [0..<16]" by code_simp
  then show "n < 16 \<Longrightarrow> hex_index (hex_digit n) = n" by (simp add: list_all_iff)
qed

lemma unquoted_quoted: "unquoted_char (quoted_char c) = c"
proof (cases "of_char c < (32::nat)")
  case True
  then have "of_char c div 16 < (16::nat)" by (simp add: less_mult_imp_div_less)
  then have "char_of (16 * hex_index (hex_digit (of_char c div 16)) + hex_index (hex_digit (of_char c mod 16))) = c"
    by (simp add: hex_index_digit)
  then show ?thesis unfolding quoted_char_def unquoted_char_def by simp
next
  case False
  then show ?thesis unfolding quoted_char_def unquoted_char_def by simp
qed

text \<open>How many characters a text of a character has, by its first two.\<close>

definition text_length :: "string \<Rightarrow> nat" where
  "text_length s = (if hd s \<noteq> CHR 0x5C then 1 else if s ! 1 = CHR ''u'' then 6 else 2)"

lemma quoted_char_length: "text_length (quoted_char c @ s) = length (quoted_char c)"
  unfolding quoted_char_def text_length_def by simp

lemma quoted_char_prefix:
  assumes "quoted_char c @ s = quoted_char d @ t"
  shows "c = d \<and> s = t"
proof -
  have "length (quoted_char c) = length (quoted_char d)"
    using assms quoted_char_length by metis
  with assms have "quoted_char c = quoted_char d" "s = t" by simp_all
  then show ?thesis using unquoted_quoted by metis
qed

lemma quoted_char_start: "\<exists>x xs. quoted_char c = x # xs \<and> x \<noteq> CHR 0x22"
  by (simp add: quoted_char_def)

lemma quoted_body_prefix:
  "concat (map quoted_char a) @ CHR 0x22 # s = concat (map quoted_char b) @ CHR 0x22 # t \<Longrightarrow> a = b \<and> s = t"
proof (induction a arbitrary: b)
  case Nil
  show ?case
  proof (cases b)
    case (Cons d b')
    obtain x xs where "quoted_char d = x # xs" "x \<noteq> CHR 0x22" using quoted_char_start by metis
    with Nil Cons show ?thesis by simp
  qed (use Nil in simp)
next
  case (Cons c a)
  then show ?case
  proof (cases b)
    case Nil
    with Cons.prems quoted_char_start[of c] show ?thesis by auto
  next
    case (Cons d b')
    with Cons.prems quoted_char_prefix[of c "concat (map quoted_char a) @ CHR 0x22 # s" d
        "concat (map quoted_char b') @ CHR 0x22 # t"] Cons.IH[of b'] show ?thesis by simp
  qed
qed

lemma quoted_prefix: "quoted a @ s = quoted b @ t \<Longrightarrow> a = b \<and> s = t"
  unfolding quoted_def by (rule quoted_body_prefix) simp

subsection \<open>Lists of elements\<close>

text \<open>What follows the first element of a list that ends in \<open>c\<close>.\<close>

fun more :: "('a \<Rightarrow> string) \<Rightarrow> char \<Rightarrow> 'a list \<Rightarrow> string \<Rightarrow> string" where
  "more f c [] s = c # s"
| "more f c (x # xs) s = CHR '','' # f x @ more f c xs s"

lemma join_more: "join '','' (map f (x # xs)) @ c # s = f x @ more f c xs s"
  by (induction xs arbitrary: x) simp_all

lemma more_ends: "c \<in> set '']}'' \<Longrightarrow> ends (more f c xs s)"
  by (cases xs) (auto simp: ends_def)

text \<open>Elements are told apart where they end.\<close>

definition apart :: "('a \<Rightarrow> string) \<Rightarrow> ('a \<Rightarrow> 'b) \<Rightarrow> 'a \<Rightarrow> bool" where
  "apart f h x \<longleftrightarrow> (\<forall>y s t. ends s \<longrightarrow> ends t \<longrightarrow> f x @ s = f y @ t \<longrightarrow> h x = h y \<and> s = t)"

lemma apartD: "apart f h x \<Longrightarrow> ends s \<Longrightarrow> ends t \<Longrightarrow> f x @ s = f y @ t \<Longrightarrow> h x = h y \<and> s = t"
  unfolding apart_def by blast

lemma more_apart:
  assumes "c \<in> set '']}''"
  shows "\<forall>x\<in>set xs. apart f h x \<Longrightarrow> more f c xs s = more f c ys t \<Longrightarrow> map h xs = map h ys \<and> s = t"
proof (induction xs arbitrary: ys)
  case Nil
  then show ?case using assms by (cases ys) auto
next
  case (Cons x xs)
  show ?case
  proof (cases ys)
    case Nil
    with Cons.prems(2) assms show ?thesis by auto
  next
    case (Cons y ys')
    with Cons.prems have "f x @ more f c xs s = f y @ more f c ys' t" by simp
    moreover have "apart f h x" using Cons.prems(1) by simp
    ultimately have "h x = h y \<and> more f c xs s = more f c ys' t"
      by (intro apartD[OF _ more_ends[OF assms] more_ends[OF assms]])
    with Cons.IH[of ys'] Cons.prems(1) Cons show ?thesis by simp
  qed
qed

lemma join_apart:
  assumes "c \<in> set '']}''" and "\<forall>x\<in>set xs. apart f h x" and starts: "\<And>x. f x \<noteq> [] \<and> hd (f x) \<noteq> c"
    and same: "join '','' (map f xs) @ c # s = join '','' (map f ys) @ c # t"
  shows "map h xs = map h ys \<and> s = t"
proof (cases xs; cases ys)
  assume "xs = []" "ys = []"
  with same show ?thesis by simp
next
  fix y ys' assume *: "xs = []" "ys = y # ys'"
  from same have "hd (f y @ more f c ys' t) = c" unfolding * join_more[symmetric] by (metis append_Nil join.simps(1) list.map(1) list.sel(1))
  with starts[of y] show ?thesis by simp
next
  fix x xs' assume *: "xs = x # xs'" "ys = []"
  from same have "hd (f x @ more f c xs' s) = c" unfolding * join_more[symmetric] by (metis append_Nil join.simps(1) list.map(1) list.sel(1))
  with starts[of x] show ?thesis by simp
next
  fix x xs' y ys' assume *: "xs = x # xs'" "ys = y # ys'"
  from same have "f x @ more f c xs' s = f y @ more f c ys' t" unfolding * join_more .
  moreover have "apart f h x" using assms(2) * by simp
  ultimately have "h x = h y \<and> more f c xs' s = more f c ys' t"
    by (intro apartD[OF _ more_ends[OF assms(1)] more_ends[OF assms(1)]])
  with more_apart[OF assms(1), of xs' f h s ys' t] assms(2) * show ?thesis by simp
qed

subsection \<open>Values\<close>

text \<open>The first character tells what a value is.\<close>

datatype json_kind = Word char | Number | Text | Sequence | Record

definition kind_of_char :: "char \<Rightarrow> json_kind" where
  "kind_of_char c =
     (if c = CHR 0x22 then Text else if c = CHR ''['' then Sequence else if c = CHR ''{'' then Record
      else if c \<in> set number_chars then Number else Word c)"

fun kind_of :: "json \<Rightarrow> json_kind" where
  "kind_of JNull = Word (CHR ''n'')"
| "kind_of (JBool b) = Word (if b then CHR ''t'' else CHR ''f'')"
| "kind_of (JNum q) = Number"
| "kind_of (JStr s) = Text"
| "kind_of (JArr xs) = Sequence"
| "kind_of (JObj ps) = Record"

lemma number_start:
  "number_texts f \<Longrightarrow> f q \<noteq> [] \<and> hd (f q) \<in> set number_chars"
  unfolding number_texts_def by (metis hd_in_set subsetD)

lemma canonical_start:
  assumes "number_texts f"
  shows "canonicalJson f v \<noteq> [] \<and> kind_of_char (hd (canonicalJson f v)) = kind_of v"
proof (cases v)
  case (JNum q)
  have "CHR 0x22 \<notin> set number_chars" "CHR ''['' \<notin> set number_chars" "CHR ''{'' \<notin> set number_chars"
    by (simp_all add: number_chars_def)
  then show ?thesis using number_start[OF assms, of q] JNum by (auto simp: kind_of_char_def)
qed (auto simp: kind_of_char_def quoted_def number_chars_def)

lemma same_kind:
  assumes "number_texts f" and "canonicalJson f v @ s = canonicalJson f w @ t"
  shows "kind_of v = kind_of w"
  using canonical_start[OF assms(1)] assms(2) by (metis hd_append2)

lemma number_prefix:
  assumes "number_texts f" and "f q @ s = f r @ t" and "ends s" and "ends t"
  shows "q = r \<and> s = t"
proof -
  have outside: "CHR '','' \<notin> set number_chars" "CHR '']'' \<notin> set number_chars" "CHR ''}'' \<notin> set number_chars"
    by (simp_all add: number_chars_def)
  have taken: "takeWhile (\<lambda>c. c \<in> set number_chars) (f p @ u) = f p" if "ends u" for p u
  proof -
    have "\<forall>c\<in>set (f p). c \<in> set number_chars" using assms(1) by (auto simp: number_texts_def)
    moreover have "takeWhile (\<lambda>c. c \<in> set number_chars) u = []"
      using that outside by (cases u) (auto simp: ends_def)
    ultimately show ?thesis by (simp add: takeWhile_append)
  qed
  from taken[OF assms(3), of q] taken[OF assms(4), of r] assms(2) have "f q = f r" by simp
  with assms(1,2) show ?thesis by (auto simp: number_texts_def inj_eq)
qed

lemma canonical_apart:
  assumes numbers: "number_texts f"
  shows "apart (canonicalJson f) normalized v"
proof (induction v rule: normalized.induct)
  case (5 xs)
  then have elements: "\<forall>x\<in>set xs. apart (canonicalJson f) normalized x" by blast
  have starts: "canonicalJson f x \<noteq> [] \<and> hd (canonicalJson f x) \<noteq> CHR '']''" for x
    using canonical_start[OF numbers, of x] by (cases x) (auto simp: kind_of_char_def number_chars_def)
  show ?case
    unfolding apart_def
  proof (intro allI impI)
    fix w s t
    assume same: "canonicalJson f (JArr xs) @ s = canonicalJson f w @ t"
    from same_kind[OF numbers same] obtain ys where w: "w = JArr ys" by (cases w) (auto split: if_splits)
    from same w have "join '','' (map (canonicalJson f) xs) @ CHR '']'' # s
        = join '','' (map (canonicalJson f) ys) @ CHR '']'' # t" by simp
    with join_apart[OF _ elements starts this] w show "normalized (JArr xs) = normalized w \<and> s = t" by simp
  qed
next
  case (6 ps)
  let ?member = "\<lambda>(k, v). quoted k @ '':'' @ canonicalJson f v"
  have elements: "\<forall>m\<in>set (by_key ps). apart ?member (\<lambda>(k, v). (k, normalized v)) m"
    unfolding apart_def
  proof (intro ballI allI impI)
    fix m n s t
    assume m: "m \<in> set (by_key ps)" and e: "ends s" "ends t" and same: "?member m @ s = ?member n @ t"
    obtain k v j w where kv: "m = (k, v)" "n = (j, w)" by (metis surj_pair)
    with same have "quoted k @ '':'' @ canonicalJson f v @ s = quoted j @ '':'' @ canonicalJson f w @ t" by simp
    from quoted_prefix[OF this] have "k = j" and rest: "canonicalJson f v @ s = canonicalJson f w @ t" by simp_all
    moreover have "apart (canonicalJson f) normalized v" using 6 m kv by fastforce
    from apartD[OF this e rest] have "normalized v = normalized w" "s = t" by simp_all
    ultimately show "(\<lambda>(k, v). (k, normalized v)) m = (\<lambda>(k, v). (k, normalized v)) n \<and> s = t"
      by (simp add: kv)
  qed
  have starts: "?member m \<noteq> [] \<and> hd (?member m) \<noteq> CHR ''}''" for m
    by (cases m) (simp add: quoted_def)
  show ?case
    unfolding apart_def
  proof (intro allI impI)
    fix w s t
    assume same: "canonicalJson f (JObj ps) @ s = canonicalJson f w @ t"
    from same_kind[OF numbers same] obtain qs where w: "w = JObj qs" by (cases w) (auto split: if_splits)
    from same w have "join '','' (map ?member (by_key ps)) @ CHR ''}'' # s
        = join '','' (map ?member (by_key qs)) @ CHR ''}'' # t" by simp
    with join_apart[OF _ elements starts this] w show "normalized (JObj ps) = normalized w \<and> s = t" by simp
  qed
next
  case 1
  show ?case
    unfolding apart_def
  proof (intro allI impI)
    fix w s t assume same: "canonicalJson f JNull @ s = canonicalJson f w @ t"
    from same_kind[OF numbers same] have "w = JNull" by (cases w) (auto split: if_splits)
    with same show "normalized JNull = normalized w \<and> s = t" by simp
  qed
next
  case (2 b)
  show ?case
    unfolding apart_def
  proof (intro allI impI)
    fix w s t assume same: "canonicalJson f (JBool b) @ s = canonicalJson f w @ t"
    from same_kind[OF numbers same] have "w = JBool b" by (cases w) (auto split: if_splits)
    with same show "normalized (JBool b) = normalized w \<and> s = t" by simp
  qed
next
  case (3 q)
  show ?case
    unfolding apart_def
  proof (intro allI impI)
    fix w s t assume e: "ends s" "ends t" and same: "canonicalJson f (JNum q) @ s = canonicalJson f w @ t"
    from same_kind[OF numbers same] obtain r where "w = JNum r" by (cases w) (auto split: if_splits)
    with same number_prefix[OF numbers _ e, of q r] show "normalized (JNum q) = normalized w \<and> s = t" by simp
  qed
next
  case (4 x)
  show ?case
    unfolding apart_def
  proof (intro allI impI)
    fix w s t assume same: "canonicalJson f (JStr x) @ s = canonicalJson f w @ t"
    from same_kind[OF numbers same] obtain y where "w = JStr y" by (cases w) (auto split: if_splits)
    with same quoted_prefix[of x s y t] show "normalized (JStr x) = normalized w \<and> s = t" by simp
  qed
qed

lemma by_key_map:
  "by_key (map (\<lambda>(k, v). (k, h v)) (by_key ps)) = map (\<lambda>(k, v). (k, h v)) (by_key ps)"
proof -
  have "map fst (map (\<lambda>(k, v). (k, h v)) (by_key ps)) = map fst (by_key ps)"
    by (simp add: comp_def split_beta)
  then have "sorted (map fst (map (\<lambda>(k, v). (k, h v)) (by_key ps)))"
    by (simp only: by_key_def sorted_sort_key)
  then show ?thesis by (simp only: by_key_def sort_key_id_if_sorted)
qed

lemma canonical_normalized: "canonicalJson f (normalized v) = canonicalJson f v"
proof (induction v rule: normalized.induct)
  case (5 xs)
  then have "map (canonicalJson f) (map normalized xs) = map (canonicalJson f) xs" by simp
  then show ?case by (simp only: normalized.simps canonicalJson.simps)
next
  case (6 ps)
  have "map (\<lambda>(k, v). quoted k @ '':'' @ canonicalJson f v) (map (\<lambda>(k, v). (k, normalized v)) (by_key ps))
      = map (\<lambda>(k, v). quoted k @ '':'' @ canonicalJson f v) (by_key ps)"
    using 6 by auto
  then show ?case by (simp only: normalized.simps canonicalJson.simps by_key_map)
qed simp_all

text \<open>
  C36: the canonical text of a value - what an operation's definition digest and a call's parameter
  hash are taken of - determines it: two values have the same text exactly when they are the same but
  for the order of the keys of their objects, at every depth.
\<close>

theorem canonical_text_exact:
  assumes "number_texts number_text"
  shows "canonicalJson number_text v = canonicalJson number_text w \<longleftrightarrow> normalized v = normalized w"
proof
  assume "canonicalJson number_text v = canonicalJson number_text w"
  with canonical_apart[OF assms, of v] show "normalized v = normalized w"
    unfolding apart_def by (metis append_Nil2 ends_def)
next
  assume "normalized v = normalized w"
  then show "canonicalJson number_text v = canonicalJson number_text w" by (metis canonical_normalized)
qed

text \<open>A text of numbers that keeps the hypothesis: sign, numerator and denominator in strokes.\<close>

definition strokes :: "rat \<Rightarrow> string" where
  "strokes q = (let (n, d) = quotient_of q in
     (if n < 0 then CHR ''-'' else CHR ''+'') # replicate (nat \<bar>n\<bar>) (CHR ''0'') @ replicate (nat d) (CHR ''1''))"

lemma strokes_inj: "strokes q = strokes r \<Longrightarrow> q = r"
proof -
  assume same: "strokes q = strokes r"
  obtain n d where q: "quotient_of q = (n, d)" by (metis surj_pair)
  obtain n' d' where r: "quotient_of r = (n', d')" by (metis surj_pair)
  have pos: "d > 0" "d' > 0" using q r quotient_of_denom_pos by auto
  from same have sign: "(n < 0) = (n' < 0)"
    and body: "replicate (nat \<bar>n\<bar>) (CHR ''0'') @ replicate (nat d) (CHR ''1'')
      = replicate (nat \<bar>n'\<bar>) (CHR ''0'') @ replicate (nat d') (CHR ''1'')"
    by (auto simp: strokes_def q r split: if_splits)
  have "length (filter ((=) c) (replicate (nat \<bar>n\<bar>) (CHR ''0'') @ replicate (nat d) (CHR ''1'')))
      = length (filter ((=) c) (replicate (nat \<bar>n'\<bar>) (CHR ''0'') @ replicate (nat d') (CHR ''1'')))" for c
    by (simp only: body)
  from this[of "CHR ''0''"] this[of "CHR ''1''"] have "nat \<bar>n\<bar> = nat \<bar>n'\<bar>" "nat d = nat d'"
    by simp_all
  with sign pos have "quotient_of q = quotient_of r" by (auto simp: q r)
  then show "q = r" by (rule quotient_of_inject)
qed

theorem canonical_text_exact_witness:
  "canonicalJson strokes (JObj [(''b'', JNull), (''a'', JArr [JBool True, JStr ''x''])])
   = canonicalJson strokes (JObj [(''a'', JArr [JBool True, JStr ''x'']), (''b'', JNull)])"
proof -
  have "number_texts strokes"
    by (auto simp: number_texts_def inj_def strokes_inj strokes_def number_chars_def split: prod.splits)
  from canonical_text_exact[OF this] show ?thesis by (simp add: by_key_def)
qed

end
