(* ===== verification/Gate_Apply.thy ===== *)
theory Gate_Apply
  imports Gate_Store Network_Failure Canonical_Json
begin

text \<open>
  The calls a gate answers (\<open>gatekeeper-base/src/gatekeeper-base.ts\<close>): \<open>apply\<close> and \<open>lookupApply\<close>
  over any idempotency store, \<open>observe\<close>, and the checks they share.

  The target behind the gate, credential resolution, the schema libraries (\<open>zod\<close>, \<open>ajv\<close>),
  \<open>jmespath\<close> and SHA-256 are arguments; a \<open>jmespath\<close> search may throw (an expression that does not
  parse, a function on a value of another type).  The message of an error is not kept, except where
  a stored failure carries it.
\<close>

section \<open>Operations\<close>

datatype operation_mode = ObserveOperation | ExecuteOperation

text \<open>How the facts of a response are read off it.\<close>

record result_mapping =
  rmJmesPath :: string
  rmObjectType :: string
  rmIdentityKeys :: "string list"
  rmAttributes :: "(string \<times> string) list option"

datatype target_answer = AnsweredStatus int | AnsweredExitCode int

record operation =
  opName :: string
  opMode :: operation_mode
  opBindingKind :: string
  opBinding :: json
  opAbsentStatuses :: "int list option"
  opAbsentExitCodes :: "int list option"
  opParamsSchema :: json
  opResultMapping :: "result_mapping option"
  opReversibility :: json
  opBlastRadius :: "json option"

fun mode_json :: "operation_mode \<Rightarrow> json" where
  "mode_json ObserveOperation = JStr ''observe''"
| "mode_json ExecuteOperation = JStr ''execute''"

definition mapping_json :: "result_mapping \<Rightarrow> json" where
  "mapping_json m =
     JObj ([(''jmes_path'', JStr (rmJmesPath m)), (''object_type'', JStr (rmObjectType m)),
            (''identity_keys'', JArr (map JStr (rmIdentityKeys m)))]
       @ (case rmAttributes m of
            Some ps \<Rightarrow> [(''attributes'', JObj (map (\<lambda>(k, v). (k, JStr v)) ps))] | None \<Rightarrow> []))"

text \<open>What is digested of an operation the schema accepts.\<close>

definition operationDefinition :: "operation \<Rightarrow> json" where
  "operationDefinition parsed =
     JObj ([(''name'', JStr (opName parsed)), (''binding'', opBinding parsed),
            (''params_schema'', opParamsSchema parsed)]
       @ (case opResultMapping parsed of Some m \<Rightarrow> [(''result_mapping'', mapping_json m)] | None \<Rightarrow> [])
       @ [(''mode'', mode_json (opMode parsed)), (''reversibility'', opReversibility parsed)]
       @ (if opBindingKind parsed = ''ssh''
          then (case opBlastRadius parsed of Some radius \<Rightarrow> [(''blast_radius'', radius)] | None \<Rightarrow> [])
          else []))"

datatype params_verdict = ParamsFine | ParamsWrong | SchemaWrong

record thrown =
  thClass :: string
  thMessage :: string
  thObject :: js_ref
  thTargetAnswer :: "target_answer option"

text \<open>The gate's configuration, with the libraries it calls.\<close>

record gate =
  gaManifest :: "operation list"
  gaParse :: "operation \<Rightarrow> operation option"
  gaSha256 :: "string \<Rightarrow> string"
  gaNumberText :: "rat \<Rightarrow> string"
  gaValidate :: "json \<Rightarrow> json \<Rightarrow> params_verdict"
  gaSearch :: "json option \<Rightarrow> string \<Rightarrow> (string, json option) result"
  gaCredentialRequired :: bool
  gaErrors :: error_heap

datatype gatekeeper_error =
    ApplyRequiresIdempotencyKey string
  | OperationNotFound string
  | OperationModeMismatch string operation_mode operation_mode
  | ParamsValidation string
  | ParamsSchemaInvalid string
  | OperationDefinitionMismatch string "string option" string
  | IdempotencyConflict string
  | ApplyOutcomeUnknown string "failure_text option"
  | StoredTransportFailure failure_text
  | CredentialFailure string
  | Thrown thrown
  | MappingFailed string
  | ApplyNotReceived string
  | StoreFailure store_error

record call_context =
  ccOnBehalfOf :: "string option"
  ccOperationDigest :: "string option option"

text \<open>What the world answers one call: the credential and the target.\<close>

record world =
  woCredential :: "(string, json) result"
  woTarget :: "operation \<Rightarrow> json option \<Rightarrow> json option \<Rightarrow> (thrown, json option) result"

section \<open>Checks before anything runs\<close>

definition getOperation :: "gate \<Rightarrow> string \<Rightarrow> (gatekeeper_error, operation) result" where
  "getOperation g name =
     (case find (\<lambda>op. opName op = name) (rev (gaManifest g)) of
        Some op \<Rightarrow> Inr op
      | None \<Rightarrow> Inl (OperationNotFound name))"

definition UNREADABLE_DEFINITION :: string where
  "UNREADABLE_DEFINITION = ''unreadable''"

definition definitionDigest :: "gate \<Rightarrow> operation \<Rightarrow> string" where
  "definitionDigest g op =
     (case gaParse g op of
        Some parsed \<Rightarrow> ''sha256:'' @ gaSha256 g (canonicalJson (gaNumberText g) (operationDefinition parsed))
      | None \<Rightarrow> UNREADABLE_DEFINITION)"

definition definitionMismatch :: "gate \<Rightarrow> operation \<Rightarrow> call_context \<Rightarrow> gatekeeper_error option" where
  "definitionMismatch g op ctx =
     (case ccOperationDigest ctx of
        None \<Rightarrow> None
      | Some approved \<Rightarrow>
          (if approved = Some (definitionDigest g op) then None
           else Some (OperationDefinitionMismatch (opName op) approved (definitionDigest g op))))"

definition or_empty :: "json option \<Rightarrow> json" where
  "or_empty params = (case params of None \<Rightarrow> JObj [] | Some JNull \<Rightarrow> JObj [] | Some v \<Rightarrow> v)"

definition withDefaultAdditionalProperties :: "json \<Rightarrow> json" where
  "withDefaultAdditionalProperties schema =
     (case schema of
        JObj ps \<Rightarrow>
          (if map_of ps ''properties'' \<noteq> None \<and> map_of ps ''additionalProperties'' = None
           then JObj (ps @ [(''additionalProperties'', JBool False)]) else schema)
      | _ \<Rightarrow> schema)"

definition assertParamsValid :: "gate \<Rightarrow> string \<Rightarrow> json \<Rightarrow> json option \<Rightarrow> gatekeeper_error option" where
  "assertParamsValid g name schema params =
     (if schema = JObj [] then None
      else case gaValidate g (withDefaultAdditionalProperties schema) (or_empty params) of
        ParamsFine \<Rightarrow> None
      | ParamsWrong \<Rightarrow> Some (ParamsValidation name)
      | SchemaWrong \<Rightarrow> Some (ParamsSchemaInvalid name))"

definition hashIdempotencyParams :: "gate \<Rightarrow> json option \<Rightarrow> string" where
  "hashIdempotencyParams g params = gaSha256 g (stableStringify (gaNumberText g) (or_empty params))"

definition resolveCredential :: "gate \<Rightarrow> world \<Rightarrow> (gatekeeper_error, json option) result" where
  "resolveCredential g w =
     (if \<not> gaCredentialRequired g then Inr None
      else case woCredential w of Inl e \<Rightarrow> Inl (CredentialFailure e) | Inr c \<Rightarrow> Inr (Some c))"

definition toItemArray :: "json option \<Rightarrow> json list" where
  "toItemArray matched =
     (case matched of None \<Rightarrow> [] | Some JNull \<Rightarrow> [] | Some (JArr xs) \<Rightarrow> xs | Some v \<Rightarrow> [v])"

fun isPlainObject :: "json \<Rightarrow> bool" where
  "isPlainObject (JObj _) = True"
| "isPlainObject _ = False"

text \<open>A property set to \<open>undefined\<close> is one the JSON does not have.\<close>

definition pickIdentity :: "json \<Rightarrow> string list \<Rightarrow> json" where
  "pickIdentity item keys =
     JObj (fold (\<lambda>key o'. case js_get item key of Some v \<Rightarrow> obj_set key v o' | None \<Rightarrow> o') keys [])"

text \<open>\<open>map\<close> with a function that may throw: the first error, in list order.\<close>

fun map_throwing :: "('a \<Rightarrow> ('e, 'b) result) \<Rightarrow> 'a list \<Rightarrow> ('e, 'b list) result" where
  "map_throwing f [] = Inr []"
| "map_throwing f (x # xs) =
     bind_result (f x) (\<lambda>y. bind_result (map_throwing f xs) (\<lambda>ys. Inr (y # ys)))"

definition mapAttributes :: "gate \<Rightarrow> json \<Rightarrow> (string \<times> string) list \<Rightarrow> (string, json) result" where
  "mapAttributes g item attributes =
     bind_result
       (map_throwing (\<lambda>(key, expression).
          bind_result (gaSearch g (Some item) expression) (\<lambda>v. Inr (key, v))) attributes)
       (\<lambda>found. Inr (JObj (fold (\<lambda>(key, v) o'. case v of Some x \<Rightarrow> obj_set key x o' | None \<Rightarrow> o') found [])))"

definition applyResultMapping :: "gate \<Rightarrow> json option \<Rightarrow> result_mapping \<Rightarrow> (string, json) result" where
  "applyResultMapping g response m =
     bind_result (gaSearch g response (rmJmesPath m)) (\<lambda>matched.
     bind_result
       (map_throwing (\<lambda>item.
          bind_result (case rmAttributes m of Some ps \<Rightarrow> mapAttributes g item ps | None \<Rightarrow> Inr item)
            (\<lambda>properties. Inr (JObj [(''objectType'', JStr (rmObjectType m)),
                                    (''identity'', pickIdentity item (rmIdentityKeys m)),
                                    (''properties'', properties)])))
          (filter isPlainObject (toItemArray matched)))
       (\<lambda>facts. Inr (JArr facts)))"

definition toObservedFacts :: "gate \<Rightarrow> operation \<Rightarrow> json option \<Rightarrow> (string, json) result" where
  "toObservedFacts g op data =
     (case opResultMapping op of None \<Rightarrow> Inr (JArr []) | Some m \<Rightarrow> applyResultMapping g data m)"

section \<open>A failed transport call\<close>

definition is_transport_error :: "thrown \<Rightarrow> bool" where
  "is_transport_error e =
     (thClass e \<in> {''TransportInvokeError'', ''TransportOutcomeUnknownError'', ''TransportTimeoutError''})"

definition is_outcome_unknown :: "thrown \<Rightarrow> bool" where
  "is_outcome_unknown e = (thClass e \<in> {''TransportOutcomeUnknownError'', ''TransportTimeoutError''})"

definition is_refusal :: "thrown \<Rightarrow> bool" where
  "is_refusal e = (thClass e \<in> {''OperationRefusedError'', ''GateOwnedParamRefusedError'', ''SshCommandRejectedError''})"

definition storedTransportFailure :: "error_heap \<Rightarrow> string \<Rightarrow> thrown \<Rightarrow> stored_failure" where
  "storedTransportFailure heap name e =
     (let message = (if is_transport_error e then TransportSaid (thMessage e) else FailedInsideGate name);
          delivery = networkFailureDelivery heap (thObject e)
      in if is_outcome_unknown e then \<lparr>sfMessage = message, sfOutcomeUnknown = True\<rparr>
         else if delivery = Some MaybeDelivered
           then \<lparr>sfMessage = StoppedByNetwork message (networkFailureCode heap (thObject e)),
                 sfOutcomeUnknown = True\<rparr>
         else if is_transport_error e \<or> thClass e = ''BindingKindMismatchError'' \<or> delivery = Some NotSent
           then \<lparr>sfMessage = message, sfOutcomeUnknown = False\<rparr>
         else \<lparr>sfMessage = TransportDidNotSay message, sfOutcomeUnknown = True\<rparr>)"

definition storedFailureError :: "string \<Rightarrow> stored_failure \<Rightarrow> gatekeeper_error" where
  "storedFailureError key failure =
     (if sfOutcomeUnknown failure then ApplyOutcomeUnknown key (Some (sfMessage failure))
      else StoredTransportFailure (sfMessage failure))"

section \<open>Applying\<close>

record apply_result =
  arData :: "json option"
  arObservedFacts :: "json option"
  arReplayed :: bool

text \<open>The store, as the gate sees it: one state in, an answer or its failure and the next state out.\<close>

record 's idempotency_store =
  reserve :: "string \<Rightarrow> descriptor \<Rightarrow> 's \<Rightarrow> (store_error, reserve_result) result \<times> 's"
  complete :: "string \<Rightarrow> json option \<Rightarrow> json option \<Rightarrow> 's \<Rightarrow> (store_error, unit) result \<times> 's"
  fail_call :: "string \<Rightarrow> stored_failure \<Rightarrow> 's \<Rightarrow> (store_error, unit) result \<times> 's"
  release :: "string \<Rightarrow> 's \<Rightarrow> (store_error, unit) result \<times> 's"
  lookup :: "string \<Rightarrow> descriptor \<Rightarrow> 's \<Rightarrow> (store_error, lookup_result) result \<times> 's"

text \<open>The checks that need no key, and the mismatch that is only reported to a new call.\<close>

definition admit ::
  "gate \<Rightarrow> string \<Rightarrow> json option \<Rightarrow> string \<Rightarrow> call_context
    \<Rightarrow> (gatekeeper_error, operation \<times> gatekeeper_error option) result" where
  "admit g name params key ctx =
     (if key = '''' then Inl (ApplyRequiresIdempotencyKey name)
      else case getOperation g name of
        Inl e \<Rightarrow> Inl e
      | Inr op \<Rightarrow>
          (case definitionMismatch g op ctx of
             Some mismatch \<Rightarrow> Inr (op, Some mismatch)
           | None \<Rightarrow>
               (if opMode op \<noteq> ExecuteOperation
                then Inl (OperationModeMismatch name ExecuteOperation (opMode op))
                else case assertParamsValid g name (opParamsSchema op) params of
                  Some e \<Rightarrow> Inl e
                | None \<Rightarrow> Inr (op, None))))"

definition descriptor_of_call :: "gate \<Rightarrow> string \<Rightarrow> json option \<Rightarrow> string option \<Rightarrow> descriptor" where
  "descriptor_of_call g name params onBehalfOf =
     \<lparr>idOperation = name, idParamsHash = hashIdempotencyParams g params, idOnBehalfOf = onBehalfOf\<rparr>"

definition replayed :: "idempotency_entry \<Rightarrow> apply_result" where
  "replayed e = \<lparr>arData = ieData e, arObservedFacts = ieObservedFacts e, arReplayed = True\<rparr>"

text \<open>What the reservation answers by itself; nothing when the key is this call's.\<close>

fun reservation_answer :: "string \<Rightarrow> reserve_result \<Rightarrow> (gatekeeper_error, apply_result) result option" where
  "reservation_answer key Reserved = None"
| "reservation_answer key ReserveConflict = Some (Inl (IdempotencyConflict key))"
| "reservation_answer key ReserveUnknown = Some (Inl (ApplyOutcomeUnknown key None))"
| "reservation_answer key (ReserveFailed f) = Some (Inl (storedFailureError key f))"
| "reservation_answer key (ReserveReplay e) = Some (Inr (replayed e))"

text \<open>
  How a call that holds the key ends: the key given back, a failure kept, or a result kept; or the
  target has answered and reading the facts off its answer throws, which leaves the key reserved.
\<close>

datatype settlement =
    Released gatekeeper_error
  | KeptFailure stored_failure gatekeeper_error
  | KeptResult "json option" json
  | LeftReserved gatekeeper_error

definition settle ::
  "gate \<Rightarrow> world \<Rightarrow> string \<Rightarrow> json option \<Rightarrow> string \<Rightarrow> operation \<Rightarrow> gatekeeper_error option \<Rightarrow> settlement" where
  "settle g w name params key op mismatch =
     (case mismatch of
        Some e \<Rightarrow> Released e
      | None \<Rightarrow>
     (case resolveCredential g w of
        Inl e \<Rightarrow> Released e
      | Inr credential \<Rightarrow>
     (case woTarget w op params credential of
        Inl e \<Rightarrow>
          (if is_refusal e then Released (Thrown e)
           else let failure = storedTransportFailure (gaErrors g) name e
                in KeptFailure failure
                     (if sfOutcomeUnknown failure then storedFailureError key failure else Thrown e))
      | Inr data \<Rightarrow>
          (case toObservedFacts g op data of
             Inl e \<Rightarrow> LeftReserved (MappingFailed e)
           | Inr facts \<Rightarrow> KeptResult data facts))))"

text \<open>A call the target may have acted on.\<close>

fun may_have_run :: "settlement \<Rightarrow> bool" where
  "may_have_run (Released e) = False"
| "may_have_run (KeptFailure f e) = True"
| "may_have_run (KeptResult d fs) = True"
| "may_have_run (LeftReserved e) = True"

text \<open>The settlement written, and the call's answer; a write that fails is its answer instead.\<close>

fun record_settlement ::
  "'s idempotency_store \<Rightarrow> string \<Rightarrow> settlement \<Rightarrow> 's \<Rightarrow> (gatekeeper_error, apply_result) result \<times> 's" where
  "record_settlement store key (Released e) s =
     (case release store key s of (Inl broken, s') \<Rightarrow> (Inl (StoreFailure broken), s') | (Inr _, s') \<Rightarrow> (Inl e, s'))"
| "record_settlement store key (KeptFailure f e) s =
     (case fail_call store key f s of (Inl broken, s') \<Rightarrow> (Inl (StoreFailure broken), s') | (Inr _, s') \<Rightarrow> (Inl e, s'))"
| "record_settlement store key (KeptResult d facts) s =
     (case complete store key d (Some facts) s of
        (Inl broken, s') \<Rightarrow> (Inl (StoreFailure broken), s')
      | (Inr _, s') \<Rightarrow> (Inr \<lparr>arData = d, arObservedFacts = Some facts, arReplayed = False\<rparr>, s'))"
| "record_settlement store key (LeftReserved e) s = (Inl e, s)"

text \<open>The answer, whether the target may have acted, and the store after the call.\<close>

definition apply_call ::
  "gate \<Rightarrow> 's idempotency_store \<Rightarrow> world \<Rightarrow> string \<Rightarrow> json option \<Rightarrow> string \<Rightarrow> call_context \<Rightarrow> 's
    \<Rightarrow> (gatekeeper_error, apply_result) result \<times> bool \<times> 's" where
  "apply_call g store w name params key ctx s =
     (case admit g name params key ctx of
        Inl e \<Rightarrow> (Inl e, False, s)
      | Inr (op, mismatch) \<Rightarrow>
     (case reserve store key (descriptor_of_call g name params (ccOnBehalfOf ctx)) s of
        (Inl broken, s1) \<Rightarrow> (Inl (StoreFailure broken), False, s1)
      | (Inr reservation, s1) \<Rightarrow>
     (case reservation_answer key reservation of
        Some answer \<Rightarrow> (answer, False, s1)
      | None \<Rightarrow>
          (let outcome = settle g w name params key op mismatch;
               (answer, s2) = record_settlement store key outcome s1
           in (answer, may_have_run outcome, s2)))))"

fun lookup_answer :: "string \<Rightarrow> lookup_result \<Rightarrow> (gatekeeper_error, apply_result) result" where
  "lookup_answer key (LookupReplay e) = Inr (replayed e)"
| "lookup_answer key (LookupFailed f) = Inl (storedFailureError key f)"
| "lookup_answer key LookupUnknown = Inl (ApplyOutcomeUnknown key None)"
| "lookup_answer key LookupPending = Inl (IdempotencyConflict key)"
| "lookup_answer key LookupConflict = Inl (IdempotencyConflict key)"
| "lookup_answer key LookupAbsent = Inl (ApplyNotReceived key)"

definition lookupApply ::
  "gate \<Rightarrow> 's idempotency_store \<Rightarrow> string \<Rightarrow> json option \<Rightarrow> string \<Rightarrow> string option \<Rightarrow> 's
    \<Rightarrow> (gatekeeper_error, apply_result) result \<times> 's" where
  "lookupApply g store name params key onBehalfOf s =
     (if key = '''' then (Inl (ApplyRequiresIdempotencyKey name), s)
      else case lookup store key (descriptor_of_call g name params onBehalfOf) s of
        (Inl broken, s') \<Rightarrow> (Inl (StoreFailure broken), s')
      | (Inr found, s') \<Rightarrow> (lookup_answer key found, s'))"

section \<open>Observing\<close>

text \<open>The answers an operation declares to mean that the thing it names does not exist.\<close>

definition isDeclaredAbsence :: "operation \<Rightarrow> target_answer \<Rightarrow> bool" where
  "isDeclaredAbsence op answer =
     (if opMode op \<noteq> ObserveOperation then False
      else if opBindingKind op = ''http'' \<and> opAbsentStatuses op \<noteq> None
        then (case answer of AnsweredStatus n \<Rightarrow> n \<in> set (the (opAbsentStatuses op)) | _ \<Rightarrow> False)
      else if opBindingKind op \<in> {''cli'', ''ssh''} \<and> opAbsentExitCodes op \<noteq> None
        then (case answer of AnsweredExitCode n \<Rightarrow> n \<in> set (the (opAbsentExitCodes op)) | _ \<Rightarrow> False)
      else False)"

definition declaredAbsence :: "operation \<Rightarrow> thrown \<Rightarrow> target_answer option" where
  "declaredAbsence op e =
     (if \<not> is_transport_error e \<or> is_outcome_unknown e then None
      else case thTargetAnswer e of
        Some answer \<Rightarrow> (if isDeclaredAbsence op answer then Some answer else None)
      | None \<Rightarrow> None)"

record observe_result =
  orData :: "json option"
  orObservedFacts :: json
  orAbsent :: "target_answer option"

definition observe ::
  "gate \<Rightarrow> world \<Rightarrow> string \<Rightarrow> json option \<Rightarrow> call_context \<Rightarrow> (gatekeeper_error, observe_result) result" where
  "observe g w name params ctx =
     (case getOperation g name of
        Inl e \<Rightarrow> Inl e
      | Inr op \<Rightarrow>
     (case definitionMismatch g op ctx of
        Some mismatch \<Rightarrow> Inl mismatch
      | None \<Rightarrow>
          (if opMode op \<noteq> ObserveOperation then Inl (OperationModeMismatch name ObserveOperation (opMode op))
           else case assertParamsValid g name (opParamsSchema op) params of
             Some e \<Rightarrow> Inl e
           | None \<Rightarrow>
          (case resolveCredential g w of
             Inl e \<Rightarrow> Inl e
           | Inr credential \<Rightarrow>
               (case woTarget w op params credential of
                  Inl e \<Rightarrow>
                    (case declaredAbsence op e of
                       Some answer \<Rightarrow>
                         Inr \<lparr>orData = Some JNull, orObservedFacts = JArr [], orAbsent = Some answer\<rparr>
                     | None \<Rightarrow> Inl (Thrown e))
                | Inr data \<Rightarrow>
                    (case toObservedFacts g op data of
                       Inl e \<Rightarrow> Inl (MappingFailed e)
                     | Inr facts \<Rightarrow> Inr \<lparr>orData = data, orObservedFacts = facts, orAbsent = None\<rparr>))))))"

end
