(* ===== verification/Gate_Laws.thy ===== *)
theory Gate_Laws
  imports Gate_Apply
begin

text \<open>
  The contract a gate relies on its idempotency store for, the two stores that keep it, and what
  \<open>apply\<close> promises over any store that does: a call is made once and answered the same for good.
\<close>

section \<open>The stores\<close>

text \<open>\<open>InMemoryIdempotencyStore\<close>: its map is its state.\<close>

definition in_memory_store :: "entry_map idempotency_store" where
  "in_memory_store =
     \<lparr>reserve = (\<lambda>key d m. let (r, m') = reserveOrConflict m key d in (Inr r, m')),
      complete = (\<lambda>key data facts m. (Inr (), completeEntry m key data facts)),
      fail_call = (\<lambda>key failure m. (Inr (), failEntry m key failure)),
      release = (\<lambda>key m. (Inr (), snd (releaseEntry m key))),
      lookup = (\<lambda>key d m. let (r, closed, m') = lookupOrClose m key d in (Inr r, m'))\<rparr>"

text \<open>
  \<open>JsonFileIdempotencyStore\<close>: whether the write of a reservation or a closing lands, and whether the
  write of what a call's end records does.
\<close>

definition json_file_store :: "bool \<Rightarrow> bool \<Rightarrow> json_store idempotency_store" where
  "json_file_store lands settles =
     \<lparr>reserve = json_reserve lands, complete = json_complete settles, fail_call = json_fail settles,
      release = json_release settles, lookup = json_lookup lands\<rparr>"

text \<open>What a file-backed store holds: its map, once loaded, or what the file loads as.\<close>

definition json_contents :: "json_store \<Rightarrow> entry_map option" where
  "json_contents s = (case jsLoaded s of Some m \<Rightarrow> Some m | None \<Rightarrow> load_file (jsFile s))"

section \<open>The contract\<close>

text \<open>
  A store holds a map.  An answer is the map's and moves it as the map's operation does; a failed
  write of a reservation or of a closing leaves it; what a call's end records is kept even when its
  write fails.
\<close>

locale idempotency_contract =
  fixes store :: "'s idempotency_store" and contents :: "'s \<Rightarrow> entry_map option"
  assumes reserve_answers: "contents s = Some m \<Longrightarrow> reserve store k d s = (Inr r, s')
      \<Longrightarrow> r = fst (reserveOrConflict m k d) \<and> contents s' = Some (snd (reserveOrConflict m k d))"
    and reserve_fails: "reserve store k d s = (Inl e, s') \<Longrightarrow> contents s' = contents s"
    and held_key_answers: "contents s = Some m \<Longrightarrow> m k \<noteq> None
      \<Longrightarrow> \<exists>s'. reserve store k d s = (Inr (fst (reserveOrConflict m k d)), s')"
    and unread_fails: "contents s = None \<Longrightarrow> \<exists>e s'. reserve store k d s = (Inl e, s')"
    and complete_keeps: "complete store k x y s = (u, s')
      \<Longrightarrow> contents s' = map_option (\<lambda>m. completeEntry m k x y) (contents s)"
    and fail_keeps: "fail_call store k f s = (u, s')
      \<Longrightarrow> contents s' = map_option (\<lambda>m. failEntry m k f) (contents s)"
    and release_frees: "release store k s = (u, s')
      \<Longrightarrow> contents s' = map_option (\<lambda>m. snd (releaseEntry m k)) (contents s)"
    and lookup_answers: "contents s = Some m \<Longrightarrow> lookup store k d s = (Inr a, s')
      \<Longrightarrow> a = fst (lookupOrClose m k d) \<and> contents s' = Some (snd (snd (lookupOrClose m k d)))"
    and lookup_fails: "lookup store k d s = (Inl e, s') \<Longrightarrow> contents s' = contents s"

lemma load_contents:
  "load s = (Inr m, s') \<Longrightarrow> json_contents s = Some m \<and> jsLoaded s' = Some m \<and> json_contents s' = Some m"
  "load s = (Inl e, s') \<Longrightarrow> json_contents s = None \<and> s' = s"
  by (auto simp: load_def json_contents_def split: option.splits)

lemma load_cases:
  obtains (loaded) m s' where "load s = (Inr m, s')" and "json_contents s = Some m"
      and "json_contents s' = Some m"
  | (unread) e where "load s = (Inl e, s)" and "json_contents s = None"
  using load_contents by (cases "load s"; cases "fst (load s)") (metis fst_conv)+

lemma flush_contents: "json_contents (snd (flush lands m s)) = Some m"
  by (simp add: flush_def json_contents_def)

lemma reserve_new_undone:
  "reserveOrConflict m k d = (Reserved, m') \<Longrightarrow> m'(k := None) = m \<and> m k = None"
  by (auto simp: reserveOrConflict_def fun_eq_iff split: option.splits store_entry.splits if_splits)

lemma lookup_closed_undone:
  "lookupOrClose m k d = (r, True, m') \<Longrightarrow> m'(k := None) = m"
  "lookupOrClose m k d = (r, False, m') \<Longrightarrow> m' = m"
  by (auto simp: lookupOrClose_def fun_eq_iff split: option.splits if_splits)

lemma reserve_answer_keeps:
  "reserveOrConflict m k d = (r, m') \<Longrightarrow> r \<noteq> Reserved \<Longrightarrow> m' = m"
  by (auto simp: reserveOrConflict_def split: option.splits store_entry.splits if_splits)

interpretation in_memory: idempotency_contract in_memory_store Some
  by unfold_locales (auto simp: in_memory_store_def split: prod.splits)

lemma json_reserve_cases:
  assumes "json_contents s = Some m"
  shows "(\<exists>s'. json_reserve lands k d s = (Inr (fst (reserveOrConflict m k d)), s')
             \<and> json_contents s' = Some (snd (reserveOrConflict m k d)))
    \<or> (\<exists>e s'. json_reserve lands k d s = (Inl e, s') \<and> json_contents s' = Some m
             \<and> m k = None \<and> \<not> lands)"
proof (cases rule: load_cases[of s])
  case (loaded m1 s1)
  with assms have m1: "m1 = m" by simp
  obtain r m' where r: "reserveOrConflict m k d = (r, m')" by (metis surj_pair)
  show ?thesis
  proof (cases "r = Reserved")
    case True
    with r have "m'(k := None) = m" "m k = None" using reserve_new_undone by simp_all
    with True r loaded m1 show ?thesis
      by (cases lands) (auto simp: json_reserve_def flush_def json_contents_def)
  next
    case False
    with r have "m' = m" by (rule reserve_answer_keeps)
    with False r loaded m1 show ?thesis by (cases r) (auto simp: json_reserve_def)
  qed
qed (use assms in simp)

lemma json_lookup_cases:
  assumes "json_contents s = Some m"
  shows "(\<exists>s'. json_lookup lands k d s = (Inr (fst (lookupOrClose m k d)), s')
             \<and> json_contents s' = Some (snd (snd (lookupOrClose m k d))))
    \<or> (\<exists>e s'. json_lookup lands k d s = (Inl e, s') \<and> json_contents s' = Some m \<and> \<not> lands)"
proof (cases rule: load_cases[of s])
  case (loaded m1 s1)
  with assms have m1: "m1 = m" by simp
  obtain r closed m' where r: "lookupOrClose m k d = (r, closed, m')" by (metis surj_pair)
  show ?thesis
  proof (cases closed)
    case True
    with r have "m'(k := None) = m" using lookup_closed_undone by simp
    with True r loaded m1 show ?thesis
      by (cases lands) (auto simp: json_lookup_def flush_def json_contents_def)
  next
    case False
    with r have "m' = m" using lookup_closed_undone by simp
    with False r loaded m1 show ?thesis by (auto simp: json_lookup_def)
  qed
qed (use assms in simp)

lemma json_unread:
  assumes "json_contents s = None"
  shows "json_reserve lands k d s = (Inl CannotRead, s)" and "json_lookup lands k d s = (Inl CannotRead, s)"
    and "json_complete lands k x y s = (Inl CannotRead, s)" and "json_fail lands k f s = (Inl CannotRead, s)"
    and "json_release lands k s = (Inl CannotRead, s)"
proof -
  from assms have "load s = (Inl CannotRead, s)"
    by (auto simp: load_def json_contents_def split: option.splits)
  then show "json_reserve lands k d s = (Inl CannotRead, s)" and "json_lookup lands k d s = (Inl CannotRead, s)"
    and "json_complete lands k x y s = (Inl CannotRead, s)" and "json_fail lands k f s = (Inl CannotRead, s)"
    and "json_release lands k s = (Inl CannotRead, s)"
    by (simp_all add: json_reserve_def json_lookup_def json_complete_def json_fail_def json_release_def)
qed

lemma json_recorded:
  assumes "json_contents s = Some m"
  shows "json_contents (snd (json_complete lands k x y s)) = Some (completeEntry m k x y)"
    and "json_contents (snd (json_fail lands k f s)) = Some (failEntry m k f)"
    and "json_contents (snd (json_release lands k s)) = Some (snd (releaseEntry m k))"
proof -
  from assms obtain s1 where load: "load s = (Inr m, s1)" "json_contents s1 = Some m"
    by (cases rule: load_cases[of s]) auto
  then show "json_contents (snd (json_complete lands k x y s)) = Some (completeEntry m k x y)"
    and "json_contents (snd (json_fail lands k f s)) = Some (failEntry m k f)"
    by (simp_all add: json_complete_def json_fail_def flush_contents)
  have "releaseEntry m k = (False, m') \<Longrightarrow> m' = m" for m'
    by (auto simp: releaseEntry_def split: option.splits store_entry.splits)
  with load show "json_contents (snd (json_release lands k s)) = Some (snd (releaseEntry m k))"
    by (auto simp: json_release_def flush_contents split: prod.splits bool.splits)
qed

interpretation json_file: idempotency_contract "json_file_store lands settles" json_contents for lands settles
proof unfold_locales
  show "r = fst (reserveOrConflict m k d) \<and> json_contents s' = Some (snd (reserveOrConflict m k d))"
    if "json_contents s = Some m" "reserve (json_file_store lands settles) k d s = (Inr r, s')" for s m k d r s'
    using that json_reserve_cases[OF that(1), of lands k d] by (auto simp: json_file_store_def)
  show "json_contents s' = json_contents s"
    if "reserve (json_file_store lands settles) k d s = (Inl e, s')" for k d s e s'
    using that json_reserve_cases[of s _ lands k d] json_unread[of s]
    by (cases "json_contents s") (auto simp: json_file_store_def)
  show "\<exists>s'. reserve (json_file_store lands settles) k d s = (Inr (fst (reserveOrConflict m k d)), s')"
    if "json_contents s = Some m" "m k \<noteq> None" for s m k d
    using that json_reserve_cases[OF that(1), of lands k d] by (auto simp: json_file_store_def)
  show "\<exists>e s'. reserve (json_file_store lands settles) k d s = (Inl e, s')"
    if "json_contents s = None" for s k d
    using json_unread[OF that] by (simp add: json_file_store_def)
  show "json_contents s' = map_option (\<lambda>m. completeEntry m k x y) (json_contents s)"
    if "complete (json_file_store lands settles) k x y s = (r, s')" for k x y s r s'
    using that json_unread(3)[of s] json_recorded(1)[of s _ settles k x y]
    by (cases "json_contents s") (auto simp: json_file_store_def)
  show "json_contents s' = map_option (\<lambda>m. failEntry m k f) (json_contents s)"
    if "fail_call (json_file_store lands settles) k f s = (r, s')" for k f s r s'
    using that json_unread(4)[of s] json_recorded(2)[of s _ settles k f]
    by (cases "json_contents s") (auto simp: json_file_store_def)
  show "json_contents s' = map_option (\<lambda>m. snd (releaseEntry m k)) (json_contents s)"
    if "release (json_file_store lands settles) k s = (r, s')" for k s r s'
    using that json_unread(5)[of s] json_recorded(3)[of s _ settles k]
    by (cases "json_contents s") (auto simp: json_file_store_def)
  show "a = fst (lookupOrClose m k d) \<and> json_contents s' = Some (snd (snd (lookupOrClose m k d)))"
    if "json_contents s = Some m" "lookup (json_file_store lands settles) k d s = (Inr a, s')" for s m k d a s'
    using that json_lookup_cases[OF that(1), of lands k d] by (auto simp: json_file_store_def)
  show "json_contents s' = json_contents s"
    if "lookup (json_file_store lands settles) k d s = (Inl e, s')" for k d s e s'
    using that json_lookup_cases[of s _ lands k d] json_unread[of s]
    by (cases "json_contents s") (auto simp: json_file_store_def)
qed

section \<open>What apply promises over any store\<close>

text \<open>What a call that ran leaves under its key, and what the key answers from then on.\<close>

fun kept_entry :: "descriptor \<Rightarrow> settlement \<Rightarrow> store_entry" where
  "kept_entry d (Released e) = Pending d"
| "kept_entry d (KeptFailure f e) = Failed d f"
| "kept_entry d (KeptResult x facts) =
     Done \<lparr>idOperation = idOperation d, idParamsHash = idParamsHash d, idOnBehalfOf = idOnBehalfOf d,
           ieData = x, ieObservedFacts = Some facts\<rparr>"
| "kept_entry d (LeftReserved e) = Pending d"

fun kept_answer :: "string \<Rightarrow> settlement \<Rightarrow> (gatekeeper_error, apply_result) result" where
  "kept_answer key (Released e) = Inl e"
| "kept_answer key (KeptFailure f e) = Inl (storedFailureError key f)"
| "kept_answer key (KeptResult x facts) = Inr \<lparr>arData = x, arObservedFacts = Some facts, arReplayed = True\<rparr>"
| "kept_answer key (LeftReserved e) = Inl (IdempotencyConflict key)"

lemma reserve_reserved:
  "fst (reserveOrConflict m k d) = Reserved \<longleftrightarrow> m k = None"
  by (auto simp: reserveOrConflict_def split: option.splits store_entry.splits)

lemma reserve_free: "m k = None \<Longrightarrow> snd (reserveOrConflict m k d) = m(k \<mapsto> Pending d)"
  by (simp add: reserveOrConflict_def)

lemma reserve_held: "m k \<noteq> None \<Longrightarrow> snd (reserveOrConflict m k d) = m"
  by (auto simp: reserveOrConflict_def split: store_entry.splits if_splits)

lemma kept_entry_reserve:
  "may_have_run outcome \<Longrightarrow> m key = Some (kept_entry d outcome)
   \<Longrightarrow> reservation_answer key (fst (reserveOrConflict m key d)) = Some (kept_answer key outcome)"
  by (cases outcome) (simp_all add: reserveOrConflict_def sameDescriptor_def replayed_def)

lemma reservation_answer_None: "reservation_answer key r = None \<longleftrightarrow> r = Reserved"
  by (cases r) simp_all

context idempotency_contract begin

lemma record_settlement_contents:
  assumes "record_settlement store key outcome s = (answer, s')" and "contents s = Some m"
    and "m key = Some (Pending d)"
  shows "contents s' = Some (case outcome of Released e \<Rightarrow> m(key := None)
     | _ \<Rightarrow> m(key \<mapsto> kept_entry d outcome))"
proof (cases outcome)
  case (Released e)
  with assms show ?thesis
    by (auto simp: releaseEntry_def dest!: release_frees split: prod.splits sum.splits)
next
  case (KeptFailure f e)
  with assms show ?thesis
    by (auto simp: failEntry_def reservedDescriptor_def dest!: fail_keeps split: prod.splits sum.splits)
next
  case (KeptResult x facts)
  with assms show ?thesis
    by (auto simp: completeEntry_def reservedDescriptor_def Let_def dest!: complete_keeps split: prod.splits sum.splits)
qed (use assms in auto)

text \<open>The steps of a call on the store: none, the reservation alone, or a reservation and the end.\<close>

lemma apply_cases:
  assumes "apply_call g store w name params key ctx s = (answer, acted, s')"
  obtains (refused) "\<not> acted" and "s' = s"
  | (stopped) r where "\<not> acted"
      and "reserve store key (descriptor_of_call g name params (ccOnBehalfOf ctx)) s = (r, s')"
  | (ours) op mismatch s1 m where "admit g name params key ctx = Inr (op, mismatch)"
      and "contents s = Some m" and "m key = None"
      and "reserve store key (descriptor_of_call g name params (ccOnBehalfOf ctx)) s = (Inr Reserved, s1)"
      and "contents s1 = Some (m(key \<mapsto> Pending (descriptor_of_call g name params (ccOnBehalfOf ctx))))"
      and "acted = may_have_run (settle g w name params key op mismatch)"
      and "record_settlement store key (settle g w name params key op mismatch) s1 = (answer, s')"
proof (cases "admit g name params key ctx")
  case (Inl e)
  with assms refused show thesis by (simp add: apply_call_def)
next
  case (Inr admitted)
  then obtain op mismatch where admitted: "admit g name params key ctx = Inr (op, mismatch)"
    by (cases admitted) auto
  let ?d = "descriptor_of_call g name params (ccOnBehalfOf ctx)"
  obtain reserved s1 where reserve: "reserve store key ?d s = (reserved, s1)" by (metis surj_pair)
  show thesis
  proof (cases "reserved = Inr Reserved")
    case True
    obtain m where m: "contents s = Some m"
      using reserve True unread_fails[of s key ?d] by (cases "contents s") auto
    from reserve_answers[OF m reserve[unfolded True]]
    have "m key = None" and "contents s1 = Some (m(key \<mapsto> Pending ?d))"
      using reserve_reserved[of m key ?d] reserve_free[of m key ?d] by auto
    with assms admitted reserve True m show thesis
      by (intro ours[of op mismatch m s1]) (auto simp: apply_call_def Let_def split: prod.splits)
  next
    case False
    with assms admitted reserve have "\<not> acted" "s' = s1"
      by (auto simp: apply_call_def reservation_answer_None split: sum.splits option.splits)
    with reserve stopped show thesis by blast
  qed
qed

text \<open>What a store holds under a key answers a call for it.\<close>

lemma held_answers:
  assumes "admit g name params key ctx = Inr (op, mismatch)" and "contents s = Some m" and "m key \<noteq> None"
    and "reservation_answer key
        (fst (reserveOrConflict m key (descriptor_of_call g name params (ccOnBehalfOf ctx)))) = Some answer"
  shows "\<exists>s'. apply_call g store w name params key ctx s = (answer, False, s')"
proof -
  let ?d = "descriptor_of_call g name params (ccOnBehalfOf ctx)"
  obtain s' where "reserve store key ?d s = (Inr (fst (reserveOrConflict m key ?d)), s')"
    using held_key_answers[OF assms(2,3), of ?d] by auto
  with assms(1,4) show ?thesis by (simp add: apply_call_def)
qed

end

end
