(* ===== verification/Gate_Guarantees.thy ===== *)
theory Gate_Guarantees
  imports Gate_Laws
begin

text \<open>
  What a gate guarantees of the calls it is sent one after the other, with failing writes and
  restarts between them: a call it ran is never run again and its answer is given again as far as it
  was kept; the two stores answer alike; and a failure is recorded as without effect exactly when the
  errors it carries say so.
\<close>

section \<open>Sequences of calls\<close>

datatype gate_call =
    ApplyCall world string "json option" string call_context
  | LookupCall string "json option" string "string option"

fun perform :: "gate \<Rightarrow> 's idempotency_store \<Rightarrow> gate_call \<Rightarrow> 's \<Rightarrow> (gatekeeper_error, apply_result) result \<times> 's" where
  "perform g store (ApplyCall w name params key ctx) s =
     (case apply_call g store w name params key ctx s of (answer, acted, s') \<Rightarrow> (answer, s'))"
| "perform g store (LookupCall name params key who) s = lookupApply g store name params key who s"

fun answers :: "gate \<Rightarrow> 's idempotency_store \<Rightarrow> gate_call list \<Rightarrow> 's \<Rightarrow> (gatekeeper_error, apply_result) result list" where
  "answers g store [] s = []"
| "answers g store (call # calls) s =
     (case perform g store call s of (answer, s') \<Rightarrow> answer # answers g store calls s')"

section \<open>The stores answer alike\<close>

lemma landed_reserve:
  assumes "json_contents s = Some m"
  shows "\<exists>s'. reserve (json_file_store True True) k d s = (Inr (fst (reserveOrConflict m k d)), s')
     \<and> json_contents s' = Some (snd (reserveOrConflict m k d))"
  using json_reserve_cases[OF assms, of True k d] by (auto simp: json_file_store_def)

lemma landed_records:
  assumes "json_contents s = Some m"
  shows "\<exists>s'. complete (json_file_store True True) k x y s = (Inr (), s') \<and> json_contents s' = Some (completeEntry m k x y)"
    and "\<exists>s'. fail_call (json_file_store True True) k f s = (Inr (), s') \<and> json_contents s' = Some (failEntry m k f)"
    and "\<exists>s'. release (json_file_store True True) k s = (Inr (), s') \<and> json_contents s' = Some (snd (releaseEntry m k))"
    and "\<exists>s'. lookup (json_file_store True True) k d s = (Inr (fst (lookupOrClose m k d)), s')
      \<and> json_contents s' = Some (snd (snd (lookupOrClose m k d)))"
proof -
  obtain s1 where load: "load s = (Inr m, s1)" using assms by (cases rule: load_cases[of s]) auto
  have written: "flush True m' s1 = (Inr (), \<lparr>jsLoaded = Some m', jsFile = writeSnapshot m'\<rparr>)" for m'
    by (simp add: flush_def)
  show "\<exists>s'. complete (json_file_store True True) k x y s = (Inr (), s') \<and> json_contents s' = Some (completeEntry m k x y)"
    and "\<exists>s'. fail_call (json_file_store True True) k f s = (Inr (), s') \<and> json_contents s' = Some (failEntry m k f)"
    by (simp_all add: json_file_store_def json_complete_def json_fail_def load written json_contents_def)
  have "fst (release (json_file_store True True) k s) = Inr ()"
    by (simp add: json_file_store_def json_release_def load written split: prod.splits bool.splits)
  with json_recorded(3)[OF assms, of True k]
  show "\<exists>s'. release (json_file_store True True) k s = (Inr (), s') \<and> json_contents s' = Some (snd (releaseEntry m k))"
    by (cases "release (json_file_store True True) k s") (simp add: json_file_store_def)
  show "\<exists>s'. lookup (json_file_store True True) k d s = (Inr (fst (lookupOrClose m k d)), s')
      \<and> json_contents s' = Some (snd (snd (lookupOrClose m k d)))"
    using json_lookup_cases[OF assms, of True k d] by (auto simp: json_file_store_def)
qed

lemma same_settlement:
  assumes "json_contents s = Some m"
  shows "\<exists>s'. record_settlement (json_file_store True True) key outcome s
      = (fst (record_settlement in_memory_store key outcome m), s')
    \<and> json_contents s' = Some (snd (record_settlement in_memory_store key outcome m))"
proof (cases outcome)
  case (Released e)
  with landed_records(3)[OF assms, of key] show ?thesis by (auto simp: in_memory_store_def)
next
  case (KeptFailure f e)
  with landed_records(2)[OF assms, of key f] show ?thesis by (auto simp: in_memory_store_def)
next
  case (KeptResult x facts)
  with landed_records(1)[OF assms, of key x "Some facts"] show ?thesis by (auto simp: in_memory_store_def)
qed (use assms in simp)

lemma memory_reserve:
  "reserve in_memory_store k d m = (Inr (fst (reserveOrConflict m k d)), snd (reserveOrConflict m k d))"
  by (simp add: in_memory_store_def split: prod.splits)

lemma memory_lookup:
  "lookup in_memory_store k d m = (Inr (fst (lookupOrClose m k d)), snd (snd (lookupOrClose m k d)))"
  by (simp add: in_memory_store_def split: prod.splits)

lemma same_apply:
  assumes "json_contents s = Some m"
  shows "\<exists>s'. perform g (json_file_store True True) (ApplyCall w name params key ctx) s
      = (fst (perform g in_memory_store (ApplyCall w name params key ctx) m), s')
    \<and> json_contents s' = Some (snd (perform g in_memory_store (ApplyCall w name params key ctx) m))"
proof (cases "admit g name params key ctx")
  case (Inl e)
  with assms show ?thesis by (simp add: apply_call_def)
next
  case (Inr admitted)
  then obtain op mismatch where admitted: "admit g name params key ctx = Inr (op, mismatch)"
    by (cases admitted) auto
  let ?d = "descriptor_of_call g name params (ccOnBehalfOf ctx)"
  let ?r = "reserveOrConflict m key ?d" and ?outcome = "settle g w name params key op mismatch"
  obtain s1 where s1: "reserve (json_file_store True True) key ?d s = (Inr (fst ?r), s1)" "json_contents s1 = Some (snd ?r)"
    using landed_reserve[OF assms, of key ?d] by auto
  obtain s2 where s2: "record_settlement (json_file_store True True) key ?outcome s1
      = (fst (record_settlement in_memory_store key ?outcome (snd ?r)), s2)"
    "json_contents s2 = Some (snd (record_settlement in_memory_store key ?outcome (snd ?r)))"
    using same_settlement[OF s1(2), of key ?outcome] by auto
  show ?thesis
  proof (cases "reservation_answer key (fst ?r)")
    case None
    with admitted s1 s2 show ?thesis
      by (simp add: apply_call_def memory_reserve Let_def split: prod.splits)
  next
    case (Some answer)
    with admitted s1 show ?thesis by (simp add: apply_call_def memory_reserve)
  qed
qed

lemma same_lookup:
  assumes "json_contents s = Some m"
  shows "\<exists>s'. perform g (json_file_store True True) (LookupCall name params key who) s
      = (fst (perform g in_memory_store (LookupCall name params key who) m), s')
    \<and> json_contents s' = Some (snd (perform g in_memory_store (LookupCall name params key who) m))"
  using landed_records(4)[OF assms, of key "descriptor_of_call g name params who"] assms
  by (auto simp: lookupApply_def memory_lookup)

lemma same_perform:
  assumes "json_contents s = Some m"
  shows "\<exists>s'. perform g (json_file_store True True) call s = (fst (perform g in_memory_store call m), s')
    \<and> json_contents s' = Some (snd (perform g in_memory_store call m))"
  by (cases call) (simp_all only: same_apply[OF assms] same_lookup[OF assms])

text \<open>
  C10: the file-backed store is the in-memory one made durable.  While its writes land, a gate on it
  gives the same answers to any sequence of applies and lookups, whatever the target and the
  credentials do, as a gate on the in-memory store that starts with what the file loads as.
\<close>

theorem file_store_refines_memory:
  assumes "json_contents s = Some m"
  shows "answers g (json_file_store True True) calls s = answers g in_memory_store calls m"
  using assms
proof (induction calls arbitrary: s m)
  case (Cons call calls)
  obtain s' where "perform g (json_file_store True True) call s = (fst (perform g in_memory_store call m), s')"
    and "json_contents s' = Some (snd (perform g in_memory_store call m))"
    using same_perform[OF Cons.prems] by metis
  with Cons.IH show ?case by (simp add: split_beta)
qed simp

section \<open>A sample gate\<close>

definition empty_world :: world where
  "empty_world = \<lparr>woCredential = Inl ''no credential'', woTarget = (\<lambda>op params credential. Inr (Some (JStr ''done'')))\<rparr>"

definition sample_operation :: operation where
  "sample_operation = \<lparr>opName = ''restart'', opMode = ExecuteOperation, opBindingKind = ''http'', opBinding = JObj [],
     opAbsentStatuses = None, opAbsentExitCodes = None, opParamsSchema = JObj [], opResultMapping = None,
     opReversibility = JBool False, opBlastRadius = None\<rparr>"

definition sample_gate :: gate where
  "sample_gate = \<lparr>gaManifest = [sample_operation], gaParse = Some, gaSha256 = (\<lambda>text. text),
     gaNumberText = (\<lambda>q. ''0''), gaValidate = (\<lambda>schema params. ParamsFine), gaSearch = (\<lambda>v e. Inr None),
     gaCredentialRequired = False,
     gaErrors = (\<lambda>r. \<lparr>eoName = None, eoCode = None, eoSyscall = None, eoErrors = None, eoCause = NotObject\<rparr>)\<rparr>"

definition sample_context :: call_context where
  "sample_context = \<lparr>ccOnBehalfOf = Some ''ann'', ccOperationDigest = None\<rparr>"

definition sample_done :: store_entry where
  "sample_done = Done \<lparr>idOperation = ''restart'', idParamsHash = ''{}'', idOnBehalfOf = Some ''ann'',
     ieData = Some (JStr ''done''), ieObservedFacts = Some (JArr [])\<rparr>"

lemma sample_apply:
  "apply_call sample_gate (json_file_store True True) empty_world ''restart'' None ''r1'' sample_context
     \<lparr>jsLoaded = None, jsFile = NoFile\<rparr>
   = (Inr \<lparr>arData = Some (JStr ''done''), arObservedFacts = Some (JArr []), arReplayed = False\<rparr>, True,
      \<lparr>jsLoaded = Some [''r1'' \<mapsto> sample_done], jsFile = writeSnapshot [''r1'' \<mapsto> sample_done]\<rparr>)"
proof -
  have "admit sample_gate ''restart'' None ''r1'' sample_context = Inr (sample_operation, None)"
    by (simp add: admit_def getOperation_def sample_gate_def sample_operation_def sample_context_def
        definitionMismatch_def assertParamsValid_def)
  moreover have "descriptor_of_call sample_gate ''restart'' None (ccOnBehalfOf sample_context)
      = \<lparr>idOperation = ''restart'', idParamsHash = ''{}'', idOnBehalfOf = Some ''ann''\<rparr>"
    by (simp add: descriptor_of_call_def hashIdempotencyParams_def sample_gate_def or_empty_def sample_context_def
        by_key_def)
  moreover have "settle sample_gate empty_world ''restart'' None ''r1'' sample_operation None
      = KeptResult (Some (JStr ''done'')) (JArr [])"
    by (simp add: settle_def resolveCredential_def sample_gate_def empty_world_def toObservedFacts_def
        sample_operation_def)
  ultimately show ?thesis
    by (simp add: apply_call_def json_file_store_def json_reserve_def load_def reserveOrConflict_def flush_def
        json_complete_def completeEntry_def reservedDescriptor_def sample_done_def)
qed

section \<open>What a key holds through calls and restarts\<close>

text \<open>
  What befalls a gate process: a call, with whether the write of its reservation or closing and the
  write at its end land, or a stop and a new start, which reads the file when it is next asked.
  (A stop in the middle of a call leaves the file as that call does whose writes from then on fail.)
\<close>

datatype gate_event = Called bool bool gate_call | Restarted

fun after_events :: "gate \<Rightarrow> gate_event list \<Rightarrow> json_store \<Rightarrow> json_store" where
  "after_events g [] s = s"
| "after_events g (Called lands settles call # events) s =
     after_events g events (snd (perform g (json_file_store lands settles) call s))"
| "after_events g (Restarted # events) s = after_events g events (s\<lparr>jsLoaded := None\<rparr>)"

text \<open>The store holds an entry under the key; the file holds that one, or a given other.\<close>

definition held :: "string \<Rightarrow> store_entry \<Rightarrow> store_entry \<Rightarrow> json_store \<Rightarrow> bool" where
  "held k x y s \<longleftrightarrow> (\<exists>m. json_contents s = Some m \<and> m k = Some x)
     \<and> (\<exists>f. jsFile s = StoreFile f \<and> (f k = Some (StoredEntry x) \<or> f k = Some (StoredEntry y)))"

text \<open>An operation leaves the file, or writes what the store then holds.\<close>

definition writes_contents :: "json_store \<Rightarrow> json_store \<Rightarrow> bool" where
  "writes_contents s s' \<longleftrightarrow>
     jsFile s' = jsFile s \<or> (\<exists>m. json_contents s' = Some m \<and> jsFile s' = writeSnapshot m)"

lemma writes_contents_refl: "writes_contents s s"
  by (simp add: writes_contents_def)

lemma load_file_kept: "load s = (r, s') \<Longrightarrow> jsFile s' = jsFile s"
  by (auto simp: load_def split: option.splits)

lemma json_operation_writes:
  "reserve (json_file_store lands settles) k d s = (r1, s1) \<Longrightarrow> writes_contents s s1"
  "lookup (json_file_store lands settles) k d s = (r2, s2) \<Longrightarrow> writes_contents s s2"
  "complete (json_file_store lands settles) k v w s = (r3, s3) \<Longrightarrow> writes_contents s s3"
  "fail_call (json_file_store lands settles) k f s = (r4, s4) \<Longrightarrow> writes_contents s s4"
  "release (json_file_store lands settles) k s = (r5, s5) \<Longrightarrow> writes_contents s s5"
  by (cases lands; cases settles; auto dest!: load_file_kept
      simp: json_file_store_def json_reserve_def json_lookup_def json_complete_def json_fail_def json_release_def
        flush_def writes_contents_def json_contents_def
      split: prod.splits sum.splits reserve_result.splits bool.splits)+

lemma record_settlement_writes:
  "record_settlement (json_file_store lands settles) key outcome s = (r, s') \<Longrightarrow> writes_contents s s'"
  by (cases outcome) (auto split: prod.splits sum.splits dest: json_operation_writes intro: writes_contents_refl)

lemma held_kept:
  assumes "held k x y s" and "writes_contents s s'" and "json_contents s' = Some m" and "m k = Some x"
    and "k \<noteq> ''__proto__''"
  shows "held k x y s'"
  using assms by (auto simp: held_def writes_contents_def writeSnapshot_def)

lemma reserve_keeps_held:
  assumes "reserve (json_file_store lands settles) key d s = (r, s')" and "held k x y s"
    and "k \<noteq> ''__proto__''"
  shows "held k x y s'"
proof -
  from assms(2) obtain m where m: "json_contents s = Some m" "m k = Some x" by (auto simp: held_def)
  have "snd (reserveOrConflict m key d) k = Some x"
    using m(2) by (auto simp: reserveOrConflict_def split: option.splits store_entry.splits)
  then have "\<exists>m'. json_contents s' = Some m' \<and> m' k = Some x"
    using m assms(1) json_file.reserve_fails json_file.reserve_answers[OF m(1)] by (cases r) fastforce+
  with held_kept[OF assms(2) json_operation_writes(1)[OF assms(1)]] assms(3) show ?thesis by blast
qed

lemma lookup_keeps_held:
  assumes "lookup (json_file_store lands settles) key d s = (r, s')" and "held k x y s"
    and "k \<noteq> ''__proto__''"
  shows "held k x y s'"
proof -
  from assms(2) obtain m where m: "json_contents s = Some m" "m k = Some x" by (auto simp: held_def)
  have "snd (snd (lookupOrClose m key d)) k = Some x"
    using m(2) by (auto simp: lookupOrClose_def split: option.splits)
  then have "\<exists>m'. json_contents s' = Some m' \<and> m' k = Some x"
    using m assms(1) json_file.lookup_fails json_file.lookup_answers[OF m(1)] by (cases r) fastforce+
  with held_kept[OF assms(2) json_operation_writes(2)[OF assms(1)]] assms(3) show ?thesis by blast
qed

text \<open>A call does not touch what another key holds, nor what its own does.\<close>

lemma apply_keeps_held:
  assumes "apply_call g (json_file_store lands settles) w name params key ctx s = (answer, acted, s')"
    and "held k x y s" and "k \<noteq> ''__proto__''"
  shows "held k x y s'"
  using assms(1)
proof (cases rule: json_file.apply_cases)
  case (stopped r)
  with reserve_keeps_held assms(2,3) show ?thesis by blast
next
  case (ours op mismatch s1 m)
  let ?d = "descriptor_of_call g name params (ccOnBehalfOf ctx)"
  from assms(2) ours(2,3) have other: "k \<noteq> key" "m k = Some x" by (auto simp: held_def)
  from reserve_keeps_held[OF ours(4) assms(2,3)] have "held k x y s1" .
  moreover from json_file.record_settlement_contents[OF ours(7,5), of ?d] other
  have "\<exists>m'. json_contents s' = Some m' \<and> m' k = Some x" by (auto split: settlement.splits)
  ultimately show ?thesis using held_kept record_settlement_writes[OF ours(7)] assms(3) by blast
qed (use assms(2) in simp)

lemma perform_keeps_held:
  assumes "held k x y s" and "k \<noteq> ''__proto__''"
  shows "held k x y (snd (perform g (json_file_store lands settles) call s))"
proof (cases call)
  case (ApplyCall w name params key ctx)
  with apply_keeps_held[OF _ assms] show ?thesis by (auto split: prod.splits)
next
  case (LookupCall name params key who)
  with lookup_keeps_held[OF _ assms] assms(1) show ?thesis
    by (auto simp: lookupApply_def split: prod.splits sum.splits)
qed

text \<open>A new start makes of a key what the file holds of it.\<close>

lemma restart_held:
  assumes "held k x y s"
  shows "\<exists>z\<in>{x, y}. \<forall>e. loadedEntry (StoredEntry z) = Some e \<longrightarrow> held k e z (s\<lparr>jsLoaded := None\<rparr>)"
  using assms by (auto simp: held_def json_contents_def load_entries_def)

text \<open>
  What is kept durably stays.  What only memory holds stays until a new start, which may find the
  key reserved; it is then orphaned for good.  A key left reserved is orphaned by the first one.
\<close>

lemma durable_stays:
  assumes "held k x x s" and "loadedEntry (StoredEntry x) = Some x" and "k \<noteq> ''__proto__''"
  shows "held k x x (after_events g events s)"
  using assms(1)
proof (induction g events s rule: after_events.induct)
  case (3 g events s)
  from restart_held[OF 3(2)] assms(2) have "held k x x (s\<lparr>jsLoaded := None\<rparr>)" by simp
  with 3(1) show ?case by simp
qed (use perform_keeps_held assms(3) in simp_all)

lemma orphan_stays:
  assumes "held k (Orphaned d) (Pending d) s" and "k \<noteq> ''__proto__''"
  shows "held k (Orphaned d) (Pending d) (after_events g events s)"
  using assms(1)
proof (induction g events s rule: after_events.induct)
  case (3 g events s)
  from restart_held[OF 3(2)] have "held k (Orphaned d) (Pending d) (s\<lparr>jsLoaded := None\<rparr>)"
    by (auto simp: held_def)
  with 3(1) show ?case by simp
qed (use perform_keeps_held assms(2) in simp_all)

lemma undurable_stays:
  assumes "held k x (Pending d) s" and "loadedEntry (StoredEntry x) = Some x \<or> x = Pending d"
    and "k \<noteq> ''__proto__''"
  shows "held k x (Pending d) (after_events g events s)
    \<or> Restarted \<in> set events \<and> held k (Orphaned d) (Pending d) (after_events g events s)"
  using assms(1)
proof (induction g events s rule: after_events.induct)
  case (3 g events s)
  from restart_held[OF 3(2)] assms(2)
  have "held k x (Pending d) (s\<lparr>jsLoaded := None\<rparr>) \<or> held k (Orphaned d) (Pending d) (s\<lparr>jsLoaded := None\<rparr>)"
    by (auto simp: held_def)
  with 3(1) orphan_stays[OF _ assms(3)] show ?case by auto
next
  case (2 g lands settles call events s)
  with perform_keeps_held[OF 2(2) assms(3)] show ?case by simp
qed simp

lemma reserved_stays:
  assumes "held k (Pending d) (Pending d) s" and "k \<noteq> ''__proto__''"
  shows "if Restarted \<in> set events then held k (Orphaned d) (Pending d) (after_events g events s)
    else held k (Pending d) (Pending d) (after_events g events s)"
  using assms(1)
proof (induction g events s rule: after_events.induct)
  case (3 g events s)
  from restart_held[OF 3(2)] have "held k (Orphaned d) (Pending d) (s\<lparr>jsLoaded := None\<rparr>)" by simp
  with orphan_stays[OF _ assms(2)] show ?case by simp
next
  case (2 g lands settles call events s)
  with perform_keeps_held[OF 2(2) assms(2)] show ?case by simp
qed simp

section \<open>A call is made once\<close>

text \<open>What a call that held its key answers when its end can be written, and what a repeat of it gets.\<close>

fun first_answer :: "settlement \<Rightarrow> (gatekeeper_error, apply_result) result" where
  "first_answer (KeptResult x facts) = Inr \<lparr>arData = x, arObservedFacts = Some facts, arReplayed = False\<rparr>"
| "first_answer (Released e) = Inl e"
| "first_answer (KeptFailure f e) = Inl e"
| "first_answer (LeftReserved e) = Inl e"

definition repeated_answer ::
  "gate \<Rightarrow> string \<Rightarrow> string \<Rightarrow> (gatekeeper_error, apply_result) result \<Rightarrow> (gatekeeper_error, apply_result) result" where
  "repeated_answer g name key answer =
     (case answer of
        Inr result \<Rightarrow> Inr (result\<lparr>arReplayed := True\<rparr>)
      | Inl (Thrown e) \<Rightarrow> Inl (StoredTransportFailure (sfMessage (storedTransportFailure (gaErrors g) name e)))
      | Inl (MappingFailed e) \<Rightarrow> Inl (IdempotencyConflict key)
      | Inl error \<Rightarrow> Inl error)"

lemma settle_kinds:
  "settle g w name params key op None = KeptFailure f error
   \<Longrightarrow> if sfOutcomeUnknown f then error = storedFailureError key f
       else (\<exists>e. error = Thrown e \<and> f = storedTransportFailure (gaErrors g) name e)"
  "settle g w name params key op None = LeftReserved error \<Longrightarrow> \<exists>e. error = MappingFailed e"
  by (auto simp: settle_def Let_def split: sum.splits if_splits)

lemma repeated_is_kept:
  assumes "may_have_run (settle g w name params key op None)"
  shows "repeated_answer g name key (first_answer (settle g w name params key op None))
    = kept_answer key (settle g w name params key op None)"
  using assms
proof (cases "settle g w name params key op None")
  case (KeptFailure f error)
  with settle_kinds(1)[OF this] show ?thesis
    by (auto simp: repeated_answer_def storedFailureError_def split: if_splits)
next
  case (LeftReserved error)
  with settle_kinds(2)[OF this] show ?thesis by (auto simp: repeated_answer_def)
qed (simp_all add: repeated_answer_def)

lemma kept_shapes:
  assumes "outcome = settle g w name params key op None" and "may_have_run outcome"
    and "\<nexists>e. outcome = LeftReserved e"
  obtains (result) x where "first_answer outcome = Inr x" and "kept_answer key outcome = Inr (x\<lparr>arReplayed := True\<rparr>)"
  | (known) e where "first_answer outcome = Inl (Thrown e)"
      and "\<not> sfOutcomeUnknown (storedTransportFailure (gaErrors g) name e)"
      and "kept_answer key outcome
        = Inl (StoredTransportFailure (sfMessage (storedTransportFailure (gaErrors g) name e)))"
  | (unknown) f where "first_answer outcome = Inl (ApplyOutcomeUnknown key (Some f))"
      and "kept_answer key outcome = Inl (ApplyOutcomeUnknown key (Some f))"
proof (cases outcome)
  case (KeptFailure f error)
  with settle_kinds(1)[OF assms(1)[unfolded KeptFailure, symmetric]] known unknown show thesis
    by (cases "sfOutcomeUnknown f") (auto simp: storedFailureError_def)
qed (use assms result in auto)

lemma settlement_written:
  assumes "json_contents s = Some m"
  shows "fst (record_settlement (json_file_store lands True) key outcome s) = first_answer outcome"
    and "may_have_run outcome \<Longrightarrow> fst (record_settlement (json_file_store lands False) key outcome s)
      = (case outcome of LeftReserved e \<Rightarrow> Inl e | _ \<Rightarrow> Inl (StoreFailure CannotWrite))"
proof -
  obtain s1 where load: "load s = (Inr m, s1)" using assms by (cases rule: load_cases[of s]) auto
  show "fst (record_settlement (json_file_store lands True) key outcome s) = first_answer outcome"
    by (cases outcome) (simp_all add: json_file_store_def json_release_def json_complete_def json_fail_def load
        flush_def split: prod.splits bool.splits)
  show "may_have_run outcome \<Longrightarrow> fst (record_settlement (json_file_store lands False) key outcome s)
      = (case outcome of LeftReserved e \<Rightarrow> Inl e | _ \<Rightarrow> Inl (StoreFailure CannotWrite))"
    by (cases outcome) (simp_all add: json_file_store_def json_complete_def json_fail_def load flush_def)
qed

text \<open>What the store and the file hold under the key of a call the target may have acted on.\<close>

lemma acted_call:
  assumes "apply_call g (json_file_store lands settles) w name params key ctx s = (answer, True, s1)"
    and "key \<noteq> ''__proto__''" and "d = descriptor_of_call g name params (ccOnBehalfOf ctx)"
  obtains op outcome where "admit g name params key ctx = Inr (op, None)"
    and "outcome = settle g w name params key op None" and "may_have_run outcome"
    and "held key (kept_entry d outcome) (if settles then kept_entry d outcome else Pending d) s1"
    and "answer = (if settles then first_answer outcome
      else case outcome of LeftReserved e \<Rightarrow> Inl e | _ \<Rightarrow> Inl (StoreFailure CannotWrite))"
    and "fst (apply_call g (json_file_store lands True) w name params key ctx s) = first_answer outcome"
  using assms(1)
proof (cases rule: json_file.apply_cases)
  case (ours op mismatch s0 m)
  let ?outcome = "settle g w name params key op mismatch"
  from ours(6) have fresh: "mismatch = None" by (cases mismatch) (simp_all add: settle_def)
  from ours(6) have ran: "may_have_run ?outcome" by simp
  from ours(5) assms(3) have m0: "json_contents s0 = Some (m(key \<mapsto> Pending d))" by simp
  from ours(4) have file0: "jsFile s0 = writeSnapshot (m(key \<mapsto> Pending d))"
    using m0 by (auto simp: json_file_store_def json_reserve_def flush_def json_contents_def
        split: prod.splits sum.splits reserve_result.splits if_splits)
  from json_file.record_settlement_contents[OF ours(7) m0, of d] ran
  have m1: "json_contents s1 = Some (m(key \<mapsto> kept_entry d ?outcome))"
    by (cases ?outcome) simp_all
  have kept: "held key (kept_entry d ?outcome) (if settles then kept_entry d ?outcome else Pending d) s1"
  proof (cases settles)
    case True
    have "jsFile s1 = writeSnapshot (m(key \<mapsto> kept_entry d ?outcome))"
      using ours(7) True ran file0 m0 m1
      by (cases ?outcome) (auto simp: json_file_store_def json_complete_def json_fail_def flush_def json_contents_def
          split: prod.splits sum.splits dest!: load_contents)
    with True m1 assms(2) show ?thesis by (simp add: held_def writeSnapshot_def)
  next
    case False
    with record_settlement_writes[OF ours(7)] m1 file0 assms(2) show ?thesis
      by (auto simp: held_def writes_contents_def writeSnapshot_def)
  qed
  have "fst (apply_call g (json_file_store lands True) w name params key ctx s)
      = fst (record_settlement (json_file_store lands True) key ?outcome s0)"
    using ours(1,4) by (simp add: apply_call_def json_file_store_def Let_def split_beta)
  with settlement_written(1)[OF m0] have first:
    "fst (apply_call g (json_file_store lands True) w name params key ctx s) = first_answer ?outcome" by simp
  have "answer = (if settles then first_answer ?outcome
      else case ?outcome of LeftReserved e \<Rightarrow> Inl e | _ \<Rightarrow> Inl (StoreFailure CannotWrite))"
    using settlement_written(1)[OF m0, of lands key ?outcome] settlement_written(2)[OF m0 ran, of lands key] ours(7)
    by (cases settles) simp_all
  with that[of op ?outcome] ours(1) fresh ran kept first show thesis by simp
qed simp_all

text \<open>What a repeat is answered from what is held.\<close>

lemma held_repeat:
  assumes "admit g name params key ctx = Inr (op, mismatch)"
    and "held key x y s" and "d = descriptor_of_call g name params (ccOnBehalfOf ctx)"
    and "reservation_answer key (fst (reserveOrConflict [key \<mapsto> x] key d)) = Some answer"
  shows "\<exists>s'. apply_call g (json_file_store lands settles) w name params key ctx s = (answer, False, s')"
proof -
  from assms(2) obtain m where m: "json_contents s = Some m" "m key = Some x" by (auto simp: held_def)
  then have "fst (reserveOrConflict m key d) = fst (reserveOrConflict [key \<mapsto> x] key d)"
    by (simp add: reserveOrConflict_def split: store_entry.splits)
  with json_file.held_answers[OF assms(1) m(1)] m(2) assms(3,4) show ?thesis by simp
qed

lemma orphan_answer: "reservation_answer key (fst (reserveOrConflict [key \<mapsto> Orphaned d] key d))
    = Some (Inl (ApplyOutcomeUnknown key None))"
  by (simp add: reserveOrConflict_def sameDescriptor_def)

text \<open>
  C8: a call the target may have acted on is never made again.  After it, whatever applies, lookups
  and restarts of the gate follow and whether their writes land or not, the same request does not
  reach the target.  It is answered with the result, marked as replayed; or with the failure that was
  kept - the very error when its outcome is unknown, its stored text when it is known.  When the end
  of the call could not be written it is answered as if it had been or, once the gate has been
  restarted, that the outcome is unknown.  When the facts could not be read off the target's answer
  it is refused as still running and, once the gate has been restarted, answered that the outcome is
  unknown.  (The key is not \<open>__proto__\<close>, which the file does not hold; action request ids are UUIDs.)
\<close>

theorem applied_once_answered_for_good:
  assumes "apply_call g (json_file_store lands settles) w name params key ctx s = (answer, True, s1)"
    and "key \<noteq> ''__proto__''"
  shows "\<exists>kept s2. apply_call g (json_file_store lands' settles') w' name params key ctx (after_events g events s1)
      = (kept, False, s2)
    \<and> (case answer of
         Inr result \<Rightarrow> kept = Inr (result\<lparr>arReplayed := True\<rparr>)
       | Inl (Thrown e) \<Rightarrow> \<not> sfOutcomeUnknown (storedTransportFailure (gaErrors g) name e)
           \<and> kept = Inl (StoredTransportFailure (sfMessage (storedTransportFailure (gaErrors g) name e)))
       | Inl (StoreFailure broken) \<Rightarrow>
           kept = repeated_answer g name key (fst (apply_call g (json_file_store lands True) w name params key ctx s))
           \<or> Restarted \<in> set events \<and> kept = Inl (ApplyOutcomeUnknown key None)
       | Inl (MappingFailed e) \<Rightarrow>
           kept = (if Restarted \<in> set events then Inl (ApplyOutcomeUnknown key None)
                   else Inl (IdempotencyConflict key))
       | Inl error \<Rightarrow> kept = Inl error)"
proof -
  let ?d = "descriptor_of_call g name params (ccOnBehalfOf ctx)" and ?s = "after_events g events s1"
  obtain op outcome where admitted: "admit g name params key ctx = Inr (op, None)"
    and outcome: "outcome = settle g w name params key op None" "may_have_run outcome"
    and held: "held key (kept_entry ?d outcome) (if settles then kept_entry ?d outcome else Pending ?d) s1"
    and answer: "answer = (if settles then first_answer outcome
      else case outcome of LeftReserved e \<Rightarrow> Inl e | _ \<Rightarrow> Inl (StoreFailure CannotWrite))"
    and first: "fst (apply_call g (json_file_store lands True) w name params key ctx s) = first_answer outcome"
    by (rule acted_call[OF assms refl])
  note repeats = held_repeat[OF admitted _ refl, of _ _ ?s _ lands' settles' w']
  note orphaned = repeats[OF _ orphan_answer]
  have own: "reservation_answer key (fst (reserveOrConflict [key \<mapsto> kept_entry ?d outcome] key ?d))
      = Some (kept_answer key outcome)"
    using kept_entry_reserve[OF outcome(2)] by simp
  note same = repeats[OF _ own] and shape = repeated_is_kept[OF outcome(2)[unfolded outcome(1)], folded outcome(1)]
  show ?thesis
  proof (cases "\<exists>e. outcome = LeftReserved e")
    case True
    then obtain e where e: "outcome = LeftReserved e" ..
    from settle_kinds(2)[of g w name params key op e] outcome(1) e obtain m where m: "e = MappingFailed m" by auto
    from held e have "held key (Pending ?d) (Pending ?d) s1" by (simp split: if_splits)
    from reserved_stays[OF this assms(2), of events g] e m answer same orphaned show ?thesis
      by (cases "Restarted \<in> set events") auto
  next
    case False
    with outcome(2) have durable: "loadedEntry (StoredEntry (kept_entry ?d outcome)) = Some (kept_entry ?d outcome)"
      by (cases outcome) simp_all
    show ?thesis
    proof (cases settles)
      case True
      with held durable_stays[OF _ durable assms(2)] same
      obtain s2 where "apply_call g (json_file_store lands' settles') w' name params key ctx ?s
          = (kept_answer key outcome, False, s2)" by fastforce
      with answer True show ?thesis by (cases rule: kept_shapes[OF outcome False]) simp_all
    next
      case notWritten: False
      with False outcome(2) answer have "answer = Inl (StoreFailure CannotWrite)" by (cases outcome) simp_all
      moreover have "\<exists>kept s2. apply_call g (json_file_store lands' settles') w' name params key ctx ?s = (kept, False, s2)
          \<and> (kept = kept_answer key outcome \<or> Restarted \<in> set events \<and> kept = Inl (ApplyOutcomeUnknown key None))"
        using undurable_stays[OF _ disjI1[OF durable] assms(2), of ?d s1 g events] held notWritten same orphaned
        by (auto; blast)
      ultimately show ?thesis using first shape by auto
    qed
  qed
qed

theorem applied_once_answered_for_good_witness:
  "\<exists>s2. apply_call sample_gate (json_file_store False False) empty_world ''restart'' None ''r1'' sample_context
       (after_events sample_gate [Called True True (LookupCall ''restart'' None ''r2'' None), Restarted]
         \<lparr>jsLoaded = Some [''r1'' \<mapsto> sample_done], jsFile = writeSnapshot [''r1'' \<mapsto> sample_done]\<rparr>)
     = (Inr \<lparr>arData = Some (JStr ''done''), arObservedFacts = Some (JArr []), arReplayed = True\<rparr>, False, s2)"
  using applied_once_answered_for_good[OF sample_apply, of False False empty_world
      "[Called True True (LookupCall ''restart'' None ''r2'' None), Restarted]"] by simp

theorem file_store_refines_memory_witness:
  "answers sample_gate (json_file_store True True) [LookupCall ''restart'' None ''r1'' None] \<lparr>jsLoaded = None, jsFile = NoFile\<rparr>
   = answers sample_gate in_memory_store [LookupCall ''restart'' None ''r1'' None] (\<lambda>key. None)"
  by (rule file_store_refines_memory) (simp add: json_contents_def)

section \<open>Failures\<close>

text \<open>
  C34: a failed call is recorded as one that had no effect exactly when its error is none that says
  its outcome is unknown, no error it carries - itself, a cause, one of several gathered in one, at
  any depth - is one that a request may have been delivered with, and it is the target's own refusal
  (a transport error, or a binding the transport does not serve) or carries the proof that nothing was
  sent.  Every other failure is recorded as of unknown outcome.  This is so for an error that carries
  at most nine objects, however they refer to each other; beyond that the depth limit can hide one
  (\<open>depth_limit_hides_delivery\<close>).
\<close>

theorem failure_known_exactly:
  assumes "carried heap (thObject e) \<subseteq> set rs" and "length rs \<le> 9"
  shows "\<not> sfOutcomeUnknown (storedTransportFailure heap name e) \<longleftrightarrow>
     \<not> is_outcome_unknown e
     \<and> (\<forall>r\<in>carried heap (thObject e). ownDelivery (heap r) \<noteq> Some MaybeDelivered)
     \<and> (is_transport_error e \<or> thClass e = ''BindingKindMismatchError''
        \<or> (\<exists>r\<in>carried heap (thObject e). ownDelivery (heap r) = Some NotSent))"
proof -
  have "length rs \<le> Suc MAX_DEPTH" using assms(2) by (simp add: MAX_DEPTH_def)
  from delivery_of_carried[OF assms(1) this] show ?thesis
    by (auto simp: storedTransportFailure_def Let_def strongest_def)
qed

text \<open>A failure of the transport whose cause is a connection that broke.\<close>

definition wrapped_heap :: error_heap where
  "wrapped_heap r =
     \<lparr>eoName = None, eoCode = (if r = 1 then Some ''ECONNRESET'' else None), eoSyscall = None, eoErrors = None,
      eoCause = (if r = 0 then Obj 1 else NotObject)\<rparr>"

definition wrapped_reset :: thrown where
  "wrapped_reset = \<lparr>thClass = ''TransportInvokeError'', thMessage = ''failed'', thObject = Obj 0, thTargetAnswer = None\<rparr>"

lemma wrapped_carries: "carried wrapped_heap (Obj 0) = {0, 1}"
proof -
  have "(holds_error wrapped_heap)\<^sup>*\<^sup>* 0 q \<Longrightarrow> q \<in> {0, 1}" for q
    by (induction rule: rtranclp_induct) (auto simp: holds_error_def wrapped_heap_def split: if_splits)
  moreover have "(holds_error wrapped_heap)\<^sup>*\<^sup>* 0 1"
    by (rule r_into_rtranclp) (simp add: holds_error_def wrapped_heap_def)
  ultimately show ?thesis by (auto simp: carried_def)
qed

theorem failure_known_exactly_witness:
  "sfOutcomeUnknown (storedTransportFailure wrapped_heap ''restart'' wrapped_reset)"
  using failure_known_exactly[of wrapped_heap wrapped_reset "[0, 1]" "''restart''"]
  by (simp add: wrapped_reset_def wrapped_carries)
    (simp add: wrapped_heap_def ownDelivery_def NOT_SENT_CODES_def CERT_VERIFY_CODES_def TLS_HANDSHAKE_CODES_def
      TLS_HANDSHAKE_ALERT_def TLS_ANY_CODE_def startsWith_def MAYBE_DELIVERED_CODES_def MAYBE_DELIVERED_NAMES_def)

text \<open>
  An object first met at the depth limit is remembered as seen although what it holds was not looked
  at.  Met again nearer, it is passed over: here the error's second cause is a broken connection, and
  the call is recorded as one that had no effect, for a refused connection found on the way.
\<close>

definition deep_heap :: error_heap where
  "deep_heap r =
     \<lparr>eoName = None,
      eoCode = (if r = 8 then Some ''ECONNREFUSED'' else if r = 9 then Some ''ECONNRESET'' else None),
      eoSyscall = None, eoErrors = (if r = 0 then Some [Obj 1] else None),
      eoCause = (if r = 0 then Obj 8 else if r < 9 then Obj (Suc r) else NotObject)\<rparr>"

lemma depth_limit_hides_delivery:
  "9 \<in> carried deep_heap (Obj 0) \<and> ownDelivery (deep_heap 9) = Some MaybeDelivered
   \<and> \<not> sfOutcomeUnknown (storedTransportFailure deep_heap ''restart'' wrapped_reset)"
proof -
  have "holds_error deep_heap 0 8" "holds_error deep_heap 8 9" by (simp_all add: holds_error_def deep_heap_def)
  then have "9 \<in> carried deep_heap (Obj 0)"
    unfolding carried_def by (auto intro: rtranclp_trans[OF r_into_rtranclp r_into_rtranclp])
  moreover have "ownDelivery (deep_heap 9) = Some MaybeDelivered"
    by (simp add: deep_heap_def ownDelivery_def NOT_SENT_CODES_def CERT_VERIFY_CODES_def TLS_HANDSHAKE_CODES_def
      TLS_HANDSHAKE_ALERT_def TLS_ANY_CODE_def startsWith_def MAYBE_DELIVERED_CODES_def)
  moreover have "\<not> sfOutcomeUnknown (storedTransportFailure deep_heap ''restart'' wrapped_reset)"
    by code_simp
  ultimately show ?thesis by simp
qed

end
