(* ===== verification/Gate_Runs.thy ===== *)
theory Gate_Runs
  imports Gate_Laws
begin

text \<open>
  A gate process and its file under concurrent calls, failing writes and restarts.  A call in flight
  is at one of its \<open>await\<close>s; between two of them its code runs alone.  Writes are queued in the code;
  here any waiting one may land next, which allows more.  What a call does when it holds its key is
  what \<open>settle\<close> makes of the world's answers.

  Three lists of keys are kept that the code does not have: those a target may have acted for, those
  closed by a lookup that answered so, and those any lookup answered to be absent.
\<close>

section \<open>Steps\<close>

datatype phase =
    Reserving
  | Holding
  | Acting settlement
  | Writing
  | Closing

record gate_process =
  gpMemory :: entry_map
  gpFile :: store_file
  gpCalls :: "(string \<times> phase) list"
  gpActed :: "string list"
  gpClosed :: "string list"
  gpToldAbsent :: "string list"

fun recorded :: "entry_map \<Rightarrow> string \<Rightarrow> settlement \<Rightarrow> entry_map" where
  "recorded m key (Released e) = snd (releaseEntry m key)"
| "recorded m key (KeptFailure f e) = failEntry m key f"
| "recorded m key (KeptResult data facts) = completeEntry m key data (Some facts)"
| "recorded m key (LeftReserved e) = m"

inductive gate_step :: "gate_process \<Rightarrow> gate_process \<Rightarrow> bool" where
  arrives:
    "reserveOrConflict (gpMemory p) key d = (Reserved, m)
     \<Longrightarrow> gate_step p (p\<lparr>gpMemory := m, gpCalls := gpCalls p @ [(key, Reserving)]\<rparr>)"
| reserved:
    "gpCalls p = pre @ (key, Reserving) # post
     \<Longrightarrow> gate_step p (p\<lparr>gpFile := writeSnapshot (gpMemory p), gpCalls := pre @ (key, Holding) # post\<rparr>)"
| not_reserved:
    "gpCalls p = pre @ (key, Reserving) # post
     \<Longrightarrow> gate_step p (p\<lparr>gpMemory := (gpMemory p)(key := None), gpCalls := pre @ post\<rparr>)"
| given_back:
    "gpCalls p = pre @ (key, Holding) # post \<Longrightarrow> settle g w name params key op mismatch = Released e
     \<Longrightarrow> gate_step p (p\<lparr>gpMemory := recorded (gpMemory p) key (Released e),
                        gpCalls := pre @ (key, Writing) # post\<rparr>)"
| sent:
    "gpCalls p = pre @ (key, Holding) # post \<Longrightarrow> settle g w name params key op mismatch = outcome
     \<Longrightarrow> may_have_run outcome
     \<Longrightarrow> gate_step p (p\<lparr>gpActed := gpActed p @ [key], gpCalls := pre @ (key, Acting outcome) # post\<rparr>)"
| answered:
    "gpCalls p = pre @ (key, Acting outcome) # post \<Longrightarrow> \<nexists>e. outcome = LeftReserved e
     \<Longrightarrow> gate_step p (p\<lparr>gpMemory := recorded (gpMemory p) key outcome,
                        gpCalls := pre @ (key, Writing) # post\<rparr>)"
| mapping_threw:
    "gpCalls p = pre @ (key, Acting (LeftReserved e)) # post \<Longrightarrow> gate_step p (p\<lparr>gpCalls := pre @ post\<rparr>)"
| written:
    "gpCalls p = pre @ (key, Writing) # post
     \<Longrightarrow> gate_step p (p\<lparr>gpFile := writeSnapshot (gpMemory p), gpCalls := pre @ post\<rparr>)"
| not_written:
    "gpCalls p = pre @ (key, Writing) # post \<Longrightarrow> gate_step p (p\<lparr>gpCalls := pre @ post\<rparr>)"
| asks_new:
    "lookupOrClose (gpMemory p) key d = (a, True, m)
     \<Longrightarrow> gate_step p (p\<lparr>gpMemory := m, gpCalls := gpCalls p @ [(key, Closing)]\<rparr>)"
| asks_known:
    "lookupOrClose (gpMemory p) key d = (a, False, m)
     \<Longrightarrow> gate_step p (if a = LookupAbsent then p\<lparr>gpToldAbsent := gpToldAbsent p @ [key]\<rparr> else p)"
| closed:
    "gpCalls p = pre @ (key, Closing) # post
     \<Longrightarrow> gate_step p (p\<lparr>gpFile := writeSnapshot (gpMemory p), gpCalls := pre @ post,
                        gpClosed := gpClosed p @ [key], gpToldAbsent := gpToldAbsent p @ [key]\<rparr>)"
| not_closed:
    "gpCalls p = pre @ (key, Closing) # post
     \<Longrightarrow> gate_step p (p\<lparr>gpMemory := (gpMemory p)(key := None), gpCalls := pre @ post\<rparr>)"
| restarts:
    "load_file (gpFile p) = Some m \<Longrightarrow> gate_step p (p\<lparr>gpMemory := m, gpCalls := []\<rparr>)"

inductive_cases gate_stepE: "gate_step p p'"

definition new_gate :: gate_process where
  "new_gate = \<lparr>gpMemory = (\<lambda>key. None), gpFile = NoFile, gpCalls = [], gpActed = [], gpClosed = [], gpToldAbsent = []\<rparr>"

abbreviation gate_reachable :: "gate_process \<Rightarrow> bool" where
  "gate_reachable \<equiv> gate_step\<^sup>*\<^sup>* new_gate"

section \<open>The invariant of a key\<close>

definition real_entry :: "store_entry option \<Rightarrow> bool" where
  "real_entry x \<longleftrightarrow> (\<exists>e. x = Some e \<and> (\<forall>d. e \<noteq> NotReceived d))"

definition not_received :: "store_entry option \<Rightarrow> bool" where
  "not_received x \<longleftrightarrow> (\<exists>d. x = Some (NotReceived d))"

definition reserved_entry :: "store_entry option \<Rightarrow> bool" where
  "reserved_entry x \<longleftrightarrow> (\<exists>d. x = Some (Pending d))"

text \<open>What the file loads as.\<close>

definition file_entries :: "store_file \<Rightarrow> entry_map" where
  "file_entries f = (case load_file f of Some m \<Rightarrow> m | None \<Rightarrow> (\<lambda>key. None))"

text \<open>The phases of the calls that hold a key, or may come to.\<close>

definition busy :: "string \<Rightarrow> (string \<times> phase) list \<Rightarrow> phase list" where
  "busy key calls = map snd (filter (\<lambda>c. fst c = key \<and> snd c \<noteq> Writing) calls)"

text \<open>
  How often a target may have acted for a key, whether it was closed, what memory and file hold of it,
  and who holds it.
\<close>

fun fine :: "nat \<Rightarrow> bool \<Rightarrow> store_entry option \<Rightarrow> store_entry option \<Rightarrow> phase list \<Rightarrow> bool" where
  "fine n c mem file [] \<longleftrightarrow>
     n = 0 \<and> \<not> c
     \<or> n = 1 \<and> \<not> c \<and> real_entry mem \<and> real_entry file
     \<or> n = 0 \<and> c \<and> not_received mem \<and> not_received file"
| "fine n c mem file [Reserving] \<longleftrightarrow> n = 0 \<and> \<not> c \<and> reserved_entry mem"
| "fine n c mem file [Holding] \<longleftrightarrow> n = 0 \<and> \<not> c \<and> reserved_entry mem \<and> real_entry file"
| "fine n c mem file [Acting outcome] \<longleftrightarrow>
     n = 1 \<and> \<not> c \<and> may_have_run outcome \<and> reserved_entry mem \<and> real_entry file"
| "fine n c mem file [Closing] \<longleftrightarrow> n = 0 \<and> \<not> c \<and> not_received mem"
| "fine n c mem file _ \<longleftrightarrow> False"

definition key_fine :: "gate_process \<Rightarrow> string \<Rightarrow> bool" where
  "key_fine p key =
     fine (count_list (gpActed p) key) (key \<in> set (gpClosed p)) (gpMemory p key) (file_entries (gpFile p) key)
       (busy key (gpCalls p))"

lemma busy_append [simp]: "busy key (xs @ ys) = busy key xs @ busy key ys"
  by (simp add: busy_def)

lemma busy_Cons [simp]:
  "busy key ((k, ph) # calls) = (if k = key \<and> ph \<noteq> Writing then ph # busy key calls else busy key calls)"
  by (simp add: busy_def)

lemma busy_Nil [simp]: "busy key [] = []"
  by (simp add: busy_def)

lemma fine_two [simp]: "\<not> fine n c mem file (a # b # phs)"
  by (cases a) auto

lemma fine_length: "fine n c mem file phs \<Longrightarrow> length phs \<le> 1"
  by (cases phs rule: remdups_adj.cases) simp_all

lemma fine_alone: "fine n c mem file (xs @ a # ys) \<longleftrightarrow> xs = [] \<and> ys = [] \<and> fine n c mem file [a]"
proof -
  have "xs = [] \<and> ys = []" if "fine n c mem file (xs @ a # ys)"
    using fine_length[OF that] by simp
  then show ?thesis by auto
qed

text \<open>What a snapshot of an entry loads as.\<close>

definition reloaded :: "store_entry option \<Rightarrow> store_entry option" where
  "reloaded x = Option.bind x (loadedEntry \<circ> StoredEntry)"

lemma reloaded_kind:
  "real_entry x \<Longrightarrow> real_entry (reloaded x)" "not_received x \<Longrightarrow> not_received (reloaded x)"
  "reserved_entry x \<Longrightarrow> real_entry (reloaded x)" "reserved_entry x \<Longrightarrow> real_entry x"
proof -
  show "real_entry x \<Longrightarrow> real_entry (reloaded x)"
  proof -
    assume "real_entry x"
    then obtain e where "x = Some e" "\<forall>d. e \<noteq> NotReceived d" by (auto simp: real_entry_def)
    then show "real_entry (reloaded x)" by (cases e) (simp_all add: real_entry_def reloaded_def)
  qed
qed (auto simp: real_entry_def not_received_def reserved_entry_def reloaded_def)

lemma file_entries_written:
  "key \<noteq> ''__proto__'' \<Longrightarrow> file_entries (writeSnapshot m) key = reloaded (m key)"
  by (cases "m key") (simp_all add: file_entries_def writeSnapshot_def load_entries_def reloaded_def)

text \<open>A write of what memory holds keeps every key fine.\<close>

lemma fine_snapshot: "fine n c mem file phs \<Longrightarrow> fine n c mem (reloaded mem) phs"
  by (cases "(n, c, mem, file, phs)" rule: fine.cases) (auto intro: reloaded_kind)

lemma fine_None: "fine n c None file phs \<longleftrightarrow> phs = [] \<and> n = 0 \<and> \<not> c"
  by (cases "(n, c, None :: store_entry option, file, phs)" rule: fine.cases)
    (auto simp: real_entry_def not_received_def reserved_entry_def)

lemma fine_reload: "fine n c mem file phs \<Longrightarrow> fine n c file file []"
  by (cases "(n, c, mem, file, phs)" rule: fine.cases) auto

lemma own_call:
  assumes "key_fine p key" and "gpCalls p = pre @ (key, ph) # post" and "ph \<noteq> Writing"
  shows "busy key pre = []" and "busy key post = []"
    and "fine (count_list (gpActed p) key) (key \<in> set (gpClosed p)) (gpMemory p key) (file_entries (gpFile p) key) [ph]"
  using assms by (simp_all add: key_fine_def fine_alone)

lemma recorded_other: "k \<noteq> key \<Longrightarrow> recorded m key outcome k = m k"
  by (cases outcome) (auto simp: releaseEntry_def failEntry_def completeEntry_def Let_def
      split: option.splits store_entry.splits)

lemma recorded_own:
  "may_have_run outcome \<Longrightarrow> \<nexists>e. outcome = LeftReserved e \<Longrightarrow> real_entry (recorded m key outcome key)"
  by (cases outcome) (auto simp: failEntry_def completeEntry_def Let_def real_entry_def)

text \<open>
  A step keeps a key fine when it is another key's, or by what the step does; a write keeps what
  memory holds.
\<close>

lemma key_fine_other:
  assumes "key_fine p key" and "count_list (gpActed p') key = count_list (gpActed p) key"
    and "key \<in> set (gpClosed p') \<longleftrightarrow> key \<in> set (gpClosed p)" and "gpMemory p' key = gpMemory p key"
    and "gpFile p' = gpFile p \<or> gpFile p' = writeSnapshot (gpMemory p)"
    and "busy key (gpCalls p') = busy key (gpCalls p)" and "key \<noteq> ''__proto__''"
  shows "key_fine p' key"
  using assms(5)
proof
  assume "gpFile p' = gpFile p"
  then show ?thesis unfolding key_fine_def assms(2,3,4,6) using assms(1) by (simp add: key_fine_def)
next
  assume "gpFile p' = writeSnapshot (gpMemory p)"
  then show ?thesis
    unfolding key_fine_def assms(2,3,4,6)
    using fine_snapshot[OF assms(1)[unfolded key_fine_def]] assms(7) by (simp add: file_entries_written)
qed

lemma key_fine_step:
  assumes "gate_step p p'" and "key_fine p key" and proto: "key \<noteq> ''__proto__''"
  shows "key_fine p' key"
  using assms(1)
proof cases
  case (arrives k d m)
  then have "gpMemory p k = None" "m = (gpMemory p)(k \<mapsto> Pending d)"
    using reserve_reserved[of "gpMemory p" k d] reserve_free[of "gpMemory p" k d] by simp_all
  with arrives(1) assms(2) show ?thesis
    by (cases "k = key") (auto simp: key_fine_def reserved_entry_def fine_None)
next
  case (reserved pre k post)
  show ?thesis
  proof (cases "k = key")
    case True
    with reserved own_call[OF assms(2), of pre Reserving post] proto show ?thesis
      by (simp add: key_fine_def file_entries_written reloaded_kind)
  qed (rule key_fine_other[OF assms(2)], use reserved proto in simp_all)
next
  case (not_reserved pre k post)
  show ?thesis
  proof (cases "k = key")
    case True
    with not_reserved own_call[OF assms(2), of pre Reserving post] show ?thesis by (simp add: key_fine_def)
  qed (rule key_fine_other[OF assms(2)], use not_reserved proto in simp_all)
next
  case (given_back pre k post g w name params op mismatch e)
  show ?thesis
  proof (cases "k = key")
    case True
    with given_back own_call[OF assms(2), of pre Holding post] show ?thesis by (simp add: key_fine_def)
  qed (rule key_fine_other[OF assms(2)], use given_back proto recorded_other[of key k "gpMemory p" "Released e"] in simp_all)
next
  case (sent pre k post g w name params op mismatch outcome)
  show ?thesis
  proof (cases "k = key")
    case True
    with sent own_call[OF assms(2), of pre Holding post] show ?thesis
      by (simp add: key_fine_def)
  qed (rule key_fine_other[OF assms(2)], use sent proto in simp_all)
next
  case (answered pre k outcome post)
  show ?thesis
  proof (cases "k = key")
    case True
    with answered own_call[OF assms(2), of pre "Acting outcome" post] show ?thesis
      by (simp add: key_fine_def recorded_own)
  qed (rule key_fine_other[OF assms(2)], use answered proto recorded_other in simp_all)
next
  case (mapping_threw pre k e post)
  show ?thesis
  proof (cases "k = key")
    case True
    with mapping_threw own_call[OF assms(2), of pre "Acting (LeftReserved e)" post] show ?thesis
      by (simp add: key_fine_def reloaded_kind)
  qed (rule key_fine_other[OF assms(2)], use mapping_threw proto in simp_all)
next
  case (written pre k post)
  then show ?thesis using proto by - (rule key_fine_other[OF assms(2)], simp_all)
next
  case (not_written pre k post)
  then show ?thesis using proto by - (rule key_fine_other[OF assms(2)], simp_all)
next
  case (asks_new k d a m)
  then have "gpMemory p k = None" "m = (gpMemory p)(k \<mapsto> NotReceived d)"
    by (auto simp: lookupOrClose_def split: option.splits)
  with asks_new(1) assms(2) show ?thesis
    by (cases "k = key") (auto simp: key_fine_def not_received_def fine_None)
next
  case (asks_known k d a m)
  then show ?thesis using proto by - (rule key_fine_other[OF assms(2)], simp_all)
next
  case (closed pre k post)
  show ?thesis
  proof (cases "k = key")
    case True
    with closed own_call[OF assms(2), of pre Closing post] proto show ?thesis
      by (simp add: key_fine_def file_entries_written reloaded_kind)
  qed (rule key_fine_other[OF assms(2)], use closed proto in simp_all)
next
  case (not_closed pre k post)
  show ?thesis
  proof (cases "k = key")
    case True
    with not_closed own_call[OF assms(2), of pre Closing post] show ?thesis by (simp add: key_fine_def)
  qed (rule key_fine_other[OF assms(2)], use not_closed proto in simp_all)
next
  case (restarts m)
  then have "gpMemory p' = file_entries (gpFile p)" "gpFile p' = gpFile p" "gpCalls p' = []"
      "gpActed p' = gpActed p" "gpClosed p' = gpClosed p"
    by (simp_all add: file_entries_def)
  with fine_reload[OF assms(2)[unfolded key_fine_def]] show ?thesis by (simp add: key_fine_def)
qed

lemma key_fine_new: "key_fine new_gate key"
  by (simp add: key_fine_def new_gate_def)

lemma key_fine_reachable:
  assumes "gate_reachable p" and "key \<noteq> ''__proto__''"
  shows "key_fine p key"
  using assms(1) by (induction rule: rtranclp_induct) (use assms(2) in \<open>auto intro: key_fine_new key_fine_step\<close>)

section \<open>What the gate guarantees\<close>

text \<open>
  C1: a target acts at most once for a key.  However the calls of a gate interleave, whichever
  writes fail and whenever the process stops and starts again, there is never a second call to the
  target under an action request's id that the target may have acted on.  The key is any but
  \<open>__proto__\<close>, which the file cannot hold (\<open>proto_key_acts_twice\<close> below); action request ids are UUIDs.
\<close>

theorem target_acts_at_most_once:
  assumes "gate_reachable p" and "key \<noteq> ''__proto__''"
  shows "count_list (gpActed p) key \<le> 1"
  using key_fine_reachable[OF assms] unfolding key_fine_def by (elim fine.elims) auto

text \<open>
  C9: what was closed stays closed.  A key closed by the lookup that answered it was never
  received has not been acted on, and never will be: an \<open>apply\<close> for it that arrives later, or after a
  restart, does not reach the target.  The key is any but \<open>__proto__\<close>, as above.
\<close>

theorem closed_key_never_acted:
  assumes "gate_reachable p" and "key \<in> set (gpClosed p)" and "gate_step\<^sup>*\<^sup>* p p'" and "key \<noteq> ''__proto__''"
  shows "key \<notin> set (gpActed p')"
proof -
  have grows: "gate_step\<^sup>*\<^sup>* p q \<Longrightarrow> key \<in> set (gpClosed q)" for q
  proof (induction rule: rtranclp_induct)
    case (step q r)
    from step(2) have "set (gpClosed q) \<subseteq> set (gpClosed r)" by cases auto
    with step(3) show ?case by blast
  qed (rule assms(2))
  from assms(1,3) have "gate_reachable p'" by (rule rtranclp_trans)
  from key_fine_reachable[OF this assms(4)] grows[OF assms(3)]
  have "count_list (gpActed p') key = 0" unfolding key_fine_def by (elim fine.elims) auto
  then show ?thesis by (simp add: count_list_0_iff)
qed

section \<open>Runs\<close>

definition sample_descriptor :: descriptor where
  "sample_descriptor = \<lparr>idOperation = ''restart'', idParamsHash = ''{}'', idOnBehalfOf = None\<rparr>"

text \<open>A gate whose target answers every call.\<close>

lemma some_settlement:
  obtains g w op where "settle g w ''restart'' None key op None = KeptResult None (JArr [])"
proof -
  define g :: gate where "g = \<lparr>gaManifest = [], gaParse = Some, gaSha256 = (\<lambda>text. text),
     gaNumberText = (\<lambda>q. ''0''), gaValidate = (\<lambda>schema params. ParamsFine), gaSearch = (\<lambda>v e. Inr None),
     gaCredentialRequired = False,
     gaErrors = (\<lambda>r. \<lparr>eoName = None, eoCode = None, eoSyscall = None, eoErrors = None, eoCause = NotObject\<rparr>)\<rparr>"
  define w :: world where "w = \<lparr>woCredential = Inl ''none'', woTarget = (\<lambda>op params credential. Inr None)\<rparr>"
  define op :: operation where "op = \<lparr>opName = ''restart'', opMode = ExecuteOperation, opBindingKind = ''http'',
     opBinding = JObj [], opAbsentStatuses = None, opAbsentExitCodes = None, opParamsSchema = JObj [],
     opResultMapping = None, opReversibility = JBool False, opBlastRadius = None\<rparr>"
  have "settle g w ''restart'' None key op None = KeptResult None (JArr [])"
    by (simp add: settle_def resolveCredential_def toObservedFacts_def g_def w_def op_def)
  then show thesis by (rule that)
qed

text \<open>A key that memory does not hold is reserved, written and sent.\<close>

definition reserved_in :: "gate_process \<Rightarrow> string \<Rightarrow> gate_process" where
  "reserved_in p key =
     (let m = (gpMemory p)(key \<mapsto> Pending sample_descriptor) in
      p\<lparr>gpMemory := m, gpFile := writeSnapshot m, gpActed := gpActed p @ [key],
        gpCalls := gpCalls p @ [(key, Acting (KeptResult None (JArr [])))]\<rparr>)"

lemma new_key_is_sent:
  assumes "gpMemory p key = None"
  shows "gate_step\<^sup>*\<^sup>* p (reserved_in p key)"
proof -
  let ?m = "(gpMemory p)(key \<mapsto> Pending sample_descriptor)"
  let ?p1 = "p\<lparr>gpMemory := ?m, gpCalls := gpCalls p @ [(key, Reserving)]\<rparr>"
  let ?p2 = "?p1\<lparr>gpFile := writeSnapshot ?m, gpCalls := gpCalls p @ (key, Holding) # []\<rparr>"
  have "reserveOrConflict (gpMemory p) key sample_descriptor = (Reserved, ?m)"
    using assms by (simp add: reserveOrConflict_def)
  then have "gate_step p ?p1" by (rule arrives)
  moreover have "gate_step ?p1 ?p2" using reserved[of ?p1 "gpCalls p" key "[]"] by simp
  moreover obtain g w op where "settle g w ''restart'' None key op None = KeptResult None (JArr [])"
    by (rule some_settlement)
  then have "gate_step ?p2 (reserved_in p key)"
    using sent[of ?p2 "gpCalls p" key "[]" g w "''restart''" None op None "KeptResult None (JArr [])"]
    by (simp add: reserved_in_def Let_def)
  ultimately show ?thesis by (meson rtranclp.rtrancl_refl rtranclp.rtrancl_into_rtrancl)
qed

theorem target_acts_at_most_once_witness:
  "gpActed (reserved_in new_gate ''r1'') = [''r1''] \<and> count_list (gpActed (reserved_in new_gate ''r1'')) ''r1'' \<le> 1"
proof -
  have "gate_reachable (reserved_in new_gate ''r1'')"
    by (rule new_key_is_sent) (simp add: new_gate_def)
  from target_acts_at_most_once[OF this, of "''r1''"] show ?thesis
    by (simp add: reserved_in_def Let_def new_gate_def)
qed

definition closing :: gate_process where
  "closing = new_gate\<lparr>gpMemory := [''r1'' \<mapsto> NotReceived sample_descriptor], gpCalls := [(''r1'', Closing)]\<rparr>"

definition closed_gate :: gate_process where
  "closed_gate = closing\<lparr>gpFile := writeSnapshot (gpMemory closing), gpCalls := [], gpClosed := [''r1''],
     gpToldAbsent := [''r1'']\<rparr>"

lemma closing_reached: "gate_step new_gate closing"
proof -
  have "lookupOrClose (gpMemory new_gate) ''r1'' sample_descriptor
      = (LookupAbsent, True, [''r1'' \<mapsto> NotReceived sample_descriptor])"
    by (simp add: lookupOrClose_def new_gate_def)
  from asks_new[OF this] show ?thesis by (simp add: closing_def new_gate_def)
qed

lemma closed_reached: "gate_reachable closed_gate"
proof -
  have "gate_step closing closed_gate"
    using closed[of closing "[]" "''r1''" "[]"]
    by (simp add: closed_gate_def closing_def new_gate_def)
  with closing_reached show ?thesis by (meson r_into_rtranclp rtranclp.rtrancl_into_rtrancl)
qed

theorem closed_key_never_acted_witness:
  "gpActed (reserved_in closed_gate ''r2'') = [''r2'']
   \<and> ''r1'' \<notin> set (gpActed (reserved_in closed_gate ''r2''))"
proof -
  have "gate_step\<^sup>*\<^sup>* closed_gate (reserved_in closed_gate ''r2'')"
    by (rule new_key_is_sent) (simp add: closed_gate_def closing_def)
  from closed_key_never_acted[OF closed_reached _ this, of "''r1''"] show ?thesis
    by (simp add: closed_gate_def closing_def new_gate_def reserved_in_def Let_def)
qed

section \<open>Two things the store does not keep\<close>

text \<open>
  A lookup that finds a key another lookup is still closing answers at once that it was not
  received.  When that closing's write fails, the key is free again, and an \<open>apply\<close> for it that
  arrives then reaches the target, after it was said that none would.
\<close>

lemma told_absent_then_acted:
  "\<exists>p. gate_reachable p \<and> ''r1'' \<in> set (gpToldAbsent p) \<and> ''r1'' \<in> set (gpActed p)"
proof -
  let ?told = "closing\<lparr>gpToldAbsent := [''r1'']\<rparr>"
  let ?free = "?told\<lparr>gpMemory := (\<lambda>key. None), gpCalls := []\<rparr>"
  have "lookupOrClose (gpMemory closing) ''r1'' sample_descriptor = (LookupAbsent, False, gpMemory closing)"
    by (simp add: lookupOrClose_def closing_def sameDescriptor_def)
  from asks_known[OF this] have "gate_step closing ?told" by (simp add: closing_def new_gate_def)
  moreover have "gate_step ?told ?free"
    using not_closed[of ?told "[]" "''r1''" "[]"] by (simp add: closing_def new_gate_def)
  moreover have "gate_step\<^sup>*\<^sup>* ?free (reserved_in ?free ''r1'')" by (rule new_key_is_sent) simp
  ultimately have "gate_reachable (reserved_in ?free ''r1'')"
    using closing_reached by (meson converse_rtranclp_into_rtranclp)
  moreover have "''r1'' \<in> set (gpToldAbsent (reserved_in ?free ''r1''))" "''r1'' \<in> set (gpActed (reserved_in ?free ''r1''))"
    by (simp_all add: reserved_in_def Let_def)
  ultimately show ?thesis by blast
qed

text \<open>
  The file never holds the key \<open>__proto__\<close>: a reservation under it is not durable, and after a
  restart the same call is made again.
\<close>

lemma proto_key_acts_twice:
  "\<exists>p. gate_reachable p \<and> count_list (gpActed p) ''__proto__'' = 2"
proof -
  let ?once = "reserved_in new_gate ''__proto__''"
  let ?again = "?once\<lparr>gpMemory := file_entries (gpFile ?once), gpCalls := []\<rparr>"
  have "gate_reachable ?once" by (rule new_key_is_sent) (simp add: new_gate_def)
  moreover have "gate_step ?once ?again"
    by (rule restarts) (simp add: reserved_in_def Let_def writeSnapshot_def file_entries_def)
  moreover have "gate_step\<^sup>*\<^sup>* ?again (reserved_in ?again ''__proto__'')"
    by (rule new_key_is_sent)
      (simp add: reserved_in_def Let_def writeSnapshot_def file_entries_def load_entries_def)
  ultimately have "gate_reachable (reserved_in ?again ''__proto__'')"
    by (meson rtranclp.rtrancl_into_rtrancl rtranclp_trans)
  moreover have "count_list (gpActed (reserved_in ?again ''__proto__'')) ''__proto__'' = 2"
    by (simp add: reserved_in_def Let_def new_gate_def)
  ultimately show ?thesis by blast
qed

end
