(* ===== verification/Spec2Isabelle.thy ===== *)
theory Spec2Isabelle
  imports Lifecycles Address_Laws Egress Approval_Guarantees Handle_Guarantees Gate_Guarantees Gate_Runs
begin

text \<open>
  A verification library for NextTime-AI: the part of the system that decides what an AI agent may
  do, and makes sure that what was decided is what happens.

  \<^bold>\<open>The program.\<close>  Agents and people call the kernel (\<open>src/packages/kernel\<close>) by capability name,
  people through a session, agents with a capability handle, a signed token that carries a scope.
  A call passes the call gate; one that acts on a connected system becomes an action request, which
  the policy allows, or a person decides.  An approved request is queued per gatekeeper and executed
  by calling the gatekeeper (\<open>src/packages/gatekeeper-base\<close>), which calls the target at most once and
  remembers the outcome.  Workers reach the network through an egress proxy
  (\<open>src/packages/egress-proxy\<close>); the kernel fetches what people name only where it is safe.  All
  state machines, the capability registry and the address arithmetic are in
  \<open>src/packages/shared\<close>.  Paths below are under \<open>src/packages\<close>.

  \<^bold>\<open>The theories.\<close>

  \<^item> \<open>NT_Prelude\<close>: results that may be errors (\<open>Inl\<close> the error), insertion-ordered objects, first
    errors of a list, and the lemmas on them that all components share.  \<open>Js_Text\<close>: the string
    functions of the language.  \<open>Json_Value\<close>: JSON values.

  \<^item> \<open>Transition_Tables\<close> and \<open>Lifecycles\<close> (\<open>shared/src/transitions.ts\<close>, \<open>enums.ts\<close>): the
    transition tables of requests, tasks, runs, goals and proposals, each an instance of the locales
    \<open>lifecycle\<close>, \<open>ranked_lifecycle\<close>, \<open>gated_lifecycle\<close> and \<open>metered_lifecycle\<close>, whose lemmas on
    arbitrary histories give final statuses, consent before execution and bounds on attempts.

  \<^item> \<open>Net_Address\<close>, \<open>Address_Laws\<close> (\<open>shared/src/net-address.ts\<close>): IP literals in all their
    spellings, ranges, classification and host patterns; round trips of the parsers (locale
    \<open>literal_syntax\<close>), ranges as intervals, mapped addresses as the addresses they embed.  \<open>Egress\<close>
    (\<open>egress-proxy/src/policy.ts\<close>, \<open>source-map.ts\<close>, \<open>shared/src/outbound-target.ts\<close>): the two
    decisions to connect, exactly, and what no resolver answer can make them do.

  \<^item> \<open>Capability_Scope\<close>, \<open>Call_Authorization\<close> (\<open>shared/src/roles.ts\<close>, \<open>handle-token.ts\<close>,
    \<open>kernel/src/application/gateway/authorize.ts\<close>, \<open>governance/capability/grants.ts\<close>): roles, scopes,
    grants and the call gate.  \<open>Capability_Registry\<close> (\<open>shared/src/capabilities.ts\<close>): the governance
    fields of every entry of the registry and the check that runs when it loads.

  \<^item> \<open>Handle_Scopes\<close>, \<open>Handles\<close>, \<open>Handle_Safety\<close>, \<open>Handle_Guarantees\<close>
    (\<open>governance/capability/handles.ts\<close>, \<open>application/task/handle-mint.ts\<close>,
    \<open>application/gateway/issue-handle-handler.ts\<close>): the ceilings, the scope a Worker gets from its
    invoker, and issuing, attenuating, minting, checking and revoking handles over the \<open>sessions\<close> and
    \<open>capability_handles\<close> tables.  \<open>handle_step\<close> is any of these; the invariants hold of every
    database its steps reach.  \<open>descends_from\<close> is the chain of parents a handle's row records.

  \<^item> \<open>Approval_Policy\<close> (\<open>governance/policy\<close>): one evaluation, and the two rule tables (locale
    \<open>keyed_rules\<close>).  \<open>Action_Queue\<close> (\<open>shared/src/action-description.ts\<close>,
    \<open>governance/approval/queue.ts\<close>): when two actions concern the same thing, and what a gatekeeper's
    queue may start.  \<open>Action_Requests\<close>, \<open>Approval_Safety\<close>, \<open>Approval_Guarantees\<close>
    (\<open>governance/approval\<close>): requesting, deciding, executing, withdrawing, compensating and reconciling
    over the rows, with the triggers of the migrations that guard the table; \<open>approval_op\<close> lists the
    operations and the invariants hold of every database they reach.  \<open>approval_history\<close> keeps the
    operations that were performed beside the database, so that who consented to a request
    (\<open>approval_given\<close>, with the role and the grants of that moment) can be stated of its past.

  \<^item> \<open>Gate_Store\<close>, \<open>Network_Failure\<close>, \<open>Canonical_Json\<close>, \<open>Gate_Apply\<close>, \<open>Gate_Laws\<close>,
    \<open>Gate_Guarantees\<close>, \<open>Gate_Runs\<close> (\<open>gatekeeper-base/src\<close>): the idempotency store with its file,
    the judgement of a failed call (against the errors it \<open>carried\<close>), the canonical text of a
    definition, and \<open>apply\<close> over any store that keeps the contract \<open>idempotency_contract\<close>, of which
    both stores are interpretations.  An expression of a result mapping may be rejected when it is
    evaluated, after the target has acted; then nothing is kept and the key stays reserved
    (\<open>LeftReserved\<close>).  \<open>after_events\<close> runs calls one after the other, each with what becomes of its
    two writes to the file (the reservation and the outcome), and restarts between them.
    \<open>Gate_Runs\<close> takes the same operations apart at their \<open>await\<close>s and lets calls, failing writes and
    restarts interleave.

  \<^bold>\<open>How code corresponds to definitions.\<close>  A definition has the name of the function, constant or
  type it translates where the logic allows it; a union type is a \<open>datatype\<close>, an interface or row a
  \<open>record\<close>, a thrown error the left of a result, a table a list of rows in the order they were
  inserted, a transaction a function from the database to a result and the next database.  A query's
  result is the list or the first row the code reads; conditional updates and triggers are branches.

  \<^bold>\<open>Parameters.\<close>  What is not in the repository is an argument: the DNS resolver and the URL parser,
  token signatures (\<open>jose\<close>), schema libraries, \<open>jmespath\<close>, SHA-256, the text of a number, the
  clock, fresh identifiers, the target behind a gate.  Hypotheses on them are documented behaviour:
  a token that checks was signed here (\<open>genuine\<close>), new identifiers are new, number texts differ
  where numbers do (\<open>number_texts\<close>).

  \<^bold>\<open>Bounds.\<close>  No fuel is used: every definition is total, the two serialisers by the size of the
  value.  The search of an error's causes is bounded as in the code, by \<open>MAX_DEPTH\<close>.  Addresses are
  natural numbers below \<open>2 ^ 32\<close> and \<open>2 ^ 128\<close>, as the bigints of the code.  Characters are the
  first 256; longer code points do not occur in what the code matches on.

  \<^bold>\<open>What the models showed.\<close>  \<open>Gate_Runs.told_absent_then_acted\<close>: a lookup that finds a key
  another is still closing answers before the closing is on disk.  \<open>Gate_Runs.proto_key_acts_twice\<close>:
  the key \<open>__proto__\<close> is never written to the store's file.  \<open>Gate_Apply.settle\<close>: a result mapping
  whose expression fails leaves a call that succeeded without a kept outcome.
  \<open>Gate_Guarantees.depth_limit_hides_delivery\<close>: a cause first met at the depth limit of the search
  is passed over when met again nearer, so a broken connection beneath it is not seen.

  \<^bold>\<open>Not modelled.\<close>  The web console; HTTP, websocket and MCP transport and the per-capability
  handlers; SQL and migrations but for the constraints a modelled step relies on; chat, evaluation,
  packs, the LLM proxy, the agent host and the worker supervisor, which are I/O around the parts
  above; goals and tasks beyond their transition tables; background loops and paginated reads of the
  approval service; error texts, titles and schemas of registry entries; transports of a gate.
\<close>

end
